(* ===== verification/Prelude.thy ===== *)
theory Prelude
  imports Main "HOL-Library.Char_ord" "HOL-Library.Sublist"
begin

text \<open>
  Shared vocabulary of the development: the outcome of a Go call (a value, an \<open>error\<close> value or a
  panic), programs that pass a state explicitly, and the functions of Go's \<open>strings\<close> package that
  the service uses. Strings are lists of bytes; the case functions fold the ASCII letters.
\<close>

section \<open>Outcomes of Go calls and state-passing programs\<close>

text \<open>
  \<open>Ok\<close> is a return with a nil error, \<open>Err\<close> a return with a non-nil error (its \<open>Error()\<close> text),
  \<open>Panic\<close> a run-time panic, for instance a failed type assertion or a division by zero.
\<close>

datatype 'a res = Ok 'a | Err string | Panic string

type_synonym ('s, 'a) prog = "'s \<Rightarrow> 'a res \<times> 's"

named_theorems prog_simps \<open>equations that run a state-passing program\<close>

definition ret :: "'a \<Rightarrow> ('s, 'a) prog" where
  "ret x s = (Ok x, s)"

definition fail :: "string \<Rightarrow> ('s, 'a) prog" where
  "fail e s = (Err e, s)"

definition panic :: "string \<Rightarrow> ('s, 'a) prog" where
  "panic e s = (Panic e, s)"

definition bnd :: "('s, 'a) prog \<Rightarrow> ('a \<Rightarrow> ('s, 'b) prog) \<Rightarrow> ('s, 'b) prog" where
  "bnd m k s = (case m s of (Ok x, t) \<Rightarrow> k x t | (Err e, t) \<Rightarrow> (Err e, t) | (Panic e, t) \<Rightarrow> (Panic e, t))"

text \<open>\<open>fmt.Errorf("prefix: %w", err)\<close>.\<close>

definition wrap :: "string \<Rightarrow> ('s, 'a) prog \<Rightarrow> ('s, 'a) prog" where
  "wrap pre m s = (case m s of (Err e, t) \<Rightarrow> (Err (pre @ '': '' @ e), t) | r \<Rightarrow> r)"

text \<open>A call whose error value the caller inspects instead of returning it.\<close>

definition attempt :: "('s, 'a) prog \<Rightarrow> ('s, string + 'a) prog" where
  "attempt m s = (case m s of (Ok x, t) \<Rightarrow> (Ok (Inr x), t) | (Err e, t) \<Rightarrow> (Ok (Inl e), t)
     | (Panic e, t) \<Rightarrow> (Panic e, t))"

text \<open>A call whose result and error are both dropped.\<close>

definition ignore :: "('s, 'a) prog \<Rightarrow> ('s, unit) prog" where
  "ignore m = bnd (attempt m) (\<lambda>_. ret ())"

text \<open>A pure computation as a program.\<close>

definition lift :: "'a res \<Rightarrow> ('s, 'a) prog" where
  "lift r s = (r, s)"

text \<open>A program that first reads the state, for instance the clock.\<close>

definition gets :: "('s \<Rightarrow> 'x) \<Rightarrow> ('x \<Rightarrow> ('s, 'a) prog) \<Rightarrow> ('s, 'a) prog" where
  "gets f k s = k (f s) s"

lemma gets_run [prog_simps, simp]: "gets f k s = k (f s) s"
  by (simp add: gets_def)

lemma ret_run [prog_simps, simp]: "ret x s = (Ok x, s)"
  by (simp add: ret_def)

lemma fail_run [prog_simps, simp]: "fail e s = (Err e, s)"
  by (simp add: fail_def)

lemma panic_run [prog_simps, simp]: "panic e s = (Panic e, s)"
  by (simp add: panic_def)

lemma lift_run [prog_simps, simp]: "lift r s = (r, s)"
  by (simp add: lift_def)

lemma bnd_Ok [prog_simps]: "m s = (Ok x, t) \<Longrightarrow> bnd m k s = k x t"
  by (simp add: bnd_def)

lemma bnd_Err [prog_simps]: "m s = (Err e, t) \<Longrightarrow> bnd m k s = (Err e, t)"
  by (simp add: bnd_def)

lemma bnd_Panic [prog_simps]: "m s = (Panic e, t) \<Longrightarrow> bnd m k s = (Panic e, t)"
  by (simp add: bnd_def)

lemma bnd_OkE:
  assumes "bnd m k s = (Ok y, u)"
  obtains x t where "m s = (Ok x, t)" and "k x t = (Ok y, u)"
  using assms by (auto simp: bnd_def split: prod.splits res.splits)

lemma wrap_Ok_iff [simp]: "wrap pre m s = (Ok x, t) \<longleftrightarrow> m s = (Ok x, t)"
  by (auto simp: wrap_def split: prod.splits res.splits)

lemma wrap_Err [prog_simps]: "m s = (Err e, t) \<Longrightarrow> wrap pre m s = (Err (pre @ '': '' @ e), t)"
  by (simp add: wrap_def)

lemma wrap_state [simp]: "snd (wrap pre m s) = snd (m s)"
  by (auto simp: wrap_def split: prod.splits res.splits)

text \<open>Sequencing a program over a list, as \<open>for _, x := range xs\<close> does, stopping at an error.\<close>

fun for_each :: "('a \<Rightarrow> ('s, unit) prog) \<Rightarrow> 'a list \<Rightarrow> ('s, unit) prog" where
  "for_each f [] = ret ()"
| "for_each f (x # xs) = bnd (f x) (\<lambda>_. for_each f xs)"

text \<open>
  A relation that every run of a program establishes between the state before and after, whatever the
  outcome: the frame conditions and the history properties of the stores are of this kind.
\<close>

definition keeps :: "('s \<Rightarrow> 's \<Rightarrow> bool) \<Rightarrow> ('s, 'a) prog \<Rightarrow> bool" where
  "keeps R m \<longleftrightarrow> (\<forall>s. R s (snd (m s)))"

named_theorems keeps_intros \<open>rules for the relations that programs keep\<close>

lemma keepsD: "keeps R m \<Longrightarrow> m s = (r, t) \<Longrightarrow> R s t"
  unfolding keeps_def by (metis snd_conv)

lemma keeps_pure [keeps_intros]:
  assumes "reflp R"
  shows "keeps R (ret x)" "keeps R (fail e)" "keeps R (panic e)" "keeps R (lift r)"
  using assms by (auto simp: keeps_def reflp_def)

lemma keeps_wrap [keeps_intros]: "keeps R m \<Longrightarrow> keeps R (wrap pre m)"
  by (simp add: keeps_def)

lemma keeps_gets [keeps_intros]: "(\<And>x. keeps R (k x)) \<Longrightarrow> keeps R (gets f k)"
  by (simp add: keeps_def)

lemma keeps_attempt [keeps_intros]: "keeps R m \<Longrightarrow> keeps R (attempt m)"
  by (simp add: keeps_def attempt_def split: prod.splits res.splits) (metis snd_conv)

lemma keeps_bnd [keeps_intros]:
  assumes "transp R" and "keeps R m" and "\<And>x. keeps R (k x)"
  shows "keeps R (bnd m k)"
  unfolding keeps_def
proof
  fix s
  show "R s (snd (bnd m k s))"
  proof (cases "m s")
    case (Pair r t)
    with assms(2) have "R s t" by (rule keepsD)
    with assms(1,3) Pair show ?thesis
      by (cases r) (auto simp: bnd_def keeps_def dest: transpD)
  qed
qed

lemma keeps_ignore [keeps_intros]: "reflp R \<Longrightarrow> transp R \<Longrightarrow> keeps R m \<Longrightarrow> keeps R (ignore m)"
  unfolding ignore_def by (intro keeps_intros)

lemma ignore_Ok: "ignore m s = (Ok u, t) \<Longrightarrow> t = snd (m s)"
  by (auto simp: ignore_def bnd_def attempt_def split: prod.splits res.splits)

lemma ignore_run [prog_simps]: "m s = (r, t) \<Longrightarrow> ignore m s = ((case r of Panic e \<Rightarrow> Panic e | _ \<Rightarrow> Ok ()), t)"
  by (simp add: ignore_def bnd_def attempt_def split: res.split)

lemma keeps_if [keeps_intros]: "(b \<Longrightarrow> keeps R m) \<Longrightarrow> (\<not> b \<Longrightarrow> keeps R n) \<Longrightarrow> keeps R (if b then m else n)"
  by simp

lemma keeps_option [keeps_intros]:
  "keeps R m \<Longrightarrow> (\<And>x. keeps R (k x)) \<Longrightarrow> keeps R (case v of None \<Rightarrow> m | Some x \<Rightarrow> k x)"
  by (cases v) simp_all

lemma keeps_sum [keeps_intros]:
  "(\<And>e. keeps R (m e)) \<Longrightarrow> (\<And>x. keeps R (k x)) \<Longrightarrow> keeps R (case v of Inl e \<Rightarrow> m e | Inr x \<Rightarrow> k x)"
  by (cases v) simp_all

lemma keeps_for_each [keeps_intros]:
  assumes "reflp R" and "transp R" and "\<And>x. keeps R (f x)"
  shows "keeps R (for_each f xs)"
  using assms by (induction xs) (auto intro!: keeps_intros)

text \<open>Programs that return, with a value or an error, from every state: no run of them panics.\<close>

definition calm :: "('s, 'a) prog \<Rightarrow> bool" where
  "calm m \<longleftrightarrow> (\<forall>s e t. m s \<noteq> (Panic e, t))"

named_theorems calm_intros \<open>rules for the programs that do not panic\<close>

lemma calm_pure [calm_intros]: "calm (ret x)" "calm (fail e)"
  by (simp_all add: calm_def)

lemma calm_bnd [calm_intros]: "calm m \<Longrightarrow> (\<And>x. calm (k x)) \<Longrightarrow> calm (bnd m k)"
  by (auto simp: calm_def bnd_def split: prod.split res.split)

lemma calm_wrap [calm_intros]: "calm m \<Longrightarrow> calm (wrap pre m)"
  by (auto simp: calm_def wrap_def split: prod.splits res.splits)

lemma calm_attempt [calm_intros]: "calm m \<Longrightarrow> calm (attempt m)"
  by (auto simp: calm_def attempt_def split: prod.splits res.splits)

lemma calm_ignore [calm_intros]: "calm m \<Longrightarrow> calm (ignore m)"
  unfolding ignore_def by (intro calm_intros)

lemma calm_gets [calm_intros]: "(\<And>x. calm (k x)) \<Longrightarrow> calm (gets f k)"
  by (simp add: calm_def)

lemma calm_if [calm_intros]: "calm m \<Longrightarrow> calm n \<Longrightarrow> calm (if b then m else n)"
  by simp

lemma calm_option [calm_intros]: "calm m \<Longrightarrow> (\<And>x. calm (k x)) \<Longrightarrow> calm (case v of None \<Rightarrow> m | Some x \<Rightarrow> k x)"
  by (cases v) simp_all

text \<open>A call whose outcome is dropped always succeeds, unless it panics.\<close>

lemma ignore_calm: "calm m \<Longrightarrow> ignore m s = (Ok (), snd (m s))"
  by (cases "m s"; cases "fst (m s)") (auto simp: calm_def ignore_run)

lemma related_by_steps:
  assumes "S\<^sup>*\<^sup>* x y" and "reflp R" and "transp R" and "\<And>u v. S u v \<Longrightarrow> R u v"
  shows "R x y"
  using assms(1) by (induction rule: rtranclp_induct) (blast intro: assms reflpD transpD)+

section \<open>Go strings\<close>

definition ascii_lower :: "char \<Rightarrow> char" where
  "ascii_lower c = (if CHR ''A'' \<le> c \<and> c \<le> CHR ''Z'' then char_of (of_char c + 32 :: nat) else c)"

definition to_lower :: "string \<Rightarrow> string" where
  "to_lower = map ascii_lower"

definition equal_fold :: "string \<Rightarrow> string \<Rightarrow> bool" where
  "equal_fold a b \<longleftrightarrow> to_lower a = to_lower b"

definition is_space :: "char \<Rightarrow> bool" where
  "is_space c \<longleftrightarrow> c \<in> {CHR '' '', CHR 0x09, CHR 0x0A, CHR 0x0B, CHR 0x0C, CHR 0x0D}"

definition trim_space :: "string \<Rightarrow> string" where
  "trim_space s = rev (dropWhile is_space (rev (dropWhile is_space s)))"

definition trim_char :: "char \<Rightarrow> string \<Rightarrow> string" where
  "trim_char c s = rev (dropWhile ((=) c) (rev (dropWhile ((=) c) s)))"

text \<open>\<open>strings.Contains(s, sub)\<close>.\<close>

definition contains :: "string \<Rightarrow> string \<Rightarrow> bool" where
  "contains s sub \<longleftrightarrow> sublist sub s"

text \<open>\<open>strings.Split(s, c)\<close> for a one-character separator: never the empty list.\<close>

fun split_on :: "char \<Rightarrow> string \<Rightarrow> string list" where
  "split_on c [] = [[]]"
| "split_on c (x # xs) =
     (if x = c then [] # split_on c xs
      else (case split_on c xs of [] \<Rightarrow> [[x]] | w # ws \<Rightarrow> (x # w) # ws))"

lemma split_on_not_Nil [simp]: "split_on c s \<noteq> []"
  by (induction s) (auto split: list.splits)

lemma split_on_no_sep: "c \<notin> set s \<Longrightarrow> split_on c s = [s]"
  by (induction s) auto

lemma split_on_join: "c \<notin> set a \<Longrightarrow> split_on c (a @ c # b) = a # split_on c b"
  by (induction a) auto

definition is_digit :: "char \<Rightarrow> bool" where
  "is_digit c \<longleftrightarrow> CHR ''0'' \<le> c \<and> c \<le> CHR ''9''"

definition digit_val :: "char \<Rightarrow> nat" where
  "digit_val c = of_char c - 48"

definition digit_char :: "nat \<Rightarrow> char" where
  "digit_char n = char_of (n + 48)"

text \<open>\<open>%d\<close> of a natural number.\<close>

fun show_nat :: "nat \<Rightarrow> string" where
  "show_nat n = (if n < 10 then [digit_char n] else show_nat (n div 10) @ [digit_char (n mod 10)])"

declare show_nat.simps [simp del]

definition show_int :: "int \<Rightarrow> string" where
  "show_int i = (if i < 0 then ''-'' @ show_nat (nat (- i)) else show_nat (nat i))"

definition nat_of_digits :: "string \<Rightarrow> nat" where
  "nat_of_digits s = foldl (\<lambda>a c. 10 * a + digit_val c) 0 s"

lemma nat_of_digits_snoc: "nat_of_digits (s @ [c]) = 10 * nat_of_digits s + digit_val c"
  by (simp add: nat_of_digits_def)

lemma of_char_digit_char: "n < 10 \<Longrightarrow> (of_char (digit_char n) :: nat) = n + 48"
  by (simp add: digit_char_def)

lemma digit_val_digit_char [simp]: "n < 10 \<Longrightarrow> digit_val (digit_char n) = n"
  by (simp add: digit_val_def of_char_digit_char)

lemma is_digit_digit_char [simp]: "n < 10 \<Longrightarrow> is_digit (digit_char n)"
  by (simp add: is_digit_def less_eq_char_def of_char_digit_char)

lemma show_nat_digits: "list_all is_digit (show_nat n)"
proof (induction n rule: show_nat.induct)
  case (1 n)
  then show ?case by (subst show_nat.simps) auto
qed

lemma show_nat_not_Nil [simp]: "show_nat n \<noteq> []"
  by (subst show_nat.simps) auto

lemma nat_of_digits_show_nat [simp]: "nat_of_digits (show_nat n) = n"
proof (induction n rule: show_nat.induct)
  case (1 n)
  show ?case
  proof (cases "n < 10")
    case True
    then show ?thesis by (subst show_nat.simps) (simp add: nat_of_digits_def)
  next
    case False
    with 1 have "nat_of_digits (show_nat (n div 10)) = n div 10" by simp
    with False show ?thesis by (subst show_nat.simps) (simp add: nat_of_digits_snoc)
  qed
qed

text \<open>The integer value, and an equation for \<open>show_int\<close> that stays in the integers when it is evaluated.\<close>

definition int_of_digits :: "string \<Rightarrow> int" where
  "int_of_digits s = foldl (\<lambda>a c. 10 * a + (of_char c - 48)) 0 s"

lemma int_of_digits_nat: "list_all is_digit s \<Longrightarrow> int_of_digits s = int (nat_of_digits s)"
proof (induction s rule: rev_induct)
  case (snoc c s)
  have "48 \<le> (of_char c :: nat)" using snoc.prems by (simp add: is_digit_def less_eq_char_def)
  then have "(of_char c :: int) - 48 = int (digit_val c)"
    using of_nat_of_char [of c, where 'a = int] by (simp add: digit_val_def of_nat_diff)
  with snoc show ?case by (simp add: int_of_digits_def nat_of_digits_def)
qed (simp add: int_of_digits_def nat_of_digits_def)

lemma int_of_digits_show_nat [simp]: "int_of_digits (show_nat n) = int n"
  by (simp add: int_of_digits_nat show_nat_digits)

function show_digits :: "int \<Rightarrow> string" where
  "show_digits i = (if i < 10 then [digit_char (nat i)] else show_digits (i div 10) @ [digit_char (nat (i mod 10))])"
  by pat_completeness auto
termination by (relation "measure nat") auto

declare show_digits.simps [simp del]

lemma show_digits_nat: "show_digits (int n) = show_nat n"
proof (induction n rule: show_nat.induct)
  case (1 n)
  then show ?case
    by (subst show_digits.simps, subst show_nat.simps) (auto simp: zdiv_int zmod_int [symmetric] nat_mod_distrib)
qed

lemma show_int_code [code]: "show_int i = (if i < 0 then ''-'' @ show_digits (- i) else show_digits i)"
  using show_digits_nat [of "nat \<bar>i\<bar>"] by (auto simp: show_int_def)

section \<open>Lists as tables\<close>

lemma map_cond_inj_key:
  assumes "\<And>r. k (f r) = k r"
  shows "map k (map (\<lambda>r. if P r then f r else r) xs) = map k xs"
  using assms by auto

lemma distinct_key_unique:
  "distinct (map k xs) \<Longrightarrow> r \<in> set xs \<Longrightarrow> r' \<in> set xs \<Longrightarrow> k r = k r' \<Longrightarrow> r = r'"
  by (metis inj_on_contraD distinct_map)

lemma filter_key_singleton:
  assumes "distinct (map k xs)" and "r \<in> set xs"
  shows "filter (\<lambda>x. k x = k r) xs = [r]"
  using assms
proof (induction xs)
  case (Cons x xs)
  show ?case
  proof (cases "x = r")
    case True
    with Cons.prems have "k r \<notin> k ` set xs" by simp
    then have "\<forall>y \<in> set xs. k y \<noteq> k r" by (metis imageI)
    with True show ?thesis by (simp add: filter_empty_conv)
  next
    case False
    with Cons.prems have "r \<in> set xs" "k x \<noteq> k r" by auto
    with Cons show ?thesis by simp
  qed
qed simp

end
