(* ===== verification/Models.thy ===== *)
theory Models
  imports Prelude
begin

text \<open>
  The data of the service: the structs of internal/models and of the query layer, as records. A
  pointer field or nullable column is an option. An instant is an integer number of nanoseconds since
  the zero value of \<open>time.Time\<close>, so \<open>0\<close> is that zero value; an id is the text of its UUID.
\<close>

type_synonym instant = int

abbreviation second :: int where "second \<equiv> 1000000000"

section \<open>Organizations\<close>

record Organization =
  org_ID :: string
  org_Name :: string
  org_Slug :: string
  org_ParentID :: "string option"
  org_Description :: "string option"
  org_Metadata :: string
  org_Settings :: string
  org_AllowedOrigins :: "string list"
  org_BillingTier :: string
  org_MaxUsers :: int
  org_MaxResources :: int
  org_Status :: string
  org_CreatedAt :: instant
  org_UpdatedAt :: instant
  org_DeletedAt :: "instant option"

section \<open>Identities\<close>

text \<open>The field \<open>Role\<close> of a user is computed by queries; it is no column and empty in stored rows.\<close>

record User =
  usr_ID :: string
  usr_Username :: string
  usr_Email :: string
  usr_EmailVerified :: bool
  usr_DisplayName :: string
  usr_AvatarURL :: "string option"
  usr_OrganizationID :: string
  usr_PasswordHash :: string
  usr_PasswordChangedAt :: "instant option"
  usr_MFAEnabled :: bool
  usr_MFAMethods :: "string list"
  usr_TOTPSecret :: string
  usr_MFABackupCodes :: "string list"
  usr_Attributes :: string
  usr_Preferences :: string
  usr_Role :: string
  usr_LastLogin :: "instant option"
  usr_FailedLoginAttempts :: int
  usr_LockedUntil :: "instant option"
  usr_Status :: string
  usr_CreatedAt :: instant
  usr_UpdatedAt :: instant
  usr_DeletedAt :: "instant option"

record Group =
  grp_ID :: string
  grp_Name :: string
  grp_Description :: string
  grp_OrganizationID :: string
  grp_ParentGroupID :: "string option"
  grp_GroupType :: string
  grp_Attributes :: string
  grp_MaxMembers :: int
  grp_Status :: string
  grp_CreatedAt :: instant
  grp_UpdatedAt :: instant
  grp_DeletedAt :: "instant option"

record GroupMembership =
  gm_ID :: string
  gm_GroupID :: string
  gm_PrincipalID :: string
  gm_PrincipalType :: string
  gm_RoleInGroup :: string
  gm_JoinedAt :: instant
  gm_ExpiresAt :: "instant option"
  gm_AddedBy :: string

record ServiceAccount =
  sa_ID :: string
  sa_Name :: string
  sa_Description :: string
  sa_OrganizationID :: string
  sa_KeyRotationPolicy :: string
  sa_AllowedIPRanges :: "string list"
  sa_MaxTokenLifetime :: string
  sa_LastKeyRotation :: instant
  sa_Attributes :: string
  sa_Status :: string
  sa_CreatedAt :: instant
  sa_UpdatedAt :: instant
  sa_DeletedAt :: "instant option"

text \<open>A key that was never used has the zero instant in \<open>LastUsedAt\<close>, one without a creator an empty \<open>CreatedBy\<close>.\<close>

record APIKey =
  ak_ID :: string
  ak_Name :: string
  ak_KeyID :: string
  ak_KeyHash :: string
  ak_ServiceAccountID :: string
  ak_OrganizationID :: string
  ak_Scopes :: "string list"
  ak_AllowedIPRanges :: "string list"
  ak_RateLimitPerHour :: int
  ak_LastUsedAt :: instant
  ak_UsageCount :: int
  ak_ExpiresAt :: instant
  ak_Status :: string
  ak_CreatedAt :: instant
  ak_CreatedBy :: string

section \<open>Resources\<close>

record Resource =
  rsc_ID :: string
  rsc_ARN :: string
  rsc_Name :: string
  rsc_Description :: "string option"
  rsc_Type :: string
  rsc_OrganizationID :: string
  rsc_ParentResourceID :: "string option"
  rsc_OwnerID :: "string option"
  rsc_OwnerType :: "string option"
  rsc_Attributes :: string
  rsc_Tags :: string
  rsc_EncryptionKeyID :: "string option"
  rsc_LifecyclePolicy :: string
  rsc_AccessLevel :: string
  rsc_ContentType :: "string option"
  rsc_SizeBytes :: "int option"
  rsc_Checksum :: "string option"
  rsc_Version :: "string option"
  rsc_Status :: string
  rsc_CreatedAt :: instant
  rsc_UpdatedAt :: instant
  rsc_AccessedAt :: "instant option"
  rsc_DeletedAt :: "instant option"

record ResourcePermission =
  rp_ID :: string
  rp_ResourceID :: string
  rp_PrincipalID :: string
  rp_PrincipalType :: string
  rp_Permission :: string
  rp_Effect :: string
  rp_CreatedAt :: instant
  rp_CreatedBy :: string

record ResourceShare =
  rs_ID :: string
  rs_ResourceID :: string
  rs_PrincipalID :: string
  rs_PrincipalType :: string
  rs_AccessLevel :: string
  rs_ExpiresAt :: "instant option"
  rs_SharedBy :: string
  rs_CreatedAt :: instant

record ResourceAccessLog =
  ral_ID :: string
  ral_ResourceID :: string
  ral_UserID :: string
  ral_Action :: string
  ral_IPAddress :: string
  ral_UserAgent :: string
  ral_Timestamp :: instant
  ral_Success :: bool
  ral_Details :: string

section \<open>Policies and roles\<close>

record Policy =
  pol_ID :: string
  pol_Name :: string
  pol_Description :: string
  pol_Version :: string
  pol_OrganizationID :: string
  pol_Document :: string
  pol_PolicyType :: string
  pol_Effect :: string
  pol_IsSystemPolicy :: bool
  pol_CreatedBy :: "string option"
  pol_ApprovedBy :: "string option"
  pol_ApprovedAt :: "instant option"
  pol_Status :: string
  pol_CreatedAt :: instant
  pol_UpdatedAt :: instant
  pol_DeletedAt :: "instant option"

record PolicyVersion =
  pv_ID :: string
  pv_PolicyID :: string
  pv_Version :: string
  pv_Document :: string
  pv_CreatedBy :: "string option"
  pv_CreatedAt :: instant
  pv_Status :: string

record Role =
  rol_ID :: string
  rol_Name :: string
  rol_Description :: "string option"
  rol_OrganizationID :: string
  rol_RoleType :: string
  rol_MaxSessionDuration :: "string option"
  rol_TrustPolicy :: string
  rol_AssumeRolePolicy :: string
  rol_Tags :: string
  rol_IsSystemRole :: bool
  rol_Path :: "string option"
  rol_PermissionsBoundary :: "string option"
  rol_Status :: string
  rol_CreatedAt :: instant
  rol_UpdatedAt :: instant
  rol_DeletedAt :: "instant option"

record RolePolicy =
  rlp_ID :: string
  rlp_RoleID :: string
  rlp_PolicyID :: string
  rlp_AttachedAt :: instant
  rlp_AttachedBy :: "string option"

record RoleAssignment =
  ra_ID :: string
  ra_RoleID :: string
  ra_PrincipalID :: string
  ra_PrincipalType :: string
  ra_AssignedBy :: "string option"
  ra_AssignedAt :: instant
  ra_ExpiresAt :: "instant option"
  ra_Conditions :: string

section \<open>Sessions\<close>

record Session =
  ses_ID :: string
  ses_SessionToken :: string
  ses_PrincipalID :: string
  ses_PrincipalType :: string
  ses_OrganizationID :: string
  ses_AssumedRoleID :: "string option"
  ses_Permissions :: string
  ses_Context :: string
  ses_MFAVerified :: bool
  ses_MFAMethodsUsed :: "string list"
  ses_IPAddress :: "string option"
  ses_UserAgent :: "string option"
  ses_DeviceFingerprint :: "string option"
  ses_Location :: string
  ses_IssuedAt :: instant
  ses_ExpiresAt :: instant
  ses_LastUsedAt :: instant
  ses_Status :: string

section \<open>OpenID Connect\<close>

text \<open>A nil slice of redirect URIs is \<open>None\<close>; a stored row always has a slice.\<close>

record OAuthClient =
  oc_ID :: string
  oc_OrganizationID :: string
  oc_ClientName :: string
  oc_ClientSecretHash :: string
  oc_RedirectURIs :: "string list option"
  oc_GrantTypes :: "string list"
  oc_ResponseTypes :: "string list"
  oc_Scope :: string
  oc_IsPublic :: bool
  oc_IsTrusted :: bool
  oc_LogoURL :: "string option"
  oc_PolicyURI :: "string option"
  oc_TosURI :: "string option"
  oc_CreatedAt :: instant
  oc_UpdatedAt :: instant
  oc_DeletedAt :: "instant option"

record OIDCAuthCode =
  ac_Code :: string
  ac_UserID :: string
  ac_ClientID :: string
  ac_Scope :: string
  ac_Nonce :: "string option"
  ac_RedirectURI :: string
  ac_ExpiresAt :: instant
  ac_Used :: bool
  ac_OrganizationID :: string
  ac_CreatedAt :: instant

section \<open>Audit\<close>

record AuditEvent =
  aev_ID :: string
  aev_EventID :: string
  aev_Timestamp :: "instant option"
  aev_OrganizationID :: string
  aev_PrincipalID :: "string option"
  aev_PrincipalType :: "string option"
  aev_SessionID :: "string option"
  aev_Action :: string
  aev_ResourceType :: "string option"
  aev_ResourceID :: "string option"
  aev_ResourceARN :: "string option"
  aev_Result :: string
  aev_ErrorMessage :: "string option"
  aev_IPAddress :: "string option"
  aev_UserAgent :: "string option"
  aev_RequestID :: "string option"
  aev_AdditionalContext :: string
  aev_Severity :: string

text \<open>
  \<open>CompletedAt\<close> and \<open>DueDate\<close> are nullable columns that the code scans into plain times; the option is the column.
\<close>

record AccessReview =
  rev_ID :: string
  rev_Name :: string
  rev_Description :: string
  rev_OrganizationID :: string
  rev_ReviewerID :: string
  rev_Scope :: string
  rev_Status :: string
  rev_DueDate :: "instant option"
  rev_CompletedAt :: "instant option"
  rev_Findings :: string
  rev_Recommendations :: string
  rev_CreatedAt :: instant
  rev_UpdatedAt :: instant

section \<open>Content\<close>

record ContentItem =
  ci_ID :: string
  ci_ContentType :: string
  ci_Title :: string
  ci_Slug :: string
  ci_Body :: string
  ci_Summary :: string
  ci_CoverImageURL :: string
  ci_ParentID :: "string option"
  ci_OwnerID :: string
  ci_OrganizationID :: string
  ci_Status :: string
  ci_Tags :: string
  ci_Metadata :: string
  ci_PublishedAt :: "instant option"
  ci_CreatedAt :: instant
  ci_UpdatedAt :: instant
  ci_DeletedAt :: "instant option"

record ContentCollaborator =
  cc_ContentID :: string
  cc_UserID :: string
  cc_Role :: string
  cc_InvitedBy :: string
  cc_CreatedAt :: instant

section \<open>Lists\<close>

record ListParams =
  lp_Limit :: int
  lp_Offset :: int
  lp_SortBy :: string
  lp_Order :: string

record 'a ListResult =
  lr_Items :: "'a list"
  lr_Total :: int
  lr_Limit :: int
  lr_Offset :: int
  lr_HasMore :: bool
  lr_TotalPages :: int

end
