(* ===== verification/Json.thy ===== *)
theory Json
  imports Prelude "HOL-Library.AList"
begin

text \<open>
  The part of Go's \<open>encoding/json\<close> and \<open>fmt\<close> that the policy engine relies on: decoding a text into
  an \<open>interface{}\<close> value (\<open>json\<close>), reading map entries, and the \<open>%v\<close> form of a decoded value.
  Both passes run once over their input (characters, then tokens) with an explicit stack, so no fuel
  is needed. A number keeps its lexeme; how \<open>%v\<close> prints the float it denotes is the parameter
  \<open>num_v\<close> of the functions that need it.
\<close>

section \<open>Values and tokens\<close>

datatype json = JNull | JBool bool | JNum string | JStr string | JArr "json list"
  | JObj "(string \<times> json) list"

datatype token = LBrace | RBrace | LBrack | RBrack | Colon | Comma
  | TStr string | TNum string | TTrue | TFalse | TNull

definition hex_val :: "char \<Rightarrow> nat option" where
  "hex_val c = (if is_digit c then Some (digit_val c)
     else if CHR ''a'' \<le> c \<and> c \<le> CHR ''f'' then Some (of_char c - 87)
     else if CHR ''A'' \<le> c \<and> c \<le> CHR ''F'' then Some (of_char c - 55)
     else None)"

definition utf8 :: "nat \<Rightarrow> string" where
  "utf8 n = (if n < 128 then [char_of n]
     else if n < 2048 then [char_of (192 + n div 64), char_of (128 + n mod 64)]
     else if n < 65536 then
       [char_of (224 + n div 4096), char_of (128 + n div 64 mod 64), char_of (128 + n mod 64)]
     else [char_of (240 + n div 262144), char_of (128 + n div 4096 mod 64),
           char_of (128 + n div 64 mod 64), char_of (128 + n mod 64)])"

definition escape_char :: "char \<Rightarrow> char option" where
  "escape_char c = map_of [(CHR 0x22, CHR 0x22), (CHR 0x5C, CHR 0x5C), (CHR ''/'', CHR ''/''),
     (CHR ''b'', CHR 0x08), (CHR ''f'', CHR 0x0C), (CHR ''n'', CHR 0x0A), (CHR ''r'', CHR 0x0D),
     (CHR ''t'', CHR 0x09)] c"

text \<open>
  The code units of a string literal: a raw byte, or a \<open>\u\<close> escape. Surrogate pairs are joined when
  the literal is closed, a lone surrogate becomes U+FFFD.
\<close>

datatype jchar = Raw char | Unit nat

fun join_units :: "jchar list \<Rightarrow> string" where
  "join_units [] = []"
| "join_units (Raw c # r) = c # join_units r"
| "join_units (Unit h # Unit l # r) =
     (if 55296 \<le> h \<and> h < 56320 \<and> 56320 \<le> l \<and> l < 57344
      then utf8 (65536 + (h - 55296) * 1024 + (l - 56320)) @ join_units r
      else utf8 (if 55296 \<le> h \<and> h < 57344 then 65533 else h) @ join_units (Unit l # r))"
| "join_units (Unit h # r) = utf8 (if 55296 \<le> h \<and> h < 57344 then 65533 else h) @ join_units r"

section \<open>Tokens\<close>

text \<open>The number grammar of RFC 8259, checked on a whole lexeme.\<close>

fun num_exp_digits :: "string \<Rightarrow> bool" where
  "num_exp_digits s = (s \<noteq> [] \<and> list_all is_digit s)"

fun num_exp :: "string \<Rightarrow> bool" where
  "num_exp [] = True"
| "num_exp (e # s) = ((e = CHR ''e'' \<or> e = CHR ''E'') \<and>
     (case s of c # t \<Rightarrow> if c = CHR ''+'' \<or> c = CHR ''-'' then num_exp_digits t else num_exp_digits s
      | [] \<Rightarrow> False))"

definition num_frac :: "string \<Rightarrow> bool" where
  "num_frac s = (case s of
     c # t \<Rightarrow> if c = CHR ''.'' then takeWhile is_digit t \<noteq> [] \<and> num_exp (dropWhile is_digit t)
              else num_exp s
   | [] \<Rightarrow> True)"

definition num_unsigned :: "string \<Rightarrow> bool" where
  "num_unsigned s = (case s of
     c # t \<Rightarrow> if c = CHR ''0'' then num_frac t
              else is_digit c \<and> num_frac (dropWhile is_digit t)
   | [] \<Rightarrow> False)"

definition num_lexeme :: "string \<Rightarrow> bool" where
  "num_lexeme s = (case s of c # t \<Rightarrow> if c = CHR ''-'' then num_unsigned t else num_unsigned s
     | [] \<Rightarrow> False)"

definition word_token :: "string \<Rightarrow> token option" where
  "word_token s = (if s = ''true'' then Some TTrue else if s = ''false'' then Some TFalse
     else if s = ''null'' then Some TNull else if num_lexeme s then Some (TNum s) else None)"

definition punct :: "char \<Rightarrow> token option" where
  "punct c = map_of [(CHR ''{'', LBrace), (CHR ''}'', RBrace), (CHR ''['', LBrack),
     (CHR '']'', RBrack), (CHR '':'', Colon), (CHR '','', Comma)] c"

definition json_space :: "char \<Rightarrow> bool" where
  "json_space c \<longleftrightarrow> c \<in> {CHR '' '', CHR 0x09, CHR 0x0A, CHR 0x0D}"

text \<open>
  Scanner states: between tokens, inside a word (a literal or number, accumulated backwards), inside
  a string, after a backslash, inside a \<open>\u\<close> escape with the digits read so far.
\<close>

datatype scan = Between | InWord string | InStr "jchar list" | InEsc "jchar list"
  | InHex "jchar list" nat nat

definition close_word :: "string \<Rightarrow> token list option \<Rightarrow> token list option" where
  "close_word w r = (case (word_token (rev w), r) of (Some t, Some ts) \<Rightarrow> Some (t # ts) | _ \<Rightarrow> None)"

fun tokens :: "scan \<Rightarrow> string \<Rightarrow> token list option" where
  "tokens Between [] = Some []"
| "tokens (InWord w) [] = close_word w (Some [])"
| "tokens _ [] = None"
| "tokens Between (c # s) =
     (if json_space c then tokens Between s
      else if c = CHR 0x22 then tokens (InStr []) s
      else case punct c of Some t \<Rightarrow> map_option ((#) t) (tokens Between s)
        | None \<Rightarrow> tokens (InWord [c]) s)"
| "tokens (InWord w) (c # s) =
     (if json_space c then close_word w (tokens Between s)
      else if c = CHR 0x22 then None
      else case punct c of Some t \<Rightarrow> close_word w (map_option ((#) t) (tokens Between s))
        | None \<Rightarrow> tokens (InWord (c # w)) s)"
| "tokens (InStr a) (c # s) =
     (if c = CHR 0x22 then map_option ((#) (TStr (join_units (rev a)))) (tokens Between s)
      else if c = CHR 0x5C then tokens (InEsc a) s
      else if of_char c < (32 :: nat) then None
      else tokens (InStr (Raw c # a)) s)"
| "tokens (InEsc a) (c # s) =
     (if c = CHR ''u'' then tokens (InHex a 0 0) s
      else case escape_char c of Some d \<Rightarrow> tokens (InStr (Raw d # a)) s | None \<Rightarrow> None)"
| "tokens (InHex a n v) (c # s) =
     (case hex_val c of None \<Rightarrow> None
      | Some d \<Rightarrow> if n = 3 then tokens (InStr (Unit (16 * v + d) # a)) s
                 else tokens (InHex a (Suc n) (16 * v + d)) s)"

section \<open>Values from tokens\<close>

text \<open>
  Open containers, innermost first, their members in reverse: an array, an object waiting for the
  next key, an object whose key has been read.
\<close>

datatype frame = FArr "json list" | FObj "(string \<times> json) list" | FKey "(string \<times> json) list" string

text \<open>What the parser expects next; \<open>opened\<close> tells that the innermost container is still empty.\<close>

datatype expect = WantValue bool | WantKey bool | WantColon | WantSep

fun parse_tokens :: "expect \<Rightarrow> frame list \<Rightarrow> json option \<Rightarrow> token list \<Rightarrow> json option" where
  "parse_tokens e stack d [] = (if stack = [] \<and> e = WantSep then d else None)"
| "parse_tokens (WantValue opened) stack d (t # ts) =
     (let put = (\<lambda>v. case stack of
            [] \<Rightarrow> parse_tokens WantSep [] (Some v) ts
          | FArr vs # st \<Rightarrow> parse_tokens WantSep (FArr (v # vs) # st) None ts
          | FKey kvs k # st \<Rightarrow> parse_tokens WantSep (FObj ((k, v) # kvs) # st) None ts
          | FObj _ # _ \<Rightarrow> None)
      in case t of
           TStr s \<Rightarrow> put (JStr s) | TNum s \<Rightarrow> put (JNum s) | TTrue \<Rightarrow> put (JBool True)
         | TFalse \<Rightarrow> put (JBool False) | TNull \<Rightarrow> put JNull
         | LBrack \<Rightarrow> parse_tokens (WantValue True) (FArr [] # stack) None ts
         | LBrace \<Rightarrow> parse_tokens (WantKey True) (FObj [] # stack) None ts
         | RBrack \<Rightarrow> (case stack of
              FArr _ # FArr vs # st \<Rightarrow> if opened then parse_tokens WantSep (FArr (JArr [] # vs) # st) None ts else None
            | FArr _ # FKey kvs k # st \<Rightarrow> if opened then parse_tokens WantSep (FObj ((k, JArr []) # kvs) # st) None ts else None
            | [FArr _] \<Rightarrow> if opened then parse_tokens WantSep [] (Some (JArr [])) ts else None
            | _ \<Rightarrow> None)
         | _ \<Rightarrow> None)"
| "parse_tokens (WantKey opened) stack d (t # ts) =
     (case (t, stack) of
        (TStr k, FObj kvs # st) \<Rightarrow> parse_tokens WantColon (FKey kvs k # st) None ts
      | (RBrace, FObj _ # FArr vs # st) \<Rightarrow> if opened then parse_tokens WantSep (FArr (JObj [] # vs) # st) None ts else None
      | (RBrace, FObj _ # FKey kvs k # st) \<Rightarrow> if opened then parse_tokens WantSep (FObj ((k, JObj []) # kvs) # st) None ts else None
      | (RBrace, [FObj _]) \<Rightarrow> if opened then parse_tokens WantSep [] (Some (JObj [])) ts else None
      | _ \<Rightarrow> None)"
| "parse_tokens WantColon stack d (t # ts) =
     (if t = Colon then parse_tokens (WantValue False) stack None ts else None)"
| "parse_tokens WantSep stack d (t # ts) =
     (let close = (\<lambda>v st. case st of
            [] \<Rightarrow> parse_tokens WantSep [] (Some v) ts
          | FArr vs # st' \<Rightarrow> parse_tokens WantSep (FArr (v # vs) # st') None ts
          | FKey kvs k # st' \<Rightarrow> parse_tokens WantSep (FObj ((k, v) # kvs) # st') None ts
          | FObj _ # _ \<Rightarrow> None)
      in case (t, stack) of
           (Comma, FArr vs # st) \<Rightarrow> parse_tokens (WantValue False) stack None ts
         | (Comma, FObj kvs # st) \<Rightarrow> parse_tokens (WantKey False) stack None ts
         | (RBrack, FArr vs # st) \<Rightarrow> close (JArr (rev vs)) st
         | (RBrace, FObj kvs # st) \<Rightarrow> close (JObj (rev kvs)) st
         | _ \<Rightarrow> None)"

text \<open>\<open>json.Unmarshal\<close> into an \<open>interface{}\<close>: \<open>None\<close> is a syntax error.\<close>

definition parse_json :: "string \<Rightarrow> json option" where
  "parse_json s = (case tokens Between s of None \<Rightarrow> None
     | Some ts \<Rightarrow> parse_tokens (WantValue False) [] None ts)"

section \<open>Reading and printing decoded values\<close>

text \<open>A decoded object is a map: of repeated keys the last one wins.\<close>

definition obj_get :: "(string \<times> json) list \<Rightarrow> string \<Rightarrow> json option" where
  "obj_get kvs k = map_of (rev kvs) k"

text \<open>The entries that remain in the map, sorted by key as \<open>%v\<close> prints a map.\<close>

definition obj_keys :: "(string \<times> json) list \<Rightarrow> string list" where
  "obj_keys kvs = remdups (map fst kvs)"

fun str_le :: "string \<Rightarrow> string \<Rightarrow> bool" where
  "str_le [] _ = True"
| "str_le (_ # _) [] = False"
| "str_le (a # s) (b # t) = (a < b \<or> a = b \<and> str_le s t)"

fun insert_key :: "string \<times> 'a \<Rightarrow> (string \<times> 'a) list \<Rightarrow> (string \<times> 'a) list" where
  "insert_key e [] = [e]"
| "insert_key e (x # xs) = (if str_le (fst e) (fst x) then e # x # xs else x # insert_key e xs)"

definition join_space :: "string list \<Rightarrow> string" where
  "join_space ws = concat (case ws of [] \<Rightarrow> [] | w # r \<Rightarrow> w # map ((#) CHR '' '') r)"

text \<open>\<open>fmt.Sprintf("%v", x)\<close>.\<close>

fun sprintf_v :: "(string \<Rightarrow> string) \<Rightarrow> json \<Rightarrow> string" where
  "sprintf_v num_v JNull = ''<nil>''"
| "sprintf_v num_v (JBool b) = (if b then ''true'' else ''false'')"
| "sprintf_v num_v (JNum n) = num_v n"
| "sprintf_v num_v (JStr s) = s"
| "sprintf_v num_v (JArr vs) = ''['' @ join_space (map (sprintf_v num_v) vs) @ '']''"
| "sprintf_v num_v (JObj kvs) =
     ''map['' @ join_space (map (\<lambda>(k, v). k @ '':'' @ v)
        (foldr insert_key (AList.clearjunk (rev (map (\<lambda>(k, v). (k, sprintf_v num_v v)) kvs))) []))
     @ '']''"

text \<open>The type assertions of the code, \<open>x.(string)\<close> and the like, in their two-result form.\<close>

fun as_string :: "json \<Rightarrow> string option" where
  "as_string (JStr s) = Some s" | "as_string _ = None"

fun as_bool :: "json \<Rightarrow> bool option" where
  "as_bool (JBool b) = Some b" | "as_bool _ = None"

fun as_array :: "json \<Rightarrow> json list option" where
  "as_array (JArr vs) = Some vs" | "as_array _ = None"

fun as_object :: "json \<Rightarrow> (string \<times> json) list option" where
  "as_object (JObj kvs) = Some kvs" | "as_object _ = None"

end
