(* ===== verification/Database.thy ===== *)
theory Database
  imports Models Json
begin

text \<open>
  PostgreSQL and Redis as the query layer uses them. A table is the list of its rows. Every statement
  consults \<open>faults\<close> first: an entry \<open>Some e\<close> makes the statement fail with the driver error \<open>e\<close> and
  change nothing, so a schedule of faults stands for lost connections, time-outs and errors of the
  server that the constraints below do not produce; the empty schedule is a server that does not
  fail. The primary keys and unique constraints of the migrations are checked by \<open>insert_row\<close>.
\<close>

datatype redis_value = RString string | RHash "(string \<times> string) list" | RSet "string list"

record db =
  now :: instant
  faults :: "string option list"
  redis :: "string \<Rightarrow> (redis_value \<times> instant option) option"
  redis_up :: bool
  uuids :: "nat \<Rightarrow> string"
  audit_chan :: "AuditEvent list"
  t_organizations :: "Organization list"
  t_audit_events :: "AuditEvent list"
  t_users :: "User list"
  t_groups :: "Group list"
  t_group_memberships :: "GroupMembership list"
  t_resources :: "Resource list"
  t_resource_permissions :: "ResourcePermission list"
  t_resource_shares :: "ResourceShare list"
  t_resource_access_log :: "ResourceAccessLog list"
  t_policies :: "Policy list"
  t_policy_versions :: "PolicyVersion list"
  t_roles :: "Role list"
  t_role_policies :: "RolePolicy list"
  t_role_assignments :: "RoleAssignment list"
  t_sessions :: "Session list"
  t_oauth_clients :: "OAuthClient list"
  t_oidc_codes :: "OIDCAuthCode list"
  t_content_items :: "ContentItem list"
  t_content_collaborators :: "ContentCollaborator list"
  t_service_accounts :: "ServiceAccount list"
  t_api_keys :: "APIKey list"
  t_access_reviews :: "AccessReview list"

text \<open>A database with no rows, and a server that does not fail.\<close>

definition empty_db :: "instant \<Rightarrow> db" where
  "empty_db t = \<lparr>now = t, faults = [], redis = (\<lambda>_. None), redis_up = True,
     uuids = (\<lambda>n. ''uuid-v4-'' @ show_nat n), audit_chan = [], t_organizations = [], t_audit_events = [], t_users = [], t_groups = [],
     t_group_memberships = [], t_resources = [], t_resource_permissions = [], t_resource_shares = [],
     t_resource_access_log = [], t_policies = [], t_policy_versions = [], t_roles = [],
     t_role_policies = [], t_role_assignments = [], t_sessions = [], t_oauth_clients = [],
     t_oidc_codes = [], t_content_items = [], t_content_collaborators = [],
     t_service_accounts = [], t_api_keys = [], t_access_reviews = []\<rparr>"

type_synonym 'a query = "(db, 'a) prog"

section \<open>Statements\<close>

definition advance :: "db \<Rightarrow> db" where
  "advance d = d\<lparr>faults := tl (faults d)\<rparr>"

definition stmt :: "(db \<Rightarrow> string + 'a \<times> db) \<Rightarrow> 'a query" where
  "stmt f d = (case faults d of
       Some e # _ \<Rightarrow> (Err e, advance d)
     | _ \<Rightarrow> (case f (advance d) of Inl e \<Rightarrow> (Err e, advance d) | Inr (x, d') \<Rightarrow> (Ok x, d')))"

text \<open>A \<open>SELECT\<close>: reads the tables only.\<close>

definition select :: "(db \<Rightarrow> 'a) \<Rightarrow> 'a query" where
  "select g = stmt (\<lambda>d. Inr (g d, d))"

text \<open>\<open>SELECT ... WHERE\<close> for one row: \<open>sql.ErrNoRows\<close> when there is none.\<close>

definition no_rows :: string where
  "no_rows = ''sql: no rows in result set''"

text \<open>\<open>UPDATE ... SET ... WHERE\<close> on one table; the result is \<open>RowsAffected\<close>.\<close>

definition update_where :: "('r \<Rightarrow> bool) \<Rightarrow> ('r \<Rightarrow> 'r) \<Rightarrow> 'r list \<Rightarrow> nat \<times> 'r list" where
  "update_where P f t = (length (filter P t), map (\<lambda>r. if P r then f r else r) t)"

definition delete_where :: "('r \<Rightarrow> bool) \<Rightarrow> 'r list \<Rightarrow> nat \<times> 'r list" where
  "delete_where P t = (length (filter P t), filter (Not \<circ> P) t)"

text \<open>A statement that rewrites one table, given how to read and how to store the table.\<close>

definition exec_on ::
  "(db \<Rightarrow> 'r list) \<Rightarrow> ('r list \<Rightarrow> db \<Rightarrow> db) \<Rightarrow> (db \<Rightarrow> 'r list \<Rightarrow> 'a \<times> 'r list) \<Rightarrow> 'a query" where
  "exec_on get put f = stmt (\<lambda>d. case f d (get d) of (n, t) \<Rightarrow> Inr (n, put t d))"

text \<open>
  \<open>INSERT\<close>: the row is appended unless it clashes with a stored row on a primary key or unique
  constraint; the error text is the one \<open>lib/pq\<close> builds.
\<close>

definition duplicate_key :: "string \<Rightarrow> string" where
  "duplicate_key c = ''pq: duplicate key value violates unique constraint '' @ c"

definition check_violation :: "string \<Rightarrow> string" where
  "check_violation c = ''pq: new row violates check constraint '' @ c"

definition bad_enum :: "string \<Rightarrow> string" where
  "bad_enum ty = ''pq: invalid input value for enum '' @ ty"

definition not_null :: "string \<Rightarrow> string" where
  "not_null column = ''pq: null value violates not-null constraint in column '' @ column"

definition varchar_overflow :: string where
  "varchar_overflow = ''pq: value too long for type character varying''"

definition int4_overflow :: string where
  "int4_overflow = ''pq: value out of range for type integer''"

definition int4 :: "int \<Rightarrow> bool" where
  "int4 n \<longleftrightarrow> - (2 ^ 31) \<le> n \<and> n < 2 ^ 31"

definition bad_uuid :: string where
  "bad_uuid = ''pq: invalid input syntax for type uuid''"

definition foreign_key :: "string \<Rightarrow> string" where
  "foreign_key c = ''pq: insert or update violates foreign key constraint '' @ c"

definition insert_row ::
  "(db \<Rightarrow> 'r list) \<Rightarrow> ('r list \<Rightarrow> db \<Rightarrow> db) \<Rightarrow> string \<Rightarrow> ('r \<Rightarrow> 'r \<Rightarrow> bool) \<Rightarrow> 'r \<Rightarrow> unit query" where
  "insert_row get put cname clash r = stmt (\<lambda>d.
     if list_ex (clash r) (get d) then Inl (duplicate_key cname)
     else Inr ((), put (get d @ [r]) d))"

text \<open>\<open>ORDER BY key DESC\<close>; the order of equal keys is the storage order.\<close>

definition order_desc :: "('r \<Rightarrow> instant) \<Rightarrow> 'r list \<Rightarrow> 'r list" where
  "order_desc k = sort_key (\<lambda>r. - k r)"

text \<open>The page arithmetic of the list operations: Go's integer division panics on a zero divisor.\<close>

definition go_div :: "int \<Rightarrow> int \<Rightarrow> int res" where
  "go_div a b = (if b = 0 then Panic ''integer divide by zero'' else Ok (sgn a * sgn b * (\<bar>a\<bar> div \<bar>b\<bar>)))"

definition list_result :: "ListParams \<Rightarrow> 'r list \<Rightarrow> int \<Rightarrow> 'r ListResult res" where
  "list_result p items cnt = (case go_div (cnt + lp_Limit p - 1) (lp_Limit p) of
       Ok pages \<Rightarrow> Ok \<lparr>lr_Items = items, lr_Total = cnt, lr_Limit = lp_Limit p, lr_Offset = lp_Offset p,
         lr_HasMore = (lp_Offset p + lp_Limit p < cnt), lr_TotalPages = pages\<rparr>
     | Err e \<Rightarrow> Err e | Panic e \<Rightarrow> Panic e)"

text \<open>
  Writes to a table whose rows must satisfy constraints beyond a key: \<open>viol\<close> gives the error of a
  table that violates one, and the statement is refused when the resulting table does.
\<close>

definition insert_checked ::
  "(db \<Rightarrow> 'r list) \<Rightarrow> ('r list \<Rightarrow> db \<Rightarrow> db) \<Rightarrow> ('r list \<Rightarrow> string option) \<Rightarrow> 'r \<Rightarrow> unit query" where
  "insert_checked get put viol r = stmt (\<lambda>d. case viol (get d @ [r]) of
       Some e \<Rightarrow> Inl e | None \<Rightarrow> Inr ((), put (get d @ [r]) d))"

definition update_checked ::
  "(db \<Rightarrow> 'r list) \<Rightarrow> ('r list \<Rightarrow> db \<Rightarrow> db) \<Rightarrow> ('r list \<Rightarrow> string option) \<Rightarrow> ('r \<Rightarrow> bool) \<Rightarrow> ('r \<Rightarrow> 'r) \<Rightarrow>
    nat query" where
  "update_checked get put viol P f = stmt (\<lambda>d. let t = map (\<lambda>r. if P r then f r else r) (get d) in
     case viol t of Some e \<Rightarrow> Inl e | None \<Rightarrow> Inr (length (filter P (get d)), put t d))"

text \<open>
  Three idioms of the query files: \<open>QueryRow ... Scan\<close> with \<open>sql.ErrNoRows\<close> turned into a message,
  \<open>Exec\<close> followed by a test of \<open>RowsAffected\<close>, and a page of rows.
\<close>

definition query_row :: "string \<Rightarrow> string \<Rightarrow> (db \<Rightarrow> 'r option) \<Rightarrow> 'r query" where
  "query_row missing pre g = bnd (wrap pre (select g))
     (\<lambda>r. case r of None \<Rightarrow> fail missing | Some x \<Rightarrow> ret x)"

definition must_affect :: "string \<Rightarrow> string \<Rightarrow> nat query \<Rightarrow> unit query" where
  "must_affect missing pre m = bnd (wrap pre m) (\<lambda>n. if n = 0 then fail missing else ret ())"

definition select_page :: "int \<Rightarrow> int \<Rightarrow> (db \<Rightarrow> 'r list) \<Rightarrow> 'r list query" where
  "select_page lim off g = stmt (\<lambda>d.
     if lim < 0 then Inl ''pq: LIMIT must not be negative''
     else if off < 0 then Inl ''pq: OFFSET must not be negative''
     else Inr (take (nat lim) (drop (nat off) (g d)), d))"

text \<open>A statement that writes JSONB columns: PostgreSQL refuses a text that is not JSON.\<close>

definition json_stmt :: "string list \<Rightarrow> 'a query \<Rightarrow> 'a query" where
  "json_stmt texts m = (if list_all (\<lambda>s. parse_json s \<noteq> None) texts then m
     else stmt (\<lambda>_. Inl ''pq: invalid input syntax for type json''))"

text \<open>Redis: a key is visible until its expiry; every command fails while the server is down.\<close>

definition redis_lookup :: "db \<Rightarrow> string \<Rightarrow> redis_value option" where
  "redis_lookup d k = (case redis d k of None \<Rightarrow> None
     | Some (v, None) \<Rightarrow> Some v | Some (v, Some t) \<Rightarrow> if now d < t then Some v else None)"

definition redis_error :: string where
  "redis_error = ''dial tcp: connection refused''"

definition redis_cmd :: "(db \<Rightarrow> 'a \<times> db) \<Rightarrow> 'a query" where
  "redis_cmd f d = (if redis_up d then (case f d of (x, d') \<Rightarrow> (Ok x, d')) else (Err redis_error, d))"

definition redis_exists :: "string \<Rightarrow> bool query" where
  "redis_exists k = redis_cmd (\<lambda>d. (redis_lookup d k \<noteq> None, d))"

text \<open>\<open>GET\<close> of a string: \<open>None\<close> is \<open>redis.Nil\<close>; a key that holds another type is an error, as for \<open>HGET\<close>.\<close>

definition wrong_type :: string where
  "wrong_type = ''WRONGTYPE Operation against a key holding the wrong kind of value''"

definition redis_get :: "string \<Rightarrow> string option query" where
  "redis_get k = bnd (redis_cmd (\<lambda>d. (redis_lookup d k, d))) (\<lambda>v. case v of
     None \<Rightarrow> ret None | Some (RString s) \<Rightarrow> ret (Some s) | Some _ \<Rightarrow> fail wrong_type)"

definition redis_hget :: "string \<Rightarrow> string \<Rightarrow> string option query" where
  "redis_hget k f = bnd (redis_cmd (\<lambda>d. (redis_lookup d k, d))) (\<lambda>v. case v of
     None \<Rightarrow> ret None | Some (RHash h) \<Rightarrow> ret (map_of h f) | Some _ \<Rightarrow> fail wrong_type)"

text \<open>A zero duration means no expiry.\<close>

definition redis_set :: "string \<Rightarrow> redis_value \<Rightarrow> int \<Rightarrow> unit query" where
  "redis_set k v ttl = redis_cmd (\<lambda>d. ((), d\<lparr>redis := (redis d)(k \<mapsto> (v, if ttl = 0 then None else Some (now d + ttl)))\<rparr>))"

definition redis_del :: "string \<Rightarrow> unit query" where
  "redis_del k = redis_cmd (\<lambda>d. ((), d\<lparr>redis := (redis d)(k := None)\<rparr>))"

text \<open>A random UUID: the next one of the supply \<open>uuids\<close>.\<close>

definition fresh_uuid :: "string query" where
  "fresh_uuid d = (Ok (uuids d 0), d\<lparr>uuids := (\<lambda>n. uuids d (Suc n))\<rparr>)"

text \<open>
  A transaction: when a statement of it, or the commit, fails, the tables are as they were before it.
  What is outside the database (the clock, Redis, the fault schedule) is not rolled back.
\<close>

definition rolled_back :: "db \<Rightarrow> db \<Rightarrow> db" where
  "rolled_back d d' = d\<lparr>now := now d', faults := faults d', redis := redis d', redis_up := redis_up d',
     uuids := uuids d', audit_chan := audit_chan d'\<rparr>"

definition transaction :: "'a query \<Rightarrow> 'a query" where
  "transaction m d = (case bnd (select (\<lambda>_. ())) (\<lambda>_. bnd m (\<lambda>x. bnd (select (\<lambda>_. ())) (\<lambda>_. ret x))) d of
       (Ok x, d') \<Rightarrow> (Ok x, d') | (r, d') \<Rightarrow> (r, rolled_back d d'))"

section \<open>Running statements\<close>

abbreviation healthy :: "db \<Rightarrow> bool" where
  "healthy d \<equiv> faults d = []"

lemma advance_healthy: "faults d = [] \<Longrightarrow> advance d = d"
  by (cases d) (simp add: advance_def)

lemma advance_tables [simp]:
  "now (advance d) = now d" "redis (advance d) = redis d" "redis_up (advance d) = redis_up d"
  "t_users (advance d) = t_users d" "t_groups (advance d) = t_groups d"
  "t_group_memberships (advance d) = t_group_memberships d"
  "t_resources (advance d) = t_resources d"
  "t_resource_permissions (advance d) = t_resource_permissions d"
  "t_resource_shares (advance d) = t_resource_shares d"
  "t_resource_access_log (advance d) = t_resource_access_log d"
  "t_policies (advance d) = t_policies d" "t_policy_versions (advance d) = t_policy_versions d"
  "t_roles (advance d) = t_roles d" "t_role_policies (advance d) = t_role_policies d"
  "t_role_assignments (advance d) = t_role_assignments d"
  "t_sessions (advance d) = t_sessions d" "t_oauth_clients (advance d) = t_oauth_clients d"
  "t_oidc_codes (advance d) = t_oidc_codes d" "t_content_items (advance d) = t_content_items d"
  "t_content_collaborators (advance d) = t_content_collaborators d"
  "uuids (advance d) = uuids d" "audit_chan (advance d) = audit_chan d"
  "t_organizations (advance d) = t_organizations d" "t_audit_events (advance d) = t_audit_events d"
  "t_service_accounts (advance d) = t_service_accounts d" "t_api_keys (advance d) = t_api_keys d"
  "t_access_reviews (advance d) = t_access_reviews d"
  by (simp_all add: advance_def)

lemma stmt_cases:
  obtains (failed) e where "stmt f d = (Err e, advance d)"
  | (ok) x d' where "stmt f d = (Ok x, d')" and "f (advance d) = Inr (x, d')"
proof (cases "faults d")
  case Nil
  then show ?thesis
    by (cases "f (advance d)") (auto simp: stmt_def intro: ok failed)
next
  case (Cons g gs)
  then show ?thesis
    by (cases g; cases "f (advance d)") (auto simp: stmt_def intro: ok failed)
qed

lemma stmt_OkE:
  assumes "stmt f d = (Ok x, d')" and "f (advance d) = Inr (x, d') \<Longrightarrow> Q"
  shows Q
  using assms by (cases rule: stmt_cases [of f d]) auto

lemma stmt_ok [prog_simps]:
  "faults d = [] \<Longrightarrow> stmt f d = (case f d of Inl e \<Rightarrow> (Err e, d) | Inr (x, d'') \<Rightarrow> (Ok x, d''))"
  by (cases "f d") (auto simp: stmt_def advance_healthy)

lemma select_ok [prog_simps]: "faults d = [] \<Longrightarrow> select g d = (Ok (g d), d)"
  by (simp add: select_def stmt_ok)

lemma exec_on_ok [prog_simps]:
  "faults d = [] \<Longrightarrow> exec_on get put f d = (Ok (fst (f d (get d))), put (snd (f d (get d))) d)"
  by (simp add: exec_on_def stmt_ok split: prod.split)

lemma insert_row_ok [prog_simps]:
  "faults d = [] \<Longrightarrow> insert_row get put c clash r d =
     (if list_ex (clash r) (get d) then (Err (duplicate_key c), d) else (Ok (), put (get d @ [r]) d))"
  by (simp add: insert_row_def stmt_ok)

text \<open>A read changes only the fault schedule.\<close>

lemma select_state: "snd (select g d) = advance d"
  by (cases rule: stmt_cases [of "\<lambda>d. Inr (g d, d)" d]) (simp_all add: select_def)

lemma select_Ok: "select g d = (Ok x, d') \<Longrightarrow> x = g (advance d) \<and> d' = advance d"
  by (cases rule: stmt_cases [of "\<lambda>d. Inr (g d, d)" d]) (auto simp: select_def)

lemma exec_on_Ok:
  "exec_on get put f d = (Ok x, d') \<Longrightarrow> x = fst (f (advance d) (get (advance d)))
     \<and> d' = put (snd (f (advance d) (get (advance d)))) (advance d)"
  by (cases rule: stmt_cases [of "\<lambda>d. case f d (get d) of (n, t) \<Rightarrow> Inr (n, put t d)" d])
    (simp_all add: exec_on_def split: prod.splits)

lemma exec_on_Err: "exec_on get put f d = (Err e, d') \<Longrightarrow> d' = advance d"
  by (cases rule: stmt_cases [of "\<lambda>d. case f d (get d) of (n, t) \<Rightarrow> Inr (n, put t d)" d])
    (simp_all add: exec_on_def split: prod.splits)

lemma exec_on_no_Panic: "exec_on get put f d \<noteq> (Panic e, d')"
  by (cases rule: stmt_cases [of "\<lambda>d. case f d (get d) of (n, t) \<Rightarrow> Inr (n, put t d)" d])
    (simp_all add: exec_on_def split: prod.splits)

lemma insert_row_Ok:
  "insert_row get put c clash r d = (Ok x, d') \<Longrightarrow>
     \<not> list_ex (clash r) (get (advance d)) \<and> d' = put (get (advance d) @ [r]) (advance d)"
  by (cases rule: stmt_cases [of "\<lambda>d. if list_ex (clash r) (get d) then Inl (duplicate_key c)
       else Inr ((), put (get d @ [r]) d)" d])
    (simp_all add: insert_row_def split: if_splits)

lemma insert_row_Err: "insert_row get put c clash r d = (Err e, d') \<Longrightarrow> d' = advance d"
  by (cases rule: stmt_cases [of "\<lambda>d. if list_ex (clash r) (get d) then Inl (duplicate_key c)
       else Inr ((), put (get d @ [r]) d)" d])
    (simp_all add: insert_row_def split: if_splits)

lemma fst_update_where_0 [simp]: "fst (update_where P f t) = 0 \<longleftrightarrow> (\<forall>r \<in> set t. \<not> P r)"
  by (auto simp: update_where_def filter_empty_conv)

lemma fst_delete_where_0 [simp]: "fst (delete_where P t) = 0 \<longleftrightarrow> (\<forall>r \<in> set t. \<not> P r)"
  by (auto simp: delete_where_def filter_empty_conv)

lemma snd_update_where: "snd (update_where P f t) = map (\<lambda>r. if P r then f r else r) t"
  by (simp add: update_where_def)

lemma snd_delete_where: "snd (delete_where P t) = filter (Not \<circ> P) t"
  by (simp add: delete_where_def)

lemma set_order_desc [simp]: "set (order_desc k xs) = set xs"
  by (simp add: order_desc_def)

lemma length_order_desc [simp]: "length (order_desc k xs) = length xs"
  by (simp add: order_desc_def)

lemma find_None: "find P t = None \<longleftrightarrow> (\<forall>x \<in> set t. \<not> P x)"
  by (induction t) simp_all

lemma find_SomeD: "find P t = Some r \<Longrightarrow> r \<in> set t \<and> P r"
  by (induction t) (simp_all split: if_splits)

lemma find_unique:
  assumes "r \<in> set t" and "P r" and "\<And>x. x \<in> set t \<Longrightarrow> P x \<Longrightarrow> x = r"
  shows "find P t = Some r"
proof (cases "find P t")
  case None
  with assms(1,2) show ?thesis by (simp add: find_None)
next
  case (Some x)
  with assms(3) find_SomeD [OF Some] show ?thesis by simp
qed

lemma insert_checked_ok [prog_simps]:
  "faults d = [] \<Longrightarrow> insert_checked get put viol r d = (case viol (get d @ [r]) of
     Some e \<Rightarrow> (Err e, d) | None \<Rightarrow> (Ok (), put (get d @ [r]) d))"
  by (simp add: insert_checked_def stmt_ok split: option.split)

lemma update_checked_ok [prog_simps]:
  "faults d = [] \<Longrightarrow> update_checked get put viol P f d =
     (case viol (map (\<lambda>r. if P r then f r else r) (get d)) of Some e \<Rightarrow> (Err e, d)
      | None \<Rightarrow> (Ok (length (filter P (get d))), put (map (\<lambda>r. if P r then f r else r) (get d)) d))"
  by (simp add: update_checked_def stmt_ok Let_def split: option.split)

lemma query_row_ok [prog_simps]:
  "faults d = [] \<Longrightarrow> query_row missing pre g d =
     (case g d of None \<Rightarrow> (Err missing, d) | Some x \<Rightarrow> (Ok x, d))"
  by (simp add: query_row_def bnd_def wrap_def select_ok split: option.split)

lemma must_affect_ok [prog_simps]:
  "m d = (Ok n, d') \<Longrightarrow> must_affect missing pre m d = (if n = 0 then Err missing else Ok (), d')"
  by (simp add: must_affect_def bnd_def wrap_def)

lemma must_affect_err [prog_simps]:
  "m d = (Err e, d') \<Longrightarrow> must_affect missing pre m d = (Err (pre @ '': '' @ e), d')"
  by (simp add: must_affect_def bnd_def wrap_def)

lemma must_affect_Ok: "must_affect missing pre m d = (Ok x, d') \<longleftrightarrow> (\<exists>n > 0. m d = (Ok n, d'))"
  by (auto simp: must_affect_def bnd_def wrap_def split: prod.splits res.splits if_splits)

lemma query_row_Ok: "query_row missing pre g d = (Ok x, d') \<Longrightarrow> g (advance d) = Some x \<and> d' = advance d"
  by (auto simp: query_row_def bnd_def wrap_def split: prod.splits res.splits option.splits
      dest!: select_Ok)

lemma query_row_state: "snd (query_row missing pre g d) = advance d"
  using select_state [of g d]
  by (auto simp: query_row_def bnd_def wrap_def split: prod.splits res.splits option.splits)

lemma select_page_ok [prog_simps]:
  "faults d = [] \<Longrightarrow> 0 \<le> lim \<Longrightarrow> 0 \<le> off \<Longrightarrow>
     select_page lim off g d = (Ok (take (nat lim) (drop (nat off) (g d))), d)"
  by (simp add: select_page_def stmt_ok)

lemma update_checked_Ok:
  "update_checked get put viol P f d = (Ok n, d') \<Longrightarrow>
     n = length (filter P (get (advance d))) \<and> viol (map (\<lambda>r. if P r then f r else r) (get (advance d))) = None
     \<and> d' = put (map (\<lambda>r. if P r then f r else r) (get (advance d))) (advance d)"
  unfolding update_checked_def by (erule stmt_OkE) (auto simp: Let_def split: option.splits)

lemma insert_checked_Ok:
  "insert_checked get put viol r d = (Ok x, d') \<Longrightarrow>
     viol (get (advance d) @ [r]) = None \<and> d' = put (get (advance d) @ [r]) (advance d)"
  unfolding insert_checked_def by (erule stmt_OkE) (auto split: option.splits)

lemma find_appended:
  assumes "distinct (map k (t @ [r]))" and "P r" and "\<And>x. P x \<Longrightarrow> k x = k r"
  shows "find P (t @ [r]) = Some r"
proof (rule find_unique)
  fix x assume "x \<in> set (t @ [r])" "P x"
  with assms(1,3) show "x = r" by (metis distinct_key_unique in_set_conv_decomp)
qed (use assms(2) in auto)

text \<open>An update that affects no row, or fails, leaves its table as it was.\<close>

lemma update_none: "\<forall>r \<in> set t. \<not> P r \<Longrightarrow> map (\<lambda>r. if P r then f r else r) t = t"
  by (rule map_idI) simp

lemma must_affect_not_Ok:
  assumes "fst (must_affect missing pre (exec_on get put (\<lambda>d. update_where P (f d))) d) \<noteq> Ok u"
    and "\<And>t d. get (put t d) = t" and "get (advance d) = get d"
  shows "get (snd (must_affect missing pre (exec_on get put (\<lambda>d. update_where P (f d))) d)) = get d"
proof (cases "exec_on get put (\<lambda>d. update_where P (f d)) d")
  case (Pair r d')
  show ?thesis
  proof (cases r)
    case (Ok n)
    with Pair have run: "exec_on get put (\<lambda>d. update_where P (f d)) d = (Ok n, d')" by simp
    with assms(1) have "n = 0" by (simp add: must_affect_ok split: if_splits)
    with exec_on_Ok [OF run] assms(3) have "\<forall>r \<in> set (get d). \<not> P r"
      by (metis fst_update_where_0)
    with exec_on_Ok [OF run] assms(2,3) have "get d' = get d" by (simp add: snd_update_where update_none)
    with run show ?thesis by (simp add: must_affect_ok)
  next
    case (Err e)
    with Pair assms(3) exec_on_Err show ?thesis by (fastforce simp: must_affect_err)
  next
    case (Panic e)
    with Pair exec_on_no_Panic show ?thesis by blast
  qed
qed

section \<open>Relations that statements keep\<close>

lemma keeps_select [keeps_intros]: "(\<And>d. R d (advance d)) \<Longrightarrow> keeps R (select g)"
  by (simp add: keeps_def select_state)

lemma keeps_stmt:
  assumes "\<And>d. R d (advance d)" and "\<And>d x d'. f (advance d) = Inr (x, d') \<Longrightarrow> R d d'"
  shows "keeps R (stmt f)"
  unfolding keeps_def
proof
  fix d
  show "R d (snd (stmt f d))" by (cases rule: stmt_cases [of f d]) (simp_all add: assms)
qed

lemma keeps_query_row [keeps_intros]: "(\<And>d. R d (advance d)) \<Longrightarrow> keeps R (query_row missing pre g)"
  by (simp add: keeps_def query_row_state)

lemma keeps_select_page [keeps_intros]: "(\<And>d. R d (advance d)) \<Longrightarrow> keeps R (select_page lim off g)"
  unfolding select_page_def by (rule keeps_stmt) (auto split: if_splits)

lemma keeps_exec_on [keeps_intros]:
  "(\<And>d. R d (advance d)) \<Longrightarrow> (\<And>d. R d (put (snd (f (advance d) (get (advance d)))) (advance d))) \<Longrightarrow>
     keeps R (exec_on get put f)"
  unfolding exec_on_def by (rule keeps_stmt) (auto split: prod.splits, metis snd_conv)

lemma keeps_insert_row [keeps_intros]:
  "(\<And>d. R d (advance d)) \<Longrightarrow> (\<And>d. R d (put (get (advance d) @ [r]) (advance d))) \<Longrightarrow>
     keeps R (insert_row get put c clash r)"
  unfolding insert_row_def by (rule keeps_stmt) (auto split: if_splits)

lemma keeps_insert_checked [keeps_intros]:
  "(\<And>d. R d (advance d)) \<Longrightarrow>
   (\<And>d. viol (get (advance d) @ [r]) = None \<Longrightarrow> R d (put (get (advance d) @ [r]) (advance d))) \<Longrightarrow>
     keeps R (insert_checked get put viol r)"
  unfolding insert_checked_def by (rule keeps_stmt) (auto split: option.splits)

lemma keeps_update_checked [keeps_intros]:
  "(\<And>d. R d (advance d)) \<Longrightarrow>
   (\<And>d. viol (map (\<lambda>r. if P r then f r else r) (get (advance d))) = None \<Longrightarrow>
      R d (put (map (\<lambda>r. if P r then f r else r) (get (advance d))) (advance d))) \<Longrightarrow>
     keeps R (update_checked get put viol P f)"
  unfolding update_checked_def by (rule keeps_stmt) (auto simp: Let_def split: option.splits)

lemma keeps_must_affect [keeps_intros]:
  "reflp R \<Longrightarrow> transp R \<Longrightarrow> keeps R m \<Longrightarrow> keeps R (must_affect missing pre m)"
  unfolding must_affect_def by (intro keeps_intros)

lemma keeps_json_stmt [keeps_intros]:
  "(\<And>d. R d (advance d)) \<Longrightarrow> keeps R m \<Longrightarrow> keeps R (json_stmt texts m)"
  unfolding json_stmt_def by (intro keeps_if) (auto intro: keeps_stmt)

text \<open>Redis commands.\<close>

lemma redis_cmd_up [prog_simps]: "redis_up d \<Longrightarrow> redis_cmd f d = (case f d of (x, d') \<Rightarrow> (Ok x, d'))"
  by (simp add: redis_cmd_def)

lemma redis_cmd_down [prog_simps]: "\<not> redis_up d \<Longrightarrow> redis_cmd f d = (Err redis_error, d)"
  by (simp add: redis_cmd_def)

lemma keeps_redis_cmd [keeps_intros]:
  "reflp R \<Longrightarrow> (\<And>d. R d (snd (f d))) \<Longrightarrow> keeps R (redis_cmd f)"
  by (auto simp: keeps_def redis_cmd_def reflp_def split: prod.split) (metis snd_conv)

text \<open>Reads of Redis change nothing.\<close>

lemma redis_read_state [simp]:
  "snd (redis_get k d) = d" "snd (redis_hget k f d) = d" "snd (redis_exists k d) = d"
  by (auto simp: redis_get_def redis_hget_def redis_exists_def redis_cmd_def bnd_def
      split: option.split redis_value.split)

lemma keeps_redis_read [keeps_intros]:
  "reflp R \<Longrightarrow> keeps R (redis_get k)" "reflp R \<Longrightarrow> keeps R (redis_hget k f)" "reflp R \<Longrightarrow> keeps R (redis_exists k)"
  by (simp_all add: keeps_def reflp_def)

lemma redis_get_run [prog_simps]:
  "redis_get k d = (if \<not> redis_up d then Err redis_error
     else case redis_lookup d k of None \<Rightarrow> Ok None | Some (RString s) \<Rightarrow> Ok (Some s) | Some _ \<Rightarrow> Err wrong_type, d)"
  by (auto simp: redis_get_def redis_cmd_def bnd_def split: option.split redis_value.split)

lemma keeps_fresh_uuid [keeps_intros]: "(\<And>d f. R d (d\<lparr>uuids := f\<rparr>)) \<Longrightarrow> keeps R fresh_uuid"
  by (simp add: keeps_def fresh_uuid_def)

section \<open>Statements do not panic\<close>

lemma calm_stmt [calm_intros]: "calm (stmt f)"
  unfolding calm_def
proof (intro allI notI)
  fix d e d' assume "stmt f d = (Panic e, d')"
  then show False by (cases rule: stmt_cases [of f d]) simp_all
qed

lemma calm_tables [calm_intros]: "calm (select g)" "calm (exec_on get put f')" "calm (insert_row get put c clash r)"
  "calm (insert_checked get put viol r)" "calm (update_checked get put viol P f)" "calm (select_page lim off g)"
  unfolding select_def exec_on_def insert_row_def insert_checked_def update_checked_def select_page_def
  by (rule calm_stmt)+

lemma calm_json_stmt [calm_intros]: "calm m \<Longrightarrow> calm (json_stmt texts m)"
  unfolding json_stmt_def by (intro calm_intros)

lemma calm_redis_cmd [calm_intros]: "calm (redis_cmd f)"
  by (auto simp: calm_def redis_cmd_def split: prod.splits)

lemma calm_redis [calm_intros]: "calm (redis_set k v ttl)" "calm (redis_del k)" "calm fresh_uuid"
  unfolding redis_set_def redis_del_def by (intro calm_intros)+ (simp add: calm_def fresh_uuid_def)

lemma redis_lookup_set [simp]:
  "redis_lookup (d\<lparr>redis := (redis d)(k \<mapsto> (v, None))\<rparr>) k = Some v"
  by (simp add: redis_lookup_def)

end
