(* ===== verification/SoftDelete.thy ===== *)
theory SoftDelete
  imports Database
begin

text \<open>
  The contract of the tables whose rows belong to an organization and are deleted softly: a lookup and
  a removal by id and organization. \<open>soft_table\<close> states what the callers rely on, \<open>soft_store\<close> the shape
  of the SQL statements that provides it; the stores interpret \<open>soft_store\<close> on their own operations.
\<close>

locale soft_table =
  fixes get :: "db \<Rightarrow> 'r list" and rid :: "'r \<Rightarrow> string" and rorg :: "'r \<Rightarrow> string"
    and live :: "'r \<Rightarrow> bool" and kill :: "instant \<Rightarrow> 'r \<Rightarrow> 'r"
    and lookup :: "string \<Rightarrow> string \<Rightarrow> 'r query" and remove :: "string \<Rightarrow> string \<Rightarrow> unit query"
    and missing :: string and gone :: string
  assumes kill_dead: "\<not> live (kill t r)" and kill_rid: "rid (kill t r) = rid r"
    and lookup_state: "get (snd (lookup i c d)) = get d"
    and lookup_found: "lookup i c d = (Ok r, d') \<Longrightarrow> r \<in> set (get d) \<and> rid r = i \<and> rorg r = c \<and> live r"
    and lookup_run: "healthy d \<Longrightarrow>
      lookup i c d = (case find (\<lambda>r. rid r = i \<and> rorg r = c \<and> live r) (get d) of
         None \<Rightarrow> (Err missing, d) | Some r \<Rightarrow> (Ok r, d))"
    and remove_done: "remove i c d = (Ok u, d') \<Longrightarrow>
      (\<exists>r \<in> set (get d). rid r = i \<and> rorg r = c \<and> live r) \<and>
      get d' = map (\<lambda>r. if rid r = i \<and> rorg r = c \<and> live r then kill (now d) r else r) (get d)"
    and remove_not_done: "fst (remove i c d) \<noteq> Ok u \<Longrightarrow> get (snd (remove i c d)) = get d"
    and remove_missing: "healthy d \<Longrightarrow> \<forall>r \<in> set (get d). \<not> (rid r = i \<and> rorg r = c \<and> live r) \<Longrightarrow>
      remove i c d = (Err gone, d)"
    and remove_present: "healthy d \<Longrightarrow> r \<in> set (get d) \<Longrightarrow> rid r = i \<Longrightarrow> rorg r = c \<Longrightarrow> live r \<Longrightarrow>
      fst (remove i c d) = Ok ()"
begin

lemma removed_row:
  assumes "remove i c d = (Ok u, d')" and "r \<in> set (get d')" and "rid r = i" and "rorg r = c"
  shows "\<not> live r"
proof -
  from remove_done [OF assms(1)] assms(2) have
    "r \<in> (\<lambda>s. if rid s = i \<and> rorg s = c \<and> live s then kill (now d) s else s) ` set (get d)" by simp
  then obtain s where "r = (if rid s = i \<and> rorg s = c \<and> live s then kill (now d) s else s)" by (rule imageE)
  with assms(3,4) show ?thesis by (cases "rid s = i \<and> rorg s = c \<and> live s") (auto simp: kill_dead)
qed

lemma removed_dead:
  assumes "remove i c d = (Ok u, d')"
  shows "\<exists>r \<in> set (get d'). rid r = i \<and> \<not> live r"
proof -
  from remove_done [OF assms] obtain r where r: "r \<in> set (get d)" "rid r = i \<and> rorg r = c \<and> live r"
    and eq: "get d' = map (\<lambda>r. if rid r = i \<and> rorg r = c \<and> live r then kill (now d) r else r) (get d)"
    by blast
  from r have "kill (now d) r \<in> set (get d')" unfolding eq by force
  with r kill_dead kill_rid show ?thesis by metis
qed

lemma removed_not_found:
  assumes "remove i c d = (Ok u, d')"
  shows "fst (lookup i c d') \<noteq> Ok r"
proof
  assume "fst (lookup i c d') = Ok r"
  then have "lookup i c d' = (Ok r, snd (lookup i c d'))" by (simp add: prod_eq_iff)
  from lookup_found [OF this] removed_row [OF assms, of r] show False by blast
qed

lemma removed_once:
  assumes "remove i c d = (Ok u, d')"
  shows "fst (remove i c d') \<noteq> Ok v"
proof
  assume "fst (remove i c d') = Ok v"
  then have "remove i c d' = (Ok v, snd (remove i c d'))" by (simp add: prod_eq_iff)
  from remove_done [OF this] removed_row [OF assms] show False by blast
qed

lemma removed_run:
  assumes "remove i c d = (Ok u, d')" and "healthy d'"
  shows "lookup i c d' = (Err missing, d')" "remove i c d' = (Err gone, d')"
proof -
  have none: "\<forall>r \<in> set (get d'). \<not> (rid r = i \<and> rorg r = c \<and> live r)"
    using removed_row [OF assms(1)] by blast
  then show "remove i c d' = (Err gone, d')" by (rule remove_missing [OF assms(2)])
  from none have "find (\<lambda>r. rid r = i \<and> rorg r = c \<and> live r) (get d') = None" by (simp add: find_None)
  then show "lookup i c d' = (Err missing, d')" by (simp add: lookup_run [OF assms(2)])
qed

lemma remove_keeps:
  assumes "r \<in> set (get d)" and "rid r \<noteq> i \<or> rorg r \<noteq> c"
  shows "r \<in> set (get (snd (remove i c d)))"
proof (cases "fst (remove i c d)")
  case (Ok u)
  then have "remove i c d = (Ok u, snd (remove i c d))" by (simp add: prod_eq_iff)
  from remove_done [OF this] assms show ?thesis by force
qed (use assms remove_not_done in auto)

lemma remove_foreign:
  assumes "\<forall>r \<in> set (get d). rid r = i \<longrightarrow> rorg r \<noteq> c"
  shows "fst (remove i c d) \<noteq> Ok u" "get (snd (remove i c d)) = get d" "fst (lookup i c d) \<noteq> Ok r"
proof -
  show no: "fst (remove i c d) \<noteq> Ok u" for u
  proof
    assume "fst (remove i c d) = Ok u"
    then have "remove i c d = (Ok u, snd (remove i c d))" by (simp add: prod_eq_iff)
    from remove_done [OF this] assms show False by blast
  qed
  then show "get (snd (remove i c d)) = get d" by (rule remove_not_done)
  show "fst (lookup i c d) \<noteq> Ok r"
  proof
    assume "fst (lookup i c d) = Ok r"
    then have "lookup i c d = (Ok r, snd (lookup i c d))" by (simp add: prod_eq_iff)
    from lookup_found [OF this] assms show False by blast
  qed
qed

lemma remove_ids: "map rid (get (snd (remove i c d))) = map rid (get d)"
proof (cases "fst (remove i c d)")
  case (Ok u)
  then have "remove i c d = (Ok u, snd (remove i c d))" by (simp add: prod_eq_iff)
  from remove_done [OF this] show ?thesis by (simp add: kill_rid)
qed (use remove_not_done in auto)

end

text \<open>
  The SQL shape: \<open>SELECT ... WHERE id AND organization_id AND deleted_at IS NULL\<close>, and an \<open>UPDATE\<close> under
  the same condition whose \<open>RowsAffected\<close> is tested.
\<close>

locale soft_store =
  fixes get :: "db \<Rightarrow> 'r list" and put :: "'r list \<Rightarrow> db \<Rightarrow> db" and rid :: "'r \<Rightarrow> string"
    and rorg :: "'r \<Rightarrow> string" and live :: "'r \<Rightarrow> bool" and kill :: "instant \<Rightarrow> 'r \<Rightarrow> 'r"
    and lookup :: "string \<Rightarrow> string \<Rightarrow> 'r query" and remove :: "string \<Rightarrow> string \<Rightarrow> unit query"
    and missing :: string and gone :: string and pre :: string and pre' :: string
  assumes get_put: "get (put t d) = t" and put_get: "t = get d \<Longrightarrow> put t d = d" and get_advance: "get (advance d) = get d"
    and dead: "\<not> live (kill at r)" and same_id: "rid (kill at r) = rid r"
    and lookup_shape: "lookup i c = query_row missing pre
      (\<lambda>d. find (\<lambda>r. rid r = i \<and> rorg r = c \<and> live r) (get d))"
    and remove_shape: "remove i c = must_affect gone pre' (exec_on get put
      (\<lambda>d. update_where (\<lambda>r. rid r = i \<and> rorg r = c \<and> live r) (kill (now d))))"
begin

lemma remove_Ok:
  assumes "remove i c d = (Ok u, d')"
  shows "(\<exists>r \<in> set (get d). rid r = i \<and> rorg r = c \<and> live r)
    \<and> get d' = map (\<lambda>r. if rid r = i \<and> rorg r = c \<and> live r then kill (now d) r else r) (get d)"
proof -
  from assms obtain n where n: "n > 0" and run: "exec_on get put
      (\<lambda>d. update_where (\<lambda>r. rid r = i \<and> rorg r = c \<and> live r) (kill (now d))) d = (Ok n, d')"
    unfolding remove_shape must_affect_Ok by blast
  note eqs = exec_on_Ok [OF run, unfolded get_advance advance_tables]
  from n eqs have "fst (update_where (\<lambda>r. rid r = i \<and> rorg r = c \<and> live r) (kill (now d)) (get d)) \<noteq> 0"
    by linarith
  then have "\<exists>r \<in> set (get d). rid r = i \<and> rorg r = c \<and> live r"
    unfolding fst_update_where_0 by blast
  moreover from eqs have "get d' = map (\<lambda>r. if rid r = i \<and> rorg r = c \<and> live r then kill (now d) r else r) (get d)"
    by (simp add: get_put snd_update_where)
  ultimately show ?thesis by blast
qed

lemma remove_not_Ok: "fst (remove i c d) \<noteq> Ok u \<Longrightarrow> get (snd (remove i c d)) = get d"
  unfolding remove_shape by (rule must_affect_not_Ok) (simp_all add: get_put get_advance)

lemma remove_healthy:
  assumes "healthy d"
  shows "remove i c d = (if \<exists>r \<in> set (get d). rid r = i \<and> rorg r = c \<and> live r then Ok () else Err gone,
      put (map (\<lambda>r. if rid r = i \<and> rorg r = c \<and> live r then kill (now d) r else r) (get d)) d)"
  using assms by (simp add: remove_shape must_affect_ok exec_on_ok snd_update_where)

lemma lookup_healthy:
  "healthy d \<Longrightarrow> lookup i c d = (case find (\<lambda>r. rid r = i \<and> rorg r = c \<and> live r) (get d) of
     None \<Rightarrow> (Err missing, d) | Some r \<Rightarrow> (Ok r, d))"
  by (simp add: lookup_shape query_row_ok)

lemma lookup_Ok: "lookup i c d = (Ok r, d') \<Longrightarrow> r \<in> set (get d) \<and> rid r = i \<and> rorg r = c \<and> live r"
  unfolding lookup_shape by (drule query_row_Ok) (auto simp: get_advance dest!: find_SomeD)

end

sublocale soft_store \<subseteq> soft_table get rid rorg live kill lookup remove missing gone
proof
  fix i c d r u d'
  show "get (snd (lookup i c d)) = get d"
    by (simp add: lookup_shape query_row_state get_advance)
  show "lookup i c d = (Ok r, d') \<Longrightarrow> r \<in> set (get d) \<and> rid r = i \<and> rorg r = c \<and> live r"
    by (rule lookup_Ok)
  show "healthy d \<Longrightarrow> \<forall>r \<in> set (get d). \<not> (rid r = i \<and> rorg r = c \<and> live r) \<Longrightarrow>
      remove i c d = (Err gone, d)"
    by (subst remove_healthy) (auto simp: put_get intro!: put_get [OF map_idI])
  show "healthy d \<Longrightarrow> r \<in> set (get d) \<Longrightarrow> rid r = i \<Longrightarrow> rorg r = c \<Longrightarrow> live r \<Longrightarrow>
      fst (remove i c d) = Ok ()"
    by (subst remove_healthy) auto
qed (fact dead same_id lookup_healthy remove_Ok remove_not_Ok)+

end
