(* ===== verification/PolicyStore.thy ===== *)
theory PolicyStore
  imports SoftDelete Json "HOL-Library.Word"
begin

text \<open>
  Policies as internal/queries/policy_queries.go stores them: creation, reading, update, soft deletion,
  versions, approval and rollback, and the policies that reach a principal through its roles. The
  document column is JSONB: the parameter \<open>jsonb\<close> is the canonical text PostgreSQL returns for the text
  that was written. A version row's fresh UUID is the argument \<open>vid\<close>.
\<close>

section \<open>Documents and version numbers\<close>

text \<open>\<open>json.Unmarshal\<close> into a \<open>map[string]interface{}\<close>: \<open>null\<close> gives the nil map.\<close>

definition decode_map :: "string \<Rightarrow> (string \<times> json) list option" where
  "decode_map s = (case parse_json s of Some (JObj kvs) \<Rightarrow> Some kvs | Some JNull \<Rightarrow> Some [] | _ \<Rightarrow> None)"

text \<open>The error texts of \<open>encoding/json\<close> and the panic texts of type assertions are not distinguished.\<close>

definition json_error :: string where
  "json_error = ''invalid character''"

definition bad_assertion :: string where
  "bad_assertion = ''interface conversion''"

definition validate_statement :: "nat \<Rightarrow> json \<Rightarrow> unit res" where
  "validate_statement i st = (case as_object st of
       None \<Rightarrow> Panic bad_assertion
     | Some statement \<Rightarrow> (case obj_get statement ''Effect'' of
           None \<Rightarrow> Err (''statement '' @ show_nat i @ '' must have Effect field'')
         | Some e \<Rightarrow> (case as_string e of
               None \<Rightarrow> Panic bad_assertion
             | Some effect \<Rightarrow>
                 if effect \<noteq> ''Allow'' \<and> effect \<noteq> ''Deny''
                 then Err (''statement '' @ show_nat i @ '' Effect must be Allow or Deny'')
                 else if obj_get statement ''Action'' = None
                 then Err (''statement '' @ show_nat i @ '' must have Action field'')
                 else if obj_get statement ''Resource'' = None
                 then Err (''statement '' @ show_nat i @ '' must have Resource field'')
                 else Ok ())))"

fun validate_statements :: "nat \<Rightarrow> json list \<Rightarrow> unit res" where
  "validate_statements i [] = Ok ()"
| "validate_statements i (s # ss) = (case validate_statement i s of
     Ok _ \<Rightarrow> validate_statements (Suc i) ss | r \<Rightarrow> r)"

definition validatePolicyDocument :: "string \<Rightarrow> unit res" where
  "validatePolicyDocument document = (case decode_map document of
       None \<Rightarrow> Err (''invalid JSON: '' @ json_error)
     | Some policy \<Rightarrow> (case obj_get policy ''Statement'' of
           None \<Rightarrow> Err ''policy must have Statement field''
         | Some j \<Rightarrow> (case as_array j of
               None \<Rightarrow> Err ''Statement must be an array''
             | Some statements \<Rightarrow> validate_statements 0 statements)))"

text \<open>\<open>strconv.Atoi\<close> on a 64-bit machine.\<close>

definition Atoi :: "string \<Rightarrow> 64 word option" where
  "Atoi s = (let (neg, ds) = (case s of
         c # t \<Rightarrow> if c = CHR ''-'' then (True, t) else if c = CHR ''+'' then (False, t) else (False, s)
       | [] \<Rightarrow> (False, s));
       n = int (nat_of_digits ds); v = (if neg then - n else n)
     in if ds \<noteq> [] \<and> list_all is_digit ds \<and> - (2 ^ 63) \<le> v \<and> v < 2 ^ 63 then Some (word_of_int v) else None)"

definition incrementVersion :: "string \<Rightarrow> string" where
  "incrementVersion currentVersion = (let parts = split_on CHR ''.'' currentVersion in
     if length parts \<noteq> 3 then ''1.0.1''
     else let major = (case Atoi (parts ! 0) of None \<Rightarrow> 1 | Some w \<Rightarrow> w);
              minor = (case Atoi (parts ! 1) of None \<Rightarrow> 0 | Some w \<Rightarrow> w);
              patch = (case Atoi (parts ! 2) of None \<Rightarrow> 0 | Some w \<Rightarrow> w)
          in show_int (sint major) @ ''.'' @ show_int (sint minor) @ ''.'' @ show_int (sint (patch + 1)))"

section \<open>The tables\<close>

definition entity_status :: "string list" where
  "entity_status = [''active'', ''suspended'', ''deleted'', ''archived'']"

definition policy_effect :: "string list" where
  "policy_effect = [''allow'', ''deny'']"

definition too_long :: string where
  "too_long = ''pq: value too long for type character varying(10)''"

text \<open>The constraints of the two tables in migrations/000001_initial_schema.up.sql.\<close>

definition policies_violation :: "Policy list \<Rightarrow> string option" where
  "policies_violation t =
     (if \<exists>p \<in> set t. pol_Status p \<notin> set entity_status then Some (bad_enum ''entity_status'')
      else if \<exists>p \<in> set t. pol_Effect p \<notin> set policy_effect then Some (bad_enum ''policy_effect'')
      else if \<exists>p \<in> set t. length (pol_Version p) > 10 then Some too_long
      else if \<not> distinct (map pol_ID t) then Some (duplicate_key ''policies_pkey'')
      else if \<not> distinct (map (\<lambda>p. (pol_OrganizationID p, pol_Name p)) t)
        then Some (duplicate_key ''unique_policy_name_per_org'')
      else None)"

definition versions_violation :: "PolicyVersion list \<Rightarrow> string option" where
  "versions_violation t =
     (if \<exists>v \<in> set t. length (pv_Version v) > 10 then Some too_long
      else if \<not> distinct (map pv_ID t) then Some (duplicate_key ''policy_versions_pkey'')
      else if \<not> distinct (map (\<lambda>v. (pv_PolicyID v, pv_Version v)) t)
        then Some (duplicate_key ''unique_policy_version'')
      else None)"

abbreviation put_policies :: "Policy list \<Rightarrow> db \<Rightarrow> db" where
  "put_policies t d \<equiv> d\<lparr>t_policies := t\<rparr>"

abbreviation put_versions :: "PolicyVersion list \<Rightarrow> db \<Rightarrow> db" where
  "put_versions t d \<equiv> d\<lparr>t_policy_versions := t\<rparr>"

definition live_policy :: "string \<Rightarrow> string \<Rightarrow> Policy \<Rightarrow> bool" where
  "live_policy i organizationID p \<longleftrightarrow>
     pol_ID p = i \<and> pol_OrganizationID p = organizationID \<and> pol_DeletedAt p = None"

section \<open>Operations\<close>

definition ListPolicies ::
  "(string \<Rightarrow> string \<Rightarrow> Policy list \<Rightarrow> Policy list) \<Rightarrow> ListParams \<Rightarrow> string \<Rightarrow> Policy ListResult query" where
  "ListPolicies sorted_by params organizationID =
     (let visible = (\<lambda>d. filter (\<lambda>p. pol_DeletedAt p = None
            \<and> (organizationID \<noteq> [] \<longrightarrow> pol_OrganizationID p = organizationID)) (t_policies d));
          arrange = (if lp_SortBy params \<noteq> [] then sorted_by (lp_SortBy params) (lp_Order params)
            else order_desc pol_CreatedAt)
      in bnd (wrap ''failed to list policies''
           (select_page (lp_Limit params) (lp_Offset params) (\<lambda>d. arrange (visible d)))) (\<lambda>items.
         bnd (wrap ''failed to count policies'' (select (\<lambda>d. int (length (visible d))))) (\<lambda>cnt.
         lift (list_result params items cnt))))"

definition version_row :: "string \<Rightarrow> Policy \<Rightarrow> string \<Rightarrow> instant \<Rightarrow> PolicyVersion" where
  "version_row vid p stored at = \<lparr>pv_ID = vid, pv_PolicyID = pol_ID p, pv_Version = pol_Version p,
     pv_Document = stored, pv_CreatedBy = pol_CreatedBy p, pv_CreatedAt = at, pv_Status = ''draft''\<rparr>"

definition create_defaults :: "instant \<Rightarrow> Policy \<Rightarrow> Policy" where
  "create_defaults t policy = policy\<lparr>pol_CreatedAt := t, pol_UpdatedAt := t,
     pol_Status := (if pol_Status policy = [] then ''active'' else pol_Status policy),
     pol_Version := (if pol_Version policy = [] then ''1.0.0'' else pol_Version policy)\<rparr>"

text \<open>The result is the struct the caller's pointer shows afterwards.\<close>

definition CreatePolicy :: "(string \<Rightarrow> string) \<Rightarrow> string \<Rightarrow> Policy \<Rightarrow> Policy query" where
  "CreatePolicy jsonb vid policy = bnd (wrap ''invalid policy document''
       (lift (validatePolicyDocument (pol_Document policy)))) (\<lambda>_. gets now (\<lambda>t.
     let p = create_defaults t policy;
         row = p\<lparr>pol_Document := jsonb (pol_Document p), pol_ApprovedBy := None, pol_ApprovedAt := None,
           pol_DeletedAt := None\<rparr>
     in bnd (wrap ''failed to create policy''
          (insert_checked t_policies put_policies policies_violation row)) (\<lambda>_.
        bnd (wrap ''failed to create policy version''
          (insert_checked t_policy_versions put_versions versions_violation
             (version_row vid p (jsonb (pol_Document p)) (pol_CreatedAt p)))) (\<lambda>_.
        ret p))))"

definition GetPolicy :: "string \<Rightarrow> string \<Rightarrow> Policy query" where
  "GetPolicy i organizationID = query_row ''policy not found'' ''failed to get policy''
     (\<lambda>d. find (live_policy i organizationID) (t_policies d))"

definition UpdatePolicy :: "(string \<Rightarrow> string) \<Rightarrow> string \<Rightarrow> Policy \<Rightarrow> string \<Rightarrow> Policy query" where
  "UpdatePolicy jsonb vid policy organizationID =
     bnd (wrap ''invalid policy document'' (lift (validatePolicyDocument (pol_Document policy)))) (\<lambda>_.
     bnd (GetPolicy (pol_ID policy) organizationID) (\<lambda>currentPolicy.
     let p1 = policy\<lparr>pol_Status := (if pol_Status policy = [] then pol_Status currentPolicy
                 else pol_Status policy)\<rparr>;
         changed = (pol_Document currentPolicy \<noteq> pol_Document p1);
         p2 = (if changed then p1\<lparr>pol_Version := incrementVersion (pol_Version currentPolicy)\<rparr> else p1)
     in bnd (if changed then gets now (\<lambda>t. wrap ''failed to create policy version''
             (insert_checked t_policy_versions put_versions versions_violation
               (version_row vid p2 (jsonb (pol_Document p2)) t))) else ret ()) (\<lambda>_. gets now (\<lambda>t.
        let p3 = p2\<lparr>pol_UpdatedAt := t\<rparr>
        in bnd (must_affect ''policy not found or already deleted'' ''failed to update policy''
             (update_checked t_policies put_policies policies_violation
                (live_policy (pol_ID p3) organizationID)
                (\<lambda>r. r\<lparr>pol_Name := pol_Name p3, pol_Description := pol_Description p3,
                   pol_Version := pol_Version p3, pol_Document := jsonb (pol_Document p3),
                   pol_PolicyType := pol_PolicyType p3, pol_Effect := pol_Effect p3,
                   pol_Status := pol_Status p3, pol_UpdatedAt := pol_UpdatedAt p3\<rparr>)))
             (\<lambda>_. ret p3)))))"

definition DeletePolicy :: "string \<Rightarrow> string \<Rightarrow> unit query" where
  "DeletePolicy i organizationID =
     must_affect ''policy not found or already deleted'' ''failed to delete policy''
       (exec_on t_policies put_policies (\<lambda>d. update_where (live_policy i organizationID)
          (\<lambda>r. r\<lparr>pol_DeletedAt := Some (now d), pol_Status := ''deleted''\<rparr>)))"

text \<open>
  The join of the version rows with their policy, scoped by organization. A NULL \<open>created_by\<close> cannot be
  scanned into the string field of the result.
\<close>

definition versions_of :: "string \<Rightarrow> string \<Rightarrow> db \<Rightarrow> PolicyVersion list" where
  "versions_of policyID organizationID d = filter (\<lambda>v. pv_PolicyID v = policyID
     \<and> (\<exists>p \<in> set (t_policies d). pol_ID p = pv_PolicyID v \<and> pol_OrganizationID p = organizationID))
     (t_policy_versions d)"

definition GetPolicyVersions :: "string \<Rightarrow> string \<Rightarrow> PolicyVersion list query" where
  "GetPolicyVersions policyID organizationID = bnd (wrap ''failed to get policy versions''
       (select (\<lambda>d. order_desc pv_CreatedAt (versions_of policyID organizationID d)))) (\<lambda>vs.
     if \<exists>v \<in> set vs. pv_CreatedBy v = None
     then fail ''failed to scan policy version: converting NULL to string is unsupported''
     else ret vs)"

definition ApprovePolicy :: "string \<Rightarrow> string \<Rightarrow> string \<Rightarrow> unit query" where
  "ApprovePolicy policyID organizationID approvedBy =
     bnd (must_affect ''policy not found or already deleted'' ''failed to approve policy''
       (exec_on t_policies put_policies (\<lambda>d. update_where (live_policy policyID organizationID)
          (\<lambda>r. r\<lparr>pol_Status := ''active'', pol_ApprovedBy := Some approvedBy,
             pol_ApprovedAt := Some (now d), pol_UpdatedAt := now d\<rparr>)))) (\<lambda>_.
     bnd (wrap ''failed to update policy version status''
       (exec_on t_policy_versions put_versions (\<lambda>d. update_where
          (\<lambda>v. pv_PolicyID v = policyID \<and>
             Some (pv_Version v) = map_option pol_Version (find (\<lambda>p. pol_ID p = policyID) (t_policies d)))
          (\<lambda>v. v\<lparr>pv_Status := ''active''\<rparr>)))) (\<lambda>_. ret ()))"

definition RollbackPolicy :: "string \<Rightarrow> string \<Rightarrow> string \<Rightarrow> unit query" where
  "RollbackPolicy policyID organizationID toVersion =
     bnd (query_row ''policy version not found'' ''failed to get policy version''
       (\<lambda>d. map_option pv_Document
          (find (\<lambda>v. pv_Version v = toVersion) (versions_of policyID organizationID d)))) (\<lambda>document.
     must_affect ''policy not found'' ''failed to rollback policy''
       (exec_on t_policies put_policies (\<lambda>d. update_where (live_policy policyID organizationID)
          (\<lambda>r. r\<lparr>pol_Document := document, pol_Version := toVersion, pol_Status := ''active'',
             pol_UpdatedAt := now d\<rparr>))))"

section \<open>The policies of a principal\<close>

definition unexpired :: "instant \<Rightarrow> instant option \<Rightarrow> bool" where
  "unexpired t e = (case e of None \<Rightarrow> True | Some x \<Rightarrow> x > t)"

definition direct_roles :: "string \<Rightarrow> string \<Rightarrow> db \<Rightarrow> string list" where
  "direct_roles principalID principalType d = map ra_RoleID (filter (\<lambda>ra. ra_PrincipalID ra = principalID
     \<and> ra_PrincipalType ra = principalType \<and> unexpired (now d) (ra_ExpiresAt ra)) (t_role_assignments d))"

definition group_roles :: "string \<Rightarrow> string \<Rightarrow> db \<Rightarrow> string list" where
  "group_roles principalID principalType d = [ra_RoleID ra. ra \<leftarrow> t_role_assignments d,
     gm \<leftarrow> t_group_memberships d, ra_PrincipalID ra = gm_GroupID gm \<and> gm_PrincipalID gm = principalID
     \<and> gm_PrincipalType gm = principalType \<and> ra_PrincipalType ra = ''group''
     \<and> unexpired (now d) (ra_ExpiresAt ra) \<and> unexpired (now d) (gm_ExpiresAt gm)]"

definition principal_roles :: "string \<Rightarrow> string \<Rightarrow> db \<Rightarrow> string list" where
  "principal_roles principalID principalType d =
     remdups (direct_roles principalID principalType d @ group_roles principalID principalType d)"

text \<open>
  The selected columns replace NULL by an empty string or the zero time. \<open>DISTINCT\<close> leaves the order of
  the rows open; the model returns them in storage order.
\<close>

definition coalesced :: "Policy \<Rightarrow> Policy" where
  "coalesced p = p\<lparr>pol_CreatedBy := Some (case pol_CreatedBy p of None \<Rightarrow> [] | Some x \<Rightarrow> x),
     pol_ApprovedBy := Some (case pol_ApprovedBy p of None \<Rightarrow> [] | Some x \<Rightarrow> x),
     pol_ApprovedAt := Some (case pol_ApprovedAt p of None \<Rightarrow> 0 | Some x \<Rightarrow> x),
     pol_DeletedAt := Some (case pol_DeletedAt p of None \<Rightarrow> 0 | Some x \<Rightarrow> x)\<rparr>"

definition principal_policies :: "string \<Rightarrow> string \<Rightarrow> string \<Rightarrow> db \<Rightarrow> Policy list" where
  "principal_policies principalID principalType organizationID d = remdups (map coalesced
     (filter (\<lambda>p. pol_Status p = ''active'' \<and> pol_OrganizationID p = organizationID
        \<and> list_ex (\<lambda>rp. rlp_PolicyID rp = pol_ID p
              \<and> rlp_RoleID rp \<in> set (principal_roles principalID principalType d)) (t_role_policies d))
       (t_policies d)))"

definition GetPrincipalPolicies :: "string \<Rightarrow> string \<Rightarrow> string \<Rightarrow> Policy list query" where
  "GetPrincipalPolicies principalID principalType organizationID =
     wrap ''failed to get principal policies''
       (select (principal_policies principalID principalType organizationID))"

section \<open>Lemmas\<close>

lemma live_policy_eq:
  "live_policy i c = (\<lambda>p. pol_ID p = i \<and> pol_OrganizationID p = c \<and> pol_DeletedAt p = None)"
  by (auto simp: fun_eq_iff live_policy_def)

interpretation pol: soft_store t_policies put_policies pol_ID pol_OrganizationID
  "\<lambda>p. pol_DeletedAt p = None" "\<lambda>t r. r\<lparr>pol_DeletedAt := Some t, pol_Status := ''deleted''\<rparr>"
  GetPolicy DeletePolicy "''policy not found''" "''policy not found or already deleted''"
  "''failed to get policy''" "''failed to delete policy''"
  by unfold_locales (simp_all add: GetPolicy_def DeletePolicy_def live_policy_eq)

lemma no_dot_show_nat: "CHR ''.'' \<notin> set (show_nat n)"
proof
  assume "CHR ''.'' \<in> set (show_nat n)"
  with show_nat_digits [of n] have "is_digit CHR ''.''" by (simp add: list_all_iff)
  then show False by (simp add: is_digit_def less_eq_char_def)
qed

lemma Atoi_show_nat:
  assumes "n < 2 ^ 63"
  shows "Atoi (show_nat n) = Some (word_of_int (int n))"
proof (cases "show_nat n")
  case (Cons c t)
  with show_nat_digits [of n] have "is_digit c" by simp
  then have "c \<noteq> CHR ''-''" "c \<noteq> CHR ''+''" by (auto simp: is_digit_def less_eq_char_def)
  with Cons assms show_nat_digits [of n] nat_of_digits_show_nat [of n] show ?thesis
    by (simp add: Atoi_def)
qed simp

lemma sint_small: "0 \<le> x \<Longrightarrow> x < 2 ^ 63 \<Longrightarrow> sint (word_of_int x :: 64 word) = x"
  by (simp add: sint_sbintrunc' signed_take_bit_int_eq_self)

lemma split_version:
  "split_on CHR ''.'' (show_nat a @ ''.'' @ show_nat b @ ''.'' @ show_nat c) = [show_nat a, show_nat b, show_nat c]"
  by (simp add: split_on_join split_on_no_sep no_dot_show_nat)

text \<open>On a version \<open>a.b.c\<close> below the 64-bit bound, \<open>incrementVersion\<close> yields the version whose last
  component is one larger.\<close>

lemma incrementVersion_next:
  assumes "a < 2 ^ 63" and "b < 2 ^ 63" and "c < 2 ^ 63 - 1"
  shows "incrementVersion (show_nat a @ ''.'' @ show_nat b @ ''.'' @ show_nat c)
     = show_nat a @ ''.'' @ show_nat b @ ''.'' @ show_nat (c + 1)"
proof -
  have next_word: "word_of_int (int c) + 1 = (word_of_int (int (c + 1)) :: 64 word)" by simp
  have small: "sint (word_of_int (int n) :: 64 word) = int n" if "n < 2 ^ 63" for n
    using that by (intro sint_small) simp_all
  from assms(3) have "c < 2 ^ 63" "c + 1 < 2 ^ 63" by simp_all
  note vals = Atoi_show_nat [OF assms(1)] Atoi_show_nat [OF assms(2)] Atoi_show_nat [OF this(1)]
    small [OF assms(1)] small [OF assms(2)] small [OF this(2)]
  have three: "length [x, y, z] = 3" "[x, y, z] ! 0 = x" "[x, y, z] ! 1 = y" "[x, y, z] ! 2 = z"
    for x y z :: string by simp_all
  show ?thesis
    unfolding incrementVersion_def split_version Let_def
    by (simp only: vals next_word three option.case) (simp add: show_int_def nat_add_distrib)
qed

section \<open>Histories\<close>

text \<open>What can happen to the two tables: an operation, or the passage of time on a faulty network.\<close>

inductive policy_step :: "(string \<Rightarrow> string) \<Rightarrow> db \<Rightarrow> db \<Rightarrow> bool" for jsonb where
  create: "CreatePolicy jsonb vid p d = (r, d') \<Longrightarrow> policy_step jsonb d d'"
| update: "UpdatePolicy jsonb vid p c d = (r, d') \<Longrightarrow> policy_step jsonb d d'"
| delete: "DeletePolicy i c d = (u, d') \<Longrightarrow> policy_step jsonb d d'"
| approve: "ApprovePolicy i c by d = (u, d') \<Longrightarrow> policy_step jsonb d d'"
| rollback: "RollbackPolicy i c v d = (u, d') \<Longrightarrow> policy_step jsonb d d'"
| pass: "now d \<le> t \<Longrightarrow> policy_step jsonb d (d\<lparr>now := t, faults := fs\<rparr>)"

text \<open>What a version row records; only its status may change later.\<close>

definition version_log :: "db \<Rightarrow> (string \<times> string \<times> string \<times> string) list" where
  "version_log d = map (\<lambda>v. (pv_ID v, pv_PolicyID v, pv_Version v, pv_Document v)) (t_policy_versions d)"

definition log_grows :: "db \<Rightarrow> db \<Rightarrow> bool" where
  "log_grows d d' \<longleftrightarrow> prefix (version_log d) (version_log d')"

lemma log_grows_order [keeps_intros]: "reflp log_grows" "transp log_grows"
  by (auto simp: reflp_def transp_def log_grows_def)

lemma log_advance [simp]: "version_log (advance d) = version_log d"
  by (simp add: version_log_def)

lemma log_put_policies [simp]: "version_log (put_policies t d) = version_log d"
  by (simp add: version_log_def)

lemma log_grows_advance [keeps_intros]: "log_grows d (advance d)" "log_grows d (put_policies t (advance d))"
  by (simp_all add: log_grows_def)

lemma log_grows_insert [keeps_intros]:
  "log_grows d (put_versions (t_policy_versions (advance d) @ [v]) (advance d))"
  by (simp add: log_grows_def version_log_def)

lemma log_status:
  "version_log (put_versions (map (\<lambda>v. if P v then v\<lparr>pv_Status := s\<rparr> else v) (t_policy_versions d)) d)
     = version_log d"
  by (simp add: version_log_def)

lemma keeps_log_create: "keeps log_grows (CreatePolicy jsonb vid p)"
  unfolding CreatePolicy_def Let_def by (intro keeps_intros)

lemma keeps_log_update: "keeps log_grows (UpdatePolicy jsonb vid p c)"
  unfolding UpdatePolicy_def GetPolicy_def Let_def by (intro keeps_intros)

lemma keeps_log_delete: "keeps log_grows (DeletePolicy i c)"
  unfolding DeletePolicy_def by (intro keeps_intros)

lemma keeps_log_approve: "keeps log_grows (ApprovePolicy i c by)"
  unfolding ApprovePolicy_def
  by (intro keeps_intros) (simp only: snd_update_where log_grows_def log_status log_advance prefix_order.refl)

lemma keeps_log_rollback: "keeps log_grows (RollbackPolicy i c v)"
  unfolding RollbackPolicy_def by (intro keeps_intros)

lemmas keeps_log = keeps_log_create keeps_log_update keeps_log_delete keeps_log_approve keeps_log_rollback

lemma policy_step_log: "policy_step jsonb d d' \<Longrightarrow> log_grows d d'"
  by (induction rule: policy_step.induct)
     (auto dest: keeps_log [THEN keepsD] simp: log_grows_def version_log_def)

section \<open>The table invariant\<close>

definition policies_inv :: "db \<Rightarrow> bool" where
  "policies_inv d \<longleftrightarrow> policies_violation (t_policies d) = None
     \<and> versions_violation (t_policy_versions d) = None
     \<and> (\<forall>p \<in> set (t_policies d). pol_DeletedAt p \<noteq> None \<longrightarrow> pol_Status p = ''deleted'')"

definition inv_kept :: "db \<Rightarrow> db \<Rightarrow> bool" where
  "inv_kept d d' \<longleftrightarrow> (policies_inv d \<longrightarrow> policies_inv d')"

lemma inv_kept_order [keeps_intros]: "reflp inv_kept" "transp inv_kept"
  by (auto simp: reflp_def transp_def inv_kept_def)

lemma inv_advance [simp]: "policies_inv (advance d) = policies_inv d"
  by (simp add: policies_inv_def)

lemma inv_kept_advance [keeps_intros]: "inv_kept d (advance d)"
  by (simp add: inv_kept_def)

lemma inv_kept_via_advance: "inv_kept (advance d) d' \<Longrightarrow> inv_kept d d'"
  by (simp add: inv_kept_def)

text \<open>A change of rows that keeps their keys and meets the other constraints keeps the invariant.\<close>

lemma violation_map:
  assumes "policies_violation t = None"
    and "\<And>p. pol_ID (f p) = pol_ID p \<and> pol_OrganizationID (f p) = pol_OrganizationID p
      \<and> pol_Name (f p) = pol_Name p \<and> pol_Effect (f p) = pol_Effect p"
    and "\<And>p. p \<in> set t \<Longrightarrow> pol_Status (f p) \<in> set entity_status \<and> length (pol_Version (f p)) \<le> 10"
  shows "policies_violation (map f t) = None"
proof -
  have "map pol_ID (map f t) = map pol_ID t"
    "map (\<lambda>p. (pol_OrganizationID p, pol_Name p)) (map f t) = map (\<lambda>p. (pol_OrganizationID p, pol_Name p)) t"
    using assms(2) by simp_all
  with assms(1,2) assms(3) [unfolded linorder_not_less [symmetric]] show ?thesis
    by (auto simp: policies_violation_def split: if_splits simp del: map_map)
qed

lemma inv_row_change:
  assumes "policies_inv d"
    and "\<And>p. pol_ID (f p) = pol_ID p \<and> pol_OrganizationID (f p) = pol_OrganizationID p
      \<and> pol_Name (f p) = pol_Name p \<and> pol_Effect (f p) = pol_Effect p"
    and "\<And>p. p \<in> set (t_policies d) \<Longrightarrow> pol_Status (f p) \<in> set entity_status
      \<and> length (pol_Version (f p)) \<le> 10 \<and> (pol_DeletedAt (f p) \<noteq> None \<longrightarrow> pol_Status (f p) = ''deleted'')"
  shows "policies_inv (put_policies (map f (t_policies d)) d)"
  using assms violation_map [of "t_policies d" f] by (simp add: policies_inv_def)

lemma inv_row:
  "policies_inv d \<Longrightarrow> p \<in> set (t_policies d) \<Longrightarrow>
     pol_Status p \<in> set entity_status \<and> length (pol_Version p) \<le> 10
     \<and> (pol_DeletedAt p \<noteq> None \<longrightarrow> pol_Status p = ''deleted'')"
  by (auto simp: policies_inv_def policies_violation_def split: if_splits)

lemma inv_where:
  assumes "\<And>p. pol_ID (f p) = pol_ID p \<and> pol_OrganizationID (f p) = pol_OrganizationID p
      \<and> pol_Name (f p) = pol_Name p \<and> pol_Effect (f p) = pol_Effect p"
    and "\<And>p. P p \<Longrightarrow> length (pol_Version p) \<le> 10 \<Longrightarrow> pol_Status (f p) \<in> set entity_status
      \<and> length (pol_Version (f p)) \<le> 10 \<and> (pol_DeletedAt (f p) \<noteq> None \<longrightarrow> pol_Status (f p) = ''deleted'')"
  shows "inv_kept d (put_policies (map (\<lambda>r. if P r then f r else r) (t_policies (advance d))) (advance d))"
proof (rule inv_kept_via_advance, unfold inv_kept_def, rule impI)
  assume inv: "policies_inv (advance d)"
  show "policies_inv (put_policies (map (\<lambda>r. if P r then f r else r) (t_policies (advance d))) (advance d))"
  proof (rule inv_row_change [OF inv], goal_cases)
    case (1 p)
    from assms(1) [of p] show ?case by simp
  next
    case (2 p)
    from inv_row [OF inv 2] assms(2) [of p] show ?case by (cases "P p") simp_all
  qed
qed

lemma inv_delete: "keeps inv_kept (DeletePolicy i c)"
  unfolding DeletePolicy_def
  by (intro keeps_intros, unfold snd_update_where, rule inv_where) (simp_all add: entity_status_def)

lemma version_row_change:
  assumes "\<And>v. pv_ID (f v) = pv_ID v \<and> pv_PolicyID (f v) = pv_PolicyID v \<and> pv_Version (f v) = pv_Version v"
  shows "versions_violation (map f t) = versions_violation t"
proof -
  have "map pv_ID (map f t) = map pv_ID t"
    "map (\<lambda>v. (pv_PolicyID v, pv_Version v)) (map f t) = map (\<lambda>v. (pv_PolicyID v, pv_Version v)) t"
    using assms by simp_all
  moreover have "(\<exists>v \<in> set (map f t). length (pv_Version v) > 10) \<longleftrightarrow> (\<exists>v \<in> set t. length (pv_Version v) > 10)"
    using assms by simp
  ultimately show ?thesis unfolding versions_violation_def by presburger
qed

lemma inv_versions_status:
  "inv_kept d (put_versions (map (\<lambda>v. if P v then v\<lparr>pv_Status := s\<rparr> else v) (t_policy_versions (advance d))) (advance d))"
proof -
  have "versions_violation (map (\<lambda>v. if P v then v\<lparr>pv_Status := s\<rparr> else v) t) = versions_violation t" for t
    by (rule version_row_change) simp
  then show ?thesis by (simp add: inv_kept_def policies_inv_def)
qed

lemma inv_approve: "keeps inv_kept (ApprovePolicy i c by)"
  unfolding ApprovePolicy_def
  by (intro keeps_intros, unfold snd_update_where, rule inv_where, simp, simp add: entity_status_def live_policy_def,
      rule inv_versions_status)

lemma inv_insert_version:
  "versions_violation (t_policy_versions (advance d) @ [v]) = None \<Longrightarrow>
     inv_kept d (put_versions (t_policy_versions (advance d) @ [v]) (advance d))"
  by (simp add: inv_kept_def policies_inv_def)

lemma inv_insert_policy:
  "policies_violation (t_policies (advance d) @ [p]) = None \<Longrightarrow> pol_DeletedAt p = None \<Longrightarrow>
     inv_kept d (put_policies (t_policies (advance d) @ [p]) (advance d))"
  by (simp add: inv_kept_def policies_inv_def)

lemma inv_update_policies:
  assumes "policies_violation (map (\<lambda>r. if live_policy i c r then f r else r) (t_policies (advance d))) = None"
    and "\<And>r. pol_DeletedAt (f r) = pol_DeletedAt r"
  shows "inv_kept d (put_policies (map (\<lambda>r. if live_policy i c r then f r else r) (t_policies (advance d))) (advance d))"
  using assms by (auto simp: inv_kept_def policies_inv_def live_policy_def)

lemma inv_create: "keeps inv_kept (CreatePolicy jsonb vid p)"
  unfolding CreatePolicy_def Let_def
  by (intro keeps_intros inv_insert_version inv_insert_policy; simp)

lemma inv_update: "keeps inv_kept (UpdatePolicy jsonb vid p c)"
  unfolding UpdatePolicy_def GetPolicy_def Let_def
  by (intro keeps_intros inv_insert_version inv_update_policies; simp)

lemma inv_rollback: "keeps inv_kept (RollbackPolicy i c v)"
proof -
  have "policies_inv (snd (RollbackPolicy i c v d))" if inv: "policies_inv d" for d
  proof -
    let ?find = "\<lambda>d. map_option pv_Document (find (\<lambda>x. pv_Version x = v) (versions_of i c d))"
    let ?set = "\<lambda>document. must_affect ''policy not found'' ''failed to rollback policy''
       (exec_on t_policies put_policies (\<lambda>d. update_where (live_policy i c)
          (\<lambda>r. r\<lparr>pol_Document := document, pol_Version := v, pol_Status := ''active'', pol_UpdatedAt := now d\<rparr>)))"
    have keep: "keeps inv_kept (?set document)" if "length v \<le> 10" for document
      by (intro keeps_intros, unfold snd_update_where, rule inv_where)
        (simp_all add: entity_status_def live_policy_def that)
    obtain r d1 where q: "query_row ''policy version not found'' ''failed to get policy version'' ?find d = (r, d1)"
      by fastforce
    have d1: "policies_inv d1"
      using query_row_state [of "''policy version not found''" "''failed to get policy version''" ?find d] q inv
      by simp
    show ?thesis
    proof (cases r)
      case (Ok document)
      with q query_row_Ok have "?find (advance d) = Some document" by metis
      then obtain x where "x \<in> set (t_policy_versions d)" "pv_Version x = v"
        by (auto simp: versions_of_def dest!: find_SomeD)
      with inv have "length v \<le> 10" by (auto simp: policies_inv_def versions_violation_def split: if_splits)
      with keep d1 have "policies_inv (snd (?set document d1))" by (simp add: keeps_def inv_kept_def)
      with q Ok show ?thesis by (simp add: RollbackPolicy_def bnd_Ok)
    qed (use q d1 in \<open>simp_all add: RollbackPolicy_def bnd_Err bnd_Panic\<close>)
  qed
  then show ?thesis by (simp add: keeps_def inv_kept_def)
qed

lemmas inv_ops = inv_create inv_update inv_delete inv_approve inv_rollback

lemma policy_step_inv: "policy_step jsonb d d' \<Longrightarrow> inv_kept d d'"
  by (induction rule: policy_step.induct)
     (auto dest: inv_ops [THEN keepsD] simp: inv_kept_def policies_inv_def)

lemma policy_steps_inv: "(policy_step jsonb)\<^sup>*\<^sup>* d d' \<Longrightarrow> inv_kept d d'"
  by (erule related_by_steps) (rule inv_kept_order policy_step_inv, assumption?)+

lemma policy_steps_log: "(policy_step jsonb)\<^sup>*\<^sup>* d d' \<Longrightarrow> log_grows d d'"
  by (erule related_by_steps) (rule log_grows_order policy_step_log, assumption?)+

lemma inv_distinct: "policies_inv d \<Longrightarrow> distinct (map pol_ID (t_policies d))"
  by (simp add: policies_inv_def policies_violation_def split: if_splits)

section \<open>Which policies reach a principal\<close>

text \<open>
  The relation the SQL query implements: a role is held directly or through a group, by assignments
  and memberships that have not expired.
\<close>

inductive holds_role :: "db \<Rightarrow> string \<Rightarrow> string \<Rightarrow> string \<Rightarrow> bool" for d where
  direct: "ra \<in> set (t_role_assignments d) \<Longrightarrow> unexpired (now d) (ra_ExpiresAt ra) \<Longrightarrow>
    holds_role d (ra_PrincipalID ra) (ra_PrincipalType ra) (ra_RoleID ra)"
| through_group: "gm \<in> set (t_group_memberships d) \<Longrightarrow> unexpired (now d) (gm_ExpiresAt gm) \<Longrightarrow>
    ra \<in> set (t_role_assignments d) \<Longrightarrow> unexpired (now d) (ra_ExpiresAt ra) \<Longrightarrow>
    ra_PrincipalType ra = ''group'' \<Longrightarrow> ra_PrincipalID ra = gm_GroupID gm \<Longrightarrow>
    holds_role d (gm_PrincipalID gm) (gm_PrincipalType gm) (ra_RoleID ra)"

inductive_simps holds_role_iff: "holds_role d pid pty r"

lemma principal_roles_iff: "r \<in> set (principal_roles pid pty d) \<longleftrightarrow> holds_role d pid pty r"
  unfolding holds_role_iff principal_roles_def direct_roles_def group_roles_def
  by (auto split: if_splits; blast)

lemma coalesced_id [simp]: "pol_ID (coalesced q) = pol_ID q"
  by (simp add: coalesced_def)

lemma principal_policies_iff:
  "p \<in> set (principal_policies pid pty c d) \<longleftrightarrow> (\<exists>q \<in> set (t_policies d). p = coalesced q
     \<and> pol_Status q = ''active'' \<and> pol_OrganizationID q = c
     \<and> (\<exists>rp \<in> set (t_role_policies d). rlp_PolicyID rp = pol_ID q \<and> holds_role d pid pty (rlp_RoleID rp)))"
  by (auto simp: principal_policies_def principal_roles_iff list_ex_iff)

section \<open>Soft-deleted rows\<close>

definition dead_kept :: "db \<Rightarrow> db \<Rightarrow> bool" where
  "dead_kept d d' \<longleftrightarrow> {p \<in> set (t_policies d). pol_DeletedAt p \<noteq> None} \<subseteq> set (t_policies d')"

lemma dead_kept_order [keeps_intros]: "reflp dead_kept" "transp dead_kept"
  by (auto simp: reflp_def transp_def dead_kept_def)

lemma dead_kept_advance [keeps_intros]:
  "dead_kept d (advance d)" "dead_kept d (put_versions t (advance d))"
  "dead_kept d (put_policies (t_policies (advance d) @ [p]) (advance d))"
  by (auto simp: dead_kept_def)

lemma dead_kept_where:
  "dead_kept d (put_policies (map (\<lambda>r. if live_policy i c r then f r else r) (t_policies (advance d))) (advance d))"
  by (force simp: dead_kept_def live_policy_def)

lemma dead_ops:
  "keeps dead_kept (CreatePolicy jsonb vid p)" "keeps dead_kept (UpdatePolicy jsonb vid p c)"
  "keeps dead_kept (DeletePolicy i c)" "keeps dead_kept (ApprovePolicy i c by)"
  "keeps dead_kept (RollbackPolicy i c v)"
  unfolding CreatePolicy_def UpdatePolicy_def GetPolicy_def DeletePolicy_def ApprovePolicy_def
    RollbackPolicy_def Let_def snd_update_where
  by (intro keeps_intros dead_kept_where; (unfold snd_update_where, rule dead_kept_where)?)+

lemma policy_steps_dead:
  assumes "(policy_step jsonb)\<^sup>*\<^sup>* d d'"
  shows "dead_kept d d'"
  using assms
proof (rule related_by_steps [OF _ dead_kept_order])
  show "policy_step jsonb u v \<Longrightarrow> dead_kept u v" for u v
    by (induction rule: policy_step.induct)
       (erule dead_ops [THEN keepsD], erule dead_ops [THEN keepsD], erule dead_ops [THEN keepsD],
        erule dead_ops [THEN keepsD], erule dead_ops [THEN keepsD], simp add: dead_kept_def)
qed

section \<open>Sample data for the witnesses\<close>

definition allow_read :: string where
  "allow_read = ''{\"Statement\":[{\"Effect\":\"Allow\",\"Action\":\"read\",\"Resource\":\"*\"}]}''"

definition allow_write :: string where
  "allow_write = ''{\"Statement\":[{\"Effect\":\"Allow\",\"Action\":\"write\",\"Resource\":\"*\"}]}''"

definition sample_policy :: "string \<Rightarrow> Policy" where
  "sample_policy doc = \<lparr>pol_ID = ''p1'', pol_Name = ''reader'', pol_Description = [], pol_Version = ''1.0.0'',
     pol_OrganizationID = ''o1'', pol_Document = doc, pol_PolicyType = ''access'', pol_Effect = ''allow'',
     pol_IsSystemPolicy = False, pol_CreatedBy = Some ''u0'', pol_ApprovedBy = None, pol_ApprovedAt = None,
     pol_Status = ''active'', pol_CreatedAt = 0, pol_UpdatedAt = 0, pol_DeletedAt = None\<rparr>"

definition sample_version :: "string \<Rightarrow> string \<Rightarrow> string \<Rightarrow> PolicyVersion" where
  "sample_version vid ver doc = \<lparr>pv_ID = vid, pv_PolicyID = ''p1'', pv_Version = ver, pv_Document = doc,
     pv_CreatedBy = Some ''u0'', pv_CreatedAt = 0, pv_Status = ''draft''\<rparr>"

text \<open>A user who reaches a policy through a group, and a policy with two recorded versions.\<close>

definition sample_db :: db where
  "sample_db = (empty_db 100)\<lparr>t_policies := [sample_policy allow_read],
     t_policy_versions := [sample_version ''v1'' ''1.0.0'' allow_read, sample_version ''v2'' ''1.0.1'' allow_write],
     t_role_policies := [\<lparr>rlp_ID = ''r1p1'', rlp_RoleID = ''r1'', rlp_PolicyID = ''p1'', rlp_AttachedAt = 0, rlp_AttachedBy = None\<rparr>],
     t_role_assignments := [\<lparr>ra_ID = ''a1'', ra_RoleID = ''r1'', ra_PrincipalID = ''g1'', ra_PrincipalType = ''group'', ra_AssignedBy = None,
       ra_AssignedAt = 0, ra_ExpiresAt = None, ra_Conditions = ''{}''\<rparr>],
     t_group_memberships := [\<lparr>gm_ID = ''m1'', gm_GroupID = ''g1'', gm_PrincipalID = ''u1'',
       gm_PrincipalType = ''user'', gm_RoleInGroup = ''member'', gm_JoinedAt = 0, gm_ExpiresAt = Some 200,
       gm_AddedBy = ''u0''\<rparr>]\<rparr>"

section \<open>Properties of the policy store\<close>

text \<open>C10. A policy applies to a principal exactly when it is active, belongs to the organization, and is
  attached to a role that the principal holds, directly or through a group, at the current time.\<close>

theorem GetPrincipalPolicies_exact:
  assumes "GetPrincipalPolicies pid pty c d = (Ok ps, d')"
  shows "p \<in> set ps \<longleftrightarrow> (\<exists>q \<in> set (t_policies d). p = coalesced q \<and> pol_Status q = ''active''
     \<and> pol_OrganizationID q = c \<and> (\<exists>rp \<in> set (t_role_policies d). rlp_PolicyID rp = pol_ID q
     \<and> holds_role d pid pty (rlp_RoleID rp)))"
proof -
  from assms have "select (principal_policies pid pty c) d = (Ok ps, d')"
    by (simp add: GetPrincipalPolicies_def)
  then have "ps = principal_policies pid pty c (advance d)" by (simp add: select_Ok)
  moreover have "principal_policies pid pty c (advance d) = principal_policies pid pty c d"
    by (simp add: principal_policies_def principal_roles_def direct_roles_def group_roles_def)
  ultimately show ?thesis by (simp add: principal_policies_iff)
qed

theorem GetPrincipalPolicies_exact_witness:
  "coalesced (sample_policy allow_read) \<in> set (principal_policies ''u1'' ''user'' ''o1'' sample_db) \<and>
   (\<exists>rp \<in> set (t_role_policies sample_db). holds_role sample_db ''u1'' ''user'' (rlp_RoleID rp))"
proof -
  let ?ps = "principal_policies ''u1'' ''user'' ''o1'' sample_db"
  have run: "GetPrincipalPolicies ''u1'' ''user'' ''o1'' sample_db = (Ok ?ps, sample_db)"
    by (simp add: GetPrincipalPolicies_def select_ok sample_db_def empty_db_def)
  have "list_ex ((=) (coalesced (sample_policy allow_read))) ?ps" by code_simp
  then have "coalesced (sample_policy allow_read) \<in> set ?ps" by (auto simp: list_ex_iff)
  with GetPrincipalPolicies_exact [OF run] show ?thesis by blast
qed

text \<open>C28. Deleting a policy is final: after a successful \<open>DeletePolicy\<close>, and any later sequence of policy
  operations on a server that may fail at any statement, the policy applies to no principal.\<close>

theorem deleted_policy_never_applies:
  assumes "policies_inv d" and "DeletePolicy i c d = (Ok u, d1)" and "(policy_step jsonb)\<^sup>*\<^sup>* d1 d2"
    and "p \<in> set (principal_policies pid pty c' d2)"
  shows "pol_ID p \<noteq> i"
proof
  assume id: "pol_ID p = i"
  from inv_delete assms(1,2) have "policies_inv d1" unfolding inv_kept_def keeps_def by (metis snd_conv)
  with policy_steps_inv [OF assms(3)] have inv: "policies_inv d2" by (simp add: inv_kept_def)
  from assms(4) obtain q where q: "q \<in> set (t_policies d2)" "p = coalesced q" "pol_Status q = ''active''"
    by (auto simp: principal_policies_iff)
  from pol.removed_dead [OF assms(2)] obtain r where "r \<in> set (t_policies d1)" "pol_ID r = i" "pol_DeletedAt r \<noteq> None"
    by blast
  with policy_steps_dead [OF assms(3)] have r: "r \<in> set (t_policies d2)" "pol_ID r = i" "pol_DeletedAt r \<noteq> None"
    by (auto simp: dead_kept_def)
  from distinct_key_unique [OF inv_distinct [OF inv] q(1) r(1)] q(2) r(2) id have "q = r" by simp
  with inv_row [OF inv q(1)] q(3) r(3) show False by auto
qed

theorem deleted_policy_never_applies_witness:
  "\<exists>d1. DeletePolicy ''p1'' ''o1'' sample_db = (Ok (), d1) \<and>
     (\<forall>p \<in> set (principal_policies ''u1'' ''user'' ''o1'' d1). pol_ID p \<noteq> ''p1'')"
proof -
  have inv: "policies_inv sample_db" by code_simp
  have "fst (DeletePolicy ''p1'' ''o1'' sample_db) = Ok ()" by code_simp
  then obtain d1 where del: "DeletePolicy ''p1'' ''o1'' sample_db = (Ok (), d1)"
    by (metis prod.collapse)
  with deleted_policy_never_applies [OF inv del rtranclp.rtrancl_refl] show ?thesis by blast
qed

text \<open>C36. The version history of a policy is append-only: whatever operations follow, a recorded version
  keeps its identifier, its number and its document.\<close>

theorem version_history_immutable:
  assumes "(policy_step jsonb)\<^sup>*\<^sup>* d d'" and "v \<in> set (t_policy_versions d)"
  shows "\<exists>v' \<in> set (t_policy_versions d'). pv_ID v' = pv_ID v \<and> pv_PolicyID v' = pv_PolicyID v
     \<and> pv_Version v' = pv_Version v \<and> pv_Document v' = pv_Document v"
proof -
  from policy_steps_log [OF assms(1)] have "set (version_log d) \<subseteq> set (version_log d')"
    unfolding log_grows_def by (rule set_mono_prefix)
  moreover have "(pv_ID v, pv_PolicyID v, pv_Version v, pv_Document v) \<in> set (version_log d)"
    using assms(2) by (auto simp: version_log_def)
  ultimately have "(pv_ID v, pv_PolicyID v, pv_Version v, pv_Document v) \<in> set (version_log d')" by blast
  then show ?thesis by (auto simp: version_log_def)
qed

theorem version_history_immutable_witness:
  "\<exists>d'. policy_step id sample_db d' \<and> (\<exists>v' \<in> set (t_policy_versions d'). pv_Version v' = ''1.0.1''
     \<and> pv_Document v' = allow_write)"
proof -
  obtain u d' where "RollbackPolicy ''p1'' ''o1'' ''1.0.0'' sample_db = (u, d')" by fastforce
  then have step: "policy_step id sample_db d'" by (rule policy_step.rollback)
  have "sample_version ''v2'' ''1.0.1'' allow_write \<in> set (t_policy_versions sample_db)"
    by (simp add: sample_db_def empty_db_def)
  from version_history_immutable [OF r_into_rtranclp [where r = "policy_step id", OF step] this] step
  show ?thesis by (auto simp: sample_version_def)
qed

text \<open>A rollback restores the document recorded for the version it names, makes it active, and adds
  nothing to the history.\<close>

lemma RollbackPolicy_restores:
  assumes "RollbackPolicy i c v d = (Ok u, d')"
  shows "t_policy_versions d' = t_policy_versions d \<and>
    (\<exists>x \<in> set (t_policy_versions d). pv_PolicyID x = i \<and> pv_Version x = v \<and>
     (\<exists>p \<in> set (t_policies d'). live_policy i c p \<and> pol_Document p = pv_Document x \<and> pol_Version p = v
        \<and> pol_Status p = ''active''))"
proof -
  from assms obtain doc d1 where
    q: "query_row ''policy version not found'' ''failed to get policy version''
       (\<lambda>d. map_option pv_Document (find (\<lambda>x. pv_Version x = v) (versions_of i c d))) d = (Ok doc, d1)"
    and e: "must_affect ''policy not found'' ''failed to rollback policy''
       (exec_on t_policies put_policies (\<lambda>d. update_where (live_policy i c)
          (\<lambda>r. r\<lparr>pol_Document := doc, pol_Version := v, pol_Status := ''active'', pol_UpdatedAt := now d\<rparr>))) d1
       = (Ok u, d')"
    unfolding RollbackPolicy_def by (rule bnd_OkE)
  from query_row_Ok [OF q] obtain x where x: "x \<in> set (t_policy_versions d)" "pv_PolicyID x = i"
    "pv_Version x = v" "pv_Document x = doc" and d1: "d1 = advance d"
    by (auto simp: versions_of_def dest!: find_SomeD)
  from e obtain n where "n > 0" and run: "exec_on t_policies put_policies (\<lambda>d. update_where (live_policy i c)
          (\<lambda>r. r\<lparr>pol_Document := doc, pol_Version := v, pol_Status := ''active'', pol_UpdatedAt := now d\<rparr>)) d1 = (Ok n, d')"
    by (auto simp: must_affect_Ok)
  with exec_on_Ok [OF run] d1 obtain p where p: "p \<in> set (t_policies d)" "live_policy i c p"
    by (metis advance_tables(11) bot_nat_0.not_eq_extremum fst_update_where_0)
  have "t_policy_versions d' = t_policy_versions d"
    using exec_on_Ok [OF run] d1 by simp
  moreover let ?p = "p\<lparr>pol_Document := doc, pol_Version := v, pol_Status := ''active'', pol_UpdatedAt := now d\<rparr>"
  have "?p \<in> set (t_policies d')"
    using exec_on_Ok [OF run] d1 p by (auto simp: snd_update_where)
  moreover have "live_policy i c ?p \<and> pol_Document ?p = pv_Document x \<and> pol_Version ?p = v \<and> pol_Status ?p = ''active''"
    using x p(2) by (simp add: live_policy_def)
  ultimately show ?thesis
    using x by blast
qed

text \<open>When the version after the current one is already recorded, as it is after a rollback, every
  update that changes the document fails on the unique constraint of the versions and changes nothing.\<close>

lemma UpdatePolicy_version_conflict:
  assumes "healthy d" and "validatePolicyDocument (pol_Document p) = Ok ()"
    and "find (live_policy (pol_ID p) c) (t_policies d) = Some cur" and "pol_Document cur \<noteq> pol_Document p"
    and "x \<in> set (t_policy_versions d)" and "pv_PolicyID x = pol_ID p"
    and "pv_Version x = incrementVersion (pol_Version cur)"
    and "versions_violation (t_policy_versions d) = None" and "vid \<notin> pv_ID ` set (t_policy_versions d)"
  shows "UpdatePolicy jsonb vid p c d =
    (Err (''failed to create policy version: '' @ duplicate_key ''unique_policy_version''), d)"
proof -
  let ?v = "\<lparr>pv_ID = vid, pv_PolicyID = pol_ID p, pv_Version = incrementVersion (pol_Version cur),
     pv_Document = jsonb (pol_Document p), pv_CreatedBy = pol_CreatedBy p, pv_CreatedAt = now d, pv_Status = ''draft''\<rparr>"
  have "length (incrementVersion (pol_Version cur)) \<le> 10"
    using assms(5,7,8) by (auto simp: versions_violation_def split: if_splits)
  moreover have "(pol_ID p, incrementVersion (pol_Version cur)) \<in> (\<lambda>v. (pv_PolicyID v, pv_Version v)) ` set (t_policy_versions d)"
    using assms(5-7) by force
  ultimately have viol: "versions_violation (t_policy_versions d @ [?v]) = Some (duplicate_key ''unique_policy_version'')"
    using assms(8,9) by (simp add: versions_violation_def split: if_splits)
  show ?thesis
    using assms(1-4) viol
    by (simp add: UpdatePolicy_def GetPolicy_def bnd_def wrap_def query_row_ok insert_checked_ok version_row_def Let_def)
qed

text \<open>A created policy can be read back in its organization: its defaults are filled in, its document
  is the canonical text of the one given, and its first version is recorded as a draft.\<close>

lemma CreatePolicy_GetPolicy:
  assumes "healthy d" and "CreatePolicy jsonb vid p d = (Ok p', d')"
  shows "p' = create_defaults (now d) p \<and>
    GetPolicy (pol_ID p) (pol_OrganizationID p) d' = (Ok (p'\<lparr>pol_Document := jsonb (pol_Document p),
      pol_ApprovedBy := None, pol_ApprovedAt := None, pol_DeletedAt := None\<rparr>), d') \<and>
    version_row vid p' (jsonb (pol_Document p)) (now d) \<in> set (t_policy_versions d')"
proof -
  let ?p = "create_defaults (now d) p"
  let ?row = "?p\<lparr>pol_Document := jsonb (pol_Document ?p), pol_ApprovedBy := None, pol_ApprovedAt := None, pol_DeletedAt := None\<rparr>"
  let ?v = "version_row vid ?p (jsonb (pol_Document ?p)) (pol_CreatedAt ?p)"
  let ?d1 = "put_policies (t_policies d @ [?row]) d"
  obtain u where "validatePolicyDocument (pol_Document p) = Ok u"
    using assms(2) by (cases "validatePolicyDocument (pol_Document p)") (simp_all add: CreatePolicy_def bnd_def wrap_def)
  with assms have viol: "policies_violation (t_policies d @ [?row]) = None"
    by (cases "policies_violation (t_policies d @ [?row])")
       (simp_all add: CreatePolicy_def bnd_def wrap_def insert_checked_ok Let_def)
  with \<open>validatePolicyDocument (pol_Document p) = Ok u\<close> assms have viol': "versions_violation (t_policy_versions d @ [?v]) = None"
    and res: "p' = ?p" "d' = put_versions (t_policy_versions d @ [?v]) ?d1"
    by (cases "versions_violation (t_policy_versions d @ [?v])";
        simp add: CreatePolicy_def bnd_def wrap_def insert_checked_ok Let_def)+
  have "distinct (map pol_ID (t_policies d @ [?row]))"
    using viol by (simp add: policies_violation_def split: if_splits)
  then have "find (live_policy (pol_ID p) (pol_OrganizationID p)) (t_policies d @ [?row]) = Some ?row"
    by (rule find_appended) (auto simp: live_policy_def create_defaults_def)
  with assms(1) res show ?thesis
    by (simp add: GetPolicy_def query_row_ok create_defaults_def)
qed

end
