(* ===== verification/Wildcard.thy ===== *)
theory Wildcard
  imports Prelude
begin

text \<open>
  \<open>Evaluator.MatchWildcard\<close> (internal/authz/evaluator.go) as the code computes it: quote the pattern,
  rewrite the quoted wildcards, compile the text as an anchored regular expression and search with
  it. A string is its bytes, as in Go; \<open>regexp\<close> reads both the expression and the searched text as
  UTF-8, so a literal and \<open>.\<close> stand for one rune. An expression that is not UTF-8 does not compile, a
  byte of the searched text that is not UTF-8 reads as U+FFFD. The fragment of the syntax that the
  code can produce is modelled here (literals, \<open>.\<close>, \<open>*\<close> on an atom, the anchors); any other syntax is
  a compile error, and the package's limits on the size of an expression (megabytes) are left out.
  \<open>glob\<close> is the reference matcher the comment of the code describes, and \<open>MatchWildcard_glob\<close> relates
  the two.
\<close>

section \<open>Quoting and replacing\<close>

abbreviation backslash :: char where "backslash \<equiv> CHR 0x5C"

definition regex_special :: "char set" where
  "regex_special = set (backslash # ''.+*?()|[]{}^$'')"

text \<open>\<open>regexp.QuoteMeta\<close>.\<close>

definition quote_char :: "char \<Rightarrow> string" where
  "quote_char c = (if c \<in> regex_special then [backslash, c] else [c])"

definition quote_meta :: "string \<Rightarrow> string" where
  "quote_meta p = concat (map quote_char p)"

text \<open>\<open>strings.ReplaceAll(s, [a, b], new)\<close>: leftmost matches that do not overlap.\<close>

fun replace_all :: "char \<Rightarrow> char \<Rightarrow> string \<Rightarrow> string \<Rightarrow> string" where
  "replace_all a b new (x # y # s) =
     (if x = a \<and> y = b then new @ replace_all a b new s else x # replace_all a b new (y # s))"
| "replace_all a b new s = s"

section \<open>UTF-8\<close>

text \<open>\<open>utf8.DecodeRuneInString\<close>: what a first byte announces (the bits it contributes and the ranges
  of the bytes that follow: no overlong form, no surrogate, nothing above U+10FFFF), and the rune
  with the rest of the string; \<open>None\<close> is its \<open>RuneError\<close> of width one.\<close>

abbreviation rune :: "char \<Rightarrow> nat" where "rune \<equiv> of_char"

definition lead_byte :: "nat \<Rightarrow> (nat \<times> (nat \<times> nat) list) option" where
  "lead_byte b =
     (if b < 0x80 then Some (b, [])
      else if 0xC2 \<le> b \<and> b \<le> 0xDF then Some (b - 0xC0, [(0x80, 0xBF)])
      else if b = 0xE0 then Some (0, [(0xA0, 0xBF), (0x80, 0xBF)])
      else if b = 0xED then Some (0xD, [(0x80, 0x9F), (0x80, 0xBF)])
      else if 0xE1 \<le> b \<and> b \<le> 0xEF then Some (b - 0xE0, [(0x80, 0xBF), (0x80, 0xBF)])
      else if b = 0xF0 then Some (0, [(0x90, 0xBF), (0x80, 0xBF), (0x80, 0xBF)])
      else if 0xF1 \<le> b \<and> b \<le> 0xF3 then Some (b - 0xF0, [(0x80, 0xBF), (0x80, 0xBF), (0x80, 0xBF)])
      else if b = 0xF4 then Some (4, [(0x80, 0x8F), (0x80, 0xBF), (0x80, 0xBF)])
      else None)"

fun continue_rune :: "nat \<Rightarrow> (nat \<times> nat) list \<Rightarrow> string \<Rightarrow> (nat \<times> string) option" where
  "continue_rune v [] s = Some (v, s)"
| "continue_rune v ((lo, hi) # rs) [] = None"
| "continue_rune v ((lo, hi) # rs) (c # s) =
     (if lo \<le> rune c \<and> rune c \<le> hi then continue_rune (v * 64 + (rune c - 0x80)) rs s else None)"

fun rune_at :: "string \<Rightarrow> (nat \<times> string) option" where
  "rune_at [] = None"
| "rune_at (c # s) = (case lead_byte (rune c) of None \<Rightarrow> None | Some (v, rs) \<Rightarrow> continue_rune v rs s)"

lemma continue_rune_shorter: "continue_rune v rs s = Some (r, q) \<Longrightarrow> length q \<le> length s"
  by (induction v rs s rule: continue_rune.induct) (auto split: if_splits)

lemma rune_at_shorter: "rune_at s = Some (r, q) \<Longrightarrow> length q < length s"
  by (cases s) (auto split: option.splits dest!: continue_rune_shorter)

text \<open>The runes of a string that must be UTF-8, and those of one that is read whatever it holds.\<close>

function runes :: "string \<Rightarrow> nat list option" where
  "runes s = (if s = [] then Some [] else
     case rune_at s of None \<Rightarrow> None | Some (r, q) \<Rightarrow> map_option ((#) r) (runes q))"
  by pat_completeness auto
termination
  by (relation "measure length") (auto dest: rune_at_shorter)

declare runes.simps [simp del]

function decode_runes :: "string \<Rightarrow> nat list" where
  "decode_runes s = (if s = [] then [] else
     case rune_at s of None \<Rightarrow> 0xFFFD # decode_runes (tl s) | Some (r, q) \<Rightarrow> r # decode_runes q)"
  by pat_completeness auto
termination
  by (relation "measure length") (auto dest: rune_at_shorter)

declare decode_runes.simps [simp del]

section \<open>The regular expressions the code can build\<close>

datatype atom = Lit nat | AnyChar

datatype item = One atom | Star atom | BeginText | EndText

fun accepts :: "atom \<Rightarrow> nat \<Rightarrow> bool" where
  "accepts (Lit a) c = (a = c)"
| "accepts AnyChar c = (c \<noteq> 0x0A)"

text \<open>An atom, with a quantifier if one follows; two quantifiers in a row do not compile.\<close>

definition quantify :: "atom \<Rightarrow> nat list \<Rightarrow> (item \<times> nat list) option" where
  "quantify a s = (case s of
       c # r \<Rightarrow> if c = rune (CHR ''*'') then
                  (if r \<noteq> [] \<and> hd r = rune (CHR ''*'') then None else Some (Star a, r))
                else Some (One a, s)
     | [] \<Rightarrow> Some (One a, []))"

fun next_item :: "nat list \<Rightarrow> (item \<times> nat list) option" where
  "next_item [] = None"
| "next_item (c # s) =
     (if c = rune (CHR ''^'') then Some (BeginText, s)
      else if c = rune (CHR ''$'') then Some (EndText, s)
      else if c = rune (CHR ''.'') then quantify AnyChar s
      else if c = rune backslash then
        (case s of d # r \<Rightarrow> if d \<in> rune ` regex_special then quantify (Lit d) r else None
         | [] \<Rightarrow> None)
      else if c \<in> rune ` regex_special then None
      else quantify (Lit c) s)"

lemma quantify_shorter: "quantify a s = Some (i, r) \<Longrightarrow> length r \<le> length s"
  by (auto simp: quantify_def split: list.splits if_splits)

lemma next_item_shorter: "next_item s = Some (i, r) \<Longrightarrow> length r < length s"
  by (induction s rule: next_item.induct)
    (auto split: if_splits list.splits dest!: quantify_shorter)

function re_parse :: "nat list \<Rightarrow> item list option" where
  "re_parse s = (if s = [] then Some [] else
     case next_item s of None \<Rightarrow> None | Some (i, r) \<Rightarrow> map_option ((#) i) (re_parse r))"
  by pat_completeness auto
termination
  by (relation "measure length") (auto dest: next_item_shorter)

declare re_parse.simps [simp del]

text \<open>\<open>regexp.Compile\<close>: \<open>None\<close> is its error.\<close>

definition re_compile :: "string \<Rightarrow> item list option" where
  "re_compile s = (case runes s of None \<Rightarrow> None | Some rs \<Rightarrow> re_parse rs)"

text \<open>Matching at one position; \<open>b\<close> tells whether it is the start of the text.\<close>

fun here :: "bool \<Rightarrow> item list \<Rightarrow> nat list \<Rightarrow> bool" where
  "here b [] s = True"
| "here b (BeginText # r) s = (b \<and> here b r s)"
| "here b (EndText # r) s = (s = [] \<and> here b r s)"
| "here b (One a # r) [] = False"
| "here b (One a # r) (c # s) = (accepts a c \<and> here False r s)"
| "here b (Star a # r) [] = here b r []"
| "here b (Star a # r) (c # s) = (here b r (c # s) \<or> accepts a c \<and> here False (Star a # r) s)"

text \<open>\<open>Regexp.MatchString\<close>: an unanchored search.\<close>

fun re_search :: "bool \<Rightarrow> item list \<Rightarrow> nat list \<Rightarrow> bool" where
  "re_search b re [] = here b re []"
| "re_search b re (c # s) = (here b re (c # s) \<or> re_search False re s)"

definition re_match :: "item list \<Rightarrow> string \<Rightarrow> bool" where
  "re_match re s = re_search True re (decode_runes s)"

section \<open>The code\<close>

definition wildcard_regex :: "string \<Rightarrow> string" where
  "wildcard_regex pattern =
     (let escaped = quote_meta pattern;
          escaped = replace_all backslash (CHR ''*'') ''.*'' escaped;
          escaped = replace_all backslash (CHR ''?'') ''.'' escaped
      in ''^'' @ escaped @ ''$'')"

definition MatchWildcard :: "string \<Rightarrow> string \<Rightarrow> bool" where
  "MatchWildcard pattern value =
     (if pattern = ''*'' then True
      else case re_compile (wildcard_regex pattern) of
             None \<Rightarrow> pattern = value
           | Some re \<Rightarrow> re_match re value)"

section \<open>The reference matcher\<close>

text \<open>On runes: \<open>*\<close> stands for any runes of one line, \<open>?\<close> for one rune that is not a newline.\<close>

fun glob :: "nat list \<Rightarrow> nat list \<Rightarrow> bool" where
  "glob [] s = (s = [])"
| "glob (p # ps) [] = (p = rune (CHR ''*'') \<and> glob ps [])"
| "glob (p # ps) (c # s) =
     (if p = rune (CHR ''*'') then glob ps (c # s) \<or> c \<noteq> 0x0A \<and> glob (p # ps) s
      else (p = rune (CHR ''?'') \<and> c \<noteq> 0x0A \<or> p \<noteq> rune (CHR ''?'') \<and> p = c) \<and> glob ps s)"

section \<open>The pipeline computes the reference\<close>

definition token_ok :: "char \<Rightarrow> string \<Rightarrow> bool" where
  "token_ok x t \<longleftrightarrow> (\<exists>d. t = [d] \<and> d \<noteq> backslash \<and> d \<noteq> x) \<or>
     (\<exists>d e. t = [d, e] \<and> d \<noteq> x \<and> (d = backslash \<or> e \<noteq> backslash))"

lemma replace_head:
  "x \<noteq> a \<or> s = [] \<or> hd s \<noteq> b \<Longrightarrow> replace_all a b new (x # s) = x # replace_all a b new s"
  by (cases s) auto

lemma replace_tokens:
  assumes "\<And>c. token_ok x (g c)" and "x \<noteq> backslash"
  shows "replace_all backslash x new (concat (map g p))
       = concat (map (\<lambda>c. if g c = [backslash, x] then new else g c) p)"
proof (induction p)
  case (Cons c p)
  let ?r = "concat (map g p)"
  have hd: "?r = [] \<or> hd ?r \<noteq> x"
  proof (cases p)
    case (Cons d q)
    with assms(1) [of d] show ?thesis by (auto simp: token_ok_def)
  qed simp
  from assms(1) [of c] consider
      d where "g c = [d]" "d \<noteq> backslash" | e where "g c = [backslash, e]"
    | d e where "g c = [d, e]" "d \<noteq> backslash" "e \<noteq> backslash"
    by (auto simp: token_ok_def)
  then show ?case
  proof cases
    case 1
    with Cons.IH show ?thesis by (simp add: replace_head)
  next
    case 2
    with Cons.IH hd show ?thesis by (auto simp: replace_head)
  next
    case 3
    with Cons.IH show ?thesis by (simp add: replace_head)
  qed
qed simp

definition wild_token :: "char \<Rightarrow> string" where
  "wild_token c = (if c = CHR ''*'' then ''.*'' else if c = CHR ''?'' then ''.'' else quote_char c)"

lemma quoted_star_rewritten:
  "replace_all backslash (CHR ''*'') ''.*'' (quote_meta p)
     = concat (map (\<lambda>c. if c = CHR ''*'' then ''.*'' else quote_char c) p)"
proof -
  have "replace_all backslash (CHR ''*'') ''.*'' (quote_meta p)
      = concat (map (\<lambda>c. if quote_char c = [backslash, CHR ''*''] then ''.*'' else quote_char c) p)"
    unfolding quote_meta_def
    by (rule replace_tokens) (auto simp: token_ok_def quote_char_def regex_special_def)
  also have "(\<lambda>c. if quote_char c = [backslash, CHR ''*''] then ''.*'' else quote_char c)
      = (\<lambda>c. if c = CHR ''*'' then ''.*'' else quote_char c)"
    by (auto simp: quote_char_def regex_special_def fun_eq_iff)
  finally show ?thesis .
qed

lemma wildcard_regex_tokens: "wildcard_regex p = ''^'' @ concat (map wild_token p) @ ''$''"
proof -
  let ?g = "\<lambda>c. if c = CHR ''*'' then ''.*'' else quote_char c"
  have "replace_all backslash (CHR ''?'') ''.'' (concat (map ?g p))
      = concat (map (\<lambda>c. if ?g c = [backslash, CHR ''?''] then ''.'' else ?g c) p)"
    by (rule replace_tokens) (auto simp: token_ok_def quote_char_def regex_special_def)
  also have "(\<lambda>c. if ?g c = [backslash, CHR ''?''] then ''.'' else ?g c) = wild_token"
    by (auto simp: wild_token_def quote_char_def regex_special_def fun_eq_iff)
  finally show ?thesis
    unfolding wildcard_regex_def Let_def quoted_star_rewritten by simp
qed

text \<open>The runes of the expression are the tokens of the runes of the pattern: a multi-byte rune is
  copied, and what does not decode in the pattern does not decode in the expression either.\<close>

definition rune_token :: "nat \<Rightarrow> nat list" where
  "rune_token r = (if r < 0x80 then map rune (wild_token (char_of r)) else [r])"

lemma regex_special_low: "c \<in> regex_special \<Longrightarrow> rune c < 0x80"
  unfolding regex_special_def by auto

lemma wildcards_special: "CHR ''*'' \<in> regex_special" "CHR ''?'' \<in> regex_special"
  by (simp_all add: regex_special_def)

lemma wild_token_high: "0x80 \<le> rune c \<Longrightarrow> wild_token c = [c]"
  using regex_special_low [of c] wildcards_special
  by (cases "c \<in> regex_special") (auto simp: wild_token_def quote_char_def)

lemma wild_token_low: "rune c < 0x80 \<Longrightarrow> \<forall>d \<in> set (wild_token c). rune d < 0x80"
  by (auto simp: wild_token_def quote_char_def)

lemma wild_token_not_Nil [simp]: "wild_token c \<noteq> []"
  by (simp add: wild_token_def quote_char_def)

lemma continue_rune_tokens:
  assumes "\<forall>(lo, hi) \<in> set rs. 0x80 \<le> lo"
  shows "continue_rune v rs (concat (map wild_token p) @ ''$'')
       = map_option (\<lambda>(r, q). (r, concat (map wild_token q) @ ''$'')) (continue_rune v rs p)"
  using assms
proof (induction v rs p rule: continue_rune.induct)
  case (3 v lo hi rs c s)
  show ?case
  proof (cases "rune c < 0x80")
    case True
    then obtain d t where "wild_token c = d # t" "rune d < 0x80"
      using wild_token_low [of c] by (cases "wild_token c") auto
    with True 3(2) show ?thesis by auto
  next
    case False
    then have "wild_token c = [c]" by (simp add: wild_token_high)
    with 3 show ?thesis by auto
  qed
qed auto

lemma lead_byte_ranges: "lead_byte b = Some (v, rs) \<Longrightarrow> \<forall>(lo, hi) \<in> set rs. 0x80 \<le> lo"
  by (auto simp: lead_byte_def split: if_splits)

lemma lead_byte_low: "b < 0x80 \<Longrightarrow> lead_byte b = Some (b, [])"
  by (simp add: lead_byte_def)

lemma continue_rune_ge: "continue_rune v rs s = Some (r, q) \<Longrightarrow> v \<le> r"
proof (induction v rs s rule: continue_rune.induct)
  case (3 v lo hi rs c s)
  then have "v * 64 + (rune c - 0x80) \<le> r" by (auto split: if_splits)
  then show ?case by linarith
qed auto

lemma continue_rune_first:
  assumes "continue_rune v ((lo, hi) # rs) s = Some (r, q)"
  shows "v * 64 + (lo - 0x80) \<le> r"
proof -
  from assms obtain c s' where "lo \<le> rune c" "continue_rune (v * 64 + (rune c - 0x80)) rs s' = Some (r, q)"
    by (cases s) (auto split: if_splits)
  with continue_rune_ge [of "v * 64 + (rune c - 0x80)" rs s' r q] show ?thesis by simp
qed

lemma continue_rune_second:
  assumes "continue_rune v ((lo, hi) # (lo', hi') # rs) s = Some (r, q)"
  shows "(v * 64 + (lo - 0x80)) * 64 \<le> r"
proof -
  from assms obtain c s' where c: "lo \<le> rune c"
      "continue_rune (v * 64 + (rune c - 0x80)) ((lo', hi') # rs) s' = Some (r, q)"
    by (cases s) (auto split: if_splits)
  from continue_rune_first [OF c(2)] c(1) show ?thesis by simp
qed

lemma multibyte_rune:
  assumes "0x80 \<le> b" and "lead_byte b = Some (v, rs)" and "continue_rune v rs s = Some (r, q)"
  shows "0x80 \<le> r"
  using assms
  by (auto simp: lead_byte_def split: if_splits dest: continue_rune_first continue_rune_second)

lemma runes_Nil [simp]: "runes [] = Some []"
  by (simp add: runes.simps)

lemma runes_low: "rune c < 0x80 \<Longrightarrow> runes (c # s) = map_option ((#) (rune c)) (runes s)"
  by (subst runes.simps) (simp add: lead_byte_low)

lemma runes_low_append:
  "\<forall>d \<in> set t. rune d < 0x80 \<Longrightarrow> runes (t @ s) = map_option ((@) (map rune t)) (runes s)"
proof (induction t)
  case Nil
  show ?case by (cases "runes s") auto
next
  case (Cons d t)
  then show ?case by (cases "runes s") (auto simp: runes_low)
qed

lemma runes_high:
  "runes (c # s) = (case rune_at (c # s) of None \<Rightarrow> None | Some (r, q) \<Rightarrow> map_option ((#) r) (runes q))"
  by (subst runes.simps) simp

lemma runes_tokens:
  "runes (concat (map wild_token p) @ ''$'')
     = map_option (\<lambda>rs. concat (map rune_token rs) @ [rune (CHR ''$'')]) (runes p)"
proof (induction p rule: runes.induct)
  case (1 p)
  show ?case
  proof (cases p)
    case Nil
    then show ?thesis by (simp add: runes_low)
  next
    case p: (Cons c s)
    show ?thesis
    proof (cases "rune c < 0x80")
      case True
      then have "rune_at p = Some (rune c, s)" by (simp add: p lead_byte_low)
      with 1 p have "runes (concat (map wild_token s) @ ''$'')
          = map_option (\<lambda>rs. concat (map rune_token rs) @ [rune (CHR ''$'')]) (runes s)" by auto
      moreover from True have "rune_token (rune c) = map rune (wild_token c)"
        by (simp add: rune_token_def)
      ultimately show ?thesis using True
        by (cases "runes s") (simp_all add: p runes_low runes_low_append wild_token_low)
    next
      case False
      let ?e = "\<lambda>q. concat (map wild_token q) @ ''$''"
      from False have wild: "?e p = c # ?e s" by (simp add: p wild_token_high)
      have at: "rune_at (?e p) = map_option (\<lambda>(r, q). (r, ?e q)) (rune_at p)"
        unfolding wild by (auto simp: p continue_rune_tokens [OF lead_byte_ranges] split: option.split)
      show ?thesis
      proof (cases "rune_at p")
        case None
        with at have "rune_at (c # ?e s) = None" by (simp add: wild)
        with None show ?thesis unfolding wild runes_high [of c "?e s"] by (simp add: p runes_high)
      next
        case (Some a)
        then obtain r q where rq: "rune_at p = Some (r, q)" by (cases a) auto
        with at have "rune_at (c # ?e s) = Some (r, ?e q)" by (simp add: wild)
        moreover from rq False have "0x80 \<le> r"
          by (auto simp: p split: option.splits dest: multibyte_rune [rotated])
        moreover from 1 p rq have "runes (?e q)
            = map_option (\<lambda>rs. concat (map rune_token rs) @ [rune (CHR ''$'')]) (runes q)" by auto
        moreover from rq have "runes p = map_option ((#) r) (runes q)" by (simp add: p runes_high)
        moreover from \<open>0x80 \<le> r\<close> have "rune_token r = [r]" by (simp add: rune_token_def)
        ultimately show ?thesis unfolding wild runes_high [of c "?e s"] by (cases "runes q") simp_all
      qed
    qed
  qed
qed

definition wild_item :: "nat \<Rightarrow> item" where
  "wild_item r = (if r = rune (CHR ''*'') then Star AnyChar
     else if r = rune (CHR ''?'') then One AnyChar else One (Lit r))"

lemma rune_token_cases:
  "rune_token r = (if r = rune (CHR ''*'') then [rune (CHR ''.''), rune (CHR ''*'')]
     else if r = rune (CHR ''?'') then [rune (CHR ''.'')]
     else if r \<in> rune ` regex_special then [rune backslash, r] else [r])"
proof (cases "r < 0x80")
  case True
  define c :: char where "c = char_of r"
  with True have r: "r = rune c" by simp
  have "rune c \<in> rune ` regex_special \<longleftrightarrow> c \<in> regex_special"
    by (rule inj_image_mem_iff) (rule inj_of_char)
  moreover have "rune c = rune d \<longleftrightarrow> c = d" for d by simp
  ultimately show ?thesis
    using True unfolding r by (simp add: rune_token_def wild_token_def quote_char_def del: of_char_Char)
next
  case False
  then show ?thesis using regex_special_low wildcards_special by (force simp: rune_token_def)
qed

lemma next_rune_token:
  assumes "s \<noteq> [] \<Longrightarrow> hd s \<noteq> rune (CHR ''*'')"
  shows "next_item (rune_token r @ s) = Some (wild_item r, s)"
  using assms
  by (cases s) (auto simp: rune_token_cases wild_item_def quantify_def regex_special_def)

lemma rune_tokens_head:
  "hd (concat (map rune_token p) @ [rune (CHR ''$'')]) \<noteq> rune (CHR ''*'')"
  by (cases p) (auto simp: rune_token_cases regex_special_def)

lemma rune_token_not_Nil [simp]: "rune_token r \<noteq> []"
  by (simp add: rune_token_cases)

lemma parse_tail:
  "re_parse (concat (map rune_token p) @ [rune (CHR ''$'')]) = Some (map wild_item p @ [EndText])"
proof (induction p)
  case Nil
  show ?case by (simp add: re_parse.simps)
next
  case (Cons r p)
  have "next_item (rune_token r @ (concat (map rune_token p) @ [rune (CHR ''$'')]))
      = Some (wild_item r, concat (map rune_token p) @ [rune (CHR ''$'')])"
    by (rule next_rune_token) (rule rune_tokens_head)
  with Cons.IH show ?case by (subst re_parse.simps) simp
qed

lemma compile_wildcard:
  "re_compile (wildcard_regex p)
     = map_option (\<lambda>rs. BeginText # map wild_item rs @ [EndText]) (runes p)"
proof -
  have "runes (wildcard_regex p)
      = map_option (\<lambda>rs. rune (CHR ''^'') # concat (map rune_token rs) @ [rune (CHR ''$'')]) (runes p)"
    by (simp add: wildcard_regex_tokens runes_low runes_tokens option.map_comp o_def)
  moreover have "re_parse (rune (CHR ''^'') # concat (map rune_token rs) @ [rune (CHR ''$'')])
      = Some (BeginText # map wild_item rs @ [EndText])" for rs
    using parse_tail [of rs] by (subst re_parse.simps) simp
  ultimately show ?thesis
    by (cases "runes p") (simp_all add: re_compile_def)
qed

lemma here_glob: "here b (map wild_item p @ [EndText]) s = glob p s"
  by (induction p s arbitrary: b rule: glob.induct) (auto simp: wild_item_def)

lemma search_not_begin: "\<not> re_search False (BeginText # re) s"
  by (induction s) auto

lemma search_begin: "re_search True (BeginText # re) s = here True re s"
  by (cases s) (auto simp: search_not_begin)

lemma MatchWildcard_eq:
  "MatchWildcard p v \<longleftrightarrow>
     p = ''*'' \<or> (case runes p of None \<Rightarrow> p = v | Some rs \<Rightarrow> glob rs (decode_runes v))"
  by (simp add: MatchWildcard_def compile_wildcard re_match_def search_begin here_glob
      split: option.splits)

lemma glob_literal:
  "rune (CHR ''*'') \<notin> set p \<Longrightarrow> rune (CHR ''?'') \<notin> set p \<Longrightarrow> glob p v \<longleftrightarrow> v = p"
  by (induction p v rule: glob.induct) auto

lemma glob_star: "glob [rune (CHR ''*'')] v \<longleftrightarrow> 0x0A \<notin> set v"
  by (induction v) auto

lemma glob_append_star:
  assumes "rune (CHR ''*'') \<notin> set p" and "rune (CHR ''?'') \<notin> set p"
  shows "glob (p @ [rune (CHR ''*'')]) v \<longleftrightarrow> (\<exists>r. v = p @ r \<and> 0x0A \<notin> set r)"
  using assms
proof (induction p arbitrary: v)
  case Nil
  show ?case using glob_star by simp
next
  case (Cons c p)
  then show ?case by (cases v) auto
qed

section \<open>Properties\<close>

text \<open>C1. The regular-expression pipeline of \<open>MatchWildcard\<close> (quoting, two replacements, compiling,
  searching) computes glob matching on the runes of the pattern and the value: for every pattern that
  is UTF-8 and every value, a byte of which that is not UTF-8 counts as the rune U+FFFD. A pattern
  that is not UTF-8 does not compile and is compared with the value byte by byte, so its wildcards
  stand for themselves. The single pattern \<open>*\<close> matches every value, also one with a newline.\<close>

theorem MatchWildcard_glob:
  "MatchWildcard p v \<longleftrightarrow>
     p = ''*'' \<or> (case runes p of None \<Rightarrow> p = v | Some rs \<Rightarrow> glob rs (decode_runes v))"
  by (rule MatchWildcard_eq)

text \<open>The fallback branch, which compares pattern and value as strings, runs exactly for the patterns
  that are not UTF-8.\<close>

lemma MatchWildcard_compiles: "re_compile (wildcard_regex p) = None \<longleftrightarrow> runes p = None"
  by (simp add: compile_wildcard)

text \<open>A question mark takes one rune, of whatever number of bytes.\<close>

lemma question_mark_takes_a_rune: "MatchWildcard ''?'' [CHR 0xC3, CHR 0xA9]"
  by code_simp

end
