(* ===== verification/NetIP.thy ===== *)
theory NetIP
  imports Json "HOL-Library.Word"
begin

unbundle bit_operations_syntax

text \<open>
  The address functions of Go's \<open>net\<close> package that the \<open>IpAddress\<close> condition calls: \<open>ParseIP\<close>,
  \<open>ParseCIDR\<close>, \<open>IPNet.Contains\<close> and \<open>IP.Equal\<close>. An address is its 16-byte form (IPv4 addresses carry
  the \<open>::ffff:\<close> prefix), a byte is a word of 8 bits. The section on prefixes proves that \<open>Contains\<close>
  compares exactly the leading bits the prefix length names.
\<close>

type_synonym bytes = "8 word list"

section \<open>Parsing\<close>

text \<open>One decimal octet: no leading zero, at most 255.\<close>

definition octet :: "string \<Rightarrow> 8 word option" where
  "octet s = (if s = [] \<or> \<not> list_all is_digit s \<or> length s > 3 \<or> (length s > 1 \<and> hd s = CHR ''0'')
       \<or> nat_of_digits s > 255
     then None else Some (of_nat (nat_of_digits s)))"

definition v4_fields :: "string \<Rightarrow> bytes option" where
  "v4_fields s = (case split_on (CHR ''.'') s of
       [a, b, c, d] \<Rightarrow> (case (octet a, octet b, octet c, octet d) of
           (Some w, Some x, Some y, Some z) \<Rightarrow> Some [w, x, y, z] | _ \<Rightarrow> None)
     | _ \<Rightarrow> None)"

definition v4_prefix :: bytes where
  "v4_prefix = replicate 10 0 @ [0xFF, 0xFF]"

definition is_hex :: "char \<Rightarrow> bool" where
  "is_hex c \<longleftrightarrow> hex_val c \<noteq> None"

definition hex_group :: "string \<Rightarrow> nat" where
  "hex_group s = foldl (\<lambda>a c. 16 * a + (case hex_val c of Some d \<Rightarrow> d | None \<Rightarrow> 0)) 0 s"

text \<open>
  The loop of \<open>parseIPv6\<close> over at most eight 16-bit groups: the bytes read so far, the position of
  the ellipsis, the text left.
\<close>

fun v6_loop :: "nat \<Rightarrow> nat option \<Rightarrow> bytes \<Rightarrow> string \<Rightarrow> (nat option \<times> bytes \<times> string) option" where
  "v6_loop 0 e acc s = Some (e, acc, s)"
| "v6_loop (Suc n) e acc s =
     (let ds = takeWhile is_hex s; rest = dropWhile is_hex s in
      if ds = [] \<or> length ds > 4 then None
      else if rest \<noteq> [] \<and> hd rest = CHR ''.'' then
        (if e = None \<and> length acc \<noteq> 12 \<or> length acc + 4 > 16 then None
         else map_option (\<lambda>bs. (e, acc @ bs, [])) (v4_fields s))
      else let g = hex_group ds; acc' = acc @ [of_nat (g div 256), of_nat (g mod 256)] in
        case rest of
          [] \<Rightarrow> Some (e, acc', [])
        | c # r \<Rightarrow>
           if c \<noteq> CHR '':'' \<or> r = [] then None
           else if hd r = CHR '':'' then
             (if e \<noteq> None then None
              else if tl r = [] then Some (Some (length acc'), acc', [])
              else v6_loop n (Some (length acc')) acc' (tl r))
           else v6_loop n e acc' r)"

definition v6_expand :: "nat option \<times> bytes \<times> string \<Rightarrow> bytes option" where
  "v6_expand p = (case p of (e, bs, s) \<Rightarrow>
     if s \<noteq> [] then None
     else if length bs < 16 then
       (case e of None \<Rightarrow> None
        | Some k \<Rightarrow> Some (take k bs @ replicate (16 - length bs) 0 @ drop k bs))
     else if e = None then Some bs else None)"

definition parse_v6 :: "string \<Rightarrow> bytes option" where
  "parse_v6 s =
     (if take 2 s = ''::'' then
        (if drop 2 s = [] then Some (replicate 16 0)
         else Option.bind (v6_loop 8 (Some 0) [] (drop 2 s)) v6_expand)
      else Option.bind (v6_loop 8 None [] s) v6_expand)"

text \<open>\<open>netip.ParseAddr\<close> without zones: the bit length of the family and the 16-byte form.\<close>

definition parse_addr :: "string \<Rightarrow> (nat \<times> bytes) option" where
  "parse_addr s = (case find (\<lambda>c. c \<in> set ''.:%'') s of
       Some c \<Rightarrow> if c = CHR ''.'' then map_option (\<lambda>b. (32, v4_prefix @ b)) (v4_fields s)
                 else if c = CHR '':'' \<and> CHR ''%'' \<notin> set s then map_option (Pair 128) (parse_v6 s)
                 else None
     | None \<Rightarrow> None)"

definition ParseIP :: "string \<Rightarrow> bytes option" where
  "ParseIP s = map_option snd (parse_addr s)"

section \<open>Networks\<close>

fun cidr_mask :: "nat \<Rightarrow> nat \<Rightarrow> bytes" where
  "cidr_mask n 0 = []"
| "cidr_mask n (Suc l) =
     (if n \<ge> 8 then 0xFF # cidr_mask (n - 8) l else NOT (drop_bit n 0xFF) # cidr_mask 0 l)"

definition To4 :: "bytes \<Rightarrow> bytes option" where
  "To4 ip = (if length ip = 4 then Some ip
     else if length ip = 16 \<and> take 12 ip = v4_prefix then Some (drop 12 ip) else None)"

definition mask_bytes :: "bytes \<Rightarrow> bytes \<Rightarrow> bytes" where
  "mask_bytes ip m = map2 (AND) ip m"

text \<open>A network is its masked address and its mask, both of 4 or of 16 bytes.\<close>

definition ParseCIDR :: "string \<Rightarrow> (bytes \<times> bytes) option" where
  "ParseCIDR s =
     (let a = takeWhile ((\<noteq>) (CHR ''/'')) s; r = dropWhile ((\<noteq>) (CHR ''/'')) s in
      if r = [] then None
      else case parse_addr a of None \<Rightarrow> None
        | Some (bits, ip) \<Rightarrow>
           (let d = tl r; n = nat_of_digits d in
            if d = [] \<or> \<not> list_all is_digit d \<or> n > bits then None
            else let m = cidr_mask n (bits div 8);
                     ip' = (if bits = 32 then drop 12 ip else ip)
                 in Some (mask_bytes ip' m, m)))"

definition net_Contains :: "bytes \<times> bytes \<Rightarrow> bytes \<Rightarrow> bool" where
  "net_Contains net ip =
     (let nn = (case To4 (fst net) of Some x \<Rightarrow> x | None \<Rightarrow> fst net);
          m = (if length (snd net) = 16 \<and> length nn = 4 then drop 12 (snd net) else snd net);
          x = (case To4 ip of Some y \<Rightarrow> y | None \<Rightarrow> ip)
      in length x = length nn \<and> mask_bytes nn m = mask_bytes x m)"

section \<open>Prefix matching\<close>

text \<open>Bit \<open>p\<close> of an address, counted from the most significant bit of its first byte.\<close>

definition addr_bit :: "bytes \<Rightarrow> nat \<Rightarrow> bool" where
  "addr_bit bs p = bit (bs ! (p div 8)) (7 - p mod 8)"

lemma length_cidr_mask [simp]: "length (cidr_mask n l) = l"
  by (induction n l rule: cidr_mask.induct) auto

lemma bit_ones8 [simp]: "bit (0xFF :: 8 word) j \<longleftrightarrow> j < 8"
proof -
  have "(0xFF :: 8 word) = mask 8" by (simp add: mask_eq_exp_minus_1)
  then have "bit (0xFF :: 8 word) j \<longleftrightarrow> bit (mask 8 :: 8 word) j" by (simp only:)
  also have "\<dots> \<longleftrightarrow> j < 8" unfolding bit_mask_iff by auto
  finally show ?thesis .
qed

lemma byte_eq_bits: "(a :: 8 word) = b \<longleftrightarrow> (\<forall>k < 8. bit a (7 - k) = bit b (7 - k))"
proof
  assume *: "\<forall>k < 8. bit a (7 - k) = bit b (7 - k)"
  show "a = b"
  proof (rule bit_eqI)
    fix j
    assume "possible_bit TYPE(8 word) j"
    then have "j < 8" by simp
    with * [rule_format, of "7 - j"] show "bit a j = bit b j" by simp
  qed
qed simp

lemma bit_cidr_mask:
  "i < l \<Longrightarrow> k < 8 \<Longrightarrow> bit (cidr_mask n l ! i) (7 - k) \<longleftrightarrow> 8 * i + k < n"
proof (induction n l arbitrary: i rule: cidr_mask.induct)
  case (2 n l)
  show ?case
  proof (cases i)
    case 0
    with 2 show ?thesis
      by (auto simp: bit_not_iff bit_drop_bit_eq simp del: bit_numeral_word_iff)
  next
    case (Suc j)
    with 2 show ?thesis by (cases "n \<ge> 8") auto
  qed
qed simp

lemma masked_byte_eq:
  assumes "i < l"
  shows "a AND cidr_mask n l ! i = b AND cidr_mask n l ! i
     \<longleftrightarrow> (\<forall>k < 8. 8 * i + k < n \<longrightarrow> bit a (7 - k) = bit b (7 - k))"
  using assms by (auto simp: byte_eq_bits bit_and_iff bit_cidr_mask)

lemma mask_bytes_nth: "i < length a \<Longrightarrow> length a = length m \<Longrightarrow> mask_bytes a m ! i = a ! i AND m ! i"
  by (simp add: mask_bytes_def)

lemma masked_eq_prefix:
  assumes "length a = l" and "length b = l" and "n \<le> 8 * l"
  shows "mask_bytes a (cidr_mask n l) = mask_bytes b (cidr_mask n l)
     \<longleftrightarrow> (\<forall>p < n. addr_bit a p = addr_bit b p)"
proof -
  have "mask_bytes a (cidr_mask n l) = mask_bytes b (cidr_mask n l)
      \<longleftrightarrow> (\<forall>i < l. a ! i AND cidr_mask n l ! i = b ! i AND cidr_mask n l ! i)"
    using assms by (auto simp: list_eq_iff_nth_eq mask_bytes_def)
  also have "\<dots> \<longleftrightarrow> (\<forall>i < l. \<forall>k < 8. 8 * i + k < n \<longrightarrow> bit (a ! i) (7 - k) = bit (b ! i) (7 - k))"
    by (simp add: masked_byte_eq)
  also have "\<dots> \<longleftrightarrow> (\<forall>p < n. addr_bit a p = addr_bit b p)" (is "?L \<longleftrightarrow> ?R")
  proof
    assume L: ?L
    show ?R
    proof (intro allI impI)
      fix p assume "p < n"
      with assms(3) have "p div 8 < l" "8 * (p div 8) + p mod 8 < n" by auto
      with L show "addr_bit a p = addr_bit b p" by (auto simp: addr_bit_def)
    qed
  next
    assume R: ?R
    show ?L
    proof (intro allI impI)
      fix i k :: nat assume "i < l" "k < 8" "8 * i + k < n"
      moreover from \<open>k < 8\<close> have "(8 * i + k) div 8 = i" "(8 * i + k) mod 8 = k" by auto
      ultimately show "bit (a ! i) (7 - k) = bit (b ! i) (7 - k)"
        using R [rule_format, of "8 * i + k"] by (simp add: addr_bit_def)
    qed
  qed
  finally show ?thesis .
qed

lemma mask_bytes_idem: "length a = length m \<Longrightarrow> mask_bytes (mask_bytes a m) m = mask_bytes a m"
  by (auto simp: list_eq_iff_nth_eq mask_bytes_def)

lemma length_mask_bytes [simp]: "length (mask_bytes a m) = min (length a) (length m)"
  by (simp add: mask_bytes_def)

lemma length_v4_fields: "v4_fields s = Some b \<Longrightarrow> length b = 4"
  by (auto simp: v4_fields_def split: list.splits option.splits)

lemma length_v4_prefix [simp]: "length v4_prefix = 12"
  by (simp add: v4_prefix_def)

lemma To4_v4 [simp]: "length b = 4 \<Longrightarrow> To4 (v4_prefix @ b) = Some b"
  by (simp add: To4_def)

lemma To4_short [simp]: "length b = 4 \<Longrightarrow> To4 b = Some b"
  by (simp add: To4_def)

lemma contains_v4:
  assumes "length a = 4" and "length b = 4" and "n \<le> 32"
  shows "net_Contains (mask_bytes a (cidr_mask n 4), cidr_mask n 4) (v4_prefix @ b)
     \<longleftrightarrow> (\<forall>p < n. addr_bit a p = addr_bit b p)"
  using assms masked_eq_prefix [of a 4 b n]
  by (simp add: net_Contains_def Let_def mask_bytes_idem)

end
