(* ===== verification/Evaluator.thy ===== *)
theory Evaluator
  imports Wildcard NetIP "HOL-Library.Multiset"
begin

text \<open>
  The policy engine of internal/authz: the condition evaluator (conditions.go) and the evaluation of
  one policy document (evaluator.go). A request context is a map from keys to values. Go iterates over
  a map in an unspecified order; the parameter \<open>ord\<close> is that order, a permutation of the entries, and
  \<open>num_v\<close> is how \<open>fmt\<close> prints a float.
\<close>

type_synonym context_map = "string \<Rightarrow> json option"
type_synonym iteration = "(string \<times> json) list \<Rightarrow> (string \<times> json) list"

section \<open>Conditions\<close>

text \<open>The entries of a decoded map: one per key, the last one given.\<close>

definition map_entries :: "(string \<times> json) list \<Rightarrow> (string \<times> json) list" where
  "map_entries kvs = AList.clearjunk (rev kvs)"

text \<open>A loop that leaves at the first error or the first unsatisfied entry.\<close>

fun loop_and :: "('a \<Rightarrow> bool res) \<Rightarrow> 'a list \<Rightarrow> bool res" where
  "loop_and f [] = Ok True"
| "loop_and f (x # xs) = (case f x of Ok b \<Rightarrow> if b then loop_and f xs else Ok False
     | Err e \<Rightarrow> Err e | Panic e \<Rightarrow> Panic e)"

definition stringEquals :: "(string \<Rightarrow> string) \<Rightarrow> json \<Rightarrow> json \<Rightarrow> bool" where
  "stringEquals num_v expected actual \<longleftrightarrow> sprintf_v num_v expected = sprintf_v num_v actual"

definition stringEqualsIgnoreCase :: "(string \<Rightarrow> string) \<Rightarrow> json \<Rightarrow> json \<Rightarrow> bool" where
  "stringEqualsIgnoreCase num_v expected actual \<longleftrightarrow>
     equal_fold (sprintf_v num_v expected) (sprintf_v num_v actual)"

definition stringLike :: "(string \<Rightarrow> string) \<Rightarrow> json \<Rightarrow> json \<Rightarrow> bool" where
  "stringLike num_v expected actual \<longleftrightarrow>
     MatchWildcard (sprintf_v num_v expected) (sprintf_v num_v actual)"

definition boolEquals :: "(string \<Rightarrow> string) \<Rightarrow> json \<Rightarrow> json \<Rightarrow> bool" where
  "boolEquals num_v expected actual = (case (as_bool expected, as_bool actual) of
       (Some e, Some a) \<Rightarrow> e = a
     | _ \<Rightarrow> sprintf_v num_v expected = sprintf_v num_v actual)"

definition numericEquals :: "(string \<Rightarrow> string) \<Rightarrow> json \<Rightarrow> json \<Rightarrow> bool" where
  "numericEquals num_v expected actual \<longleftrightarrow> sprintf_v num_v expected = sprintf_v num_v actual"

definition ipAddressMatch :: "(string \<Rightarrow> string) \<Rightarrow> json \<Rightarrow> json \<Rightarrow> bool" where
  "ipAddressMatch num_v expected actual =
     (let expectedStr = sprintf_v num_v expected; actualStr = sprintf_v num_v actual in
      if contains expectedStr ''/'' then
        (case ParseCIDR expectedStr of None \<Rightarrow> False
         | Some ipNet \<Rightarrow> (case ParseIP actualStr of None \<Rightarrow> False | Some ip \<Rightarrow> net_Contains ipNet ip))
      else (case (ParseIP expectedStr, ParseIP actualStr) of
          (Some e, Some a) \<Rightarrow> e = a
        | _ \<Rightarrow> False))"

definition applyOperator :: "(string \<Rightarrow> string) \<Rightarrow> string \<Rightarrow> json \<Rightarrow> json \<Rightarrow> bool res" where
  "applyOperator num_v operator expected actual =
     (if operator = ''StringEquals'' then Ok (stringEquals num_v expected actual)
      else if operator = ''StringNotEquals'' then Ok (\<not> stringEquals num_v expected actual)
      else if operator = ''StringEqualsIgnoreCase'' then Ok (stringEqualsIgnoreCase num_v expected actual)
      else if operator = ''StringLike'' then Ok (stringLike num_v expected actual)
      else if operator = ''Bool'' then Ok (boolEquals num_v expected actual)
      else if operator = ''NumericEquals'' then Ok (numericEquals num_v expected actual)
      else if operator = ''IpAddress'' then Ok (ipAddressMatch num_v expected actual)
      else Err (''unsupported condition operator: '' @ operator))"

definition check_key :: "(string \<Rightarrow> string) \<Rightarrow> context_map \<Rightarrow> string \<Rightarrow> string \<times> json \<Rightarrow> bool res" where
  "check_key num_v ctx operator kv = (case ctx (fst kv) of None \<Rightarrow> Ok False
     | Some actual \<Rightarrow> applyOperator num_v operator (snd kv) actual)"

definition evaluateOperator ::
  "(string \<Rightarrow> string) \<Rightarrow> iteration \<Rightarrow> context_map \<Rightarrow> string \<Rightarrow> json \<Rightarrow> bool res" where
  "evaluateOperator num_v ord ctx operator requirements = (case as_object requirements of
       None \<Rightarrow> Err ''operator requirements must be a map of key-values''
     | Some kvs \<Rightarrow> loop_and (check_key num_v ctx operator) (ord (map_entries kvs)))"

definition ce_Evaluate :: "(string \<Rightarrow> string) \<Rightarrow> iteration \<Rightarrow> json \<Rightarrow> context_map \<Rightarrow> bool res" where
  "ce_Evaluate num_v ord condition ctx =
     (if condition = JNull then Ok True
      else case as_object condition of
        None \<Rightarrow> Err ''condition must be a map''
      | Some kvs \<Rightarrow>
          loop_and (\<lambda>(operator, req). evaluateOperator num_v ord ctx operator req) (ord (map_entries kvs)))"

section \<open>Policy documents\<close>

datatype decision = DecisionAllow | DecisionDeny | DecisionNotApplicable

record statement =
  Sid :: string
  Effect :: string
  Action :: json
  Resource :: json
  Condition :: json

definition zero_statement :: statement where
  "zero_statement = \<lparr>Sid = [], Effect = [], Action = JNull, Resource = JNull, Condition = JNull\<rparr>"

text \<open>
  \<open>json.Unmarshal\<close> into the structs: a key names a field up to letter case, \<open>null\<close> leaves a string
  field alone, any other type mismatch is an error (\<open>None\<close>); a repeated \<open>Statement\<close> key decodes over the
  elements that are already there.
\<close>

definition decode_string :: "string \<Rightarrow> json \<Rightarrow> string option" where
  "decode_string old j = (case j of JStr s \<Rightarrow> Some s | JNull \<Rightarrow> Some old | _ \<Rightarrow> None)"

definition decode_entry :: "statement \<Rightarrow> string \<times> json \<Rightarrow> statement option" where
  "decode_entry st kv = (let k = fst kv; v = snd kv in
     if equal_fold k ''Sid'' then map_option (\<lambda>s. st\<lparr>Sid := s\<rparr>) (decode_string (Sid st) v)
     else if equal_fold k ''Effect'' then map_option (\<lambda>s. st\<lparr>Effect := s\<rparr>) (decode_string (Effect st) v)
     else if equal_fold k ''Action'' then Some (st\<lparr>Action := v\<rparr>)
     else if equal_fold k ''Resource'' then Some (st\<lparr>Resource := v\<rparr>)
     else if equal_fold k ''Condition'' then Some (st\<lparr>Condition := v\<rparr>)
     else Some st)"

fun decode_entries :: "statement \<Rightarrow> (string \<times> json) list \<Rightarrow> statement option" where
  "decode_entries st [] = Some st"
| "decode_entries st (kv # kvs) = Option.bind (decode_entry st kv) (\<lambda>st'. decode_entries st' kvs)"

definition decode_statement :: "statement \<Rightarrow> json \<Rightarrow> statement option" where
  "decode_statement old j = (case j of JObj kvs \<Rightarrow> decode_entries old kvs | JNull \<Rightarrow> Some old | _ \<Rightarrow> None)"

fun decode_elements :: "statement list \<Rightarrow> json list \<Rightarrow> statement list option" where
  "decode_elements old [] = Some []"
| "decode_elements old (j # js) =
     Option.bind (decode_statement (if old = [] then zero_statement else hd old) j)
       (\<lambda>s. map_option ((#) s) (decode_elements (tl old) js))"

fun decode_document :: "statement list \<Rightarrow> (string \<times> json) list \<Rightarrow> statement list option" where
  "decode_document old [] = Some old"
| "decode_document old ((k, v) # kvs) =
     (if equal_fold k ''Version'' then
        (case v of JStr _ \<Rightarrow> decode_document old kvs | JNull \<Rightarrow> decode_document old kvs | _ \<Rightarrow> None)
      else if equal_fold k ''Statement'' then
        (case v of JArr js \<Rightarrow> Option.bind (decode_elements old js) (\<lambda>sts. decode_document sts kvs)
         | JNull \<Rightarrow> decode_document [] kvs | _ \<Rightarrow> None)
      else decode_document old kvs)"

text \<open>The statements of a document text; \<open>None\<close> is the error of \<open>json.Unmarshal\<close>.\<close>

definition unmarshal_policy :: "string \<Rightarrow> statement list option" where
  "unmarshal_policy docJSON = (case parse_json docJSON of
       Some (JObj kvs) \<Rightarrow> decode_document [] kvs
     | Some JNull \<Rightarrow> Some []
     | _ \<Rightarrow> None)"

definition matchField :: "json \<Rightarrow> string \<Rightarrow> bool" where
  "matchField field value = (case field of
       JStr v \<Rightarrow> MatchWildcard v value
     | JArr items \<Rightarrow> list_ex (\<lambda>item. case as_string item of Some s \<Rightarrow> MatchWildcard s value | None \<Rightarrow> False) items
     | _ \<Rightarrow> False)"

definition stmt_matches ::
  "(string \<Rightarrow> string) \<Rightarrow> iteration \<Rightarrow> statement \<Rightarrow> string \<Rightarrow> string \<Rightarrow> context_map \<Rightarrow> bool res" where
  "stmt_matches num_v ord stmt action resource ctx =
     (if \<not> matchField (Action stmt) action then Ok False
      else if \<not> matchField (Resource stmt) resource then Ok False
      else if Condition stmt \<noteq> JNull then ce_Evaluate num_v ord (Condition stmt) ctx
      else Ok True)"

text \<open>The loop over the statements; the second component is the error value.\<close>

fun eval_statements ::
  "(string \<Rightarrow> string) \<Rightarrow> iteration \<Rightarrow> statement list \<Rightarrow> string \<Rightarrow> string \<Rightarrow> context_map \<Rightarrow>
    decision \<times> string option" where
  "eval_statements num_v ord [] action resource ctx = (DecisionNotApplicable, None)"
| "eval_statements num_v ord (stmt # rest) action resource ctx =
     (case stmt_matches num_v ord stmt action resource ctx of
        Err e \<Rightarrow> (DecisionDeny, Some e)
      | Panic e \<Rightarrow> (DecisionDeny, Some e)
      | Ok matched \<Rightarrow>
          if matched \<and> equal_fold (Effect stmt) ''Deny'' then (DecisionDeny, None)
          else if matched \<and> equal_fold (Effect stmt) ''Allow'' then (DecisionAllow, None)
          else eval_statements num_v ord rest action resource ctx)"

definition Evaluate ::
  "(string \<Rightarrow> string) \<Rightarrow> iteration \<Rightarrow> string \<Rightarrow> string \<Rightarrow> string \<Rightarrow> context_map \<Rightarrow> decision \<times> string option" where
  "Evaluate num_v ord docJSON action resource ctx = (case unmarshal_policy docJSON of
       None \<Rightarrow> (DecisionDeny, Some ''invalid policy document'')
     | Some sts \<Rightarrow> eval_statements num_v ord sts action resource ctx)"

section \<open>Lemmas about conditions\<close>

lemma loop_and_True: "loop_and f xs = Ok True \<longleftrightarrow> (\<forall>x \<in> set xs. f x = Ok True)"
  by (induction xs) (auto split: res.splits)

lemma loop_and_no_Panic: "(\<And>x e. f x \<noteq> Panic e) \<Longrightarrow> loop_and f xs \<noteq> Panic e"
  by (induction xs) (auto split: res.splits)

lemma applyOperator_no_Panic [simp]: "applyOperator num_v operator x y \<noteq> Panic e"
  by (simp add: applyOperator_def)

lemma check_key_no_Panic [simp]: "check_key num_v ctx operator kv \<noteq> Panic e"
  by (simp add: check_key_def split: option.splits)

lemma evaluateOperator_no_Panic [simp]: "evaluateOperator num_v ord ctx operator req \<noteq> Panic e"
  by (simp add: evaluateOperator_def loop_and_no_Panic split: option.splits)

lemma ce_Evaluate_no_Panic [simp]: "ce_Evaluate num_v ord c ctx \<noteq> Panic e"
proof -
  have "loop_and (\<lambda>(operator, req). evaluateOperator num_v ord ctx operator req) xs \<noteq> Panic e" for xs
    by (rule loop_and_no_Panic) (simp split: prod.split)
  then show ?thesis by (auto simp: ce_Evaluate_def split: option.splits)
qed

lemma stmt_matches_no_Panic [simp]: "stmt_matches num_v ord stmt a r ctx \<noteq> Panic e"
  by (simp add: stmt_matches_def)

lemma check_key_True:
  "check_key num_v ctx operator kv = Ok True
     \<longleftrightarrow> (\<exists>a. ctx (fst kv) = Some a \<and> applyOperator num_v operator (snd kv) a = Ok True)"
  by (simp add: check_key_def split: option.splits)

text \<open>What a condition means, without any iteration order.\<close>

definition cond_holds :: "(string \<Rightarrow> string) \<Rightarrow> json \<Rightarrow> context_map \<Rightarrow> bool" where
  "cond_holds num_v c ctx \<longleftrightarrow> c = JNull \<or>
     (\<exists>kvs. c = JObj kvs \<and> (\<forall>(operator, req) \<in> set (map_entries kvs).
        \<exists>rs. req = JObj rs \<and> (\<forall>(k, v) \<in> set (map_entries rs).
          \<exists>a. ctx k = Some a \<and> applyOperator num_v operator v a = Ok True)))"

lemma as_object_Some: "as_object j = Some kvs \<longleftrightarrow> j = JObj kvs"
  by (cases j) auto

lemma evaluateOperator_True:
  assumes "\<And>xs. mset (ord xs) = mset xs"
  shows "evaluateOperator num_v ord ctx operator req = Ok True \<longleftrightarrow>
     (\<exists>rs. req = JObj rs \<and> (\<forall>(k, v) \<in> set (map_entries rs).
          \<exists>a. ctx k = Some a \<and> applyOperator num_v operator v a = Ok True))"
proof -
  have "set (ord xs) = set xs" for xs by (metis assms set_mset_mset)
  then show ?thesis
    by (cases req) (auto simp: evaluateOperator_def loop_and_True check_key_True)
qed

lemma ce_Evaluate_True:
  assumes "\<And>xs. mset (ord xs) = mset xs"
  shows "ce_Evaluate num_v ord c ctx = Ok True \<longleftrightarrow> cond_holds num_v c ctx"
proof -
  have "set (ord xs) = set xs" for xs by (metis assms set_mset_mset)
  then show ?thesis
    by (cases c) (auto simp: ce_Evaluate_def cond_holds_def loop_and_True
        evaluateOperator_True [OF assms] split: prod.splits)
qed

section \<open>Lemmas about statements\<close>

definition decides :: "(string \<Rightarrow> string) \<Rightarrow> iteration \<Rightarrow> statement \<Rightarrow> string \<Rightarrow> string \<Rightarrow> context_map \<Rightarrow> bool" where
  "decides num_v ord stmt a r ctx \<longleftrightarrow> stmt_matches num_v ord stmt a r ctx = Ok True
     \<and> (equal_fold (Effect stmt) ''Deny'' \<or> equal_fold (Effect stmt) ''Allow'')"

definition errs :: "(string \<Rightarrow> string) \<Rightarrow> iteration \<Rightarrow> statement \<Rightarrow> string \<Rightarrow> string \<Rightarrow> context_map \<Rightarrow> bool" where
  "errs num_v ord stmt a r ctx \<longleftrightarrow> (\<exists>e. stmt_matches num_v ord stmt a r ctx = Err e)"

lemma eval_skip:
  "\<not> decides num_v ord st a r ctx \<Longrightarrow> \<not> errs num_v ord st a r ctx \<Longrightarrow>
     eval_statements num_v ord (st # rest) a r ctx = eval_statements num_v ord rest a r ctx"
  by (auto simp: decides_def errs_def split: res.splits)

lemma eval_skips:
  "\<forall>st \<in> set pre. \<not> decides num_v ord st a r ctx \<and> \<not> errs num_v ord st a r ctx \<Longrightarrow>
     eval_statements num_v ord (pre @ rest) a r ctx = eval_statements num_v ord rest a r ctx"
  by (induction pre) (simp_all add: eval_skip del: eval_statements.simps)

lemma lower_Allow_Deny: "to_lower ''Allow'' \<noteq> to_lower ''Deny''"
  by code_simp

lemma allow_not_deny: "equal_fold x ''Allow'' \<Longrightarrow> \<not> equal_fold x ''Deny''"
  using lower_Allow_Deny by (auto simp: equal_fold_def)

lemma eval_decides:
  assumes "decides num_v ord st a r ctx"
  shows "eval_statements num_v ord (st # rest) a r ctx =
     (if equal_fold (Effect st) ''Deny'' then DecisionDeny else DecisionAllow, None)"
  using assms by (auto simp: decides_def)

lemma eval_errs:
  "errs num_v ord st a r ctx \<Longrightarrow>
     \<exists>e. eval_statements num_v ord (st # rest) a r ctx = (DecisionDeny, Some e)"
  by (auto simp: errs_def)

lemma set_split_on: "set s \<subseteq> insert c (\<Union> (set ` set (split_on c s)))"
proof (induction s)
  case (Cons a s)
  then show ?case by (cases "split_on c s") auto
qed simp

lemma octet_digits: "octet s = Some w \<Longrightarrow> list_all is_digit s"
  by (auto simp: octet_def split: if_splits)

lemma digit_not_sep: "is_digit c \<Longrightarrow> c \<noteq> CHR '':'' \<and> c \<noteq> CHR ''%'' \<and> c \<noteq> CHR ''/'' \<and> c \<noteq> CHR ''.''"
  by (auto simp: is_digit_def less_eq_char_def)

lemma v4_chars:
  assumes "v4_fields s = Some b" and "c \<in> set s"
  shows "is_digit c \<or> c = CHR ''.''"
proof -
  from assms(1) obtain p q r t where sp: "split_on (CHR ''.'') s = [p, q, r, t]"
    and "list_all is_digit p" "list_all is_digit q" "list_all is_digit r" "list_all is_digit t"
    by (auto simp: v4_fields_def split: list.splits option.splits dest!: octet_digits)
  with assms(2) set_split_on [of s "CHR ''.''"] show ?thesis
    by (auto simp: list_all_iff)
qed

lemma v4_has_dot: "v4_fields s = Some b \<Longrightarrow> CHR ''.'' \<in> set s"
proof (rule ccontr)
  assume "v4_fields s = Some b" and "CHR ''.'' \<notin> set s"
  then show False by (simp add: v4_fields_def split_on_no_sep)
qed

lemma parse_addr_v4:
  assumes "v4_fields s = Some b"
  shows "parse_addr s = Some (32, v4_prefix @ b)"
proof -
  let ?P = "\<lambda>c. c \<in> set ''.:%''"
  from v4_has_dot [OF assms] obtain c where c: "find ?P s = Some c"
    by (metis (no_types, lifting) find_None_iff list.set_intros(1) not_Some_eq)
  then have "c \<in> set s" "?P c" by (auto simp: find_Some_iff in_set_conv_nth)
  with v4_chars [OF assms, of c] digit_not_sep [of c] have "c = CHR ''.''" by auto
  with c assms show ?thesis by (simp add: parse_addr_def)
qed

lemma ParseIP_v4: "v4_fields s = Some b \<Longrightarrow> ParseIP s = Some (v4_prefix @ b)"
  by (simp add: ParseIP_def parse_addr_v4)

lemma ParseCIDR_v4:
  assumes "v4_fields s = Some b" and "n \<le> 32"
  shows "ParseCIDR (s @ ''/'' @ show_nat n) = Some (mask_bytes b (cidr_mask n 4), cidr_mask n 4)"
proof -
  have "\<forall>c \<in> set s. c \<noteq> CHR ''/''"
    using v4_chars [OF assms(1)] digit_not_sep by blast
  then have "takeWhile ((\<noteq>) (CHR ''/'')) (s @ ''/'' @ show_nat n) = s"
    and "dropWhile ((\<noteq>) (CHR ''/'')) (s @ ''/'' @ show_nat n) = CHR ''/'' # show_nat n"
    by (auto simp: takeWhile_append dropWhile_append)
  with assms show ?thesis
    by (simp add: ParseCIDR_def Let_def parse_addr_v4 show_nat_digits)
qed

section \<open>Properties\<close>

text \<open>C9. Inside one policy document the first statement that matches the request and has the effect
  Allow or Deny decides, whatever follows it, provided no statement before it fails to evaluate.\<close>

theorem Evaluate_first_applicable:
  assumes "unmarshal_policy doc = Some (pre @ st # rest)"
    and "\<forall>s \<in> set pre. \<not> decides num_v ord s action resource ctx \<and> \<not> errs num_v ord s action resource ctx"
    and "decides num_v ord st action resource ctx"
  shows "Evaluate num_v ord doc action resource ctx =
     (if equal_fold (Effect st) ''Deny'' then DecisionDeny else DecisionAllow, None)"
  using assms by (simp add: Evaluate_def eval_skips eval_decides del: eval_statements.simps)

definition shadow_doc :: string where
  "shadow_doc = ''{\"Statement\":[{\"Effect\":\"Allow\",\"Action\":\"*\",\"Resource\":\"*\"},{\"Effect\":\"Deny\",\"Action\":\"doc:delete\",\"Resource\":\"*\"}]}''"

theorem Evaluate_first_applicable_witness:
  "Evaluate id id shadow_doc ''doc:delete'' ''r1'' Map.empty = (DecisionAllow, None)"
proof -
  let ?s1 = "zero_statement\<lparr>Effect := ''Allow'', Action := JStr ''*'', Resource := JStr ''*''\<rparr>"
  let ?s2 = "zero_statement\<lparr>Effect := ''Deny'', Action := JStr ''doc:delete'', Resource := JStr ''*''\<rparr>"
  have d: "unmarshal_policy shadow_doc = Some ([] @ ?s1 # [?s2])" by code_simp
  have "decides id id ?s1 ''doc:delete'' ''r1'' Map.empty" by code_simp
  moreover have "\<not> equal_fold (Effect ?s1) ''Deny''" by code_simp
  ultimately show ?thesis
    using Evaluate_first_applicable [OF d, of id id "''doc:delete''" "''r1''" Map.empty] by simp
qed

text \<open>C37. Whether a condition is satisfied does not depend on the order in which Go iterates over the
  condition's maps: \<open>Evaluate\<close> of the condition evaluator returns true exactly when every key of every
  operator is present in the context and passes its operator.\<close>

theorem condition_satisfied_iff:
  assumes "\<And>xs. mset (ord xs) = mset xs"
  shows "ce_Evaluate num_v ord c ctx = Ok True \<longleftrightarrow> cond_holds num_v c ctx"
  using assms by (rule ce_Evaluate_True)

theorem condition_satisfied_iff_witness:
  "ce_Evaluate id rev (JObj [(''Bool'', JObj [(''mfa'', JBool True)])]) [''mfa'' \<mapsto> JBool True] = Ok True
   \<and> cond_holds id (JObj [(''Bool'', JObj [(''mfa'', JBool True)])]) [''mfa'' \<mapsto> JBool True]"
proof -
  let ?c = "JObj [(''Bool'', JObj [(''mfa'', JBool True)])]"
  have "ce_Evaluate id rev ?c [''mfa'' \<mapsto> JBool True] = Ok True" by code_simp
  moreover have "ce_Evaluate id rev ?c [''mfa'' \<mapsto> JBool True] = Ok True
      \<longleftrightarrow> cond_holds id ?c [''mfa'' \<mapsto> JBool True]"
    by (rule condition_satisfied_iff) simp
  ultimately show ?thesis by simp
qed

text \<open>The \<open>IpAddress\<close> operator on an IPv4 network of prefix length n holds exactly when the first
  n bits of the request's address are those of the network.\<close>

lemma IpAddress_prefix:
  assumes "v4_fields a = Some x" and "v4_fields b = Some y" and "n \<le> 32"
  shows "applyOperator num_v ''IpAddress'' (JStr (a @ ''/'' @ show_nat n)) (JStr b)
     = Ok (\<forall>p < n. addr_bit x p = addr_bit y p)"
proof -
  have "contains (a @ ''/'' @ show_nat n) ''/''"
    unfolding contains_def by (auto simp: sublist_def)
  with assms show ?thesis
    by (simp add: applyOperator_def ipAddressMatch_def ParseCIDR_v4 [simplified] ParseIP_v4
        contains_v4 length_v4_fields)
qed

end
