(* ===== verification/DenyOverride.thy ===== *)
theory DenyOverride
  imports Evaluator
begin

text \<open>
  The contract shared by the two authorization loops (Authorize of the authz service and
  CheckPermission of the policy queries): a scan over policies that stops at the first Deny and
  remembers whether an Allow was seen. What a policy votes is a parameter; the lemmas say what such a
  scan computes, and the loops interpret the locale.
\<close>

locale deny_scan =
  fixes vote :: "'p \<Rightarrow> decision" and scan :: "bool \<Rightarrow> 'p list \<Rightarrow> bool"
  assumes scan_Nil: "scan b [] = b"
    and scan_Cons: "scan b (p # ps) = (case vote p of DecisionDeny \<Rightarrow> False
      | DecisionAllow \<Rightarrow> scan True ps | DecisionNotApplicable \<Rightarrow> scan b ps)"
begin

lemma scan_iff:
  "scan b ps \<longleftrightarrow> (\<forall>p \<in> set ps. vote p \<noteq> DecisionDeny) \<and> (b \<or> (\<exists>p \<in> set ps. vote p = DecisionAllow))"
  by (induction ps arbitrary: b) (auto simp: scan_Nil scan_Cons split: decision.splits)

lemma one_deny: "p \<in> set ps \<Longrightarrow> vote p = DecisionDeny \<Longrightarrow> \<not> scan b ps"
  by (auto simp: scan_iff)

lemma scan_order: "mset ps = mset qs \<Longrightarrow> scan b ps = scan b qs"
  by (simp add: scan_iff) (metis set_mset_mset)

lemma scan_append: "scan b (ps @ qs) \<longleftrightarrow> (scan b ps \<or> (\<forall>p \<in> set ps. vote p \<noteq> DecisionDeny) \<and> scan False qs)
    \<and> (\<forall>q \<in> set qs. vote q \<noteq> DecisionDeny)"
  by (auto simp: scan_iff)

lemma default_deny: "\<forall>p \<in> set ps. vote p = DecisionNotApplicable \<Longrightarrow> \<not> scan False ps"
  by (auto simp: scan_iff)

lemma more_policies: "scan b ps \<Longrightarrow> \<forall>q \<in> set qs. vote q \<noteq> DecisionDeny \<Longrightarrow> scan b (ps @ qs)"
  by (auto simp: scan_iff)

end

end
