(* ===== verification/PolicyCheck.thy ===== *)
theory PolicyCheck
  imports PolicyStore DenyOverride
begin

text \<open>
  The second policy evaluator of the service, in internal/queries/policy_queries.go: EvaluatePolicy and
  what is built on it (SimulatePolicy, CheckPermission, BulkCheckPermissions,
  GetEffectivePermissions). Unlike internal/authz it knows no patterns besides \<open>*\<close> and ignores the
  conditions. A nil pointer is \<open>None\<close>, and reading through it panics.
\<close>

section \<open>Data\<close>

record PolicyEvaluationContext =
  pec_Principal :: string
  pec_Resource :: string
  pec_Action :: string
  pec_Environment :: "(string \<times> string) list"
  pec_RequestTime :: instant
  pec_SourceIP :: string
  pec_UserAgent :: string
  pec_SessionID :: string

record PolicyEvaluationResult =
  per_Effect :: string
  per_Decision :: string
  per_MatchedPolicy :: string
  per_Conditions :: "(string \<times> bool) list"
  per_Reasons :: "string list"
  per_Metadata :: "(string \<times> string) list"

record PolicySimulationTestCase =
  tc_Name :: string
  tc_Principal :: string
  tc_Resource :: string
  tc_Action :: string
  tc_Context :: "PolicyEvaluationContext option"
  tc_Expected :: string

record PolicySimulationRequest =
  psr_PolicyDocument :: string
  psr_Context :: "PolicyEvaluationContext option"
  psr_TestCases :: "PolicySimulationTestCase option list"

record PolicyTestResult =
  ptr_TestCase :: PolicySimulationTestCase
  ptr_Result :: PolicyEvaluationResult
  ptr_Passed :: bool
  ptr_Message :: string

record PolicySimulationResult =
  sim_Valid :: bool
  sim_Errors :: "string list"
  sim_TestResults :: "PolicyTestResult list"
  sim_Evaluation :: "PolicyEvaluationResult option"

record PermissionCheckRequest =
  pcq_PrincipalID :: string
  pcq_PrincipalType :: string
  pcq_OrganizationID :: string
  pcq_Resource :: string
  pcq_Action :: string
  pcq_Context :: "PolicyEvaluationContext option"

record PermissionCheckResult =
  pcr_Allowed :: bool
  pcr_Decision :: string
  pcr_Policies :: "string list"
  pcr_Evaluation :: "PolicyEvaluationResult option"
  pcr_Request :: PermissionCheckRequest

record EffectivePermission =
  ep_Resource :: string
  ep_Actions :: "string list"
  ep_Effect :: string
  ep_Source :: string

record EffectivePermissions =
  eps_PrincipalID :: string
  eps_PrincipalType :: string
  eps_Permissions :: "EffectivePermission list"
  eps_GeneratedAt :: instant

definition empty_context :: PolicyEvaluationContext where
  "empty_context = \<lparr>pec_Principal = [], pec_Resource = [], pec_Action = [], pec_Environment = [],
     pec_RequestTime = 0, pec_SourceIP = [], pec_UserAgent = [], pec_SessionID = []\<rparr>"

definition not_applicable :: PolicyEvaluationResult where
  "not_applicable = \<lparr>per_Effect = ''not_applicable'', per_Decision = ''not_applicable'',
     per_MatchedPolicy = [], per_Conditions = [], per_Reasons = [], per_Metadata = []\<rparr>"

definition nil_pointer :: string where
  "nil_pointer = ''invalid memory address or nil pointer dereference''"

section \<open>One document\<close>

fun strings_of :: "json list \<Rightarrow> string list res" where
  "strings_of [] = Ok []"
| "strings_of (j # js) = (case as_string j of None \<Rightarrow> Panic bad_assertion
     | Some s \<Rightarrow> (case strings_of js of Ok ss \<Rightarrow> Ok (s # ss) | r \<Rightarrow> r))"

definition extractStringArray :: "json option \<Rightarrow> string list res" where
  "extractStringArray field = (case field of
       Some (JStr v) \<Rightarrow> Ok [v] | Some (JArr v) \<Rightarrow> strings_of v | _ \<Rightarrow> Ok [])"

definition matchesPattern :: "string list \<Rightarrow> string \<Rightarrow> bool" where
  "matchesPattern patterns value = list_ex (\<lambda>pattern. pattern = ''*'' \<or> pattern = value) patterns"

definition statementMatches :: "(string \<times> json) list \<Rightarrow> PolicyEvaluationContext option \<Rightarrow> bool res" where
  "statementMatches statement ctx = (case extractStringArray (obj_get statement ''Action'') of
       Err e \<Rightarrow> Err e | Panic e \<Rightarrow> Panic e
     | Ok actions \<Rightarrow> (case ctx of None \<Rightarrow> Panic nil_pointer
         | Some c \<Rightarrow> if \<not> matchesPattern actions (pec_Action c) then Ok False
             else (case extractStringArray (obj_get statement ''Resource'') of
                 Err e \<Rightarrow> Err e | Panic e \<Rightarrow> Panic e
               | Ok resources \<Rightarrow> Ok (matchesPattern resources (pec_Resource c)))))"

definition matched_reason :: "PolicyEvaluationContext \<Rightarrow> string" where
  "matched_reason c = ''Statement matched for action '' @ pec_Action c @ '' on resource '' @ pec_Resource c"

text \<open>The loop of EvaluatePolicy; \<open>result\<close> is the struct built so far.\<close>

fun evaluate_loop ::
  "PolicyEvaluationContext option \<Rightarrow> PolicyEvaluationResult \<Rightarrow> json list \<Rightarrow> PolicyEvaluationResult res" where
  "evaluate_loop ctx result [] = Ok result"
| "evaluate_loop ctx result (st # rest) = (case as_object st of None \<Rightarrow> Panic bad_assertion
     | Some statement \<Rightarrow> (case statementMatches statement ctx of
           Err e \<Rightarrow> Err e | Panic e \<Rightarrow> Panic e
         | Ok False \<Rightarrow> evaluate_loop ctx result rest
         | Ok True \<Rightarrow> (case Option.bind (obj_get statement ''Effect'') as_string of
               None \<Rightarrow> Panic bad_assertion
             | Some effect \<Rightarrow>
                 let result' = result\<lparr>per_Effect := to_lower effect, per_Decision := to_lower effect,
                       per_Reasons := per_Reasons result @ (case ctx of Some c \<Rightarrow> [matched_reason c] | None \<Rightarrow> [])\<rparr>
                 in if per_Effect result' = ''deny'' then Ok result' else evaluate_loop ctx result' rest)))"

definition EvaluatePolicy :: "string \<Rightarrow> PolicyEvaluationContext option \<Rightarrow> PolicyEvaluationResult res" where
  "EvaluatePolicy policyDocument ctx = (case decode_map policyDocument of
       None \<Rightarrow> Err (''invalid policy JSON: '' @ json_error)
     | Some policy \<Rightarrow> (case Option.bind (obj_get policy ''Statement'') as_array of
           None \<Rightarrow> Err ''policy must have Statement array''
         | Some statements \<Rightarrow> evaluate_loop ctx not_applicable statements))"

section \<open>Simulation\<close>

definition run_test :: "string \<Rightarrow> PolicySimulationTestCase option \<Rightarrow> PolicyTestResult res" where
  "run_test doc testCase = (case testCase of None \<Rightarrow> Panic nil_pointer
     | Some tc \<Rightarrow>
         let ctx = (case tc_Context tc of Some c \<Rightarrow> c
               | None \<Rightarrow> empty_context\<lparr>pec_Principal := tc_Principal tc, pec_Resource := tc_Resource tc,
                   pec_Action := tc_Action tc\<rparr>)
         in (case EvaluatePolicy doc (Some ctx) of
               Panic e \<Rightarrow> Panic e
             | Err e \<Rightarrow> Ok \<lparr>ptr_TestCase = tc,
                 ptr_Result = not_applicable\<lparr>per_Effect := ''error'', per_Decision := ''error'', per_Reasons := [e]\<rparr>,
                 ptr_Passed = False, ptr_Message = e\<rparr>
             | Ok evaluation \<Rightarrow>
                 let passed = (per_Effect evaluation = tc_Expected tc)
                 in Ok \<lparr>ptr_TestCase = tc, ptr_Result = evaluation, ptr_Passed = passed,
                   ptr_Message = (if passed then ''Test passed''
                     else ''Expected '' @ tc_Expected tc @ '', got '' @ per_Effect evaluation)\<rparr>))"

fun run_tests :: "string \<Rightarrow> PolicySimulationTestCase option list \<Rightarrow> PolicyTestResult list res" where
  "run_tests doc [] = Ok []"
| "run_tests doc (t # ts) = (case run_test doc t of
     Ok r \<Rightarrow> (case run_tests doc ts of Ok rs \<Rightarrow> Ok (r # rs) | Err e \<Rightarrow> Err e | Panic e \<Rightarrow> Panic e)
   | Err e \<Rightarrow> Err e | Panic e \<Rightarrow> Panic e)"

definition SimulatePolicy :: "PolicySimulationRequest \<Rightarrow> PolicySimulationResult res" where
  "SimulatePolicy request = (let doc = psr_PolicyDocument request;
       start = \<lparr>sim_Valid = True, sim_Errors = [], sim_TestResults = [], sim_Evaluation = None\<rparr>
     in case validatePolicyDocument doc of
          Panic e \<Rightarrow> Panic e
        | Err e \<Rightarrow> Ok (start\<lparr>sim_Valid := False, sim_Errors := [e]\<rparr>)
        | Ok _ \<Rightarrow> (case (case psr_Context request of None \<Rightarrow> Ok start
              | Some c \<Rightarrow> (case EvaluatePolicy doc (Some c) of
                    Panic e \<Rightarrow> Panic e
                  | Err e \<Rightarrow> Ok (start\<lparr>sim_Valid := False, sim_Errors := [e]\<rparr>)
                  | Ok evaluation \<Rightarrow> Ok (start\<lparr>sim_Evaluation := Some evaluation\<rparr>))) of
              Err e \<Rightarrow> Err e | Panic e \<Rightarrow> Panic e
            | Ok result \<Rightarrow> (case run_tests doc (psr_TestCases request) of
                  Err e \<Rightarrow> Err e | Panic e \<Rightarrow> Panic e
                | Ok rs \<Rightarrow> Ok (result\<lparr>sim_TestResults := rs\<rparr>))))"

section \<open>Permission checks\<close>

text \<open>The loop over the policies; on a Deny it stops with \<open>hasExplicitDeny\<close>.\<close>

fun check_loop ::
  "PolicyEvaluationContext option \<Rightarrow> PermissionCheckResult \<Rightarrow> Policy list \<Rightarrow> PermissionCheckResult res" where
  "check_loop ctx result [] = Ok result"
| "check_loop ctx result (policy # rest) = (case EvaluatePolicy (pol_Document policy) ctx of
     Panic e \<Rightarrow> Panic e
   | Err _ \<Rightarrow> check_loop ctx result rest
   | Ok evaluation \<Rightarrow>
       let result' = result\<lparr>pcr_Policies := pcr_Policies result @ [pol_ID policy]\<rparr>
       in if per_Effect evaluation = ''deny''
          then Ok (result'\<lparr>pcr_Allowed := False, pcr_Decision := ''deny'', pcr_Evaluation := Some evaluation\<rparr>)
          else if per_Effect evaluation = ''allow''
          then check_loop ctx (result'\<lparr>pcr_Allowed := True, pcr_Decision := ''allow'',
                 pcr_Evaluation := Some evaluation\<rparr>) rest
          else check_loop ctx result' rest)"

definition check_start :: "PermissionCheckRequest \<Rightarrow> PermissionCheckResult" where
  "check_start request = \<lparr>pcr_Allowed = False, pcr_Decision = ''deny'', pcr_Policies = [],
     pcr_Evaluation = None, pcr_Request = request\<rparr>"

definition CheckPermission :: "string \<Rightarrow> PermissionCheckRequest \<Rightarrow> PermissionCheckResult query" where
  "CheckPermission organizationID request =
     (let orgID = (if organizationID = [] then pcq_OrganizationID request else organizationID)
      in bnd (GetPrincipalPolicies (pcq_PrincipalID request) (pcq_PrincipalType request) orgID)
           (\<lambda>policies. lift (check_loop (pcq_Context request) (check_start request) policies)))"

definition check_error :: "PermissionCheckRequest \<Rightarrow> string \<Rightarrow> PermissionCheckResult" where
  "check_error request e = (check_start request)\<lparr>pcr_Decision := ''error'',
     pcr_Evaluation := Some (not_applicable\<lparr>per_Effect := ''deny'', per_Decision := ''error'', per_Reasons := [e]\<rparr>)\<rparr>"

fun BulkCheckPermissions :: "string \<Rightarrow> PermissionCheckRequest list \<Rightarrow> PermissionCheckResult list query" where
  "BulkCheckPermissions organizationID [] = ret []"
| "BulkCheckPermissions organizationID (request # requests) =
     bnd (attempt (CheckPermission organizationID request)) (\<lambda>outcome.
     bnd (BulkCheckPermissions organizationID requests) (\<lambda>results.
     ret ((case outcome of Inl e \<Rightarrow> check_error request e | Inr r \<Rightarrow> r) # results)))"

section \<open>Effective permissions\<close>

text \<open>The entries of \<open>resourcePermissions\<close>, one per resource, in the order they were added.\<close>

fun merge_resource ::
  "string \<Rightarrow> string list \<Rightarrow> string \<Rightarrow> string \<Rightarrow> EffectivePermission list \<Rightarrow> EffectivePermission list" where
  "merge_resource resource actions effect source [] =
     [\<lparr>ep_Resource = resource, ep_Actions = actions, ep_Effect = effect, ep_Source = source\<rparr>]"
| "merge_resource resource actions effect source (perm # perms) =
     (if ep_Resource perm = resource
      then perm\<lparr>ep_Actions := foldl (\<lambda>as a. if a \<in> set as then as else as @ [a]) (ep_Actions perm) actions,
             ep_Effect := (if effect = ''deny'' then ''deny'' else ep_Effect perm)\<rparr> # perms
      else perm # merge_resource resource actions effect source perms)"

fun effective_statements ::
  "string \<Rightarrow> json list \<Rightarrow> EffectivePermission list \<Rightarrow> EffectivePermission list res" where
  "effective_statements source [] perms = Ok perms"
| "effective_statements source (st # rest) perms = (case as_object st of None \<Rightarrow> Panic bad_assertion
     | Some statement \<Rightarrow> (case Option.bind (obj_get statement ''Effect'') as_string of
           None \<Rightarrow> Panic bad_assertion
         | Some effect \<Rightarrow> (case extractStringArray (obj_get statement ''Resource'') of
               Err e \<Rightarrow> Err e | Panic e \<Rightarrow> Panic e
             | Ok resources \<Rightarrow> (case extractStringArray (obj_get statement ''Action'') of
                   Err e \<Rightarrow> Err e | Panic e \<Rightarrow> Panic e
                 | Ok actions \<Rightarrow> effective_statements source rest
                     (foldl (\<lambda>ps r. merge_resource r actions (to_lower effect) source ps) perms resources)))))"

fun effective_policies :: "Policy list \<Rightarrow> EffectivePermission list \<Rightarrow> EffectivePermission list res" where
  "effective_policies [] perms = Ok perms"
| "effective_policies (policy # rest) perms =
     (case Option.bind (Option.bind (decode_map (pol_Document policy)) (\<lambda>doc. obj_get doc ''Statement'')) as_array of
        None \<Rightarrow> effective_policies rest perms
      | Some statements \<Rightarrow> (case effective_statements (pol_Name policy) statements perms of
            Ok perms' \<Rightarrow> effective_policies rest perms' | r \<Rightarrow> r))"

text \<open>\<open>ord\<close> is the order in which Go iterates over the map of the result.\<close>

definition GetEffectivePermissions ::
  "(EffectivePermission list \<Rightarrow> EffectivePermission list) \<Rightarrow> string \<Rightarrow> string \<Rightarrow> string \<Rightarrow> EffectivePermissions query" where
  "GetEffectivePermissions ord principalID principalType organizationID =
     bnd (GetPrincipalPolicies principalID principalType organizationID) (\<lambda>policies. gets now (\<lambda>t.
     bnd (lift (effective_policies policies [])) (\<lambda>perms.
     ret \<lparr>eps_PrincipalID = principalID, eps_PrincipalType = principalType,
       eps_Permissions = ord perms, eps_GeneratedAt = t\<rparr>)))"

section \<open>The loop over the policies as a deny-overriding scan\<close>

text \<open>What a policy contributes; a panic ends the request without a grant, as a Deny does.\<close>

definition policy_vote :: "PolicyEvaluationContext option \<Rightarrow> Policy \<Rightarrow> decision" where
  "policy_vote ctx p = (case EvaluatePolicy (pol_Document p) ctx of
       Panic _ \<Rightarrow> DecisionDeny | Err _ \<Rightarrow> DecisionNotApplicable
     | Ok r \<Rightarrow> if per_Effect r = ''deny'' then DecisionDeny
         else if per_Effect r = ''allow'' then DecisionAllow else DecisionNotApplicable)"

definition granted :: "PermissionCheckResult res \<Rightarrow> bool" where
  "granted r = (case r of Ok x \<Rightarrow> pcr_Allowed x | _ \<Rightarrow> False)"

lemma granted_simps [simp]: "granted (Ok x) = pcr_Allowed x" "\<not> granted (Err e)" "\<not> granted (Panic e)"
  by (simp_all add: granted_def)

lemma check_loop_cong:
  "pcr_Allowed a = pcr_Allowed b \<Longrightarrow> granted (check_loop ctx a ps) = granted (check_loop ctx b ps)"
proof (induction ps arbitrary: a b)
  case (Cons p ps)
  show ?case
  proof (cases "EvaluatePolicy (pol_Document p) ctx")
    case (Ok r)
    let ?next = "\<lambda>x. x\<lparr>pcr_Policies := pcr_Policies x @ [pol_ID p]\<rparr>"
    let ?allow = "\<lambda>x. (?next x)\<lparr>pcr_Allowed := True, pcr_Decision := ''allow'', pcr_Evaluation := Some r\<rparr>"
    have "granted (check_loop ctx (?next a) ps) = granted (check_loop ctx (?next b) ps)"
      "granted (check_loop ctx (?allow a) ps) = granted (check_loop ctx (?allow b) ps)"
      using Cons.prems by (rule_tac [!] Cons.IH) simp_all
    with Ok show ?thesis by (simp add: Let_def)
  next
    case (Err e)
    with Cons.IH [OF Cons.prems] show ?thesis by simp
  qed simp
qed simp

definition check_scan :: "PolicyEvaluationContext option \<Rightarrow> PermissionCheckRequest \<Rightarrow> bool \<Rightarrow> Policy list \<Rightarrow> bool" where
  "check_scan ctx request b ps = granted (check_loop ctx ((check_start request)\<lparr>pcr_Allowed := b\<rparr>) ps)"

lemma check_loop_scan: "granted (check_loop ctx r ps) = check_scan ctx request (pcr_Allowed r) ps"
  unfolding check_scan_def by (rule check_loop_cong) simp

interpretation check: deny_scan "policy_vote ctx" "check_scan ctx request" for ctx request
proof
  show "check_scan ctx request b [] = b" for b
    by (simp add: check_scan_def)
  show "check_scan ctx request b (p # ps) = (case policy_vote ctx p of DecisionDeny \<Rightarrow> False
      | DecisionAllow \<Rightarrow> check_scan ctx request True ps
      | DecisionNotApplicable \<Rightarrow> check_scan ctx request b ps)" for b p ps
  proof (cases "EvaluatePolicy (pol_Document p) ctx")
    case (Ok r)
    let ?r = "(check_start request)\<lparr>pcr_Allowed := b, pcr_Policies := [pol_ID p]\<rparr>"
    let ?a = "(check_start request)\<lparr>pcr_Allowed := True, pcr_Decision := ''allow'', pcr_Policies := [pol_ID p],
       pcr_Evaluation := Some r\<rparr>"
    have "granted (check_loop ctx ?r ps) = check_scan ctx request b ps"
      "granted (check_loop ctx ?a ps) = check_scan ctx request True ps"
      by (subst check_loop_scan [where request = request]; simp)+
    with Ok show ?thesis
      by (simp add: policy_vote_def check_scan_def [of ctx request b "p # ps"] check_start_def Let_def)
  qed (simp_all add: policy_vote_def check_scan_def)
qed

section \<open>Documents with a verdict\<close>

text \<open>A statement of a validated document whose patterns are strings.\<close>

definition clean_statement :: "json \<Rightarrow> bool" where
  "clean_statement st = (case as_object st of None \<Rightarrow> False
     | Some kvs \<Rightarrow> (obj_get kvs ''Effect'' = Some (JStr ''Allow'') \<or> obj_get kvs ''Effect'' = Some (JStr ''Deny''))
         \<and> (\<exists>as. extractStringArray (obj_get kvs ''Action'') = Ok as)
         \<and> (\<exists>rs. extractStringArray (obj_get kvs ''Resource'') = Ok rs))"

definition patterns :: "json \<Rightarrow> string \<Rightarrow> string list" where
  "patterns st field = (case as_object st of None \<Rightarrow> [] | Some kvs \<Rightarrow>
     (case extractStringArray (obj_get kvs field) of Ok ps \<Rightarrow> ps | _ \<Rightarrow> []))"

definition effect_of :: "json \<Rightarrow> string" where
  "effect_of st = (case as_object st of None \<Rightarrow> [] | Some kvs \<Rightarrow>
     (case obj_get kvs ''Effect'' of Some (JStr e) \<Rightarrow> e | _ \<Rightarrow> []))"

definition covers :: "PolicyEvaluationContext \<Rightarrow> json \<Rightarrow> bool" where
  "covers c st \<longleftrightarrow> matchesPattern (patterns st ''Action'') (pec_Action c)
     \<and> matchesPattern (patterns st ''Resource'') (pec_Resource c)"

lemma clean_effect: "clean_statement st \<Longrightarrow> effect_of st = ''Allow'' \<or> effect_of st = ''Deny''"
  by (auto simp: clean_statement_def effect_of_def split: option.splits)

lemma to_lower_effects [simp]: "to_lower ''Allow'' = ''allow''" "to_lower ''Deny'' = ''deny''"
  by code_simp+

lemma evaluate_loop_clean:
  assumes "clean_statement st"
  shows "evaluate_loop (Some c) r (st # rest) =
    (if \<not> covers c st then evaluate_loop (Some c) r rest
     else let r' = r\<lparr>per_Effect := to_lower (effect_of st), per_Decision := to_lower (effect_of st),
         per_Reasons := per_Reasons r @ [matched_reason c]\<rparr>
       in if effect_of st = ''Deny'' then Ok r' else evaluate_loop (Some c) r' rest)"
  using assms
  by (auto simp: clean_statement_def statementMatches_def covers_def patterns_def effect_of_def Let_def
      split: option.splits)

lemma evaluate_loop_effect:
  assumes "list_all clean_statement sts"
  shows "\<exists>r'. evaluate_loop (Some c) r sts = Ok r' \<and> per_Effect r' =
     (if \<exists>st \<in> set sts. covers c st \<and> effect_of st = ''Deny'' then ''deny''
      else if \<exists>st \<in> set sts. covers c st then ''allow'' else per_Effect r)"
  using assms
proof (induction sts arbitrary: r)
  case (Cons st sts)
  from Cons.prems have clean: "clean_statement st" by simp
  show ?case
  proof (cases "covers c st \<and> effect_of st \<noteq> ''Deny''")
    case True
    with clean_effect [OF clean] have "effect_of st = ''Allow''" by blast
    with True clean Cons.prems show ?thesis
      using Cons.IH [of "r\<lparr>per_Effect := ''allow'', per_Decision := ''allow'', per_Reasons := per_Reasons r @ [matched_reason c]\<rparr>"]
      by (auto simp: evaluate_loop_clean Let_def simp del: evaluate_loop.simps)
  next
    case False
    with clean Cons.prems Cons.IH [of r] show ?thesis
      by (auto simp: evaluate_loop_clean Let_def simp del: evaluate_loop.simps)
  qed
qed simp

lemma evaluate_loop_no_Err: "evaluate_loop ctx r sts \<noteq> Err e"
proof -
  have "strings_of js \<noteq> Err e" for js by (induction js) (auto split: option.splits res.splits)
  then have "extractStringArray f \<noteq> Err e" for f
    by (auto simp: extractStringArray_def split: option.splits json.splits)
  then have "statementMatches st ctx \<noteq> Err e" for st
    by (auto simp: statementMatches_def split: option.splits res.splits)
  note matches = this
  show ?thesis
  proof (induction sts arbitrary: r)
    case (Cons st sts)
    show ?case
    proof (cases "as_object st")
      case (Some kvs)
      with Cons matches [of kvs] show ?thesis
        by (cases "statementMatches kvs ctx"; cases "Option.bind (obj_get kvs ''Effect'') as_string")
           (simp_all add: Let_def split: bool.split)
    qed simp
  qed simp
qed

lemma validated_statements:
  assumes "validatePolicyDocument doc = Ok u"
  obtains kvs sts where "decode_map doc = Some kvs" and "obj_get kvs ''Statement'' = Some (JArr sts)"
    and "validate_statements 0 sts = Ok ()"
  using assms by (auto simp: validatePolicyDocument_def split: option.splits json.splits elim!: as_array.elims)

definition statements_of :: "string \<Rightarrow> json list" where
  "statements_of doc = (case Option.bind (Option.bind (decode_map doc) (\<lambda>kvs. obj_get kvs ''Statement'')) as_array of
     None \<Rightarrow> [] | Some sts \<Rightarrow> sts)"

lemma EvaluatePolicy_cases:
  "EvaluatePolicy doc ctx = (case Option.bind (Option.bind (decode_map doc) (\<lambda>kvs. obj_get kvs ''Statement'')) as_array of
     None \<Rightarrow> Err (if decode_map doc = None then ''invalid policy JSON: '' @ json_error else ''policy must have Statement array'')
   | Some sts \<Rightarrow> evaluate_loop ctx not_applicable sts)"
  by (auto simp: EvaluatePolicy_def split: option.splits)

lemma vote_clean:
  assumes "list_all clean_statement (statements_of (pol_Document p))"
  shows "policy_vote (Some c) p =
    (if \<exists>st \<in> set (statements_of (pol_Document p)). covers c st \<and> effect_of st = ''Deny'' then DecisionDeny
     else if \<exists>st \<in> set (statements_of (pol_Document p)). covers c st then DecisionAllow
     else DecisionNotApplicable)"
proof (cases "Option.bind (Option.bind (decode_map (pol_Document p)) (\<lambda>kvs. obj_get kvs ''Statement'')) as_array")
  case None
  then show ?thesis by (simp add: policy_vote_def EvaluatePolicy_cases statements_of_def)
next
  case (Some sts)
  then have "statements_of (pol_Document p) = sts" by (simp add: statements_of_def)
  with assms evaluate_loop_effect [of sts c not_applicable] Some show ?thesis
    by (auto simp: policy_vote_def EvaluatePolicy_cases not_applicable_def)
qed

lemma clean_no_Panic:
  assumes "list_all clean_statement (statements_of doc)"
  shows "EvaluatePolicy doc (Some c) \<noteq> Panic e"
proof (cases "Option.bind (Option.bind (decode_map doc) (\<lambda>kvs. obj_get kvs ''Statement'')) as_array")
  case (Some sts)
  with assms have "list_all clean_statement sts" by (simp add: statements_of_def)
  with evaluate_loop_effect [of sts c not_applicable] Some show ?thesis
    by (auto simp: EvaluatePolicy_cases)
qed (simp add: EvaluatePolicy_cases)

lemma votes_clean:
  assumes "\<forall>p \<in> set ps. list_all clean_statement (statements_of (pol_Document p))"
  shows "(\<forall>p \<in> set ps. policy_vote (Some c) p \<noteq> DecisionDeny) \<and> (\<exists>p \<in> set ps. policy_vote (Some c) p = DecisionAllow)
    \<longleftrightarrow> (\<exists>p \<in> set ps. \<exists>st \<in> set (statements_of (pol_Document p)). covers c st \<and> effect_of st = ''Allow'')
      \<and> (\<forall>p \<in> set ps. \<forall>st \<in> set (statements_of (pol_Document p)). covers c st \<longrightarrow> effect_of st \<noteq> ''Deny'')"
proof -
  have eff: "effect_of st = ''Allow'' \<longleftrightarrow> effect_of st \<noteq> ''Deny''"
    if "p \<in> set ps" "st \<in> set (statements_of (pol_Document p))" for p st
    using that assms clean_effect [of st] by (auto simp: list_all_iff)
  have "policy_vote (Some c) p = DecisionDeny \<longleftrightarrow>
      (\<exists>st \<in> set (statements_of (pol_Document p)). covers c st \<and> effect_of st = ''Deny'')"
    "policy_vote (Some c) p = DecisionAllow \<longleftrightarrow>
      (\<forall>st \<in> set (statements_of (pol_Document p)). covers c st \<longrightarrow> effect_of st \<noteq> ''Deny'') \<and>
      (\<exists>st \<in> set (statements_of (pol_Document p)). covers c st)"
    if "p \<in> set ps" for p
    using that assms by (auto simp: vote_clean)
  with eff show ?thesis by (smt (verit, best))
qed

lemma check_loop_total:
  "\<forall>p \<in> set ps. \<forall>e. EvaluatePolicy (pol_Document p) ctx \<noteq> Panic e \<Longrightarrow> \<exists>r. check_loop ctx a ps = Ok r"
proof (induction ps arbitrary: a)
  case (Cons p ps)
  then show ?case
    by (cases "EvaluatePolicy (pol_Document p) ctx") (auto simp: Let_def policy_vote_def)
qed simp

lemma check_loop_decision:
  "check_loop ctx a ps = Ok r \<Longrightarrow> pcr_Decision a = (if pcr_Allowed a then ''allow'' else ''deny'') \<Longrightarrow>
     pcr_Decision r = (if pcr_Allowed r then ''allow'' else ''deny'')"
proof (induction ps arbitrary: a)
  case (Cons p ps)
  then show ?case
    by (cases "EvaluatePolicy (pol_Document p) ctx") (auto simp: Let_def split: if_splits)
qed simp

lemma GetPrincipalPolicies_Ok:
  "GetPrincipalPolicies pid pty c d = (Ok ps, d') \<Longrightarrow> ps = principal_policies pid pty c d \<and> d' = advance d"
  by (auto simp: GetPrincipalPolicies_def principal_policies_def principal_roles_def direct_roles_def
      group_roles_def dest!: select_Ok)

abbreviation request_policies :: "string \<Rightarrow> PermissionCheckRequest \<Rightarrow> db \<Rightarrow> Policy list" where
  "request_policies c q d \<equiv> principal_policies (pcq_PrincipalID q) (pcq_PrincipalType q)
     (if c = [] then pcq_OrganizationID q else c) d"

lemma CheckPermission_Ok:
  assumes "CheckPermission c q d = (Ok r, d')"
  shows "check_loop (pcq_Context q) (check_start q) (request_policies c q d) = Ok r"
  using assms unfolding CheckPermission_def Let_def
  by (auto elim!: bnd_OkE dest!: GetPrincipalPolicies_Ok)

lemma CheckPermission_run:
  "healthy d \<Longrightarrow> CheckPermission c q d =
     (check_loop (pcq_Context q) (check_start q) (request_policies c q d), d)"
  by (simp add: CheckPermission_def GetPrincipalPolicies_def Let_def bnd_def wrap_def select_ok)

text \<open>Without a context the first statement of a readable document is already a nil dereference.\<close>

lemma EvaluatePolicy_no_statement:
  "statements_of doc = [] \<Longrightarrow> (\<exists>e. EvaluatePolicy doc None = Err e) \<or> EvaluatePolicy doc None = Ok not_applicable"
  by (auto simp: EvaluatePolicy_cases statements_of_def split: option.splits)

lemma EvaluatePolicy_no_context:
  assumes "list_all clean_statement (statements_of doc)" and "statements_of doc \<noteq> []"
  shows "EvaluatePolicy doc None = Panic nil_pointer"
proof -
  from assms(2) obtain st sts where doc: "statements_of doc = st # sts" by (cases "statements_of doc") auto
  with assms(1) have "clean_statement st" by simp
  then have "evaluate_loop None not_applicable (st # sts) = Panic nil_pointer"
    by (auto simp: clean_statement_def statementMatches_def split: option.splits)
  moreover from doc have "Option.bind (Option.bind (decode_map doc) (\<lambda>kvs. obj_get kvs ''Statement'')) as_array = Some (st # sts)"
    by (simp add: statements_of_def split: option.splits)
  ultimately show ?thesis by (simp add: EvaluatePolicy_cases del: evaluate_loop.simps)
qed

lemma check_loop_no_statement:
  "\<forall>p \<in> set ps. statements_of (pol_Document p) = [] \<Longrightarrow> \<exists>r. check_loop None a ps = Ok r \<and> pcr_Allowed r = pcr_Allowed a"
proof (induction ps arbitrary: a)
  case (Cons p ps)
  then have rest: "\<exists>r. check_loop None b ps = Ok r \<and> pcr_Allowed r = pcr_Allowed b" for b by simp
  from Cons.prems have "statements_of (pol_Document p) = []" by simp
  from EvaluatePolicy_no_statement [OF this] show ?case
  proof
    assume "\<exists>e. EvaluatePolicy (pol_Document p) None = Err e"
    with rest [of a] show ?thesis by auto
  next
    assume "EvaluatePolicy (pol_Document p) None = Ok not_applicable"
    with rest [of "a\<lparr>pcr_Policies := pcr_Policies a @ [pol_ID p]\<rparr>"] show ?thesis by (simp add: not_applicable_def)
  qed
qed simp

lemma check_loop_no_context:
  assumes "\<forall>p \<in> set ps. list_all clean_statement (statements_of (pol_Document p))"
    and "\<exists>p \<in> set ps. statements_of (pol_Document p) \<noteq> []"
  shows "check_loop None a ps = Panic nil_pointer"
  using assms
proof (induction ps arbitrary: a)
  case (Cons p ps)
  show ?case
  proof (cases "statements_of (pol_Document p) = []")
    case True
    with Cons have rest: "check_loop None b ps = Panic nil_pointer" for b by simp
    from EvaluatePolicy_no_statement [OF True] show ?thesis
    proof
      assume "\<exists>e. EvaluatePolicy (pol_Document p) None = Err e"
      with rest show ?thesis by auto
    next
      assume "EvaluatePolicy (pol_Document p) None = Ok not_applicable"
      with rest show ?thesis by (simp add: not_applicable_def)
    qed
  next
    case False
    with Cons.prems EvaluatePolicy_no_context [of "pol_Document p"] show ?thesis by simp
  qed
qed simp

section \<open>Properties\<close>

text \<open>CheckPermission combines policies with deny overriding: it grants exactly when some policy of the
  principal allows the request and none denies it, and its decision string agrees with its flag.\<close>

lemma CheckPermission_deny_overrides:
  assumes "CheckPermission c q d = (Ok r, d')"
  shows "(pcr_Allowed r \<longleftrightarrow> (\<forall>p \<in> set (request_policies c q d). policy_vote (pcq_Context q) p \<noteq> DecisionDeny)
       \<and> (\<exists>p \<in> set (request_policies c q d). policy_vote (pcq_Context q) p = DecisionAllow))
     \<and> pcr_Decision r = (if pcr_Allowed r then ''allow'' else ''deny'')"
proof -
  note run = CheckPermission_Ok [OF assms]
  have "pcr_Allowed r = check_scan (pcq_Context q) q False (request_policies c q d)"
    using check_loop_scan [of "pcq_Context q" "check_start q" "request_policies c q d" q] run
    by (simp add: check_start_def)
  moreover have "pcr_Decision r = (if pcr_Allowed r then ''allow'' else ''deny'')"
    by (rule check_loop_decision [OF run]) (simp add: check_start_def)
  ultimately show ?thesis using check.scan_iff [of "pcq_Context q" q False] by blast
qed

definition ask :: "string \<Rightarrow> PermissionCheckRequest" where
  "ask action = \<lparr>pcq_PrincipalID = ''u1'', pcq_PrincipalType = ''user'', pcq_OrganizationID = ''o1'',
     pcq_Resource = ''r'', pcq_Action = action,
     pcq_Context = Some (empty_context\<lparr>pec_Action := action, pec_Resource := ''r''\<rparr>)\<rparr>"

text \<open>C5. On a server that does not fail, and on documents whose statements carry Allow or Deny and string
  patterns, CheckPermission answers a request that has a context with a result, and it grants exactly
  when a statement that covers the context allows it and no covering statement of any policy denies it,
  in whatever order the statements and the policies come. The context of a request is optional: without
  one the call panics with a nil dereference as soon as a policy of the principal has a statement, and
  otherwise returns a result that denies.\<close>

theorem CheckPermission_exact:
  assumes "healthy d"
    and "\<forall>p \<in> set (request_policies c q d). list_all clean_statement (statements_of (pol_Document p))"
  shows "case pcq_Context q of
      Some ctx \<Rightarrow> \<exists>r. CheckPermission c q d = (Ok r, d) \<and> (pcr_Allowed r \<longleftrightarrow>
         (\<exists>p \<in> set (request_policies c q d). \<exists>st \<in> set (statements_of (pol_Document p)).
            covers ctx st \<and> effect_of st = ''Allow'') \<and>
         (\<forall>p \<in> set (request_policies c q d). \<forall>st \<in> set (statements_of (pol_Document p)).
            covers ctx st \<longrightarrow> effect_of st \<noteq> ''Deny''))
    | None \<Rightarrow> if \<forall>p \<in> set (request_policies c q d). statements_of (pol_Document p) = []
         then \<exists>r. CheckPermission c q d = (Ok r, d) \<and> \<not> pcr_Allowed r
         else CheckPermission c q d = (Panic nil_pointer, d)"
proof (cases "pcq_Context q")
  case None
  define ps where "ps = request_policies c q d"
  have run: "CheckPermission c q d = (check_loop None (check_start q) ps, d)"
    using CheckPermission_run [OF assms(1), of c q] None by (simp only: ps_def)
  show ?thesis
  proof (cases "\<forall>p \<in> set ps. statements_of (pol_Document p) = []")
    case True
    from check_loop_no_statement [OF this, of "check_start q"] obtain r
      where "check_loop None (check_start q) ps = Ok r" "\<not> pcr_Allowed r" by (auto simp: check_start_def)
    with True run None show ?thesis unfolding ps_def [symmetric] by simp
  next
    case False
    with check_loop_no_context [of ps "check_start q"] assms(2)
    have "check_loop None (check_start q) ps = Panic nil_pointer" unfolding ps_def [symmetric] by simp
    with False run None show ?thesis unfolding ps_def [symmetric] by simp
  qed
next
  case (Some ctx)
  let ?ps = "request_policies c q d"
  from assms(2) clean_no_Panic have "\<forall>p \<in> set ?ps. \<forall>e. EvaluatePolicy (pol_Document p) (Some ctx) \<noteq> Panic e" by blast
  then obtain r where run: "check_loop (Some ctx) (check_start q) ?ps = Ok r" using check_loop_total by blast
  have "pcr_Allowed r = check_scan (Some ctx) q False ?ps"
    using check_loop_scan [of "Some ctx" "check_start q" ?ps q] run by (simp add: check_start_def)
  then have "pcr_Allowed r \<longleftrightarrow> (\<forall>p \<in> set ?ps. policy_vote (Some ctx) p \<noteq> DecisionDeny)
      \<and> (\<exists>p \<in> set ?ps. policy_vote (Some ctx) p = DecisionAllow)"
    by (simp add: check.scan_iff)
  with votes_clean [OF assms(2), of ctx] run Some show ?thesis by (simp add: CheckPermission_run [OF assms(1)])
qed

lemma sample_policies: "principal_policies ''u1'' ''user'' ''o1'' sample_db = [coalesced (sample_policy allow_read)]"
  by code_simp

theorem CheckPermission_exact_witness:
  "\<exists>r. CheckPermission ''o1'' (ask ''write'') sample_db = (Ok r, sample_db) \<and> \<not> pcr_Allowed r"
proof -
  let ?st = "JObj [(''Effect'', JStr ''Allow''), (''Action'', JStr ''read''), (''Resource'', JStr ''*'')]"
  have sts: "statements_of (pol_Document (coalesced (sample_policy allow_read))) = [?st]" by code_simp
  have clean: "clean_statement ?st"
    by (simp add: clean_statement_def obj_get_def extractStringArray_def)
  have healthy: "healthy sample_db" by (simp add: sample_db_def empty_db_def)
  have "pcq_Context (ask ''write'') = Some (empty_context\<lparr>pec_Action := ''write'', pec_Resource := ''r''\<rparr>)"
    by (simp add: ask_def)
  moreover have ps: "request_policies ''o1'' (ask ''write'') sample_db = [coalesced (sample_policy allow_read)]"
    by (simp add: ask_def sample_policies)
  moreover have "\<not> covers (empty_context\<lparr>pec_Action := ''write'', pec_Resource := ''r''\<rparr>) ?st"
    by (simp add: covers_def patterns_def obj_get_def extractStringArray_def matchesPattern_def)
  ultimately show ?thesis
    using CheckPermission_exact [OF healthy, of "ask ''write''" "''o1''"] unfolding ps by (auto simp: sts clean)
qed

text \<open>A simulation reports a document as valid exactly when it validates, and then every test case has
  its result, in order: it passes exactly when the policy's effect on the case is the expected one.\<close>

lemma SimulatePolicy_verdict:
  assumes "SimulatePolicy req = Ok r"
  shows "(sim_Valid r \<longleftrightarrow> validatePolicyDocument (psr_PolicyDocument req) = Ok ()) \<and>
    (sim_Valid r \<longrightarrow> list_all2 (\<lambda>tc t. tc = Some (ptr_TestCase t) \<and>
       (ptr_Passed t \<longleftrightarrow> per_Effect (ptr_Result t) = tc_Expected (ptr_TestCase t)) \<and>
       (\<exists>c. EvaluatePolicy (psr_PolicyDocument req) (Some c) = Ok (ptr_Result t)))
     (psr_TestCases req) (sim_TestResults r))"
proof (cases "validatePolicyDocument (psr_PolicyDocument req)")
  case (Ok u)
  let ?doc = "psr_PolicyDocument req"
  from validated_statements [OF Ok] obtain kvs sts where "decode_map ?doc = Some kvs"
    "obj_get kvs ''Statement'' = Some (JArr sts)" by blast
  then have no_Err: "EvaluatePolicy ?doc ctx \<noteq> Err e" for ctx e
    by (simp add: EvaluatePolicy_cases evaluate_loop_no_Err)
  have test: "tc = Some (ptr_TestCase t) \<and> (ptr_Passed t \<longleftrightarrow> per_Effect (ptr_Result t) = tc_Expected (ptr_TestCase t))
      \<and> (\<exists>c. EvaluatePolicy ?doc (Some c) = Ok (ptr_Result t))" if "run_test ?doc tc = Ok t" for tc t
    using that no_Err by (auto simp: run_test_def Let_def split: option.splits res.splits)
  have tests: "run_tests ?doc ts = Ok rs \<Longrightarrow> list_all2 (\<lambda>tc t. tc = Some (ptr_TestCase t) \<and>
      (ptr_Passed t \<longleftrightarrow> per_Effect (ptr_Result t) = tc_Expected (ptr_TestCase t)) \<and>
      (\<exists>c. EvaluatePolicy ?doc (Some c) = Ok (ptr_Result t))) ts rs" for ts rs
    by (induction ts arbitrary: rs) (auto split: res.splits dest: test)
  from Ok assms no_Err have "sim_Valid r \<and> run_tests ?doc (psr_TestCases req) = Ok (sim_TestResults r)"
    by (auto simp: SimulatePolicy_def Let_def split: option.splits res.splits)
  with Ok tests show ?thesis by simp
next
  case (Err e)
  with assms show ?thesis by (auto simp: SimulatePolicy_def Let_def)
qed (use assms in \<open>simp add: SimulatePolicy_def\<close>)

definition sample_test :: PolicySimulationTestCase where
  "sample_test = \<lparr>tc_Name = ''t'', tc_Principal = [], tc_Resource = ''r'', tc_Action = ''read'', tc_Context = None,
     tc_Expected = ''allow''\<rparr>"

text \<open>A bulk check on a server that does not fail answers every request, in order, with what
  CheckPermission answers to it alone.\<close>

lemma BulkCheckPermissions_pointwise:
  assumes "healthy d" and "BulkCheckPermissions c qs d = (Ok rs, d')"
  shows "d' = d \<and> list_all2 (\<lambda>q r. CheckPermission c q d = (Ok r, d)) qs rs"
  using assms(2)
proof (induction qs arbitrary: rs)
  case (Cons q qs)
  show ?case
  proof (cases "check_loop (pcq_Context q) (check_start q) (request_policies c q d)")
    case (Ok r)
    with assms(1) have run: "CheckPermission c q d = (Ok r, d)" by (simp add: CheckPermission_run)
    with Cons.prems show ?thesis
      by (auto simp: bnd_def attempt_def split: prod.splits res.splits dest!: Cons.IH)
  next
    case (Err e)
    have "check_loop ctx a ps \<noteq> Err e'" for ctx a ps e'
      by (induction ps arbitrary: a) (auto simp: Let_def split: res.splits)
    with Err show ?thesis by blast
  next
    case (Panic e)
    with assms(1) have "CheckPermission c q d = (Panic e, d)" by (simp add: CheckPermission_run)
    with Cons.prems show ?thesis by (simp add: bnd_def attempt_def)
  qed
qed (use assms in simp)

text \<open>The two policy evaluators of the service disagree: on a document that allows everything and then
  denies one action, the engine of internal/authz allows that action and EvaluatePolicy denies it.\<close>

lemma evaluators_disagree:
  "Evaluate id id shadow_doc ''doc:delete'' ''r1'' Map.empty = (DecisionAllow, None) \<and>
   map_res per_Effect (EvaluatePolicy shadow_doc
     (Some (empty_context\<lparr>pec_Action := ''doc:delete'', pec_Resource := ''r1''\<rparr>))) = Ok ''deny''"
  by (rule conjI; code_simp)

end
