(* ===== verification/ContentStore.thy ===== *)
theory ContentStore
  imports PolicyStore
begin

text \<open>
  Content items and their collaborators, internal/queries/content_queries.go. \<open>NOW()\<close> is the clock of
  the database; \<open>RETURNING\<close> gives back the stored times.
\<close>

section \<open>The tables\<close>

definition content_violation :: "ContentItem list \<Rightarrow> string option" where
  "content_violation t =
     (if \<exists>c \<in> set t. length (ci_Title c) > 500 \<or> length (ci_Slug c) > 500
        then Some ''pq: value too long for type character varying(500)''
      else if \<exists>c \<in> set t. ci_Status c \<notin> {''draft'', ''published'', ''archived''}
        then Some (check_violation ''content_items_status_check'')
      else if \<not> distinct (map ci_ID t) then Some (duplicate_key ''content_items_pkey'')
      else None)"

abbreviation put_content :: "ContentItem list \<Rightarrow> db \<Rightarrow> db" where
  "put_content t d \<equiv> d\<lparr>t_content_items := t\<rparr>"

abbreviation put_collaborators :: "ContentCollaborator list \<Rightarrow> db \<Rightarrow> db" where
  "put_collaborators t d \<equiv> d\<lparr>t_content_collaborators := t\<rparr>"

definition live_content :: "string \<Rightarrow> string \<Rightarrow> ContentItem \<Rightarrow> bool" where
  "live_content i organizationID c \<longleftrightarrow>
     ci_ID c = i \<and> ci_OrganizationID c = organizationID \<and> ci_DeletedAt c = None"

section \<open>Items\<close>

definition CreateContent :: "(string \<Rightarrow> string) \<Rightarrow> ContentItem \<Rightarrow> ContentItem query" where
  "CreateContent jsonb item = gets now (\<lambda>t.
     let row = item\<lparr>ci_Tags := jsonb (ci_Tags item), ci_Metadata := jsonb (ci_Metadata item),
           ci_PublishedAt := None, ci_CreatedAt := t, ci_UpdatedAt := t, ci_DeletedAt := None\<rparr>
     in bnd (json_stmt [ci_Tags item, ci_Metadata item]
          (insert_checked t_content_items put_content content_violation row)) (\<lambda>_.
        ret (item\<lparr>ci_CreatedAt := t, ci_UpdatedAt := t\<rparr>)))"

definition GetContent :: "string \<Rightarrow> string \<Rightarrow> ContentItem query" where
  "GetContent i organizationID = bnd (select (\<lambda>d. find (live_content i organizationID) (t_content_items d)))
     (\<lambda>r. case r of None \<Rightarrow> fail ''content not found'' | Some c \<Rightarrow> ret c)"

definition content_sort :: "string \<Rightarrow> string" where
  "content_sort sortBy = (if sortBy \<in> {''title'', ''status'', ''created_at'', ''updated_at'', ''content_type''}
     then ''c.'' @ sortBy else ''c.updated_at'')"

definition collaborates :: "db \<Rightarrow> string \<Rightarrow> string \<Rightarrow> bool" where
  "collaborates d contentID userID =
     list_ex (\<lambda>cc. cc_ContentID cc = contentID \<and> cc_UserID cc = userID) (t_content_collaborators d)"

text \<open>\<open>sorted_by\<close> is the \<open>ORDER BY\<close> of the query, given a column of the white list and a direction.\<close>

definition ListContent ::
  "(string \<Rightarrow> string \<Rightarrow> ContentItem list \<Rightarrow> ContentItem list) \<Rightarrow> ListParams \<Rightarrow> string \<Rightarrow> string \<Rightarrow> string \<Rightarrow>
    ContentItem ListResult query" where
  "ListContent sorted_by params organizationID userID contentType =
     (let visible = (\<lambda>d. filter (\<lambda>c. ci_OrganizationID c = organizationID \<and> ci_DeletedAt c = None
            \<and> (ci_OwnerID c = userID \<or> collaborates d (ci_ID c) userID)
            \<and> (contentType \<noteq> [] \<longrightarrow> ci_ContentType c = contentType)) (t_content_items d));
          lim = (if lp_Limit params \<le> 0 then 20 else lp_Limit params);
          order = (if equal_fold (lp_Order params) ''ASC'' then ''ASC'' else ''DESC'')
      in bnd (wrap ''count content'' (select (\<lambda>d. int (length (visible d))))) (\<lambda>cnt.
         bnd (wrap ''list content'' (select_page lim (lp_Offset params)
           (\<lambda>d. sorted_by (content_sort (lp_SortBy params)) order (visible d)))) (\<lambda>items.
         lift (list_result (params\<lparr>lp_Limit := lim\<rparr>) items cnt))))"

definition UpdateContent :: "(string \<Rightarrow> string) \<Rightarrow> ContentItem \<Rightarrow> string \<Rightarrow> unit query" where
  "UpdateContent jsonb item organizationID = gets now (\<lambda>t.
     must_affect ''content not found'' ''update content'' (json_stmt [ci_Tags item, ci_Metadata item]
       (update_checked t_content_items put_content content_violation (live_content (ci_ID item) organizationID)
          (\<lambda>c. c\<lparr>ci_Title := ci_Title item, ci_Slug := ci_Slug item, ci_Body := ci_Body item,
             ci_Summary := ci_Summary item, ci_CoverImageURL := ci_CoverImageURL item,
             ci_Tags := jsonb (ci_Tags item), ci_Metadata := jsonb (ci_Metadata item), ci_UpdatedAt := t\<rparr>))))"

definition DeleteContent :: "string \<Rightarrow> string \<Rightarrow> unit query" where
  "DeleteContent i organizationID = must_affect ''content not found'' ''delete content''
     (exec_on t_content_items put_content (\<lambda>d. update_where (live_content i organizationID)
        (\<lambda>c. c\<lparr>ci_DeletedAt := Some (now d)\<rparr>)))"

definition UpdateContentStatus :: "string \<Rightarrow> string \<Rightarrow> string \<Rightarrow> unit query" where
  "UpdateContentStatus i organizationID status = gets now (\<lambda>t.
     must_affect ''content not found'' ''update content status''
       (update_checked t_content_items put_content content_violation (live_content i organizationID)
          (\<lambda>c. c\<lparr>ci_Status := status, ci_UpdatedAt := t,
             ci_PublishedAt := (if status = ''published'' then Some t else ci_PublishedAt c)\<rparr>)))"

section \<open>Collaborators\<close>

text \<open>\<open>INSERT ... ON CONFLICT (content_id, user_id) DO UPDATE SET role\<close>.\<close>

definition upsert_collaborator :: "ContentCollaborator \<Rightarrow> ContentCollaborator list \<Rightarrow> ContentCollaborator list" where
  "upsert_collaborator r t =
     (if \<exists>x \<in> set t. cc_ContentID x = cc_ContentID r \<and> cc_UserID x = cc_UserID r
      then map (\<lambda>x. if cc_ContentID x = cc_ContentID r \<and> cc_UserID x = cc_UserID r then x\<lparr>cc_Role := cc_Role r\<rparr> else x) t
      else t @ [r])"

definition AddCollaborator :: "string \<Rightarrow> string \<Rightarrow> string \<Rightarrow> string \<Rightarrow> unit query" where
  "AddCollaborator contentID userID role invitedBy = wrap ''add collaborator'' (stmt (\<lambda>d.
     if role \<notin> {''owner'', ''co-author''} then Inl (check_violation ''content_collaborators_role_check'')
     else Inr ((), put_collaborators (upsert_collaborator \<lparr>cc_ContentID = contentID, cc_UserID = userID,
        cc_Role = role, cc_InvitedBy = invitedBy, cc_CreatedAt = now d\<rparr> (t_content_collaborators d)) d)))"

definition RemoveCollaborator :: "string \<Rightarrow> string \<Rightarrow> unit query" where
  "RemoveCollaborator contentID userID =
     must_affect ''collaborator not found or is the content owner'' ''remove collaborator''
       (exec_on t_content_collaborators put_collaborators (\<lambda>d. delete_where
          (\<lambda>cc. cc_ContentID cc = contentID \<and> cc_UserID cc = userID \<and> cc_Role cc \<noteq> ''owner'')))"

text \<open>A collaborator with the columns joined from the users table.\<close>

record ContentCollaboratorWithUser =
  ccu_Collaborator :: ContentCollaborator
  ccu_Username :: string
  ccu_Email :: string
  ccu_DisplayName :: string

definition ListCollaborators :: "string \<Rightarrow> ContentCollaboratorWithUser list query" where
  "ListCollaborators contentID = wrap ''list collaborators'' (select (\<lambda>d.
     [\<lparr>ccu_Collaborator = cc, ccu_Username = usr_Username u, ccu_Email = usr_Email u, ccu_DisplayName = usr_DisplayName u\<rparr>.
        cc \<leftarrow> sort_key cc_CreatedAt (filter (\<lambda>cc. cc_ContentID cc = contentID) (t_content_collaborators d)),
        u \<leftarrow> t_users d, usr_ID u = cc_UserID cc]))"

text \<open>No row means no access: the empty role.\<close>

definition GetCollaboratorRole :: "string \<Rightarrow> string \<Rightarrow> string query" where
  "GetCollaboratorRole contentID userID = select (\<lambda>d.
     case find (\<lambda>cc. cc_ContentID cc = contentID \<and> cc_UserID cc = userID) (t_content_collaborators d) of
       None \<Rightarrow> [] | Some cc \<Rightarrow> cc_Role cc)"

section \<open>Lemmas\<close>

lemma live_content_eq:
  "live_content i c = (\<lambda>r. ci_ID r = i \<and> ci_OrganizationID r = c \<and> ci_DeletedAt r = None)"
  by (auto simp: fun_eq_iff live_content_def)

lemma GetContent_run:
  "healthy d \<Longrightarrow> GetContent i c d = (case find (live_content i c) (t_content_items d) of
     None \<Rightarrow> (Err ''content not found'', d) | Some x \<Rightarrow> (Ok x, d))"
  by (simp add: GetContent_def bnd_def select_ok split: option.split)

lemma GetContent_Ok: "GetContent i c d = (Ok x, d') \<Longrightarrow> x \<in> set (t_content_items d) \<and> live_content i c x \<and> d' = advance d"
  by (auto simp: GetContent_def elim!: bnd_OkE dest!: select_Ok find_SomeD split: option.splits)

lemma GetContent_state: "snd (GetContent i c d) = advance d"
  using select_state [of "\<lambda>d. find (live_content i c) (t_content_items d)" d]
  by (auto simp: GetContent_def bnd_def split: prod.splits res.splits option.splits)

lemma remove_content_Ok:
  assumes "DeleteContent i c d = (Ok u, d')"
  shows "(\<exists>r \<in> set (t_content_items d). live_content i c r) \<and>
    t_content_items d' = map (\<lambda>r. if live_content i c r then r\<lparr>ci_DeletedAt := Some (now d)\<rparr> else r) (t_content_items d)"
proof -
  from assms obtain n where n: "n > 0" and run: "exec_on t_content_items put_content
      (\<lambda>d. update_where (live_content i c) (\<lambda>c. c\<lparr>ci_DeletedAt := Some (now d)\<rparr>)) d = (Ok n, d')"
    unfolding DeleteContent_def must_affect_Ok by blast
  note eqs = exec_on_Ok [OF run, unfolded advance_tables]
  from n eqs have "fst (update_where (live_content i c) (\<lambda>r. r\<lparr>ci_DeletedAt := Some (now d)\<rparr>) (t_content_items d)) \<noteq> 0"
    by linarith
  then show ?thesis
    using eqs unfolding fst_update_where_0 by (auto simp: snd_update_where)
qed

interpretation cont: soft_table t_content_items ci_ID ci_OrganizationID "\<lambda>c. ci_DeletedAt c = None"
  "\<lambda>t c. c\<lparr>ci_DeletedAt := Some t\<rparr>" GetContent DeleteContent "''content not found''" "''content not found''"
proof
  fix i c d r u d'
  show "t_content_items (snd (GetContent i c d)) = t_content_items d"
    by (simp add: GetContent_state)
  show "GetContent i c d = (Ok r, d') \<Longrightarrow> r \<in> set (t_content_items d) \<and> ci_ID r = i \<and> ci_OrganizationID r = c \<and> ci_DeletedAt r = None"
    by (drule GetContent_Ok) (simp add: live_content_def)
  show "healthy d \<Longrightarrow> GetContent i c d = (case find (\<lambda>r. ci_ID r = i \<and> ci_OrganizationID r = c \<and> ci_DeletedAt r = None)
      (t_content_items d) of None \<Rightarrow> (Err ''content not found'', d) | Some r \<Rightarrow> (Ok r, d))"
    by (simp add: GetContent_run live_content_eq)
  show "DeleteContent i c d = (Ok u, d') \<Longrightarrow>
      (\<exists>r \<in> set (t_content_items d). ci_ID r = i \<and> ci_OrganizationID r = c \<and> ci_DeletedAt r = None) \<and>
      t_content_items d' = map (\<lambda>r. if ci_ID r = i \<and> ci_OrganizationID r = c \<and> ci_DeletedAt r = None
        then r\<lparr>ci_DeletedAt := Some (now d)\<rparr> else r) (t_content_items d)"
    by (drule remove_content_Ok) (simp add: live_content_def)
  show "fst (DeleteContent i c d) \<noteq> Ok u \<Longrightarrow> t_content_items (snd (DeleteContent i c d)) = t_content_items d"
    unfolding DeleteContent_def by (rule must_affect_not_Ok) simp_all
  show "healthy d \<Longrightarrow> \<forall>r \<in> set (t_content_items d). \<not> (ci_ID r = i \<and> ci_OrganizationID r = c \<and> ci_DeletedAt r = None) \<Longrightarrow>
      DeleteContent i c d = (Err ''content not found'', d)"
    by (simp add: DeleteContent_def must_affect_ok exec_on_ok update_where_def live_content_eq filter_empty_conv update_none)
  show "healthy d \<Longrightarrow> r \<in> set (t_content_items d) \<Longrightarrow> ci_ID r = i \<Longrightarrow> ci_OrganizationID r = c \<Longrightarrow> ci_DeletedAt r = None \<Longrightarrow>
      fst (DeleteContent i c d) = Ok ()"
    by (auto simp: DeleteContent_def must_affect_ok exec_on_ok update_where_def live_content_eq filter_empty_conv)
qed simp_all

end
