(* ===== verification/ResourceStore.thy ===== *)
theory ResourceStore
  imports PolicyStore
begin

text \<open>
  Resources, their permissions, shares and access log: internal/queries/resource_queries.go. A NULL
  \<open>expires_at\<close> of a share is \<open>None\<close>; the Go struct holds a plain time, so the code itself always writes
  a value, and scanning a NULL into it is an error.
\<close>

section \<open>The tables\<close>

definition resource_type :: "string list" where
  "resource_type = [''object'', ''service'', ''namespace'', ''infrastructure'', ''application'',
     ''configuration'', ''data'', ''documentation'', ''blog'']"

definition arn_char :: "char \<Rightarrow> bool" where
  "arn_char c \<longleftrightarrow> CHR ''a'' \<le> c \<and> c \<le> CHR ''z'' \<or> is_digit c \<or> c = CHR ''-''"

text \<open>The check constraint \<open>valid_arn_format\<close>.\<close>

definition valid_arn :: "string \<Rightarrow> bool" where
  "valid_arn a = (case split_on CHR '':'' a of
       w # x # service # region # account # rest # _ \<Rightarrow>
         w = ''arn'' \<and> x = ''monkey'' \<and> service \<noteq> [] \<and> list_all arn_char service \<and> list_all arn_char region
         \<and> account \<noteq> [] \<and> list_all arn_char account \<and> CHR ''/'' \<in> set rest
         \<and> (let ty = takeWhile (\<lambda>c. c \<noteq> CHR ''/'') rest in ty \<noteq> [] \<and> list_all arn_char ty)
     | _ \<Rightarrow> False)"

definition resources_violation :: "Resource list \<Rightarrow> string option" where
  "resources_violation t =
     (if \<exists>r \<in> set t. rsc_Status r \<notin> set entity_status then Some (bad_enum ''entity_status'')
      else if \<exists>r \<in> set t. rsc_Type r \<notin> set resource_type then Some (bad_enum ''resource_type'')
      else if \<exists>r \<in> set t. \<not> valid_arn (rsc_ARN r) then Some (check_violation ''valid_arn_format'')
      else if \<exists>r \<in> set t. rsc_ParentResourceID r = Some (rsc_ID r)
        then Some (check_violation ''no_self_parent_resource'')
      else if \<not> distinct (map rsc_ID t) then Some (duplicate_key ''resources_pkey'')
      else if \<not> distinct (map rsc_ARN t) then Some (duplicate_key ''resources_arn_key'')
      else None)"

abbreviation put_resources :: "Resource list \<Rightarrow> db \<Rightarrow> db" where
  "put_resources t d \<equiv> d\<lparr>t_resources := t\<rparr>"

abbreviation put_permissions :: "ResourcePermission list \<Rightarrow> db \<Rightarrow> db" where
  "put_permissions t d \<equiv> d\<lparr>t_resource_permissions := t\<rparr>"

abbreviation put_shares :: "ResourceShare list \<Rightarrow> db \<Rightarrow> db" where
  "put_shares t d \<equiv> d\<lparr>t_resource_shares := t\<rparr>"

definition live_resource :: "string \<Rightarrow> string \<Rightarrow> Resource \<Rightarrow> bool" where
  "live_resource i organizationID r \<longleftrightarrow>
     rsc_ID r = i \<and> rsc_OrganizationID r = organizationID \<and> rsc_DeletedAt r = None"

text \<open>The existence test of the permission and share operations: soft-deleted rows count too.\<close>

definition in_org :: "string \<Rightarrow> string \<Rightarrow> db \<Rightarrow> bool" where
  "in_org i organizationID d = list_ex (\<lambda>r. rsc_ID r = i \<and> rsc_OrganizationID r = organizationID) (t_resources d)"

section \<open>Resources\<close>

definition ListResources ::
  "(string \<Rightarrow> string \<Rightarrow> Resource list \<Rightarrow> Resource list) \<Rightarrow> ListParams \<Rightarrow> string \<Rightarrow> Resource ListResult query" where
  "ListResources sorted_by params organizationID =
     (let visible = (\<lambda>d. filter (\<lambda>r. rsc_DeletedAt r = None
            \<and> (organizationID \<noteq> [] \<longrightarrow> rsc_OrganizationID r = organizationID)) (t_resources d));
          arrange = (if lp_SortBy params \<noteq> [] then sorted_by (lp_SortBy params) (lp_Order params)
            else order_desc rsc_CreatedAt)
      in bnd (wrap ''failed to list resources''
           (select_page (lp_Limit params) (lp_Offset params) (\<lambda>d. arrange (visible d)))) (\<lambda>items.
         bnd (wrap ''failed to count resources'' (select (\<lambda>d. int (length (visible d))))) (\<lambda>cnt.
         lift (list_result params items cnt))))"

definition stored_resource :: "(string \<Rightarrow> string) \<Rightarrow> instant \<Rightarrow> Resource \<Rightarrow> Resource" where
  "stored_resource jsonb t r = r\<lparr>rsc_Attributes := jsonb (rsc_Attributes r), rsc_Tags := jsonb (rsc_Tags r),
     rsc_LifecyclePolicy := jsonb (rsc_LifecyclePolicy r), rsc_AccessedAt := Some t, rsc_DeletedAt := None\<rparr>"

definition CreateResource :: "(string \<Rightarrow> string) \<Rightarrow> Resource \<Rightarrow> unit query" where
  "CreateResource jsonb resource = gets now (\<lambda>t. wrap ''failed to create resource''
     (json_stmt [rsc_Attributes resource, rsc_Tags resource, rsc_LifecyclePolicy resource]
       (insert_checked t_resources put_resources resources_violation (stored_resource jsonb t resource))))"

definition GetResource :: "string \<Rightarrow> string \<Rightarrow> Resource query" where
  "GetResource i organizationID = query_row ''resource not found'' ''failed to get resource''
     (\<lambda>d. find (live_resource i organizationID) (t_resources d))"

definition UpdateResource :: "(string \<Rightarrow> string) \<Rightarrow> Resource \<Rightarrow> string \<Rightarrow> unit query" where
  "UpdateResource jsonb resource organizationID = gets now (\<lambda>t.
     must_affect ''resource not found or already deleted'' ''failed to update resource''
       (json_stmt [rsc_Attributes resource, rsc_Tags resource, rsc_LifecyclePolicy resource]
       (update_checked t_resources put_resources resources_violation
          (live_resource (rsc_ID resource) organizationID)
          (\<lambda>r. r\<lparr>rsc_Name := rsc_Name resource, rsc_Description := rsc_Description resource,
             rsc_Type := rsc_Type resource, rsc_ParentResourceID := rsc_ParentResourceID resource,
             rsc_OwnerID := rsc_OwnerID resource, rsc_OwnerType := rsc_OwnerType resource,
             rsc_Attributes := jsonb (rsc_Attributes resource), rsc_Tags := jsonb (rsc_Tags resource),
             rsc_EncryptionKeyID := rsc_EncryptionKeyID resource,
             rsc_LifecyclePolicy := jsonb (rsc_LifecyclePolicy resource),
             rsc_AccessLevel := rsc_AccessLevel resource, rsc_ContentType := rsc_ContentType resource,
             rsc_SizeBytes := rsc_SizeBytes resource, rsc_Checksum := rsc_Checksum resource,
             rsc_Version := rsc_Version resource, rsc_Status := rsc_Status resource, rsc_UpdatedAt := t\<rparr>))))"

definition DeleteResource :: "string \<Rightarrow> string \<Rightarrow> unit query" where
  "DeleteResource i organizationID =
     must_affect ''resource not found or already deleted'' ''failed to delete resource''
       (exec_on t_resources put_resources (\<lambda>d. update_where (live_resource i organizationID)
          (\<lambda>r. r\<lparr>rsc_DeletedAt := Some (now d)\<rparr>)))"

section \<open>Permissions\<close>

definition permission_clash :: "ResourcePermission \<Rightarrow> ResourcePermission \<Rightarrow> bool" where
  "permission_clash p x \<longleftrightarrow> rp_ID x = rp_ID p \<or> rp_ResourceID x = rp_ResourceID p
     \<and> rp_PrincipalID x = rp_PrincipalID p \<and> rp_PrincipalType x = rp_PrincipalType p
     \<and> rp_Permission x = rp_Permission p"

definition GetResourcePermissions :: "string \<Rightarrow> string \<Rightarrow> ResourcePermission list query" where
  "GetResourcePermissions resourceID organizationID = wrap ''failed to get resource permissions''
     (select (\<lambda>d. order_desc rp_CreatedAt (filter (\<lambda>p. rp_ResourceID p = resourceID
        \<and> in_org resourceID organizationID d) (t_resource_permissions d))))"

definition insert_permission :: "ResourcePermission \<Rightarrow> unit query" where
  "insert_permission p = wrap ''failed to insert permission''
     (insert_row t_resource_permissions put_permissions ''unique_resource_permission'' permission_clash p)"

definition SetResourcePermissions :: "string \<Rightarrow> string \<Rightarrow> ResourcePermission list \<Rightarrow> unit query" where
  "SetResourcePermissions resourceID organizationID permissions =
     bnd (wrap ''failed to verify resource'' (select (in_org resourceID organizationID))) (\<lambda>exists.
     if \<not> exists then fail ''resource not found or not in organization''
     else bnd (wrap ''failed to delete existing permissions''
            (exec_on t_resource_permissions put_permissions
               (\<lambda>d. delete_where (\<lambda>p. rp_ResourceID p = resourceID)))) (\<lambda>_.
          for_each insert_permission permissions))"

definition GetPrincipalPermissions :: "string \<Rightarrow> string \<Rightarrow> string \<Rightarrow> ResourcePermission list query" where
  "GetPrincipalPermissions principalID principalType organizationID =
     wrap ''failed to get principal permissions'' (select (\<lambda>d. filter (\<lambda>p. rp_PrincipalID p = principalID
        \<and> rp_PrincipalType p = principalType \<and> in_org (rp_ResourceID p) organizationID d)
       (t_resource_permissions d)))"

section \<open>Access log\<close>

definition GetResourceAccessLog :: "string \<Rightarrow> string \<Rightarrow> ListParams \<Rightarrow> ResourceAccessLog ListResult query" where
  "GetResourceAccessLog resourceID organizationID params =
     (let visible = (\<lambda>d. filter (\<lambda>l. ral_ResourceID l = resourceID \<and> in_org resourceID organizationID d)
            (t_resource_access_log d))
      in bnd (wrap ''failed to get access log''
           (select_page (lp_Limit params) (lp_Offset params) (\<lambda>d. order_desc ral_Timestamp (visible d)))) (\<lambda>items.
         bnd (wrap ''failed to count access log'' (select (\<lambda>d. int (length (visible d))))) (\<lambda>cnt.
         lift (list_result params items cnt))))"

section \<open>Shares\<close>

definition share_clash :: "ResourceShare \<Rightarrow> ResourceShare \<Rightarrow> bool" where
  "share_clash s x \<longleftrightarrow> rs_ID x = rs_ID s \<or> rs_ResourceID x = rs_ResourceID s
     \<and> rs_PrincipalID x = rs_PrincipalID s \<and> rs_PrincipalType x = rs_PrincipalType s"

definition ShareResource :: "ResourceShare \<Rightarrow> string \<Rightarrow> unit query" where
  "ShareResource share organizationID =
     bnd (wrap ''failed to verify resource'' (select (in_org (rs_ResourceID share) organizationID))) (\<lambda>exists.
     if \<not> exists then fail ''resource not found or not in organization''
     else bnd (attempt (insert_row t_resource_shares put_shares ''unique_resource_share'' share_clash share))
       (\<lambda>outcome. case outcome of
          Inl e \<Rightarrow> if contains e ''duplicate key'' then fail ''resource already shared with this principal''
            else fail (''failed to share resource: '' @ e)
        | Inr _ \<Rightarrow> ret ()))"

definition UnshareResource :: "string \<Rightarrow> string \<Rightarrow> string \<Rightarrow> string \<Rightarrow> unit query" where
  "UnshareResource resourceID organizationID principalID principalType =
     must_affect ''resource share not found'' ''failed to unshare resource''
       (exec_on t_resource_shares put_shares (\<lambda>d. delete_where (\<lambda>s. rs_ResourceID s = resourceID
          \<and> rs_PrincipalID s = principalID \<and> rs_PrincipalType s = principalType
          \<and> in_org resourceID organizationID d)))"

definition scan_shares :: "string \<Rightarrow> (db \<Rightarrow> ResourceShare list) \<Rightarrow> ResourceShare list query" where
  "scan_shares pre g = bnd (wrap pre (select g)) (\<lambda>shares.
     if \<exists>s \<in> set shares. rs_ExpiresAt s = None
     then fail ''failed to scan share: unsupported Scan, storing driver.Value type <nil> into type *time.Time''
     else ret shares)"

definition GetResourceShares :: "string \<Rightarrow> string \<Rightarrow> ResourceShare list query" where
  "GetResourceShares resourceID organizationID = scan_shares ''failed to get resource shares''
     (\<lambda>d. order_desc rs_CreatedAt (filter (\<lambda>s. rs_ResourceID s = resourceID
        \<and> in_org resourceID organizationID d \<and> unexpired (now d) (rs_ExpiresAt s)) (t_resource_shares d)))"

definition GetPrincipalShares :: "string \<Rightarrow> string \<Rightarrow> string \<Rightarrow> ResourceShare list query" where
  "GetPrincipalShares principalID principalType organizationID = scan_shares ''failed to get principal shares''
     (\<lambda>d. filter (\<lambda>s. rs_PrincipalID s = principalID \<and> rs_PrincipalType s = principalType
        \<and> in_org (rs_ResourceID s) organizationID d \<and> unexpired (now d) (rs_ExpiresAt s)) (t_resource_shares d))"

section \<open>Lemmas\<close>

lemma live_resource_eq:
  "live_resource i c = (\<lambda>r. rsc_ID r = i \<and> rsc_OrganizationID r = c \<and> rsc_DeletedAt r = None)"
  by (auto simp: fun_eq_iff live_resource_def)

interpretation rsc: soft_store t_resources put_resources rsc_ID rsc_OrganizationID
  "\<lambda>r. rsc_DeletedAt r = None" "\<lambda>t r. r\<lparr>rsc_DeletedAt := Some t\<rparr>"
  GetResource DeleteResource "''resource not found''" "''resource not found or already deleted''"
  "''failed to get resource''" "''failed to delete resource''"
  by unfold_locales (simp_all add: GetResource_def DeleteResource_def live_resource_eq)

lemma in_org_advance [simp]: "in_org i c (advance d) = in_org i c d"
  by (simp add: in_org_def)

lemma in_org_put [simp]: "in_org i c (put_permissions t d) = in_org i c d" "in_org i c (put_shares t' d) = in_org i c d"
  by (simp_all add: in_org_def)

lemma insert_permissions:
  "for_each insert_permission ps d = (Ok u, d') \<Longrightarrow> t_resource_permissions d' = t_resource_permissions d @ ps"
proof (induction ps arbitrary: d)
  case (Cons p ps)
  then obtain v d1 where "insert_permission p d = (Ok v, d1)" and rest: "for_each insert_permission ps d1 = (Ok u, d')"
    by (auto elim: bnd_OkE)
  then have "t_resource_permissions d1 = t_resource_permissions d @ [p]"
    by (auto simp: insert_permission_def dest!: insert_row_Ok)
  with Cons.IH [OF rest] show ?case by simp
qed simp

lemma scan_shares_Ok:
  "scan_shares pre g d = (Ok ss, d') \<Longrightarrow> ss = g (advance d) \<and> (\<forall>s \<in> set ss. rs_ExpiresAt s \<noteq> None)"
  by (auto simp: scan_shares_def elim!: bnd_OkE dest!: select_Ok split: if_splits)

lemma scan_shares_run:
  "healthy d \<Longrightarrow> \<forall>s \<in> set (g d). rs_ExpiresAt s \<noteq> None \<Longrightarrow> scan_shares pre g d = (Ok (g d), d)"
  by (auto simp: scan_shares_def bnd_def wrap_def select_ok)

lemma ShareResource_Ok:
  assumes "ShareResource s c d = (Ok u, d')"
  shows "in_org (rs_ResourceID s) c d \<and> (\<forall>x \<in> set (t_resource_shares d). \<not> share_clash s x)
    \<and> t_resource_shares d' = t_resource_shares d @ [s] \<and> t_resources d' = t_resources d \<and> now d' = now d"
  using assms
  by (auto simp: ShareResource_def attempt_def list_ex_iff elim!: bnd_OkE dest!: select_Ok insert_row_Ok
      split: if_splits sum.splits prod.splits res.splits)

section \<open>Properties of the resource store\<close>

text \<open>Deleting a resource is final and confined to its organization: afterwards it can be neither read
  nor deleted again, and every row of another resource or organization is still there unchanged.\<close>

lemma DeleteResource_final:
  assumes "DeleteResource i c d = (Ok u, d')"
  shows "(\<forall>r. fst (GetResource i c d') \<noteq> Ok r) \<and> (\<forall>v. fst (DeleteResource i c d') \<noteq> Ok v) \<and>
    (\<forall>r \<in> set (t_resources d). rsc_ID r \<noteq> i \<or> rsc_OrganizationID r \<noteq> c \<longrightarrow> r \<in> set (t_resources d'))"
  using rsc.removed_not_found [OF assms] rsc.removed_once [OF assms] rsc.remove_keeps [of _ d i c] assms by auto

definition sample_resource :: "string \<Rightarrow> Resource" where
  "sample_resource i = \<lparr>rsc_ID = i, rsc_ARN = ''arn:monkey:resource::o1:data/'' @ i, rsc_Name = ''n'',
     rsc_Description = None, rsc_Type = ''data'', rsc_OrganizationID = ''o1'', rsc_ParentResourceID = None,
     rsc_OwnerID = None, rsc_OwnerType = None, rsc_Attributes = ''{}'', rsc_Tags = ''{}'',
     rsc_EncryptionKeyID = None, rsc_LifecyclePolicy = ''{}'', rsc_AccessLevel = ''private'',
     rsc_ContentType = None, rsc_SizeBytes = None, rsc_Checksum = None, rsc_Version = None,
     rsc_Status = ''active'', rsc_CreatedAt = 0, rsc_UpdatedAt = 0, rsc_AccessedAt = None, rsc_DeletedAt = None\<rparr>"

definition sample_permission :: "string \<Rightarrow> string \<Rightarrow> string \<Rightarrow> string \<Rightarrow> ResourcePermission" where
  "sample_permission i pid perm eff = \<lparr>rp_ID = i, rp_ResourceID = ''x'', rp_PrincipalID = pid, rp_PrincipalType = ''user'',
     rp_Permission = perm, rp_Effect = eff, rp_CreatedAt = 0, rp_CreatedBy = []\<rparr>"

definition sample_share :: "string \<Rightarrow> instant \<Rightarrow> ResourceShare" where
  "sample_share level t = \<lparr>rs_ID = ''s1'', rs_ResourceID = ''x'', rs_PrincipalID = ''u1'', rs_PrincipalType = ''user'',
     rs_AccessLevel = level, rs_ExpiresAt = Some t, rs_SharedBy = ''u0'', rs_CreatedAt = 0\<rparr>"

definition resource_db :: db where
  "resource_db = (empty_db 100)\<lparr>t_resources := [sample_resource ''x'', sample_resource ''y''],
     t_resource_permissions := [sample_permission ''1'' ''u1'' ''read'' ''allow'']\<rparr>"

text \<open>A successful SetResourcePermissions replaces all permissions of the resource, those of other
  principals included, by the given ones and leaves the permissions of other resources alone.\<close>

lemma SetResourcePermissions_replaces:
  assumes "SetResourcePermissions i c ps d = (Ok u, d')"
  shows "in_org i c d \<and>
    t_resource_permissions d' = filter (\<lambda>p. rp_ResourceID p \<noteq> i) (t_resource_permissions d) @ ps"
proof -
  from assms obtain e d1 where "select (in_org i c) d = (Ok e, d1)" and
    rest: "(if \<not> e then fail ''resource not found or not in organization''
     else bnd (wrap ''failed to delete existing permissions''
            (exec_on t_resource_permissions put_permissions (\<lambda>d. delete_where (\<lambda>p. rp_ResourceID p = i))))
          (\<lambda>_. for_each insert_permission ps)) d1 = (Ok u, d')"
    unfolding SetResourcePermissions_def by (auto elim: bnd_OkE)
  then have e: "e" "in_org i c d" and d1: "d1 = advance d" by (auto dest!: select_Ok split: if_splits)
  with rest obtain n d2 where
    del: "exec_on t_resource_permissions put_permissions (\<lambda>d. delete_where (\<lambda>p. rp_ResourceID p = i)) d1 = (Ok n, d2)"
    and ins: "for_each insert_permission ps d2 = (Ok u, d')" by (auto elim: bnd_OkE)
  from exec_on_Ok [OF del] d1 have "t_resource_permissions d2 = filter (\<lambda>p. rp_ResourceID p \<noteq> i) (t_resource_permissions d)"
    by (simp add: snd_delete_where comp_def)
  with insert_permissions [OF ins] e show ?thesis by simp
qed

text \<open>SetResourcePermissions is not atomic: a failure after its deletion leaves the resource with no
  permissions at all, although the call reports an error.\<close>

lemma SetResourcePermissions_not_atomic:
  "SetResourcePermissions ''x'' ''o1'' [sample_permission ''2'' ''u2'' ''write'' ''allow'']
      (resource_db\<lparr>faults := [None, None, Some ''driver: bad connection'']\<rparr>)
   = (Err ''failed to insert permission: driver: bad connection'',
      resource_db\<lparr>t_resource_permissions := []\<rparr>)"
  by (simp add: SetResourcePermissions_def select_def exec_on_def insert_permission_def insert_row_def
      stmt_def bnd_def wrap_def advance_def resource_db_def empty_db_def in_org_def sample_resource_def
      sample_permission_def delete_where_def)

text \<open>A share that was just created is returned among the principal's shares exactly when its expiry
  lies in the future; the zero time, which the handler stores when no expiry is given, never does.\<close>

lemma ShareResource_visible:
  assumes "ShareResource s c d = (Ok u, d')" and "rs_ExpiresAt s = Some t"
    and "GetPrincipalShares (rs_PrincipalID s) (rs_PrincipalType s) c d' = (Ok ss, d'')"
  shows "s \<in> set ss \<longleftrightarrow> now d < t"
proof -
  note sh = ShareResource_Ok [OF assms(1)]
  from scan_shares_Ok [OF assms(3) [unfolded GetPrincipalShares_def]]
  have "s \<in> set ss \<longleftrightarrow> s \<in> set (t_resource_shares d') \<and> in_org (rs_ResourceID s) c d' \<and> unexpired (now d') (rs_ExpiresAt s)"
    by simp
  moreover have "in_org (rs_ResourceID s) c d'" using sh by (simp add: in_org_def)
  ultimately show ?thesis using sh assms(2) by (simp add: unexpired_def)
qed

end
