(* ===== verification/Authorizer.thy ===== *)
theory Authorizer
  imports ResourceStore DenyOverride
begin

text \<open>
  The unified authorization service, internal/services/authz_service.go: policies first, then resource
  permissions, then shares. The two lists of resource grants are optional: an error while fetching them
  is ignored.
\<close>

section \<open>The three passes\<close>

fun policy_pass ::
  "(string \<Rightarrow> string) \<Rightarrow> iteration \<Rightarrow> string \<Rightarrow> string \<Rightarrow> context_map \<Rightarrow> decision \<Rightarrow> Policy list \<Rightarrow> decision" where
  "policy_pass num_v ord action resource ctx final [] = final"
| "policy_pass num_v ord action resource ctx final (p # ps) =
     (case Evaluate num_v ord (pol_Document p) action resource ctx of
        (_, Some _) \<Rightarrow> policy_pass num_v ord action resource ctx final ps
      | (DecisionDeny, None) \<Rightarrow> DecisionDeny
      | (DecisionAllow, None) \<Rightarrow> policy_pass num_v ord action resource ctx DecisionAllow ps
      | (DecisionNotApplicable, None) \<Rightarrow> policy_pass num_v ord action resource ctx final ps)"

fun permission_pass :: "string \<Rightarrow> string \<Rightarrow> decision \<Rightarrow> ResourcePermission list \<Rightarrow> decision" where
  "permission_pass action resource final [] = final"
| "permission_pass action resource final (rp # rps) =
     (if rp_ResourceID rp = resource \<and> MatchWildcard (rp_Permission rp) action
      then if equal_fold (rp_Effect rp) ''deny'' then DecisionDeny
           else if equal_fold (rp_Effect rp) ''allow'' then permission_pass action resource DecisionAllow rps
           else permission_pass action resource final rps
      else permission_pass action resource final rps)"

definition authorizeShare :: "string \<Rightarrow> string \<Rightarrow> bool" where
  "authorizeShare accessLevel action = (let level = to_lower accessLevel in
     if level = ''owner'' then True
     else if level = ''editor'' then \<not> contains (to_lower action) ''delete'' \<and> \<not> contains (to_lower action) ''share''
     else if level = ''viewer'' then equal_fold action ''read'' \<or> equal_fold action ''list'' \<or> equal_fold action ''view''
     else False)"

fun share_pass :: "string \<Rightarrow> string \<Rightarrow> decision \<Rightarrow> ResourceShare list \<Rightarrow> decision" where
  "share_pass action resource final [] = final"
| "share_pass action resource final (share # shares) =
     share_pass action resource
       (if rs_ResourceID share = resource \<and> authorizeShare (rs_AccessLevel share) action then DecisionAllow else final)
       shares"

text \<open>
  The result is the decision; on an error the code returns a Deny beside the error. A pass that returns
  Deny is an early return: no pass is started with Deny.
\<close>

definition Authorize ::
  "(string \<Rightarrow> string) \<Rightarrow> iteration \<Rightarrow> string \<Rightarrow> string \<Rightarrow> string \<Rightarrow> string \<Rightarrow> string \<Rightarrow> context_map \<Rightarrow> decision query" where
  "Authorize num_v ord principalID principalType orgID action resource ctx =
     bnd (wrap ''failed to fetch policies'' (GetPrincipalPolicies principalID principalType orgID)) (\<lambda>policies.
     case policy_pass num_v ord action resource ctx DecisionNotApplicable policies of
       DecisionDeny \<Rightarrow> ret DecisionDeny
     | final1 \<Rightarrow> bnd (attempt (GetPrincipalPermissions principalID principalType orgID)) (\<lambda>perms.
         case (case perms of Inl _ \<Rightarrow> final1 | Inr resPerms \<Rightarrow> permission_pass action resource final1 resPerms) of
           DecisionDeny \<Rightarrow> ret DecisionDeny
         | final2 \<Rightarrow> bnd (attempt (GetPrincipalShares principalID principalType orgID)) (\<lambda>shares.
             let final3 = (case shares of Inl _ \<Rightarrow> final2 | Inr ss \<Rightarrow> share_pass action resource final2 ss)
             in ret (if final3 = DecisionNotApplicable then DecisionDeny else final3))))"

section \<open>The passes as deny-overriding scans\<close>

definition document_vote :: "(string \<Rightarrow> string) \<Rightarrow> iteration \<Rightarrow> string \<Rightarrow> string \<Rightarrow> context_map \<Rightarrow> Policy \<Rightarrow> decision" where
  "document_vote num_v ord action resource ctx p =
     (case Evaluate num_v ord (pol_Document p) action resource ctx of
        (v, None) \<Rightarrow> v | (_, Some _) \<Rightarrow> DecisionNotApplicable)"

definition permission_vote :: "string \<Rightarrow> string \<Rightarrow> ResourcePermission \<Rightarrow> decision" where
  "permission_vote action resource rp =
     (if rp_ResourceID rp = resource \<and> MatchWildcard (rp_Permission rp) action
      then if equal_fold (rp_Effect rp) ''deny'' then DecisionDeny
           else if equal_fold (rp_Effect rp) ''allow'' then DecisionAllow else DecisionNotApplicable
      else DecisionNotApplicable)"

definition share_allows :: "string \<Rightarrow> string \<Rightarrow> ResourceShare \<Rightarrow> bool" where
  "share_allows action resource s \<longleftrightarrow> rs_ResourceID s = resource \<and> authorizeShare (rs_AccessLevel s) action"

definition undecided :: "bool \<Rightarrow> decision" where
  "undecided b = (if b then DecisionAllow else DecisionNotApplicable)"

lemma undecided_simps [simp]: "undecided True = DecisionAllow" "undecided False = DecisionNotApplicable"
  "undecided b \<noteq> DecisionDeny" "undecided b = DecisionAllow \<longleftrightarrow> b" "undecided b = DecisionNotApplicable \<longleftrightarrow> \<not> b"
  by (simp_all add: undecided_def)

interpretation pol_pass: deny_scan "document_vote num_v ord action resource ctx"
  "\<lambda>b ps. policy_pass num_v ord action resource ctx (undecided b) ps = DecisionAllow" for num_v ord action resource ctx
proof
  fix b p ps
  show "(policy_pass num_v ord action resource ctx (undecided b) (p # ps) = DecisionAllow) =
     (case document_vote num_v ord action resource ctx p of DecisionDeny \<Rightarrow> False
      | DecisionAllow \<Rightarrow> policy_pass num_v ord action resource ctx (undecided True) ps = DecisionAllow
      | DecisionNotApplicable \<Rightarrow> policy_pass num_v ord action resource ctx (undecided b) ps = DecisionAllow)"
    by (auto simp: document_vote_def split: prod.splits option.splits decision.splits)
qed simp

interpretation perm_pass: deny_scan "permission_vote action resource"
  "\<lambda>b ps. permission_pass action resource (undecided b) ps = DecisionAllow" for action resource
  by unfold_locales (auto simp: permission_vote_def)

lemma policy_pass_deny:
  "policy_pass num_v ord action resource ctx (undecided b) ps = DecisionDeny \<longleftrightarrow>
     (\<exists>p \<in> set ps. document_vote num_v ord action resource ctx p = DecisionDeny)"
proof (induction ps arbitrary: b)
  case (Cons p ps)
  from Cons.IH [of True] Cons.IH [of b] show ?case
    by (cases "Evaluate num_v ord (pol_Document p) action resource ctx")
       (auto simp: document_vote_def split: option.splits decision.splits)
qed simp

lemma permission_pass_deny:
  "permission_pass action resource (undecided b) ps = DecisionDeny \<longleftrightarrow>
     (\<exists>p \<in> set ps. permission_vote action resource p = DecisionDeny)"
proof (induction ps arbitrary: b)
  case (Cons p ps)
  from Cons.IH [of True] Cons.IH [of b] show ?case by (auto simp: permission_vote_def)
qed simp

text \<open>The outcome of a pass, from the scan lemma of the interpretations.\<close>

lemma policy_pass_undecided:
  "policy_pass num_v ord action resource ctx (undecided b) ps =
    (if \<exists>p \<in> set ps. document_vote num_v ord action resource ctx p = DecisionDeny then DecisionDeny
     else undecided (b \<or> (\<exists>p \<in> set ps. document_vote num_v ord action resource ctx p = DecisionAllow)))"
  using policy_pass_deny [of num_v ord action resource ctx b ps] pol_pass.scan_iff [of num_v ord action resource ctx b ps]
  by (cases "policy_pass num_v ord action resource ctx (undecided b) ps") (auto simp: undecided_def)

lemma permission_pass_undecided:
  "permission_pass action resource (undecided b) ps =
    (if \<exists>p \<in> set ps. permission_vote action resource p = DecisionDeny then DecisionDeny
     else undecided (b \<or> (\<exists>p \<in> set ps. permission_vote action resource p = DecisionAllow)))"
  using permission_pass_deny [of action resource b ps] perm_pass.scan_iff [of action resource b ps]
  by (cases "permission_pass action resource (undecided b) ps") (auto simp: undecided_def)

lemma share_pass_undecided:
  "share_pass action resource (undecided b) ss = undecided (b \<or> (\<exists>s \<in> set ss. share_allows action resource s))"
proof (induction ss arbitrary: b)
  case (Cons s ss)
  from Cons.IH [of True] Cons.IH [of b] show ?case by (auto simp: share_allows_def)
qed simp

abbreviation held_permissions :: "string \<Rightarrow> string \<Rightarrow> string \<Rightarrow> db \<Rightarrow> ResourcePermission list" where
  "held_permissions pid pty c d \<equiv> filter (\<lambda>p. rp_PrincipalID p = pid \<and> rp_PrincipalType p = pty
     \<and> in_org (rp_ResourceID p) c d) (t_resource_permissions d)"

abbreviation held_shares :: "string \<Rightarrow> string \<Rightarrow> string \<Rightarrow> db \<Rightarrow> ResourceShare list" where
  "held_shares pid pty c d \<equiv> filter (\<lambda>s. rs_PrincipalID s = pid \<and> rs_PrincipalType s = pty
     \<and> in_org (rs_ResourceID s) c d \<and> unexpired (now d) (rs_ExpiresAt s)) (t_resource_shares d)"

text \<open>A share without an expiry is selected but cannot be scanned into the code's \<open>time.Time\<close>: it makes
  the whole list unreadable, and Authorize goes on without any share.\<close>

definition readable_shares :: "ResourceShare list \<Rightarrow> ResourceShare list" where
  "readable_shares ss = (if \<exists>s \<in> set ss. rs_ExpiresAt s = None then [] else ss)"

lemma readable_shares_Nil [simp]: "readable_shares [] = []"
  by (simp add: readable_shares_def)

text \<open>The decision as a function of the three lists.\<close>

definition combine ::
  "(string \<Rightarrow> string) \<Rightarrow> iteration \<Rightarrow> string \<Rightarrow> string \<Rightarrow> context_map \<Rightarrow> Policy list \<Rightarrow> ResourcePermission list \<Rightarrow>
    ResourceShare list \<Rightarrow> decision" where
  "combine num_v ord action resource ctx ps rps ss =
    (if (\<exists>p \<in> set ps. document_vote num_v ord action resource ctx p = DecisionDeny)
        \<or> (\<exists>p \<in> set rps. permission_vote action resource p = DecisionDeny) then DecisionDeny
     else if (\<exists>p \<in> set ps. document_vote num_v ord action resource ctx p = DecisionAllow)
        \<or> (\<exists>p \<in> set rps. permission_vote action resource p = DecisionAllow)
        \<or> (\<exists>s \<in> set ss. share_allows action resource s)
     then DecisionAllow else DecisionDeny)"

lemma Authorize_combine:
  assumes "wrap ''failed to fetch policies'' (GetPrincipalPolicies pid pty c) d = (Ok ps, d)"
    and "attempt (GetPrincipalPermissions pid pty c) d = (Ok (Inr rps), d)"
    and "attempt (GetPrincipalShares pid pty c) d = (Ok shares, d)"
    and ss: "ss = (case shares of Inl _ \<Rightarrow> [] | Inr l \<Rightarrow> l)"
  shows "Authorize num_v ord pid pty c action resource ctx d = (Ok (combine num_v ord action resource ctx ps rps ss), d)"
proof -
  have pass1: "policy_pass num_v ord action resource ctx DecisionNotApplicable ps =
      (if \<exists>p \<in> set ps. document_vote num_v ord action resource ctx p = DecisionDeny then DecisionDeny
       else undecided (\<exists>p \<in> set ps. document_vote num_v ord action resource ctx p = DecisionAllow))"
    using policy_pass_undecided [of num_v ord action resource ctx False ps] by simp
  note pass2 = permission_pass_undecided [of action resource True rps] permission_pass_undecided [of action resource False rps]
  have pass3: "(case shares of Inl _ \<Rightarrow> undecided b | Inr l \<Rightarrow> share_pass action resource (undecided b) l)
      = undecided (b \<or> (\<exists>s \<in> set ss. share_allows action resource s))" for b
    by (cases shares) (simp_all add: ss share_pass_undecided)
  note pass3 = pass3 [of True, simplified undecided_simps(1)] pass3 [of False, simplified undecided_simps(2)]
  show ?thesis
  proof (cases "\<exists>p \<in> set ps. document_vote num_v ord action resource ctx p = DecisionDeny")
    case True
    then show ?thesis by (simp add: Authorize_def bnd_def assms pass1 combine_def)
  next
    case False
    then show ?thesis
      using pass2 pass3
      by (cases "\<exists>p \<in> set ps. document_vote num_v ord action resource ctx p = DecisionAllow";
          cases "\<exists>p \<in> set rps. permission_vote action resource p = DecisionDeny";
          cases "\<exists>p \<in> set rps. permission_vote action resource p = DecisionAllow";
          cases "\<exists>s \<in> set ss. share_allows action resource s")
         (simp_all add: Authorize_def bnd_def assms pass1 combine_def Let_def undecided_def)
  qed
qed

lemma GetPrincipalShares_healthy:
  assumes "healthy d"
  shows "\<exists>shares. attempt (GetPrincipalShares pid pty c) d = (Ok shares, d)
    \<and> readable_shares (held_shares pid pty c d) = (case shares of Inl _ \<Rightarrow> [] | Inr l \<Rightarrow> l)"
  using assms
  by (auto simp: attempt_def GetPrincipalShares_def scan_shares_def bnd_def wrap_def select_ok fail_def
      readable_shares_def)

lemma Authorize_healthy:
  assumes "healthy d"
  shows "Authorize num_v ord pid pty c action resource ctx d = (Ok (combine num_v ord action resource ctx
     (principal_policies pid pty c d) (held_permissions pid pty c d)
     (readable_shares (held_shares pid pty c d))), d)"
proof -
  have "wrap ''failed to fetch policies'' (GetPrincipalPolicies pid pty c) d = (Ok (principal_policies pid pty c d), d)"
    using assms by (simp add: GetPrincipalPolicies_def select_ok)
  moreover have "attempt (GetPrincipalPermissions pid pty c) d = (Ok (Inr (held_permissions pid pty c d)), d)"
    using assms by (simp add: attempt_def GetPrincipalPermissions_def wrap_def select_ok)
  moreover from GetPrincipalShares_healthy [OF assms, of pid pty c] obtain shares
    where "attempt (GetPrincipalShares pid pty c) d = (Ok shares, d)"
      and "readable_shares (held_shares pid pty c d) = (case shares of Inl _ \<Rightarrow> [] | Inr l \<Rightarrow> l)" by blast
  ultimately show ?thesis by (rule Authorize_combine)
qed

section \<open>Properties\<close>

text \<open>C2. On a server that does not fail, Authorize allows a request exactly when neither a policy nor a
  resource permission of the principal denies it, and a policy, a permission or an unexpired share on
  the resource allows it; in every other case it denies. The shares count only when each of the
  principal's unexpired shares has an expiry: one share without an expiry, which the statement selects
  as unexpired, cannot be scanned and takes all of them out of the decision.\<close>

theorem Authorize_exact:
  assumes "healthy d"
  shows "Authorize num_v ord pid pty c action resource ctx d =
    (Ok (if (\<exists>p \<in> set (principal_policies pid pty c d). document_vote num_v ord action resource ctx p = DecisionDeny)
          \<or> (\<exists>p \<in> set (held_permissions pid pty c d). permission_vote action resource p = DecisionDeny)
        then DecisionDeny
        else if (\<exists>p \<in> set (principal_policies pid pty c d). document_vote num_v ord action resource ctx p = DecisionAllow)
          \<or> (\<exists>p \<in> set (held_permissions pid pty c d). permission_vote action resource p = DecisionAllow)
          \<or> (\<forall>s \<in> set (held_shares pid pty c d). rs_ExpiresAt s \<noteq> None)
             \<and> (\<exists>s \<in> set (held_shares pid pty c d). share_allows action resource s)
        then DecisionAllow else DecisionDeny), d)"
proof -
  have "(\<exists>s \<in> set (readable_shares ss). share_allows action resource s)
      \<longleftrightarrow> (\<forall>s \<in> set ss. rs_ExpiresAt s \<noteq> None) \<and> (\<exists>s \<in> set ss. share_allows action resource s)" for ss
    by (auto simp: readable_shares_def)
  then show ?thesis by (simp only: Authorize_healthy [OF assms] combine_def)
qed

definition auth_db :: "Policy list \<Rightarrow> ResourcePermission list \<Rightarrow> ResourceShare list \<Rightarrow> db" where
  "auth_db ps rps ss = sample_db\<lparr>t_policies := ps, t_resources := [sample_resource ''x''],
     t_resource_permissions := rps, t_resource_shares := ss\<rparr>"

theorem Authorize_exact_witness:
  "fst (Authorize id id ''u1'' ''user'' ''o1'' ''view'' ''x'' Map.empty
     (auth_db [sample_policy allow_write] [] [sample_share ''viewer'' 200])) = Ok DecisionAllow"
proof -
  let ?d = "auth_db [sample_policy allow_write] [] [sample_share ''viewer'' 200]"
  have d: "healthy ?d" by (simp add: auth_db_def sample_db_def empty_db_def)
  have "\<forall>s \<in> set (held_shares ''u1'' ''user'' ''o1'' ?d). rs_ExpiresAt s \<noteq> None"
    by (simp add: auth_db_def sample_share_def)
  moreover have "held_permissions ''u1'' ''user'' ''o1'' ?d = []" by (simp add: auth_db_def)
  moreover have "list_all (\<lambda>p. document_vote id id ''view'' ''x'' Map.empty p \<noteq> DecisionDeny)
      (principal_policies ''u1'' ''user'' ''o1'' ?d)" by code_simp
  moreover have "list_ex (share_allows ''view'' ''x'') (held_shares ''u1'' ''user'' ''o1'' ?d)" by code_simp
  ultimately show ?thesis
    using Authorize_exact [OF d, of id id "''u1''" "''user''" "''o1''" "''view''" "''x''" Map.empty]
    by (auto simp: list_all_iff list_ex_iff)
qed

text \<open>One share without an expiry disables the others: the viewer's share on the resource allows viewing it,
  and stops doing so when a share of any other resource is granted to the account with no expiry.\<close>

definition timeless_share :: ResourceShare where
  "timeless_share = (sample_share ''owner'' 0)\<lparr>rs_ExpiresAt := None\<rparr>"

lemma timeless_share_disables_shares:
  "fst (Authorize id id ''u1'' ''user'' ''o1'' ''view'' ''x'' Map.empty
     (auth_db [] [] [sample_share ''viewer'' 200])) = Ok DecisionAllow \<and>
   fst (Authorize id id ''u1'' ''user'' ''o1'' ''view'' ''x'' Map.empty
     (auth_db [] [] [sample_share ''viewer'' 200, timeless_share])) = Ok DecisionDeny"
  by (rule conjI; code_simp)

text \<open>Authorize fails open on resource denials: when the statement that fetches the resource permissions
  fails, an explicit Deny of the principal on the resource is ignored and a policy's Allow wins.\<close>

lemma Authorize_ignores_failed_fetch:
  "let d = auth_db [sample_policy allow_write] [sample_permission ''1'' ''u1'' ''*'' ''deny''] [] in
   fst (Authorize id id ''u1'' ''user'' ''o1'' ''write'' ''x'' Map.empty d) = Ok DecisionDeny \<and>
   fst (Authorize id id ''u1'' ''user'' ''o1'' ''write'' ''x'' Map.empty
     (d\<lparr>faults := [None, Some ''driver: bad connection'']\<rparr>)) = Ok DecisionAllow"
  unfolding Let_def by (rule conjI; code_simp)

text \<open>A policy that denies under a condition with an unknown operator, and one that allows.\<close>

definition fragile_deny :: string where
  "fragile_deny = ''{\"Statement\":[{\"Effect\":\"Deny\",\"Action\":\"*\",\"Resource\":\"*\",\"Condition\":{\"StringEquals\":{\"dept\":\"hr\"},\"Unknown\":{\"dept\":\"hr\"}}},{\"Effect\":\"Deny\",\"Action\":\"write\",\"Resource\":\"*\"}]}''"

text \<open>The decision can depend on the order in which Go iterates over a condition's map: on one database
  and one request, one order denies and the other allows.\<close>

lemma Authorize_depends_on_map_order:
  "let d = auth_db [sample_policy allow_write,
         (sample_policy fragile_deny)\<lparr>pol_ID := ''p2'', pol_Name := ''guard''\<rparr>] [] []
        \<lparr>t_role_policies := [\<lparr>rlp_ID = ''r1p1'', rlp_RoleID = ''r1'', rlp_PolicyID = ''p1'', rlp_AttachedAt = 0, rlp_AttachedBy = None\<rparr>, \<lparr>rlp_ID = ''r1p2'', rlp_RoleID = ''r1'', rlp_PolicyID = ''p2'', rlp_AttachedAt = 0, rlp_AttachedBy = None\<rparr>]\<rparr>;
       ctx = [''dept'' \<mapsto> JStr ''it'']
   in fst (Authorize id id ''u1'' ''user'' ''o1'' ''write'' ''x'' ctx d) = Ok DecisionAllow \<and>
      fst (Authorize id rev ''u1'' ''user'' ''o1'' ''write'' ''x'' ctx d) = Ok DecisionDeny"
  unfolding Let_def by (rule conjI; code_simp)

text \<open>The access levels of shares are nested: what a viewer may do an editor may do, and what an editor
  may do an owner may do.\<close>

lemma share_levels_nested:
  "(authorizeShare ''viewer'' action \<longrightarrow> authorizeShare ''editor'' action) \<and>
   (authorizeShare ''editor'' action \<longrightarrow> authorizeShare ''owner'' action)"
proof -
  have "\<not> contains w ''delete'' \<and> \<not> contains w ''share''" if "w \<in> {''read'', ''list'', ''view''}" for w
    using that by (elim insertE emptyE; hypsubst; code_simp)
  moreover have "to_lower action \<in> {''read'', ''list'', ''view''}" if "authorizeShare ''viewer'' action"
  proof -
    have "to_lower ''viewer'' = ''viewer''" "to_lower ''read'' = ''read''" "to_lower ''list'' = ''list''"
      "to_lower ''view'' = ''view''" by code_simp+
    with that show ?thesis by (auto simp: authorizeShare_def equal_fold_def Let_def)
  qed
  ultimately have "\<not> contains (to_lower action) ''delete'' \<and> \<not> contains (to_lower action) ''share''"
    if "authorizeShare ''viewer'' action" using that by blast
  moreover have "authorizeShare ''editor'' action \<longleftrightarrow>
      \<not> contains (to_lower action) ''delete'' \<and> \<not> contains (to_lower action) ''share''"
    and "authorizeShare ''owner'' action"
  proof -
    have "to_lower ''editor'' = ''editor''" "to_lower ''owner'' = ''owner''" by code_simp+
    then show "authorizeShare ''editor'' action \<longleftrightarrow>
        \<not> contains (to_lower action) ''delete'' \<and> \<not> contains (to_lower action) ''share''"
      and "authorizeShare ''owner'' action" by (simp_all add: authorizeShare_def)
  qed
  ultimately show ?thesis by blast
qed

end
