(* ===== verification/Middleware.thy ===== *)
theory Middleware
  imports Authorizer
begin

text \<open>
  The request middlewares of internal/middleware/auth.go and tenant.go. A middleware passes the request
  on, possibly with more locals, or replies with a status and an error text. The JWT library is a
  parameter: \<open>decode\<close> splits a token into its signing method and claims, \<open>sig_ok\<close> checks its signature
  under a key, \<open>claims_ok\<close> is the library's validation of the registered claims at a time.
\<close>

section \<open>Requests\<close>

record TenantContext =
  tc_UserID :: string
  tc_Email :: string
  tc_OrganizationID :: string
  tc_Role :: string
  tc_SessionID :: string
  tc_IsRoot :: bool

record fiber_ctx =
  c_Authorization :: string
  c_Cookie :: string
  c_Param_id :: string
  c_Path :: string
  c_IP :: string
  c_UserAgent :: string
  c_user_id :: "string option"
  c_organization_id :: "string option"
  c_email :: "string option"
  c_role :: "string option"
  c_session_id :: "string option"
  c_tenant :: "TenantContext option"

datatype gate = Next fiber_ctx | Reply nat string

type_synonym middleware = "fiber_ctx \<Rightarrow> gate query"

text \<open>A route: the middlewares in order, then the handler.\<close>

fun protect :: "middleware list \<Rightarrow> (fiber_ctx \<Rightarrow> (nat \<times> string) query) \<Rightarrow> fiber_ctx \<Rightarrow> (nat \<times> string) query" where
  "protect [] h c = h c"
| "protect (m # ms) h c = bnd (m c) (\<lambda>g. case g of Next c' \<Rightarrow> protect ms h c' | Reply st e \<Rightarrow> ret (st, e))"

section \<open>Tokens\<close>

record Claims =
  cl_UserID :: string
  cl_OrganizationID :: string
  cl_Email :: string
  cl_Role :: string
  cl_JTI :: string
  cl_Subject :: string
  cl_ExpiresAt :: "instant option"

datatype signing_method = RSA | HMAC | OtherMethod

datatype key = PublicKey string | Secret string

record jwt_library =
  decode :: "string \<Rightarrow> (signing_method \<times> Claims) option"
  sig_ok :: "string \<Rightarrow> key \<Rightarrow> bool"
  claims_ok :: "instant \<Rightarrow> Claims \<Rightarrow> bool"

record AuthMiddleware =
  jwtSecret :: string
  publicKey :: "string option"

definition key_for :: "AuthMiddleware \<Rightarrow> signing_method \<Rightarrow> key option" where
  "key_for am m = (case m of RSA \<Rightarrow> map_option PublicKey (publicKey am)
     | HMAC \<Rightarrow> Some (Secret (jwtSecret am)) | OtherMethod \<Rightarrow> None)"

text \<open>\<open>jwt.ParseWithClaims\<close> with the code's key function: the claims of a valid token.\<close>

definition parse_with_claims :: "jwt_library \<Rightarrow> AuthMiddleware \<Rightarrow> instant \<Rightarrow> string \<Rightarrow> Claims option" where
  "parse_with_claims lib am t token = (case decode lib token of None \<Rightarrow> None
     | Some (m, claims) \<Rightarrow> (case key_for am m of None \<Rightarrow> None
         | Some k \<Rightarrow> if sig_ok lib token k \<and> claims_ok lib t claims then Some claims else None))"

definition token_string :: "fiber_ctx \<Rightarrow> string" where
  "token_string c = (let tokenParts = split_on CHR '' '' (c_Authorization c);
       bearer = (if c_Authorization c \<noteq> [] \<and> length tokenParts = 2 \<and> tokenParts ! 0 = ''Bearer''
         then tokenParts ! 1 else [])
     in if bearer = [] then c_Cookie c else bearer)"

definition set_locals :: "Claims \<Rightarrow> fiber_ctx \<Rightarrow> fiber_ctx" where
  "set_locals claims c = c\<lparr>c_user_id := Some (if cl_UserID claims = [] then cl_Subject claims else cl_UserID claims),
     c_organization_id := Some (cl_OrganizationID claims), c_email := Some (cl_Email claims),
     c_role := Some (cl_Role claims)\<rparr>"

section \<open>Authentication\<close>

definition RequireAuth :: "jwt_library \<Rightarrow> AuthMiddleware \<Rightarrow> middleware" where
  "RequireAuth lib am c = (let tokenString = token_string c in
     if tokenString = [] then ret (Reply 401 ''Authorization required'')
     else gets now (\<lambda>t. case parse_with_claims lib am t tokenString of
         None \<Rightarrow> ret (Reply 401 ''Invalid or expired token'')
       | Some claims \<Rightarrow> (case cl_ExpiresAt claims of
             None \<Rightarrow> panic ''invalid memory address or nil pointer dereference''
           | Some e \<Rightarrow>
               if e < t then ret (Reply 401 ''Token has expired'')
               else bnd (if cl_JTI claims \<noteq> [] then attempt (redis_exists (''blacklist:'' @ cl_JTI claims)) else ret (Inr False))
                 (\<lambda>revoked. if revoked = Inr True then ret (Reply 401 ''Token has been revoked'')
                  else ret (Next ((set_locals claims c)\<lparr>c_session_id := Some (cl_JTI claims)\<rparr>))))))"

definition OptionalAuth :: "jwt_library \<Rightarrow> AuthMiddleware \<Rightarrow> middleware" where
  "OptionalAuth lib am c = (let tokenString = token_string c in
     if tokenString = [] then ret (Next c)
     else gets now (\<lambda>t. case parse_with_claims lib am t tokenString of
         None \<Rightarrow> ret (Next c)
       | Some claims \<Rightarrow> ret (Next (set_locals claims c))))"

section \<open>Roles, organizations and permissions\<close>

definition RequireRole :: "string list \<Rightarrow> middleware" where
  "RequireRole allowedRoles c = (case c_role c of
       None \<Rightarrow> ret (Reply 403 ''Role information not found'')
     | Some role \<Rightarrow> if role \<in> set allowedRoles then ret (Next c) else ret (Reply 403 ''Insufficient permissions''))"

definition am_RequireOrgAccess :: middleware where
  "am_RequireOrgAccess c = (case c_organization_id c of
       None \<Rightarrow> ret (Reply 403 ''Organization context not found'')
     | Some callerOrgID \<Rightarrow>
         if c_Param_id c = [] then ret (Next c)
         else if callerOrgID \<noteq> c_Param_id c
         then ret (Reply 403 ''Access denied: you can only manage your own organization'')
         else ret (Next c))"

definition permission_resource :: "string \<Rightarrow> fiber_ctx \<Rightarrow> string" where
  "permission_resource orgID c =
     (if c_Param_id c = [] then ''*''
      else let pathParts = split_on CHR ''/'' (trim_char CHR ''/'' (c_Path c));
               resType = (if length pathParts > 1 then pathParts ! (length pathParts - 2) else ''resource'')
           in ''arn:monkeys:resource:'' @ orgID @ '':'' @ resType @ ''/'' @ c_Param_id c)"

definition RequirePermission :: "(string \<Rightarrow> string) \<Rightarrow> iteration \<Rightarrow> string \<Rightarrow> middleware" where
  "RequirePermission num_v ord action c = (case c_user_id c of None \<Rightarrow> panic bad_assertion
     | Some userID \<Rightarrow> (case c_organization_id c of None \<Rightarrow> panic bad_assertion
         | Some orgID \<Rightarrow>
             bnd (attempt (Authorize num_v ord userID ''user'' orgID action (permission_resource orgID c)
                    [''ip'' \<mapsto> JStr (c_IP c)])) (\<lambda>r.
             case r of Inl _ \<Rightarrow> ret (Reply 500 ''Authorization check failed'')
             | Inr decision \<Rightarrow> if decision \<noteq> DecisionAllow then ret (Reply 403 ''Forbidden: Insufficient permissions'')
                 else ret (Next c))))"

section \<open>Tenants\<close>

definition InternalOrgSlugs :: "string list" where
  "InternalOrgSlugs = [''system'', ''default'']"

definition IsInternalOrg :: "string \<Rightarrow> bool" where
  "IsInternalOrg slug = list_ex (\<lambda>s. s = slug) InternalOrgSlugs"

definition isAdminRole :: "TenantContext \<Rightarrow> bool" where
  "isAdminRole tc \<longleftrightarrow> tc_Role tc = ''admin'' \<or> tc_Role tc = ''org-admin''"

definition CanAccessOrg :: "TenantContext \<Rightarrow> string \<Rightarrow> bool" where
  "CanAccessOrg tc orgID = (if tc_IsRoot tc then True else tc_OrganizationID tc = orgID)"

definition CanAdminOrg :: "TenantContext \<Rightarrow> string \<Rightarrow> bool" where
  "CanAdminOrg tc orgID = (if tc_IsRoot tc then True else tc_OrganizationID tc = orgID \<and> isAdminRole tc)"

definition OrgFilter :: "TenantContext \<Rightarrow> string" where
  "OrgFilter tc = (if tc_IsRoot tc then [] else tc_OrganizationID tc)"

text \<open>A failed type assertion on a local in its two-result form gives the empty string.\<close>

definition local :: "string option \<Rightarrow> string" where
  "local v = (case v of None \<Rightarrow> [] | Some s \<Rightarrow> s)"

definition ResolveTenant :: "string \<Rightarrow> middleware" where
  "ResolveTenant systemOrgID c = (let userID = local (c_user_id c); orgID = local (c_organization_id c) in
     if userID = [] \<or> orgID = [] then ret (Reply 401 ''Authentication context incomplete'')
     else ret (Next (c\<lparr>c_tenant := Some \<lparr>tc_UserID = userID, tc_Email = local (c_email c),
       tc_OrganizationID = orgID, tc_Role = local (c_role c), tc_SessionID = local (c_session_id c),
       tc_IsRoot = (systemOrgID \<noteq> [] \<and> orgID = systemOrgID)\<rparr>\<rparr>)))"

definition with_tenant :: "(TenantContext \<Rightarrow> gate query) \<Rightarrow> middleware" where
  "with_tenant k c = (case c_tenant c of None \<Rightarrow> ret (Reply 401 ''Tenant context not resolved'') | Some tc \<Rightarrow> k tc)"

definition RequireOrgAccess :: middleware where
  "RequireOrgAccess c = with_tenant (\<lambda>tc.
     if c_Param_id c = [] then ret (Reply 400 ''Organization ID is required'')
     else if \<not> CanAccessOrg tc (c_Param_id c)
     then ret (Reply 403 ''Access denied: you do not have access to this organization'')
     else ret (Next c)) c"

definition RequireOrgAdmin :: middleware where
  "RequireOrgAdmin c = with_tenant (\<lambda>tc.
     if c_Param_id c = [] then ret (Reply 400 ''Organization ID is required'')
     else if \<not> CanAdminOrg tc (c_Param_id c)
     then ret (Reply 403 ''Access denied: admin privileges required for this organization'')
     else ret (Next c)) c"

definition RequireAdmin :: middleware where
  "RequireAdmin c = with_tenant (\<lambda>tc.
     if \<not> tc_IsRoot tc \<and> \<not> isAdminRole tc then ret (Reply 403 ''Access denied: admin role required'')
     else ret (Next c)) c"

definition RequireRoot :: middleware where
  "RequireRoot c = with_tenant (\<lambda>tc.
     if \<not> tc_IsRoot tc then ret (Reply 403 ''Access denied: root privileges required'')
     else ret (Next c)) c"

text \<open>
  The system organization, cached in Redis for a day. The organizations table is not part of the
  database model: \<open>active_org\<close> is the answer of the query by slug. The Redis client may be nil.
\<close>

definition org_from_db :: "bool \<Rightarrow> (string \<Rightarrow> string option) \<Rightarrow> string \<Rightarrow> string query" where
  "org_from_db client active_org slug = bnd (attempt (query_row no_rows [] (\<lambda>_. active_org slug))) (\<lambda>r.
     case r of Inl _ \<Rightarrow> ret []
     | Inr orgID \<Rightarrow> bnd (if client then attempt (redis_set ''iam:system_org_id'' (RString orgID) (24 * 3600 * second))
             else ret (Inr ())) (\<lambda>_. ret orgID))"

definition ResolveSystemOrgID :: "bool \<Rightarrow> (string \<Rightarrow> string option) \<Rightarrow> string \<Rightarrow> string query" where
  "ResolveSystemOrgID client active_org slug =
     bnd (if client then attempt (redis_get ''iam:system_org_id'') else ret (Inr None)) (\<lambda>cached.
     case cached of
       Inr (Some x) \<Rightarrow> if x \<noteq> [] then ret x else org_from_db client active_org slug
     | _ \<Rightarrow> org_from_db client active_org slug)"

section \<open>Guards\<close>

text \<open>
  The contract of a middleware that protects what follows it: it only passes requests it admits, and
  it leaves the request itself and the database alone. Then nothing after it runs for another request.
\<close>

definition same_request :: "fiber_ctx \<Rightarrow> fiber_ctx \<Rightarrow> bool" where
  "same_request c c' \<longleftrightarrow> c_Authorization c' = c_Authorization c \<and> c_Cookie c' = c_Cookie c
     \<and> c_Param_id c' = c_Param_id c \<and> c_Path c' = c_Path c \<and> c_IP c' = c_IP c"

locale guard =
  fixes mw :: middleware and admits :: "fiber_ctx \<Rightarrow> db \<Rightarrow> bool"
  assumes admitted: "mw c d = (Ok (Next c'), d') \<Longrightarrow> admits c d \<and> same_request c c'"
begin

lemma blocked:
  assumes "\<not> admits c d"
  shows "protect (mw # ms) h c d = protect (mw # ms) h' c d"
proof (cases "mw c d")
  case (Pair r d')
  with admitted [of c d] assms show ?thesis
    by (cases r) (auto simp: bnd_def split: gate.split)
qed

lemma handler_runs:
  assumes "protect (mw # ms) h c d \<noteq> protect (mw # ms) h' c d"
  shows "admits c d"
  using assms blocked by blast

end

text \<open>A guard that changes nothing and passes exactly what it admits.\<close>

locale exact_guard = guard +
  assumes passes: "admits c d \<Longrightarrow> mw c d = (Ok (Next c), d)"
    and refuses: "\<not> admits c d \<Longrightarrow> \<exists>st e. mw c d = (Ok (Reply st e), d)"
begin

lemma protected:
  "admits c d \<and> protect (mw # ms) h c d = protect ms h c d \<or>
   \<not> admits c d \<and> (\<exists>st e. protect (mw # ms) h c d = (Ok (st, e), d))"
proof (cases "admits c d")
  case True
  with passes show ?thesis by (simp add: bnd_Ok)
next
  case False
  with refuses [OF False] show ?thesis by (auto simp: bnd_Ok)
qed

end

lemma same_request_refl [simp]: "same_request c c"
  by (simp add: same_request_def)

text \<open>What a request must carry for RequireAuth to accept it.\<close>

definition authenticated :: "jwt_library \<Rightarrow> AuthMiddleware \<Rightarrow> fiber_ctx \<Rightarrow> db \<Rightarrow> Claims option" where
  "authenticated lib am c d = (if token_string c = [] then None
     else case parse_with_claims lib am (now d) (token_string c) of None \<Rightarrow> None
     | Some claims \<Rightarrow>
         if (\<exists>e. cl_ExpiresAt claims = Some e \<and> now d \<le> e)
            \<and> \<not> (cl_JTI claims \<noteq> [] \<and> redis_up d \<and> redis_lookup d (''blacklist:'' @ cl_JTI claims) \<noteq> None)
         then Some claims else None)"

lemma redis_exists_run:
  "attempt (redis_exists k) d = (Ok (if redis_up d then Inr (redis_lookup d k \<noteq> None) else Inl redis_error), d)"
  by (simp add: attempt_def redis_exists_def redis_cmd_def)

lemma RequireAuth_accepts:
  "authenticated lib am c d = Some claims \<Longrightarrow>
     RequireAuth lib am c d = (Ok (Next ((set_locals claims c)\<lparr>c_session_id := Some (cl_JTI claims)\<rparr>)), d)"
  by (auto simp: authenticated_def RequireAuth_def bnd_def redis_exists_run Let_def
      split: if_splits option.splits)

lemma RequireAuth_refuses:
  "authenticated lib am c d = None \<Longrightarrow>
     (\<exists>e. RequireAuth lib am c d = (Ok (Reply 401 e), d)) \<or> (\<exists>e. RequireAuth lib am c d = (Panic e, d))"
  by (auto simp: authenticated_def RequireAuth_def bnd_def redis_exists_run Let_def
      split: if_splits option.splits)

interpretation auth_guard: guard "RequireAuth lib am" "\<lambda>c d. authenticated lib am c d \<noteq> None" for lib am
proof
  fix c d c' d'
  assume run: "RequireAuth lib am c d = (Ok (Next c'), d')"
  with RequireAuth_refuses [of lib am c d] obtain claims where a: "authenticated lib am c d = Some claims"
    by (cases "authenticated lib am c d") auto
  with RequireAuth_accepts [OF a] run show "authenticated lib am c d \<noteq> None \<and> same_request c c'"
    by (auto simp: same_request_def set_locals_def)
qed

interpretation role_guard: exact_guard "RequireRole roles" "\<lambda>c d. \<exists>r \<in> set roles. c_role c = Some r" for roles
  by unfold_locales (auto simp: RequireRole_def split: option.splits if_splits)

interpretation org_admin_guard: exact_guard RequireOrgAdmin
  "\<lambda>c d. \<exists>tc. c_tenant c = Some tc \<and> c_Param_id c \<noteq> [] \<and> CanAdminOrg tc (c_Param_id c)"
  by unfold_locales (auto simp: RequireOrgAdmin_def with_tenant_def split: option.splits if_splits)

interpretation org_access_guard: exact_guard RequireOrgAccess
  "\<lambda>c d. \<exists>tc. c_tenant c = Some tc \<and> c_Param_id c \<noteq> [] \<and> CanAccessOrg tc (c_Param_id c)"
  by unfold_locales (auto simp: RequireOrgAccess_def with_tenant_def split: option.splits if_splits)

interpretation admin_guard: exact_guard RequireAdmin
  "\<lambda>c d. \<exists>tc. c_tenant c = Some tc \<and> (tc_IsRoot tc \<or> isAdminRole tc)"
  by unfold_locales (auto simp: RequireAdmin_def with_tenant_def split: option.splits if_splits)

interpretation root_guard: exact_guard RequireRoot "\<lambda>c d. \<exists>tc. c_tenant c = Some tc \<and> tc_IsRoot tc"
  by unfold_locales (auto simp: RequireRoot_def with_tenant_def split: option.splits if_splits)

lemma ResolveTenant_run:
  "ResolveTenant sys c d = (Ok (if local (c_user_id c) = [] \<or> local (c_organization_id c) = []
     then Reply 401 ''Authentication context incomplete''
     else Next (c\<lparr>c_tenant := Some \<lparr>tc_UserID = local (c_user_id c), tc_Email = local (c_email c),
       tc_OrganizationID = local (c_organization_id c), tc_Role = local (c_role c),
       tc_SessionID = local (c_session_id c),
       tc_IsRoot = (sys \<noteq> [] \<and> local (c_organization_id c) = sys)\<rparr>\<rparr>)), d)"
  by (simp add: ResolveTenant_def Let_def)

section \<open>Properties\<close>

text \<open>C29. RequireAuth runs what follows it only for a request whose token has a good signature under the
  key of its method, passes the library's validation, carries an expiry that has not passed and is not
  blacklisted while Redis answers.\<close>

theorem RequireAuth_protects:
  assumes "protect (RequireAuth lib am # ms) h c d \<noteq> protect (RequireAuth lib am # ms) h' c d"
  shows "\<exists>m claims k e. decode lib (token_string c) = Some (m, claims) \<and> key_for am m = Some k
     \<and> sig_ok lib (token_string c) k \<and> claims_ok lib (now d) claims
     \<and> cl_ExpiresAt claims = Some e \<and> now d \<le> e
     \<and> (cl_JTI claims \<noteq> [] \<and> redis_up d \<longrightarrow> redis_lookup d (''blacklist:'' @ cl_JTI claims) = None)"
proof -
  from auth_guard.handler_runs [OF assms] obtain claims where
    "authenticated lib am c d = Some claims" by blast
  then show ?thesis
    by (auto simp: authenticated_def parse_with_claims_def split: if_splits option.splits)
qed

definition sample_claims :: Claims where
  "sample_claims = \<lparr>cl_UserID = ''u1'', cl_OrganizationID = ''o1'', cl_Email = ''a@b'', cl_Role = ''org-admin'',
     cl_JTI = ''j1'', cl_Subject = ''u1'', cl_ExpiresAt = Some 500\<rparr>"

text \<open>A library that accepts one token.\<close>

definition sample_lib :: jwt_library where
  "sample_lib = \<lparr>decode = (\<lambda>t. if t = ''tok'' then Some (HMAC, sample_claims) else None),
     sig_ok = (\<lambda>t k. k = Secret ''s''), claims_ok = (\<lambda>t cl. True)\<rparr>"

definition sample_am :: AuthMiddleware where
  "sample_am = \<lparr>jwtSecret = ''s'', publicKey = None\<rparr>"

definition sample_ctx :: "string \<Rightarrow> fiber_ctx" where
  "sample_ctx i = \<lparr>c_Authorization = ''Bearer tok'', c_Cookie = [], c_Param_id = i, c_Path = ''/api/v1/organizations/'' @ i,
     c_IP = ''10.0.0.1'', c_UserAgent = ''curl'', c_user_id = None, c_organization_id = None, c_email = None, c_role = None,
     c_session_id = None, c_tenant = None\<rparr>"

lemma sample_authenticated: "authenticated sample_lib sample_am (sample_ctx i) (empty_db 100) = Some sample_claims"
proof -
  have "token_string (sample_ctx i) = ''tok''" by (simp add: token_string_def sample_ctx_def)
  then show ?thesis
    by (simp add: authenticated_def parse_with_claims_def sample_lib_def sample_am_def key_for_def
        sample_claims_def empty_db_def redis_lookup_def)
qed

theorem RequireAuth_protects_witness:
  "\<exists>claims. decode sample_lib (token_string (sample_ctx ''o1'')) = Some (HMAC, claims) \<and> cl_ExpiresAt claims = Some 500"
proof -
  let ?ok = "\<lambda>c. ret (200, [])" and ?other = "\<lambda>c. ret (204, [])"
  have "protect [RequireAuth sample_lib sample_am] ?ok (sample_ctx ''o1'') (empty_db 100)
      \<noteq> protect [RequireAuth sample_lib sample_am] ?other (sample_ctx ''o1'') (empty_db 100)"
    by (simp add: bnd_def RequireAuth_accepts [OF sample_authenticated])
  from RequireAuth_protects [OF this] show ?thesis
    by (auto simp: sample_lib_def sample_claims_def split: if_splits)
qed

text \<open>The condition under which an organization's administration routes run their handler.\<close>

definition may_administer :: "string \<Rightarrow> Claims \<Rightarrow> string \<Rightarrow> bool" where
  "may_administer sys claims target \<longleftrightarrow> (cl_UserID claims \<noteq> [] \<or> cl_Subject claims \<noteq> [])
     \<and> cl_OrganizationID claims \<noteq> [] \<and> target \<noteq> []
     \<and> (cl_OrganizationID claims = sys \<or> cl_OrganizationID claims = target
          \<and> (cl_Role claims = ''admin'' \<or> cl_Role claims = ''org-admin''))"

text \<open>C30. On a route behind RequireAuth, ResolveTenant and RequireOrgAdmin the handler runs exactly for
  authenticated callers from the system organization or with an admin role in the organization named by
  the route, and it sees that tenant; for every other request the database stays as it was.\<close>

theorem org_admin_route:
  "case authenticated lib am c d of
     Some claims \<Rightarrow>
       if may_administer sys claims (c_Param_id c)
       then \<exists>c' tc. protect [RequireAuth lib am, ResolveTenant sys, RequireOrgAdmin] h c d = h c' d \<and>
          same_request c c' \<and> c_tenant c' = Some tc \<and> tc_OrganizationID tc = cl_OrganizationID claims
       else \<exists>r. protect [RequireAuth lib am, ResolveTenant sys, RequireOrgAdmin] h c d = (Ok r, d)
   | None \<Rightarrow> snd (protect [RequireAuth lib am, ResolveTenant sys, RequireOrgAdmin] h c d) = d"
proof (cases "authenticated lib am c d")
  case None
  with RequireAuth_refuses [OF None] show ?thesis by (auto simp: bnd_Ok bnd_Panic)
next
  case (Some claims)
  let ?c1 = "(set_locals claims c)\<lparr>c_session_id := Some (cl_JTI claims)\<rparr>"
  have c1: "local (c_user_id ?c1) = (if cl_UserID claims = [] then cl_Subject claims else cl_UserID claims)"
    "local (c_organization_id ?c1) = cl_OrganizationID claims" "local (c_role ?c1) = cl_Role claims"
    "c_Param_id ?c1 = c_Param_id c" "same_request c ?c1"
    by (simp_all add: local_def set_locals_def same_request_def)
  show ?thesis
  proof (cases "local (c_user_id ?c1) = [] \<or> local (c_organization_id ?c1) = []")
    case True
    with Some c1 show ?thesis
      by (auto simp: bnd_Ok RequireAuth_accepts [OF Some] ResolveTenant_run may_administer_def)
  next
    case False
    define tc where "tc = \<lparr>tc_UserID = local (c_user_id ?c1), tc_Email = local (c_email ?c1),
       tc_OrganizationID = local (c_organization_id ?c1), tc_Role = local (c_role ?c1),
       tc_SessionID = local (c_session_id ?c1),
       tc_IsRoot = (sys \<noteq> [] \<and> local (c_organization_id ?c1) = sys)\<rparr>"
    let ?c2 = "?c1\<lparr>c_tenant := Some tc\<rparr>"
    have run: "protect [RequireAuth lib am, ResolveTenant sys, RequireOrgAdmin] h c d = protect [RequireOrgAdmin] h ?c2 d"
      using False by (simp add: bnd_Ok RequireAuth_accepts [OF Some] ResolveTenant_run tc_def)
    have may: "may_administer sys claims (c_Param_id c) \<longleftrightarrow> c_Param_id ?c2 \<noteq> [] \<and> CanAdminOrg tc (c_Param_id ?c2)"
      using False c1 by (auto simp: may_administer_def CanAdminOrg_def isAdminRole_def tc_def)
    have c2: "same_request c ?c2" "tc_OrganizationID tc = cl_OrganizationID claims"
      using c1 by (simp_all add: same_request_def tc_def)
    from org_admin_guard.protected [where c = ?c2 and d = d and ms = "[]" and h = h] may c2 Some show ?thesis
      unfolding run by (auto intro!: exI [of _ ?c2])
  qed
qed

theorem org_admin_route_witness:
  "protect [RequireAuth sample_lib sample_am, ResolveTenant ''sys'', RequireOrgAdmin] (\<lambda>c. ret (200, []))
      (sample_ctx ''o1'') (empty_db 100) = (Ok (200, []), empty_db 100) \<and>
   (\<exists>r. protect [RequireAuth sample_lib sample_am, ResolveTenant ''sys'', RequireOrgAdmin] (\<lambda>c. ret (200, []))
      (sample_ctx ''o2'') (empty_db 100) = (Ok r, empty_db 100))"
proof -
  have "may_administer ''sys'' sample_claims (c_Param_id (sample_ctx ''o1''))"
    "\<not> may_administer ''sys'' sample_claims (c_Param_id (sample_ctx ''o2''))"
    by (simp_all add: may_administer_def sample_claims_def sample_ctx_def)
  with org_admin_route [where lib = sample_lib and am = sample_am and c = "sample_ctx ''o1''" and d = "empty_db 100"
      and sys = "''sys''" and h = "\<lambda>c. ret (200, [])"]
    org_admin_route [where lib = sample_lib and am = sample_am and c = "sample_ctx ''o2''" and d = "empty_db 100"
      and sys = "''sys''" and h = "\<lambda>c. ret (200, [])"]
  show ?thesis by (auto simp: sample_authenticated simp del: protect.simps)
qed

text \<open>An organization a tenant may administer it may also access, and only the root tenant has an empty
  query filter, which means all organizations.\<close>

lemma tenant_rights_nested:
  assumes "tc_OrganizationID tc \<noteq> []"
  shows "(CanAdminOrg tc i \<longrightarrow> CanAccessOrg tc i) \<and> (OrgFilter tc = [] \<longleftrightarrow> tc_IsRoot tc) \<and>
     (\<not> tc_IsRoot tc \<longrightarrow> (CanAccessOrg tc i \<longleftrightarrow> OrgFilter tc = i))"
  using assms by (simp add: CanAdminOrg_def CanAccessOrg_def OrgFilter_def)

text \<open>OptionalAuth does not consult the blacklist: a token that RequireAuth refuses as revoked still
  gives OptionalAuth's next handler an authenticated user.\<close>

lemma OptionalAuth_accepts_revoked:
  "let d = (empty_db 100)\<lparr>redis := [''blacklist:j1'' \<mapsto> (RString ''1'', None)]\<rparr> in
   fst (RequireAuth sample_lib sample_am (sample_ctx []) d) = Ok (Reply 401 ''Token has been revoked'') \<and>
   (\<exists>c. fst (OptionalAuth sample_lib sample_am (sample_ctx []) d) = Ok (Next c) \<and> c_user_id c = Some ''u1'')"
proof -
  have tok: "token_string (sample_ctx []) = ''tok''" by (simp add: token_string_def sample_ctx_def)
  have p: "parse_with_claims sample_lib sample_am t ''tok'' = Some sample_claims" for t
    by (simp add: parse_with_claims_def sample_lib_def sample_am_def key_for_def)
  show ?thesis
    by (simp add: RequireAuth_def OptionalAuth_def tok p Let_def sample_claims_def empty_db_def bnd_def
        redis_exists_run redis_lookup_def set_locals_def)
qed

definition arn_like :: "string \<Rightarrow> bool" where
  "arn_like r \<longleftrightarrow> r = ''*'' \<or> (\<exists>rest. r = ''arn:monkeys:resource:'' @ rest)"

text \<open>The resource grants of the database never take part in a RequirePermission decision: the resource
  it asks about is the star or an ARN, so when no permission or share is recorded for such a name,
  Authorize decides as if there were no resource permissions and no shares.\<close>

lemma RequirePermission_ignores_resource_grants:
  assumes "healthy d"
    and "\<forall>p \<in> set (t_resource_permissions d). \<not> arn_like (rp_ResourceID p)"
    and "\<forall>s \<in> set (t_resource_shares d). \<not> arn_like (rs_ResourceID s)"
  shows "fst (RequirePermission num_v ord action c d) =
    fst (RequirePermission num_v ord action c (d\<lparr>t_resource_permissions := [], t_resource_shares := []\<rparr>))"
proof -
  have arn: "arn_like (permission_resource orgID c)" for orgID
    by (simp add: permission_resource_def arn_like_def Let_def)
  let ?d = "d\<lparr>t_resource_permissions := [], t_resource_shares := []\<rparr>"
  have pols: "principal_policies pid pty orgID ?d = principal_policies pid pty orgID d" for pid pty orgID
    by (simp add: principal_policies_def principal_roles_def direct_roles_def group_roles_def)
  have perms: "permission_vote action (permission_resource orgID c) p = DecisionNotApplicable"
    if "p \<in> set (t_resource_permissions d)" for p orgID
    using that arn [of orgID] assms(2) by (auto simp: permission_vote_def)
  have shares: "\<not> share_allows action (permission_resource orgID c) s" if "s \<in> set (t_resource_shares d)" for s orgID
    using that arn [of orgID] assms(3) by (auto simp: share_allows_def)
  have combined: "combine num_v ord action (permission_resource orgID c) ctx ps
       (held_permissions pid pty orgID d) (readable_shares (held_shares pid pty orgID d))
     = combine num_v ord action (permission_resource orgID c) ctx ps [] []" for orgID ctx ps pid pty
    using perms shares by (auto simp: combine_def readable_shares_def)
  have "fst (Authorize num_v ord pid pty orgID action (permission_resource orgID c) ctx d)
     = fst (Authorize num_v ord pid pty orgID action (permission_resource orgID c) ctx ?d)" for pid pty orgID ctx
    using assms(1) by (simp add: Authorize_healthy pols combined)
  then show ?thesis
    using assms(1) by (auto simp: RequirePermission_def bnd_def attempt_def Authorize_healthy split: option.split)
qed

end
