(* ===== verification/Http.thy ===== *)
theory Http
  imports Middleware
begin

text \<open>
  The uniform responses and the error classification of internal/handlers/responses.go. A handler is a
  program over the database that ends in a response; reading a local that no middleware has set panics.
\<close>

datatype 'a http = Failure nat string string | Success nat string 'a

type_synonym 'a handler = "'a http query"

definition apiError :: "nat \<Rightarrow> string \<Rightarrow> string \<Rightarrow> 'a handler" where
  "apiError status code message = ret (Failure status code message)"

definition apiSuccess :: "nat \<Rightarrow> string \<Rightarrow> 'a \<Rightarrow> 'a handler" where
  "apiSuccess status message data = ret (Success status message data)"

definition isNotFoundErr :: "string \<Rightarrow> bool" where
  "isNotFoundErr msg = contains (to_lower msg) ''not found''"

definition isConflictErr :: "string \<Rightarrow> bool" where
  "isConflictErr e = (let msg = to_lower e in contains msg ''unique'' \<or> contains msg ''duplicate key''
     \<or> contains msg ''already exists'' \<or> contains msg ''conflict'')"

text \<open>\<open>c.Locals(key).(string)\<close>.\<close>

definition local_string :: "string option \<Rightarrow> ('s, string) prog" where
  "local_string v = (case v of None \<Rightarrow> panic bad_assertion | Some s \<Rightarrow> ret s)"

text \<open>Handling the error of a call where it is made.\<close>

definition on_error :: "('s, 'a) prog \<Rightarrow> (string \<Rightarrow> ('s, 'b) prog) \<Rightarrow> ('a \<Rightarrow> ('s, 'b) prog) \<Rightarrow> ('s, 'b) prog" where
  "on_error m h k = bnd (attempt m) (\<lambda>r. case r of Inl e \<Rightarrow> h e | Inr x \<Rightarrow> k x)"

lemma apiError_run [prog_simps, simp]: "apiError st code msg d = (Ok (Failure st code msg), d)"
  by (simp add: apiError_def)

lemma apiSuccess_run [prog_simps, simp]: "apiSuccess st msg x d = (Ok (Success st msg x), d)"
  by (simp add: apiSuccess_def)

lemma local_string_run [prog_simps, simp]: "local_string (Some s) d = (Ok s, d)"
  by (simp add: local_string_def)

lemma on_error_Ok [prog_simps]: "m d = (Ok x, d') \<Longrightarrow> on_error m h k d = k x d'"
  by (simp add: on_error_def bnd_def attempt_def)

lemma on_error_Err [prog_simps]: "m d = (Err e, d') \<Longrightarrow> on_error m h k d = h e d'"
  by (simp add: on_error_def bnd_def attempt_def)

lemma on_error_Panic [prog_simps]: "m d = (Panic e, d') \<Longrightarrow> on_error m h k d = (Panic e, d')"
  by (simp add: on_error_def bnd_def attempt_def)

lemma keeps_on_error [keeps_intros]:
  "reflp R \<Longrightarrow> transp R \<Longrightarrow> keeps R m \<Longrightarrow> (\<And>e. keeps R (h e)) \<Longrightarrow> (\<And>x. keeps R (k x)) \<Longrightarrow> keeps R (on_error m h k)"
  unfolding on_error_def by (intro keeps_intros)

lemma keeps_api [keeps_intros]: "reflp R \<Longrightarrow> keeps R (apiError st code msg)" "reflp R \<Longrightarrow> keeps R (apiSuccess st msg x)"
  by (simp_all add: apiError_def apiSuccess_def keeps_pure)

lemma keeps_local_string [keeps_intros]: "reflp R \<Longrightarrow> keeps R (local_string v)"
  unfolding local_string_def by (intro keeps_intros)

text \<open>Inversion of a successful response.\<close>

lemma on_error_OkE:
  assumes "on_error m h k d = (Ok r, d')"
  obtains (error) e d1 where "m d = (Err e, d1)" and "h e d1 = (Ok r, d')"
  | (fine) x d1 where "m d = (Ok x, d1)" and "k x d1 = (Ok r, d')"
proof (cases "m d")
  case (Pair s d1)
  with assms show ?thesis by (cases s) (auto simp: prog_simps intro: error fine)
qed

end
