(* ===== verification/ContentHandler.thy ===== *)
theory ContentHandler
  imports ContentStore Http
begin

text \<open>
  The content endpoints, internal/handlers/content_handler.go: authorization per item through the
  collaborator table, and the slug of a title. A request body is \<open>None\<close> when the parser refuses it; the
  fresh UUID of a new item is an argument.
\<close>

section \<open>Slugs and defaults\<close>

definition slug_char :: "char \<Rightarrow> string" where
  "slug_char r = (if CHR ''a'' \<le> r \<and> r \<le> CHR ''z'' \<or> is_digit r then [r]
     else if r = CHR '' '' \<or> r = CHR ''-'' \<or> r = CHR ''_'' then ''-'' else [])"

text \<open>\<open>strings.ReplaceAll(s, "--", "-")\<close>.\<close>

fun replace_dashes :: "string \<Rightarrow> string" where
  "replace_dashes (a # b # s) =
     (if a = CHR ''-'' \<and> b = CHR ''-'' then CHR ''-'' # replace_dashes s else a # replace_dashes (b # s))"
| "replace_dashes s = s"

lemma replace_dashes_le: "length (replace_dashes s) \<le> length s"
  by (induction s rule: replace_dashes.induct) auto

lemma replace_dashes_less: "contains s ''--'' \<Longrightarrow> length (replace_dashes s) < length s"
proof (induction s rule: replace_dashes.induct)
  case (1 a b s)
  show ?case
  proof (cases "a = CHR ''-'' \<and> b = CHR ''-''")
    case True
    with replace_dashes_le [of s] show ?thesis by simp
  next
    case False
    with 1 show ?thesis by (auto simp: contains_def sublist_Cons_right)
  qed
qed (auto simp: contains_def sublist_def)

function collapse :: "string \<Rightarrow> string" where
  "collapse s = (if contains s ''--'' then collapse (replace_dashes s) else s)"
  by auto
termination by (relation "measure length") (auto dest: replace_dashes_less)

declare collapse.simps [simp del]

definition slugify :: "string \<Rightarrow> string" where
  "slugify title = trim_char CHR ''-'' (collapse (concat (map slug_char (to_lower (trim_space title)))))"

definition defaultJSON :: "string \<Rightarrow> string \<Rightarrow> string" where
  "defaultJSON val fallback = (if trim_space val = [] then fallback else val)"

definition isValidContentType :: "string \<Rightarrow> bool" where
  "isValidContentType ct \<longleftrightarrow> ct \<in> {''blog'', ''video'', ''tweet'', ''comment'', ''article'', ''post''}"

section \<open>The caller's role\<close>

definition contentRole :: "fiber_ctx \<Rightarrow> string \<Rightarrow> string query" where
  "contentRole c contentID = bnd (local_string (c_user_id c)) (\<lambda>userID.
     bnd (GetCollaboratorRole contentID userID) (\<lambda>role.
     if role \<noteq> [] then ret role
     else bnd (local_string (c_organization_id c)) (\<lambda>orgID.
          bnd (GetContent contentID orgID) (\<lambda>item.
          ret (if ci_OwnerID item = userID then ''owner'' else [])))))"

definition requireOwner :: "string \<Rightarrow> bool" where
  "requireOwner role \<longleftrightarrow> role = ''owner''"

definition requireCollaborator :: "string \<Rightarrow> bool" where
  "requireCollaborator role \<longleftrightarrow> role \<noteq> []"

text \<open>The common opening of the item endpoints: fetch the role, then require an access level.\<close>

definition with_role :: "(string \<Rightarrow> bool) \<Rightarrow> string \<Rightarrow> fiber_ctx \<Rightarrow> (string \<Rightarrow> 'a handler) \<Rightarrow> 'a handler" where
  "with_role ok message c k = on_error (contentRole c (c_Param_id c))
     (\<lambda>_. apiError 404 ''not_found'' ''Content not found'')
     (\<lambda>role. if \<not> ok role then apiError 403 ''forbidden'' message else k role)"

section \<open>Endpoints\<close>

record create_content_body =
  cb_ContentType :: string
  cb_Title :: string
  cb_Body :: string
  cb_Summary :: string
  cb_CoverImageURL :: string
  cb_ParentID :: "string option"
  cb_Tags :: string
  cb_Metadata :: string

definition handle_CreateContent ::
  "(string \<Rightarrow> string) \<Rightarrow> string \<Rightarrow> fiber_ctx \<Rightarrow> create_content_body option \<Rightarrow> ContentItem handler" where
  "handle_CreateContent jsonb uuid c body = (case body of
       None \<Rightarrow> apiError 400 ''invalid_request'' ''Invalid JSON body''
     | Some req \<Rightarrow>
         if trim_space (cb_Title req) = [] then apiError 400 ''validation_error'' ''Title is required''
         else let given = to_lower (trim_space (cb_ContentType req));
                  contentType = (if given = [] then ''blog'' else given)
           in if \<not> isValidContentType contentType
              then apiError 400 ''validation_error''
                ''Invalid content_type. Allowed: blog, video, tweet, comment, article, post''
              else bnd (local_string (c_user_id c)) (\<lambda>userID. bnd (local_string (c_organization_id c)) (\<lambda>orgID.
                 let item = \<lparr>ci_ID = uuid, ci_ContentType = contentType, ci_Title = cb_Title req,
                       ci_Slug = slugify (cb_Title req), ci_Body = cb_Body req, ci_Summary = cb_Summary req,
                       ci_CoverImageURL = cb_CoverImageURL req, ci_ParentID = cb_ParentID req,
                       ci_OwnerID = userID, ci_OrganizationID = orgID, ci_Status = ''draft'',
                       ci_Tags = defaultJSON (cb_Tags req) ''[]'',
                       ci_Metadata = defaultJSON (cb_Metadata req) ''{}'', ci_PublishedAt = None,
                       ci_CreatedAt = 0, ci_UpdatedAt = 0, ci_DeletedAt = None\<rparr>
                 in on_error (CreateContent jsonb item)
                      (\<lambda>_. apiError 500 ''server_error'' ''Failed to create content'')
                      (\<lambda>stored. bnd (attempt (AddCollaborator (ci_ID stored) userID ''owner'' userID)) (\<lambda>_.
                         apiSuccess 201 ''Content created successfully'' stored)))))"

definition handle_GetContent :: "fiber_ctx \<Rightarrow> (ContentItem \<times> string) handler" where
  "handle_GetContent c = bnd (local_string (c_organization_id c)) (\<lambda>orgID.
     on_error (GetContent (c_Param_id c) orgID) (\<lambda>_. apiError 404 ''not_found'' ''Content not found'')
     (\<lambda>item. on_error (contentRole c (c_Param_id c))
        (\<lambda>_. apiError 500 ''server_error'' ''Failed to check access'')
        (\<lambda>role. if \<not> requireCollaborator role
           then apiError 403 ''forbidden'' ''You do not have access to this content''
           else apiSuccess 200 ''Content retrieved successfully'' (item, role))))"

text \<open>The query parameters arrive as the integers and strings that fiber's accessors return.\<close>

definition handle_ListContent ::
  "(string \<Rightarrow> string \<Rightarrow> ContentItem list \<Rightarrow> ContentItem list) \<Rightarrow> fiber_ctx \<Rightarrow> int \<Rightarrow> int \<Rightarrow> string \<Rightarrow> string \<Rightarrow> string \<Rightarrow>
    ContentItem ListResult handler" where
  "handle_ListContent sorted_by c limit_q offset_q sort_by order content_type =
     bnd (local_string (c_organization_id c)) (\<lambda>orgID. bnd (local_string (c_user_id c)) (\<lambda>userID.
     on_error (ListContent sorted_by \<lparr>lp_Limit = (if limit_q > 0 then limit_q else 20),
           lp_Offset = (if offset_q \<ge> 0 then offset_q else 0), lp_SortBy = sort_by, lp_Order = order\<rparr>
           orgID userID content_type)
       (\<lambda>_. apiError 500 ''server_error'' ''Failed to list content'')
       (apiSuccess 200 ''Content retrieved successfully'')))"

record update_content_body =
  ub_Title :: "string option"
  ub_Body :: "string option"
  ub_Summary :: "string option"
  ub_CoverImageURL :: "string option"
  ub_Tags :: "string option"
  ub_Metadata :: "string option"

definition given :: "'a option \<Rightarrow> 'a \<Rightarrow> 'a" where
  "given v old = (case v of None \<Rightarrow> old | Some x \<Rightarrow> x)"

definition merge_content :: "update_content_body \<Rightarrow> ContentItem \<Rightarrow> ContentItem" where
  "merge_content req item = item\<lparr>ci_Title := given (ub_Title req) (ci_Title item),
     ci_Slug := given (map_option slugify (ub_Title req)) (ci_Slug item),
     ci_Body := given (ub_Body req) (ci_Body item), ci_Summary := given (ub_Summary req) (ci_Summary item),
     ci_CoverImageURL := given (ub_CoverImageURL req) (ci_CoverImageURL item),
     ci_Tags := given (ub_Tags req) (ci_Tags item), ci_Metadata := given (ub_Metadata req) (ci_Metadata item)\<rparr>"

definition handle_UpdateContent ::
  "(string \<Rightarrow> string) \<Rightarrow> fiber_ctx \<Rightarrow> update_content_body option \<Rightarrow> ContentItem handler" where
  "handle_UpdateContent jsonb c body = bnd (local_string (c_organization_id c)) (\<lambda>orgID.
     with_role requireCollaborator ''You do not have access to this content'' c (\<lambda>_. case body of
       None \<Rightarrow> apiError 400 ''invalid_request'' ''Invalid JSON body''
     | Some req \<Rightarrow> on_error (GetContent (c_Param_id c) orgID) (\<lambda>_. apiError 404 ''not_found'' ''Content not found'')
         (\<lambda>old. let item = merge_content req old in on_error (UpdateContent jsonb item orgID)
            (\<lambda>_. apiError 500 ''server_error'' ''Failed to update content'')
            (\<lambda>_. apiSuccess 200 ''Content updated successfully'' item))))"

definition handle_DeleteContent :: "fiber_ctx \<Rightarrow> unit handler" where
  "handle_DeleteContent c = bnd (local_string (c_organization_id c)) (\<lambda>orgID.
     with_role requireOwner ''Only the content owner can delete this item'' c (\<lambda>_.
       on_error (DeleteContent (c_Param_id c) orgID)
         (\<lambda>_. apiError 500 ''server_error'' ''Failed to delete content'')
         (\<lambda>_. apiSuccess 200 ''Content deleted successfully'' ())))"

definition handle_UpdateContentStatus :: "fiber_ctx \<Rightarrow> string option \<Rightarrow> string handler" where
  "handle_UpdateContentStatus c body = bnd (local_string (c_organization_id c)) (\<lambda>orgID.
     with_role requireCollaborator ''You do not have access to this content'' c (\<lambda>_. case body of
       None \<Rightarrow> apiError 400 ''invalid_request'' ''Invalid JSON body''
     | Some given_status \<Rightarrow> let status = to_lower given_status in
         if status \<notin> {''draft'', ''published'', ''archived'', ''private'', ''hidden''}
         then apiError 400 ''validation_error'' ''Status must be draft, published, archived, private, or hidden''
         else on_error (UpdateContentStatus (c_Param_id c) orgID status)
            (\<lambda>_. apiError 500 ''server_error'' ''Failed to update content status'')
            (\<lambda>_. apiSuccess 200 (''Content status updated to '' @ status) status)))"

definition handle_InviteCollaborator :: "fiber_ctx \<Rightarrow> string option \<Rightarrow> string handler" where
  "handle_InviteCollaborator c body =
     with_role requireOwner ''Only the content owner can invite collaborators'' c (\<lambda>_. case body of
       None \<Rightarrow> apiError 400 ''invalid_request'' ''Invalid JSON body''
     | Some userID \<Rightarrow>
         if userID = [] then apiError 400 ''validation_error'' ''user_id is required''
         else bnd (local_string (c_user_id c)) (\<lambda>invitedBy.
            on_error (AddCollaborator (c_Param_id c) userID ''co-author'' invitedBy)
              (\<lambda>_. apiError 500 ''server_error'' ''Failed to add collaborator'')
              (\<lambda>_. apiSuccess 201 ''Collaborator invited successfully'' userID)))"

definition handle_RemoveCollaborator :: "fiber_ctx \<Rightarrow> string \<Rightarrow> unit handler" where
  "handle_RemoveCollaborator c targetUserID =
     with_role requireOwner ''Only the content owner can remove collaborators'' c (\<lambda>_.
       on_error (RemoveCollaborator (c_Param_id c) targetUserID)
         (\<lambda>e. if contains e ''owner'' then apiError 400 ''validation_error'' ''Cannot remove the content owner''
            else if isNotFoundErr e then apiError 404 ''not_found'' ''Collaborator not found''
            else apiError 500 ''server_error'' ''Failed to remove collaborator'')
         (\<lambda>_. apiSuccess 200 ''Collaborator removed successfully'' ()))"

definition handle_ListCollaborators :: "fiber_ctx \<Rightarrow> ContentCollaboratorWithUser list handler" where
  "handle_ListCollaborators c =
     with_role requireCollaborator ''You do not have access to this content'' c (\<lambda>_.
       on_error (ListCollaborators (c_Param_id c))
         (\<lambda>_. apiError 500 ''server_error'' ''Failed to list collaborators'')
         (apiSuccess 200 ''Collaborators retrieved successfully''))"

section \<open>Lemmas about slugs\<close>

lemma set_replace_dashes: "set (replace_dashes s) \<subseteq> set s"
  by (induction s rule: replace_dashes.induct) auto

lemma collapse_result: "\<not> contains (collapse s) ''--'' \<and> set (collapse s) \<subseteq> set s"
proof (induction s rule: collapse.induct)
  case (1 s)
  show ?case
  proof (cases "contains s ''--''")
    case True
    with 1 set_replace_dashes [of s] show ?thesis by (subst (1 2) collapse.simps) auto
  qed (subst (1 2) collapse.simps, simp)
qed

lemma trim_char_sublist: "sublist (trim_char c s) s"
proof -
  have drop: "\<exists>a. s = a @ dropWhile P s" for P and s :: string
    by (metis takeWhile_dropWhile_id)
  obtain a where a: "s = a @ dropWhile ((=) c) s" using drop by blast
  obtain b where b: "rev (dropWhile ((=) c) s) = b @ dropWhile ((=) c) (rev (dropWhile ((=) c) s))" using drop by blast
  then have "dropWhile ((=) c) s = rev (dropWhile ((=) c) (rev (dropWhile ((=) c) s))) @ rev b"
    by (metis rev_append rev_rev_ident)
  with a show ?thesis unfolding trim_char_def sublist_def by metis
qed

lemma trim_char_ends: "trim_char c s \<noteq> [] \<Longrightarrow> hd (trim_char c s) \<noteq> c \<and> last (trim_char c s) \<noteq> c"
proof -
  assume ne: "trim_char c s \<noteq> []"
  let ?t = "dropWhile ((=) c) s"
  from ne have "dropWhile ((=) c) (rev ?t) \<noteq> []" unfolding trim_char_def by blast
  from hd_dropWhile [OF this] this have l: "last (trim_char c s) \<noteq> c"
    unfolding trim_char_def by (simp only: last_rev not_sym)
  from ne have t: "?t \<noteq> []" unfolding trim_char_def by (metis dropWhile.simps(1) rev.simps(1))
  then have "hd ?t \<noteq> c" by (metis hd_dropWhile)
  moreover have "\<exists>b. ?t = trim_char c s @ b"
    unfolding trim_char_def by (metis rev_append rev_rev_ident takeWhile_dropWhile_id)
  ultimately have "hd (trim_char c s) \<noteq> c" using ne by (metis hd_append2)
  with l show ?thesis by simp
qed

section \<open>Properties\<close>

text \<open>A slug consists of lower-case letters, digits and dashes, with no two dashes in a row and no
  dash at either end; the loop that collapses the dashes terminates on every title.\<close>

lemma slugify_shape:
  "(\<forall>c \<in> set (slugify title). CHR ''a'' \<le> c \<and> c \<le> CHR ''z'' \<or> is_digit c \<or> c = CHR ''-'') \<and>
   \<not> contains (slugify title) ''--'' \<and>
   (slugify title \<noteq> [] \<longrightarrow> hd (slugify title) \<noteq> CHR ''-'' \<and> last (slugify title) \<noteq> CHR ''-'')"
proof -
  let ?m = "concat (map slug_char (to_lower (trim_space title)))"
  have "set (slug_char c) \<subseteq> {c. CHR ''a'' \<le> c \<and> c \<le> CHR ''z'' \<or> is_digit c \<or> c = CHR ''-''}" for c
    by (auto simp: slug_char_def)
  then have "set ?m \<subseteq> {c. CHR ''a'' \<le> c \<and> c \<le> CHR ''z'' \<or> is_digit c \<or> c = CHR ''-''}" by fastforce
  moreover have "set (slugify title) \<subseteq> set (collapse ?m)"
    unfolding slugify_def by (rule set_mono_sublist [OF trim_char_sublist])
  moreover have "\<not> contains (slugify title) ''--''"
  proof
    assume "contains (slugify title) ''--''"
    then have "contains (collapse ?m) ''--''"
      unfolding slugify_def contains_def by (rule sublist_order.order.trans) (rule trim_char_sublist)
    with collapse_result [of ?m] show False by blast
  qed
  ultimately show ?thesis
    using collapse_result [of ?m] trim_char_ends [of "CHR ''-''" "collapse ?m"] unfolding slugify_def by fast
qed

section \<open>Lemmas about roles\<close>

lemma contentRole_Ok:
  assumes "contentRole c i d = (Ok role, d')" and "c_user_id c = Some uid"
  shows "t_content_items d' = t_content_items d \<and> t_content_collaborators d' = t_content_collaborators d \<and> now d' = now d \<and>
    (role \<noteq> [] \<longrightarrow>
      (\<exists>cc \<in> set (t_content_collaborators d). cc_ContentID cc = i \<and> cc_UserID cc = uid \<and> cc_Role cc = role) \<or>
      role = ''owner'' \<and> (\<exists>x \<in> set (t_content_items d). ci_ID x = i \<and> ci_DeletedAt x = None \<and> ci_OwnerID x = uid))"
proof -
  from assms obtain r0 d1 where q: "GetCollaboratorRole i uid d = (Ok r0, d1)" and
    rest: "(if r0 \<noteq> [] then ret r0 else bnd (local_string (c_organization_id c)) (\<lambda>orgID.
          bnd (GetContent i orgID) (\<lambda>item. ret (if ci_OwnerID item = uid then ''owner'' else [])))) d1 = (Ok role, d')"
    by (auto simp: contentRole_def elim!: bnd_OkE)
  from select_Ok [OF q [unfolded GetCollaboratorRole_def]] have d1: "d1 = advance d" and
    r0: "r0 = (case find (\<lambda>cc. cc_ContentID cc = i \<and> cc_UserID cc = uid) (t_content_collaborators d) of
       None \<Rightarrow> [] | Some cc \<Rightarrow> cc_Role cc)" by auto
  show ?thesis
  proof (cases "r0 = []")
    case True
    with rest obtain orgID item where "local_string (c_organization_id c) d1 = (Ok orgID, d1)"
      and g: "GetContent i orgID d1 = (Ok item, d')" and role: "role = (if ci_OwnerID item = uid then ''owner'' else [])"
      by (auto simp: local_string_def split: option.splits elim!: bnd_OkE)
    from GetContent_Ok [OF g] d1 role show ?thesis by (auto simp: live_content_def split: if_splits)
  next
    case False
    with rest have "role = r0" "d' = d1" by simp_all
    with d1 r0 False show ?thesis by (auto split: option.splits dest: find_SomeD)
  qed
qed

lemma with_role_Success:
  assumes "with_role ok message c k d = (Ok (Success st m x), d')"
  obtains role d1 where "contentRole c (c_Param_id c) d = (Ok role, d1)" and "ok role"
    and "k role d1 = (Ok (Success st m x), d')"
  using assms unfolding with_role_def by (auto elim!: on_error_OkE split: if_splits)

lemma content_status_stored:
  "content_violation t = None \<Longrightarrow> x \<in> set t \<Longrightarrow> ci_Status x \<in> {''draft'', ''published'', ''archived''}"
  by (auto simp: content_violation_def split: if_splits)

definition sample_item :: ContentItem where
  "sample_item = \<lparr>ci_ID = ''x'', ci_ContentType = ''blog'', ci_Title = ''T'', ci_Slug = ''t'', ci_Body = [], ci_Summary = [],
     ci_CoverImageURL = [], ci_ParentID = None, ci_OwnerID = ''u1'', ci_OrganizationID = ''o1'', ci_Status = ''draft'',
     ci_Tags = ''[]'', ci_Metadata = ''{}'', ci_PublishedAt = None, ci_CreatedAt = 0, ci_UpdatedAt = 0, ci_DeletedAt = None\<rparr>"

definition content_db :: db where
  "content_db = (empty_db 100)\<lparr>t_content_items := [sample_item],
     t_content_collaborators := [\<lparr>cc_ContentID = ''x'', cc_UserID = ''u1'', cc_Role = ''owner'', cc_InvitedBy = ''u1'', cc_CreatedAt = 0\<rparr>]\<rparr>"

definition owner_ctx :: fiber_ctx where
  "owner_ctx = (sample_ctx ''x'')\<lparr>c_user_id := Some ''u1'', c_organization_id := Some ''o1''\<rparr>"

text \<open>Only the owner deletes: when the delete endpoint succeeds the caller held the owner role, the item
  was a live one of the caller's organization, and afterwards it can no longer be read there.\<close>

lemma delete_content_owner_only:
  assumes "handle_DeleteContent c d = (Ok (Success st m x), d')"
    and "c_user_id c = Some uid" and "c_organization_id c = Some org"
  shows "((\<exists>cc \<in> set (t_content_collaborators d). cc_ContentID cc = c_Param_id c \<and> cc_UserID cc = uid \<and> cc_Role cc = ''owner'')
      \<or> (\<exists>i \<in> set (t_content_items d). ci_ID i = c_Param_id c \<and> ci_DeletedAt i = None \<and> ci_OwnerID i = uid)) \<and>
    (\<exists>i \<in> set (t_content_items d). live_content (c_Param_id c) org i) \<and>
    (\<forall>y. fst (GetContent (c_Param_id c) org d') \<noteq> Ok y)"
proof -
  from assms(1,3) have "with_role requireOwner ''Only the content owner can delete this item'' c (\<lambda>_.
       on_error (DeleteContent (c_Param_id c) org) (\<lambda>_. apiError 500 ''server_error'' ''Failed to delete content'')
         (\<lambda>_. apiSuccess 200 ''Content deleted successfully'' ())) d = (Ok (Success st m x), d')"
    by (simp add: handle_DeleteContent_def bnd_def)
  then obtain role d1 where role: "contentRole c (c_Param_id c) d = (Ok role, d1)" "requireOwner role"
    and del: "on_error (DeleteContent (c_Param_id c) org) (\<lambda>_. apiError 500 ''server_error'' ''Failed to delete content'')
         (\<lambda>_. apiSuccess 200 ''Content deleted successfully'' ()) d1 = (Ok (Success st m x), d')"
    by (rule with_role_Success)
  from del obtain u where run: "DeleteContent (c_Param_id c) org d1 = (Ok u, d')"
    by (auto elim!: on_error_OkE)
  from contentRole_Ok [OF role(1) assms(2)] role(2) remove_content_Ok [OF run] cont.removed_not_found [OF run]
  show ?thesis by (auto simp: requireOwner_def)
qed

text \<open>The statuses private and hidden, which the status endpoint accepts as valid, can never be stored:
  the endpoint does not succeed on them in any state.\<close>

lemma private_and_hidden_rejected:
  assumes "to_lower s = ''private'' \<or> to_lower s = ''hidden''"
  shows "fst (handle_UpdateContentStatus c (Some s) d) \<noteq> Ok (Success st m x)"
proof
  assume "fst (handle_UpdateContentStatus c (Some s) d) = Ok (Success st m x)"
  then obtain d' where "handle_UpdateContentStatus c (Some s) d = (Ok (Success st m x), d')" by (metis prod.collapse)
  then obtain org d1 u where run: "UpdateContentStatus (c_Param_id c) org (to_lower s) d1 = (Ok u, d')"
    unfolding handle_UpdateContentStatus_def
    by (auto simp: Let_def elim!: bnd_OkE with_role_Success on_error_OkE split: if_splits)
  let ?f = "\<lambda>r. if live_content (c_Param_id c) org r then r\<lparr>ci_Status := to_lower s, ci_UpdatedAt := now d1,
       ci_PublishedAt := (if to_lower s = ''published'' then Some (now d1) else ci_PublishedAt r)\<rparr> else r"
  from run obtain n where "n > 0" and upd: "update_checked t_content_items put_content content_violation
      (live_content (c_Param_id c) org) (\<lambda>c. c\<lparr>ci_Status := to_lower s, ci_UpdatedAt := now d1,
             ci_PublishedAt := (if to_lower s = ''published'' then Some (now d1) else ci_PublishedAt c)\<rparr>) d1 = (Ok n, d')"
    by (auto simp: UpdateContentStatus_def must_affect_Ok)
  from update_checked_Ok [OF upd] \<open>n > 0\<close> obtain r where r: "r \<in> set (t_content_items d1)" "live_content (c_Param_id c) org r"
    and viol: "content_violation (map ?f (t_content_items d1)) = None"
    by (auto simp: filter_empty_conv)
  from r have "?f r \<in> set (map ?f (t_content_items d1))" by simp
  with viol have "ci_Status (?f r) \<in> {''draft'', ''published'', ''archived''}"
    by (rule content_status_stored)
  with r(2) assms show False by auto
qed

text \<open>The answer \<open>Collaborator not found\<close> cannot occur: on a server that does not fail, removing a user
  who is no collaborator is answered as an attempt to remove the owner.\<close>

lemma remove_collaborator_never_not_found:
  assumes "healthy d" and "contentRole c (c_Param_id c) d = (Ok ''owner'', d)"
    and "\<not> collaborates d (c_Param_id c) target"
  shows "handle_RemoveCollaborator c target d = (Ok (Failure 400 ''validation_error'' ''Cannot remove the content owner''), d)"
proof -
  let ?P = "\<lambda>cc. cc_ContentID cc = c_Param_id c \<and> cc_UserID cc = target \<and> cc_Role cc \<noteq> ''owner''"
  have "filter ?P (t_content_collaborators d) = []" "filter (Not \<circ> ?P) (t_content_collaborators d) = t_content_collaborators d"
    using assms(3) by (auto simp: collaborates_def list_ex_iff filter_empty_conv filter_id_conv)
  then have "exec_on t_content_collaborators put_collaborators (\<lambda>d. delete_where ?P) d = (Ok 0, d)"
    using assms(1) by (simp add: exec_on_ok delete_where_def)
  then have err: "RemoveCollaborator (c_Param_id c) target d = (Err ''collaborator not found or is the content owner'', d)"
    by (simp add: RemoveCollaborator_def must_affect_ok)
  have "contains ''collaborator not found or is the content owner'' ''owner''" by code_simp
  with err assms(2) show ?thesis
    by (simp add: handle_RemoveCollaborator_def with_role_def on_error_Ok on_error_Err requireOwner_def)
qed

text \<open>An owner who invites himself loses the item: the invitation overwrites his role, and from then on
  his own requests to delete it are refused.\<close>

lemma owner_self_invite_lockout:
  "let d = snd (handle_InviteCollaborator owner_ctx (Some ''u1'') content_db) in
   fst (handle_InviteCollaborator owner_ctx (Some ''u1'') content_db)
     = Ok (Success 201 ''Collaborator invited successfully'' ''u1'') \<and>
   fst (handle_DeleteContent owner_ctx d)
     = Ok (Failure 403 ''forbidden'' ''Only the content owner can delete this item'')"
  unfolding Let_def by (rule conjI; code_simp)

end
