(* ===== verification/AuthStore.thy ===== *)
theory AuthStore
  imports PolicyStore
begin

text \<open>
  Users, the bootstrap of an administrator, role names and the short-lived tokens in Redis:
  internal/queries/auth.go over the users, organizations and roles tables of the migrations.
\<close>

section \<open>The tables\<close>

definition ascii_letter :: "char \<Rightarrow> bool" where
  "ascii_letter c \<longleftrightarrow> ascii_lower c \<in> set ''abcdefghijklmnopqrstuvwxyz''"

definition alnum_or :: "string \<Rightarrow> char \<Rightarrow> bool" where
  "alnum_or extra c \<longleftrightarrow> ascii_letter c \<or> is_digit c \<or> c \<in> set extra"

text \<open>The CHECK \<open>valid_email\<close>: a local part, one \<open>@\<close>, a domain whose last label has two or more letters.\<close>

definition valid_email :: "string \<Rightarrow> bool" where
  "valid_email e = (case split_on CHR ''@'' e of
       [name, domain] \<Rightarrow> let tld = rev (takeWhile (\<lambda>c. c \<noteq> CHR ''.'') (rev domain));
            host = take (length domain - length tld - 1) domain
          in name \<noteq> [] \<and> list_all (alnum_or ''._%+-'') name \<and> CHR ''.'' \<in> set domain
             \<and> host \<noteq> [] \<and> list_all (alnum_or ''.-'') host \<and> length tld \<ge> 2 \<and> list_all ascii_letter tld
     | _ \<Rightarrow> False)"

definition valid_username :: "string \<Rightarrow> bool" where
  "valid_username u \<longleftrightarrow> list_all (alnum_or ''._-'') u \<and> length u \<ge> 3"

definition valid_slug :: "string \<Rightarrow> bool" where
  "valid_slug s \<longleftrightarrow> s \<noteq> [] \<and> list_all (\<lambda>c. CHR ''a'' \<le> c \<and> c \<le> CHR ''z'' \<or> is_digit c \<or> c = CHR ''-'') s"

text \<open>The unique indexes of users leave the rows with status \<open>deleted\<close> out.\<close>

definition users_violation :: "User list \<Rightarrow> string option" where
  "users_violation t = (let kept = filter (\<lambda>u. usr_Status u \<noteq> ''deleted'') t in
     if \<exists>u \<in> set t. usr_Status u \<notin> set entity_status then Some (bad_enum ''entity_status'')
     else if \<exists>u \<in> set t. length (usr_Username u) > 100 \<or> length (usr_Email u) > 255 \<or> length (usr_DisplayName u) > 255
         \<or> length (usr_PasswordHash u) > 255 \<or> length (usr_TOTPSecret u) > 255 then Some varchar_overflow
     else if \<exists>u \<in> set t. \<not> int4 (usr_FailedLoginAttempts u) then Some int4_overflow
     else if \<exists>u \<in> set t. \<not> valid_email (usr_Email u) then Some (check_violation ''valid_email'')
     else if \<exists>u \<in> set t. \<not> valid_username (usr_Username u) then Some (check_violation ''valid_username'')
     else if \<not> distinct (map usr_ID t) then Some (duplicate_key ''users_pkey'')
     else if \<not> distinct (map (\<lambda>u. (usr_OrganizationID u, usr_Username u)) kept)
       then Some (duplicate_key ''unique_username_per_org'')
     else if \<not> distinct (map (\<lambda>u. (usr_OrganizationID u, usr_Email u)) kept)
       then Some (duplicate_key ''unique_email_per_org'')
     else None)"

definition orgs_violation :: "Organization list \<Rightarrow> string option" where
  "orgs_violation t =
     (if \<exists>o1 \<in> set t. org_Status o1 \<notin> set entity_status then Some (bad_enum ''entity_status'')
      else if \<exists>o1 \<in> set t. length (org_Name o1) > 255 \<or> length (org_Slug o1) > 100 \<or> length (org_BillingTier o1) > 50
        then Some varchar_overflow
      else if \<exists>o1 \<in> set t. \<not> int4 (org_MaxUsers o1) \<or> \<not> int4 (org_MaxResources o1) then Some int4_overflow
      else if \<exists>o1 \<in> set t. org_ParentID o1 = Some (org_ID o1) then Some (check_violation ''no_self_parent'')
      else if \<exists>o1 \<in> set t. length (org_Name o1) < 2 then Some (check_violation ''valid_org_name'')
      else if \<exists>o1 \<in> set t. \<not> valid_slug (org_Slug o1) then Some (check_violation ''valid_slug'')
      else if \<not> distinct (map org_ID t) then Some (duplicate_key ''organizations_pkey'')
      else if \<not> distinct (map org_Slug t) then Some (duplicate_key ''organizations_slug_key'')
      else if \<exists>o1 \<in> set t. \<exists>p \<in> set_option (org_ParentID o1). p \<notin> org_ID ` set t
        then Some (foreign_key ''organizations_parent_id_fkey'')
      else None)"

definition roles_violation :: "Role list \<Rightarrow> string option" where
  "roles_violation t =
     (if \<exists>r \<in> set t. rol_Status r \<notin> set entity_status then Some (bad_enum ''entity_status'')
      else if \<not> distinct (map rol_ID t) then Some (duplicate_key ''roles_pkey'')
      else if \<not> distinct (map (\<lambda>r. (rol_OrganizationID r, rol_Name r)) t)
        then Some (duplicate_key ''unique_role_name_per_org'')
      else None)"

abbreviation put_users :: "User list \<Rightarrow> db \<Rightarrow> db" where
  "put_users t d \<equiv> d\<lparr>t_users := t\<rparr>"

abbreviation put_orgs :: "Organization list \<Rightarrow> db \<Rightarrow> db" where
  "put_orgs t d \<equiv> d\<lparr>t_organizations := t\<rparr>"

abbreviation put_roles :: "Role list \<Rightarrow> db \<Rightarrow> db" where
  "put_roles t d \<equiv> d\<lparr>t_roles := t\<rparr>"

text \<open>A user row needs an existing organization.\<close>

definition insert_user :: "User \<Rightarrow> unit query" where
  "insert_user u = stmt (\<lambda>d. if usr_OrganizationID u \<notin> org_ID ` set (t_organizations d)
     then Inl ''pq: insert violates foreign key constraint users_organization_id_fkey''
     else case users_violation (t_users d @ [u]) of Some e \<Rightarrow> Inl e | None \<Rightarrow> Inr ((), put_users (t_users d @ [u]) d))"

section \<open>Users\<close>

text \<open>
  The columns the two lookups select. \<open>mfa_methods\<close> is a JSONB column, which the code's text-array scanner
  turns into no entries: it only takes the form \<open>{a,b}\<close>, and \<open>{}\<close> is empty as well.
\<close>

definition scanned_user :: "User \<Rightarrow> User" where
  "scanned_user u = u\<lparr>usr_AvatarURL := None, usr_PasswordChangedAt := None, usr_MFAMethods := [],
     usr_Attributes := [], usr_Preferences := [], usr_Role := [], usr_FailedLoginAttempts := 0, usr_LockedUntil := None,
     usr_DeletedAt := None\<rparr>"

definition in_scope :: "string \<Rightarrow> User \<Rightarrow> bool" where
  "in_scope organizationID u \<longleftrightarrow> usr_DeletedAt u = None \<and> (organizationID \<noteq> [] \<longrightarrow> usr_OrganizationID u = organizationID)"

definition one_user :: "(User \<Rightarrow> bool) \<Rightarrow> User query" where
  "one_user P = bnd (select (\<lambda>d. find P (t_users d)))
     (\<lambda>r. case r of None \<Rightarrow> fail no_rows | Some u \<Rightarrow> ret (scanned_user u))"

definition GetUserByEmail :: "string \<Rightarrow> string \<Rightarrow> User query" where
  "GetUserByEmail email organizationID = one_user (\<lambda>u. usr_Email u = email \<and> in_scope organizationID u)"

definition GetUserByID :: "string \<Rightarrow> string \<Rightarrow> User query" where
  "GetUserByID i organizationID = one_user (\<lambda>u. usr_ID u = i \<and> in_scope organizationID u)"

text \<open>The columns that the insert does not name take their defaults.\<close>

definition new_user :: "instant \<Rightarrow> User \<Rightarrow> User" where
  "new_user t u = u\<lparr>usr_AvatarURL := None, usr_PasswordChangedAt := Some t, usr_MFAEnabled := False, usr_MFAMethods := [],
     usr_TOTPSecret := [], usr_MFABackupCodes := [], usr_Attributes := ''{}'', usr_Preferences := ''{}'', usr_Role := [],
     usr_LastLogin := None, usr_FailedLoginAttempts := 0, usr_LockedUntil := None, usr_DeletedAt := None\<rparr>"

definition CreateUser :: "User \<Rightarrow> unit query" where
  "CreateUser user = gets now (\<lambda>t. insert_user (new_user t user))"

definition UpdateUser :: "User \<Rightarrow> string \<Rightarrow> unit query" where
  "UpdateUser user organizationID = bnd (update_checked t_users put_users users_violation
       (\<lambda>u. usr_ID u = usr_ID user \<and> usr_OrganizationID u = organizationID \<and> usr_DeletedAt u = None)
       (\<lambda>u. u\<lparr>usr_Username := usr_Username user, usr_Email := usr_Email user, usr_DisplayName := usr_DisplayName user,
          usr_OrganizationID := usr_OrganizationID user, usr_Status := usr_Status user,
          usr_EmailVerified := usr_EmailVerified user, usr_UpdatedAt := usr_UpdatedAt user\<rparr>)) (\<lambda>_. ret ())"

definition change_users :: "(User \<Rightarrow> bool) \<Rightarrow> (instant \<Rightarrow> User \<Rightarrow> User) \<Rightarrow> unit query" where
  "change_users P f = bnd (exec_on t_users put_users (\<lambda>d. update_where P (f (now d)))) (\<lambda>_. ret ())"

definition UpdateLastLogin :: "string \<Rightarrow> string \<Rightarrow> unit query" where
  "UpdateLastLogin userID organizationID =
     change_users (\<lambda>u. usr_ID u = userID \<and> usr_OrganizationID u = organizationID) (\<lambda>t u. u\<lparr>usr_LastLogin := Some t\<rparr>)"

definition UpdatePassword :: "string \<Rightarrow> string \<Rightarrow> string \<Rightarrow> unit query" where
  "UpdatePassword userID passwordHash organizationID =
     change_users (\<lambda>u. usr_ID u = userID \<and> (organizationID \<noteq> [] \<longrightarrow> usr_OrganizationID u = organizationID))
       (\<lambda>t u. u\<lparr>usr_PasswordHash := passwordHash, usr_PasswordChangedAt := Some t, usr_UpdatedAt := t\<rparr>)"

definition UpdateEmailVerification :: "string \<Rightarrow> bool \<Rightarrow> string \<Rightarrow> unit query" where
  "UpdateEmailVerification userID verified organizationID =
     change_users (\<lambda>u. usr_ID u = userID \<and> (organizationID \<noteq> [] \<longrightarrow> usr_OrganizationID u = organizationID))
       (\<lambda>t u. u\<lparr>usr_EmailVerified := verified, usr_UpdatedAt := t\<rparr>)"

text \<open>
  The statement assigns a value of type \<open>mfa_method[]\<close> to the JSONB column \<open>mfa_methods\<close>; PostgreSQL has no
  such assignment cast and refuses it when it is prepared, whatever the rows.
\<close>

definition EnableMFA :: "string \<Rightarrow> string \<Rightarrow> string \<Rightarrow> string list \<Rightarrow> unit query" where
  "EnableMFA userID organizationID secret backupCodes =
     stmt (\<lambda>_. Inl ''pq: column mfa_methods is of type jsonb but expression is of type mfa_method[]'')"

definition DisableMFA :: "string \<Rightarrow> string \<Rightarrow> unit query" where
  "DisableMFA userID organizationID =
     change_users (\<lambda>u. usr_ID u = userID \<and> usr_OrganizationID u = organizationID)
       (\<lambda>t u. u\<lparr>usr_MFAEnabled := False, usr_MFAMethods := [], usr_TOTPSecret := [], usr_MFABackupCodes := [], usr_UpdatedAt := t\<rparr>)"

definition UpdateBackupCodes :: "string \<Rightarrow> string \<Rightarrow> string list \<Rightarrow> unit query" where
  "UpdateBackupCodes userID organizationID codes =
     change_users (\<lambda>u. usr_ID u = userID \<and> usr_OrganizationID u = organizationID)
       (\<lambda>t u. u\<lparr>usr_MFABackupCodes := codes, usr_UpdatedAt := t\<rparr>)"

section \<open>Roles of a user\<close>

text \<open>The oldest role of the organization that is assigned to the user, whatever its status or expiry.\<close>

definition primary_role :: "string \<Rightarrow> string \<Rightarrow> db \<Rightarrow> string" where
  "primary_role userID organizationID d =
     (case sort_key rol_CreatedAt [r. ra \<leftarrow> t_role_assignments d, r \<leftarrow> t_roles d, ra_RoleID ra = rol_ID r
         \<and> ra_PrincipalID ra = userID \<and> ra_PrincipalType ra = ''user'' \<and> rol_OrganizationID r = organizationID] of
       [] \<Rightarrow> [] | r # _ \<Rightarrow> rol_Name r)"

definition GetPrimaryRoleForUser :: "string \<Rightarrow> string \<Rightarrow> string query" where
  "GetPrimaryRoleForUser userID organizationID = select (primary_role userID organizationID)"

definition CheckAdminExists :: "bool query" where
  "CheckAdminExists = select (\<lambda>d. \<exists>ra \<in> set (t_role_assignments d). \<exists>r \<in> set (t_roles d). ra_RoleID ra = rol_ID r
     \<and> rol_Name r = ''admin'' \<and> rol_DeletedAt r = None \<and> ra_PrincipalType ra = ''user'')"

section \<open>The bootstrap of an administrator\<close>

text \<open>\<open>s[:8]\<close> of a Go string.\<close>

definition first8 :: "string \<Rightarrow> ('s, string) prog" where
  "first8 s = (if length s < 8 then panic ''slice bounds out of range'' else ret (take 8 s))"

definition new_org :: "string \<Rightarrow> string \<Rightarrow> string \<Rightarrow> instant \<Rightarrow> Organization" where
  "new_org i name slug t = \<lparr>org_ID = i, org_Name = name, org_Slug = slug, org_ParentID = None, org_Description = None,
     org_Metadata = ''{}'', org_Settings = ''{}'', org_AllowedOrigins = [], org_BillingTier = ''standard'', org_MaxUsers = 1000,
     org_MaxResources = 10000, org_Status = ''active'', org_CreatedAt = t, org_UpdatedAt = t, org_DeletedAt = None\<rparr>"

definition organizationExists :: "string \<Rightarrow> bool query" where
  "organizationExists organizationID = select (\<lambda>d. \<exists>o1 \<in> set (t_organizations d). org_ID o1 = organizationID \<and> org_DeletedAt o1 = None)"

text \<open>The organization of the new administrator: a new one, the one named, or the one named after creating it.\<close>

definition ensure_org :: "string \<Rightarrow> instant \<Rightarrow> string query" where
  "ensure_org organizationID t =
     (if organizationID = []
      then bnd fresh_uuid (\<lambda>newOrgID. bnd (first8 newOrgID) (\<lambda>short.
        bnd (insert_checked t_organizations put_orgs orgs_violation
               (new_org newOrgID (''Admin Organization '' @ short) (''admin-org-'' @ short) t)) (\<lambda>_. ret newOrgID)))
      else bnd (organizationExists organizationID) (\<lambda>exists.
        if exists then ret organizationID
        else bnd (first8 organizationID) (\<lambda>short.
          bnd (insert_checked t_organizations put_orgs orgs_violation
                 (new_org organizationID (''Organization '' @ short) (''org-'' @ organizationID) t)) (\<lambda>_. ret organizationID))))"

definition admin_role :: "string \<Rightarrow> string \<Rightarrow> instant \<Rightarrow> Role" where
  "admin_role i organizationID t = \<lparr>rol_ID = i, rol_Name = ''admin'', rol_Description = Some ''Administrator with full system access'',
     rol_OrganizationID = organizationID, rol_RoleType = ''custom'', rol_MaxSessionDuration = Some ''12:00:00'',
     rol_TrustPolicy = ''{}'', rol_AssumeRolePolicy = ''{}'', rol_Tags = ''{}'', rol_IsSystemRole = True, rol_Path = Some ''/'',
     rol_PermissionsBoundary = None, rol_Status = ''active'', rol_CreatedAt = t, rol_UpdatedAt = t, rol_DeletedAt = None\<rparr>"

definition is_admin_of :: "string \<Rightarrow> Role \<Rightarrow> bool" where
  "is_admin_of organizationID r \<longleftrightarrow> rol_Name r = ''admin'' \<and> rol_OrganizationID r = organizationID"

text \<open>\<open>INSERT ... ON CONFLICT (name, organization_id) DO UPDATE\<close>: an existing admin role is restored.\<close>

definition ensure_admin_role :: "string \<Rightarrow> instant \<Rightarrow> unit query" where
  "ensure_admin_role organizationID t = bnd fresh_uuid (\<lambda>i. stmt (\<lambda>d.
     if list_ex (is_admin_of organizationID) (t_roles d)
     then Inr ((), put_roles (map (\<lambda>r. if is_admin_of organizationID r
            then r\<lparr>rol_Status := ''active'', rol_DeletedAt := None, rol_IsSystemRole := True, rol_UpdatedAt := t\<rparr> else r) (t_roles d)) d)
     else case roles_violation (t_roles d @ [admin_role i organizationID t]) of
            Some e \<Rightarrow> Inl e | None \<Rightarrow> Inr ((), put_roles (t_roles d @ [admin_role i organizationID t]) d)))"

definition full_access :: string where
  "full_access = (let q = [CHR 0x22] in ''{'' @ q @ ''Version'' @ q @ '':'' @ q @ ''2024-01-01'' @ q @ '','' @ q @ ''Statement'' @ q
     @ '':[{'' @ q @ ''Effect'' @ q @ '':'' @ q @ ''Allow'' @ q @ '','' @ q @ ''Action'' @ q @ '':['' @ q @ ''*'' @ q @ ''],''
     @ q @ ''Resource'' @ q @ '':['' @ q @ ''*'' @ q @ '']}]}'')"

definition full_access_policy :: "(string \<Rightarrow> string) \<Rightarrow> string \<Rightarrow> string \<Rightarrow> instant \<Rightarrow> Policy" where
  "full_access_policy jsonb i organizationID t = \<lparr>pol_ID = i, pol_Name = ''FullAccess'',
     pol_Description = ''Administrator full access policy'', pol_Version = ''1.0'', pol_OrganizationID = organizationID,
     pol_Document = jsonb full_access, pol_PolicyType = ''access'', pol_Effect = ''allow'', pol_IsSystemPolicy = True,
     pol_CreatedBy = None, pol_ApprovedBy = None, pol_ApprovedAt = None, pol_Status = ''active'', pol_CreatedAt = t,
     pol_UpdatedAt = t, pol_DeletedAt = None\<rparr>"

definition is_full_access :: "string \<Rightarrow> Policy \<Rightarrow> bool" where
  "is_full_access organizationID p \<longleftrightarrow> pol_OrganizationID p = organizationID \<and> pol_Name p = ''FullAccess''"

definition upsert_full_access ::
  "(string \<Rightarrow> string) \<Rightarrow> string \<Rightarrow> instant \<Rightarrow> string \<Rightarrow> db \<Rightarrow> string + string \<times> db" where
  "upsert_full_access jsonb organizationID t i d = (case find (is_full_access organizationID) (t_policies d) of
       Some old \<Rightarrow> Inr (pol_ID old, put_policies (map (\<lambda>p. if is_full_access organizationID p
            then p\<lparr>pol_Description := ''Administrator full access policy'', pol_Document := jsonb full_access, pol_UpdatedAt := t\<rparr>
            else p) (t_policies d)) d)
     | None \<Rightarrow> (case policies_violation (t_policies d @ [full_access_policy jsonb i organizationID t]) of
            Some e \<Rightarrow> Inl e | None \<Rightarrow> Inr (i, put_policies (t_policies d @ [full_access_policy jsonb i organizationID t]) d)))"

definition ensureAdminPolicy :: "(string \<Rightarrow> string) \<Rightarrow> string \<Rightarrow> instant \<Rightarrow> string query" where
  "ensureAdminPolicy jsonb organizationID t = bnd fresh_uuid (\<lambda>i. stmt (upsert_full_access jsonb organizationID t i))"

definition ensureRoleHasPolicy :: "string \<Rightarrow> string \<Rightarrow> string \<Rightarrow> instant \<Rightarrow> unit query" where
  "ensureRoleHasPolicy roleID policyID actorID t = bnd fresh_uuid (\<lambda>i. stmt (\<lambda>d.
     if list_ex (\<lambda>r. rlp_RoleID r = roleID \<and> rlp_PolicyID r = policyID) (t_role_policies d) then Inr ((), d)
     else Inr ((), d\<lparr>t_role_policies := t_role_policies d @ [\<lparr>rlp_ID = i, rlp_RoleID = roleID, rlp_PolicyID = policyID,
            rlp_AttachedAt = t, rlp_AttachedBy = Some actorID\<rparr>]\<rparr>)))"

definition assign_role_to :: "string \<Rightarrow> string \<Rightarrow> instant \<Rightarrow> unit query" where
  "assign_role_to roleID userID t = bnd fresh_uuid (\<lambda>i.
     insert_row t_role_assignments (\<lambda>x d. d\<lparr>t_role_assignments := x\<rparr>) ''unique_role_assignment''
       (\<lambda>n r. ra_RoleID r = ra_RoleID n \<and> ra_PrincipalID r = ra_PrincipalID n \<and> ra_PrincipalType r = ra_PrincipalType n)
       \<lparr>ra_ID = i, ra_RoleID = roleID, ra_PrincipalID = userID, ra_PrincipalType = ''user'', ra_AssignedBy = Some userID,
         ra_AssignedAt = t, ra_ExpiresAt = None, ra_Conditions = ''{}''\<rparr>)"

definition admin_role_id :: "string \<Rightarrow> string query" where
  "admin_role_id orgID = bnd (select (\<lambda>d. find (is_admin_of orgID) (t_roles d)))
     (\<lambda>r. case r of None \<Rightarrow> fail no_rows | Some x \<Rightarrow> ret (rol_ID x))"

definition CreateAdminUser :: "(string \<Rightarrow> string) \<Rightarrow> User \<Rightarrow> string query" where
  "CreateAdminUser jsonb user = gets now (\<lambda>t. transaction
     (bnd (ensure_org (usr_OrganizationID user) t) (\<lambda>orgID.
      bnd (insert_user (new_user t (user\<lparr>usr_OrganizationID := orgID\<rparr>))) (\<lambda>_.
      bnd (ensure_admin_role orgID t) (\<lambda>_.
      bnd (admin_role_id orgID) (\<lambda>roleID.
      bnd (ensureAdminPolicy jsonb orgID t) (\<lambda>policyID.
      bnd (ensureRoleHasPolicy roleID policyID (usr_ID user) t) (\<lambda>_.
      bnd (assign_role_to roleID (usr_ID user) t) (\<lambda>_. ret orgID)))))))))"

section \<open>Tokens in Redis\<close>

definition SetPasswordResetToken :: "string \<Rightarrow> string \<Rightarrow> int \<Rightarrow> unit query" where
  "SetPasswordResetToken userID token expiry = redis_set (''password_reset:'' @ token) (RString userID) expiry"

definition redis_result :: "string \<Rightarrow> string query" where
  "redis_result key = bnd (redis_get key) (\<lambda>v. case v of None \<Rightarrow> fail ''redis: nil'' | Some s \<Rightarrow> ret s)"

definition GetPasswordResetToken :: "string \<Rightarrow> string query" where
  "GetPasswordResetToken token = redis_result (''password_reset:'' @ token)"

definition DeletePasswordResetToken :: "string \<Rightarrow> unit query" where
  "DeletePasswordResetToken token = redis_del (''password_reset:'' @ token)"

definition SetEmailVerificationToken :: "string \<Rightarrow> string \<Rightarrow> int \<Rightarrow> unit query" where
  "SetEmailVerificationToken userID token expiry = redis_set (''email_verification:'' @ token) (RString userID) expiry"

definition GetEmailVerificationToken :: "string \<Rightarrow> string query" where
  "GetEmailVerificationToken token = redis_result (''email_verification:'' @ token)"

definition DeleteEmailVerificationToken :: "string \<Rightarrow> unit query" where
  "DeleteEmailVerificationToken token = redis_del (''email_verification:'' @ token)"

text \<open>
  The sessions of an earlier version of the service, hashes under the same key prefix as the cached
  sessions. The scan deletes the hashes of the user; a key that holds a string makes \<open>HGET\<close> fail and stays.
\<close>

definition user_hash :: "db \<Rightarrow> string \<Rightarrow> string \<Rightarrow> bool" where
  "user_hash d userID k \<longleftrightarrow> prefix ''session:'' k
     \<and> (case redis_lookup d k of Some (RHash h) \<Rightarrow> map_of h ''user_id'' = Some userID | _ \<Rightarrow> False)"

definition InvalidateUserSessions :: "string \<Rightarrow> unit query" where
  "InvalidateUserSessions userID = redis_cmd (\<lambda>d. ((), d\<lparr>redis := (\<lambda>k. if user_hash d userID k then None else redis d k)\<rparr>))"

definition auth_DeleteSession :: "string \<Rightarrow> unit query" where
  "auth_DeleteSession sessionID = redis_del (''session:'' @ sessionID)"

text \<open>\<open>HMSET\<close> adds to a hash that is there; \<open>EXPIRE\<close> then gives the key a day.\<close>

definition auth_CreateSession :: "string \<Rightarrow> string \<Rightarrow> string \<Rightarrow> unit query" where
  "auth_CreateSession sessionID userID token = gets now (\<lambda>t.
     let key = ''session:'' @ sessionID;
         fields = [(''user_id'', userID), (''token'', token), (''created_at'', show_int (t div second))];
         store = (\<lambda>old. redis_set key (RHash (fields @ filter (\<lambda>(f, _). f \<notin> fst ` set fields) old)) (24 * 3600 * second))
     in bnd (redis_cmd (\<lambda>d. (redis_lookup d key, d))) (\<lambda>v. case v of
          None \<Rightarrow> store [] | Some (RHash h) \<Rightarrow> store h | Some _ \<Rightarrow> fail wrong_type))"

definition auth_GetSession :: "string \<Rightarrow> (string \<times> string) list query" where
  "auth_GetSession sessionID = bnd (redis_cmd (\<lambda>d. (redis_lookup d (''session:'' @ sessionID), d))) (\<lambda>v. case v of
     None \<Rightarrow> ret [] | Some (RHash h) \<Rightarrow> ret h | Some _ \<Rightarrow> fail wrong_type)"

end
