(* ===== verification/AuditQueue.thy ===== *)
theory AuditQueue
  imports Database
begin

text \<open>
  The audit trail: internal/services/audit_service.go and the writer of internal/queries/audit_queries.go.
  Handlers put events on a Go channel of capacity 1000 (\<open>audit_chan\<close>) and never wait; one worker takes
  them off and inserts a row each. The rows are subject to the constraints of the table.
\<close>

section \<open>The table\<close>

definition audit_results :: "string list" where
  "audit_results = [''success'', ''failure'', ''error'']"

definition audit_severities :: "string list" where
  "audit_severities = [''debug'', ''info'', ''warn'', ''error'', ''critical'']"

definition fits :: "nat \<Rightarrow> string option \<Rightarrow> bool" where
  "fits n s = (case s of None \<Rightarrow> True | Some x \<Rightarrow> length x \<le> n)"

text \<open>What the columns and the foreign keys of a row require, and then the two unique columns.\<close>

definition row_violation :: "db \<Rightarrow> AuditEvent \<Rightarrow> string option" where
  "row_violation d e =
     (if \<not> (fits 100 (Some (aev_EventID e)) \<and> fits 100 (Some (aev_Action e)) \<and> fits 50 (aev_ResourceType e)
            \<and> fits 100 (aev_RequestID e) \<and> fits 20 (Some (aev_Severity e)))
      then Some ''pq: value too long for type character varying''
      else if parse_json (aev_AdditionalContext e) = None then Some ''pq: invalid input syntax for type json''
      else if aev_Result e \<notin> set audit_results then Some (bad_enum ''audit_result'')
      else if (case aev_PrincipalType e of None \<Rightarrow> False | Some p \<Rightarrow> p \<notin> {''user'', ''service_account'', ''group''})
      then Some (bad_enum ''principal_type'')
      else if aev_Severity e \<notin> set audit_severities then Some (check_violation ''valid_severity'')
      else if aev_OrganizationID e \<notin> org_ID ` set (t_organizations d)
      then Some ''pq: insert violates foreign key constraint audit_events_organization_id_fkey''
      else if (case aev_SessionID e of None \<Rightarrow> False | Some i \<Rightarrow> i \<notin> ses_ID ` set (t_sessions d))
      then Some ''pq: insert violates foreign key constraint audit_events_session_id_fkey''
      else None)"

definition audit_violation :: "db \<Rightarrow> AuditEvent \<Rightarrow> string option" where
  "audit_violation d e = (case row_violation d e of
       Some v \<Rightarrow> Some v
     | None \<Rightarrow> if list_ex (\<lambda>r. aev_ID r = aev_ID e) (t_audit_events d) then Some (duplicate_key ''audit_events_pkey'')
         else if list_ex (\<lambda>r. aev_EventID r = aev_EventID e) (t_audit_events d)
         then Some (duplicate_key ''audit_events_event_id_key'') else None)"

definition stored_event :: "instant \<Rightarrow> AuditEvent \<Rightarrow> AuditEvent" where
  "stored_event t e = e\<lparr>aev_Timestamp := Some (case aev_Timestamp e of None \<Rightarrow> t | Some x \<Rightarrow> x),
     aev_AdditionalContext := (if aev_AdditionalContext e = [] then ''{}'' else aev_AdditionalContext e)\<rparr>"

definition LogAuditEvent :: "AuditEvent \<Rightarrow> unit query" where
  "LogAuditEvent event = stmt (\<lambda>d. let r = stored_event (now d) event in
     case audit_violation d r of Some e \<Rightarrow> Inl e
     | None \<Rightarrow> Inr ((), d\<lparr>t_audit_events := t_audit_events d @ [r]\<rparr>))"

definition GetAuditEvent :: "string \<Rightarrow> string \<Rightarrow> AuditEvent query" where
  "GetAuditEvent eventID organizationID = bnd (select (\<lambda>d. find (\<lambda>e. aev_ID e = eventID
       \<and> aev_OrganizationID e = organizationID) (t_audit_events d)))
     (\<lambda>r. case r of None \<Rightarrow> fail ''audit event not found'' | Some e \<Rightarrow> ret e)"

record ListAuditEventsParams =
  la_OrganizationID :: string
  la_PrincipalID :: string
  la_Action :: string
  la_ResourceType :: string
  la_Result :: string
  la_Severity :: string
  la_StartTime :: "instant option"
  la_EndTime :: "instant option"
  la_Limit :: int
  la_Offset :: int

text \<open>An empty filter matches every row; a NULL column matches no filter.\<close>

definition filter_opt :: "string \<Rightarrow> string option \<Rightarrow> bool" where
  "filter_opt p v \<longleftrightarrow> p = [] \<or> v = Some p"

definition time_of :: "AuditEvent \<Rightarrow> instant" where
  "time_of e = (case aev_Timestamp e of None \<Rightarrow> 0 | Some t \<Rightarrow> t)"

definition audit_matches :: "ListAuditEventsParams \<Rightarrow> AuditEvent \<Rightarrow> bool" where
  "audit_matches p e \<longleftrightarrow> filter_opt (la_OrganizationID p) (Some (aev_OrganizationID e))
     \<and> filter_opt (la_PrincipalID p) (aev_PrincipalID e) \<and> filter_opt (la_Action p) (Some (aev_Action e))
     \<and> filter_opt (la_ResourceType p) (aev_ResourceType e) \<and> filter_opt (la_Result p) (Some (aev_Result e))
     \<and> filter_opt (la_Severity p) (Some (aev_Severity e))
     \<and> (case la_StartTime p of None \<Rightarrow> True | Some t \<Rightarrow> t \<le> time_of e)
     \<and> (case la_EndTime p of None \<Rightarrow> True | Some t \<Rightarrow> time_of e \<le> t)"

definition ListAuditEvents :: "ListAuditEventsParams \<Rightarrow> (AuditEvent list \<times> nat) query" where
  "ListAuditEvents params =
     bnd (select (\<lambda>d. length (filter (audit_matches params) (t_audit_events d)))) (\<lambda>totalCount.
     bnd (select_page (if la_Limit params \<le> 0 then 50 else la_Limit params)
            (if la_Offset params < 0 then 0 else la_Offset params)
            (\<lambda>d. order_desc time_of (filter (audit_matches params) (t_audit_events d)))) (\<lambda>events.
     ret (events, totalCount)))"

section \<open>The channel\<close>

definition chan_capacity :: nat where
  "chan_capacity = 1000"

text \<open>The non-blocking send: with a full buffer the event is dropped.\<close>

definition offer :: "AuditEvent \<Rightarrow> db \<Rightarrow> db" where
  "offer event d = (if length (audit_chan d) < chan_capacity
     then d\<lparr>audit_chan := audit_chan d @ [event]\<rparr> else d)"

definition system_org :: string where
  "system_org = ''00000000-0000-0000-0000-000000000000''"

definition LogEvent :: "AuditEvent \<Rightarrow> unit query" where
  "LogEvent event =
     bnd (if aev_ID event = [] then fresh_uuid else ret (aev_ID event)) (\<lambda>i. gets now (\<lambda>t.
       let filled = event\<lparr>aev_ID := i,
             aev_EventID := (if aev_EventID event = [] then ''EVT-'' @ show_int t else aev_EventID event),
             aev_Timestamp := Some (case aev_Timestamp event of None \<Rightarrow> t | Some x \<Rightarrow> x),
             aev_OrganizationID := (if aev_OrganizationID event = [] then system_org else aev_OrganizationID event)\<rparr>
       in (\<lambda>d. (Ok (), offer filled d))))"

text \<open>A Go composite literal: the fields that are not given are zero.\<close>

definition no_event :: AuditEvent where
  "no_event = \<lparr>aev_ID = [], aev_EventID = [], aev_Timestamp = None, aev_OrganizationID = [], aev_PrincipalID = None,
     aev_PrincipalType = None, aev_SessionID = None, aev_Action = [], aev_ResourceType = None, aev_ResourceID = None,
     aev_ResourceARN = None, aev_Result = [], aev_ErrorMessage = None, aev_IPAddress = None, aev_UserAgent = None,
     aev_RequestID = None, aev_AdditionalContext = [], aev_Severity = []\<rparr>"

definition StringPtr :: "string \<Rightarrow> string option" where
  "StringPtr s = (if s = [] then None else Some s)"

definition LogAccessDenied :: "string \<Rightarrow> string \<Rightarrow> string \<Rightarrow> string \<Rightarrow> string \<Rightarrow> string \<Rightarrow> unit query" where
  "LogAccessDenied orgID principalID principalType resourceType resourceID message = LogEvent (no_event\<lparr>
     aev_OrganizationID := orgID, aev_PrincipalID := StringPtr principalID, aev_PrincipalType := StringPtr principalType,
     aev_Action := ''access_denied'', aev_ResourceType := StringPtr resourceType, aev_ResourceID := StringPtr resourceID,
     aev_Result := ''failure'', aev_ErrorMessage := StringPtr message, aev_Severity := ''critical''\<rparr>)"

definition LogAccessCheck ::
  "string \<Rightarrow> string \<Rightarrow> string \<Rightarrow> string \<Rightarrow> string \<Rightarrow> string \<Rightarrow> bool \<Rightarrow> string \<Rightarrow> unit query" where
  "LogAccessCheck orgID principalID principalType resourceType resourceID action allowed reason = LogEvent (no_event\<lparr>
     aev_OrganizationID := orgID, aev_PrincipalID := StringPtr principalID, aev_PrincipalType := StringPtr principalType,
     aev_Action := action, aev_ResourceType := StringPtr resourceType, aev_ResourceID := StringPtr resourceID,
     aev_Result := (if allowed then ''allowed'' else ''denied''), aev_ErrorMessage := StringPtr reason,
     aev_Severity := (if allowed then ''info'' else ''error'')\<rparr>)"

definition LogLogin :: "string \<Rightarrow> string \<Rightarrow> string \<Rightarrow> string \<Rightarrow> bool \<Rightarrow> string \<Rightarrow> unit query" where
  "LogLogin orgID userID ip userAgent success err = LogEvent (no_event\<lparr>
     aev_OrganizationID := orgID, aev_PrincipalID := StringPtr userID, aev_PrincipalType := Some ''user'',
     aev_Action := ''login'', aev_Result := (if success then ''success'' else ''failure''),
     aev_ErrorMessage := StringPtr err, aev_IPAddress := StringPtr ip, aev_UserAgent := StringPtr userAgent,
     aev_Severity := (if success then ''info'' else ''warn'')\<rparr>)"

section \<open>The worker\<close>

lemma LogAuditEvent_cases:
  obtains (stored) "audit_violation (advance d) (stored_event (now d) e) = None"
      "LogAuditEvent e d = (Ok (), (advance d)\<lparr>t_audit_events := t_audit_events d @ [stored_event (now d) e]\<rparr>)"
  | (lost) err where "LogAuditEvent e d = (Err err, advance d)"
  unfolding LogAuditEvent_def
  by (cases rule: stmt_cases [of "\<lambda>d. let r = stored_event (now d) e in case audit_violation d r of Some e \<Rightarrow> Inl e
        | None \<Rightarrow> Inr ((), d\<lparr>t_audit_events := t_audit_events d @ [r]\<rparr>)" d])
     (auto simp: Let_def split: option.splits)

lemma LogAuditEvent_chan [simp]: "audit_chan (snd (LogAuditEvent e d)) = audit_chan d"
  by (cases rule: LogAuditEvent_cases [of d e]) simp_all

text \<open>The loop that empties the channel once the service is told to stop.\<close>

function drainEvents :: "db \<Rightarrow> db" where
  "drainEvents d = (case audit_chan d of [] \<Rightarrow> d
     | event # rest \<Rightarrow> drainEvents (snd (LogAuditEvent event (d\<lparr>audit_chan := rest\<rparr>))))"
  by pat_completeness auto

termination
  by (relation "measure (\<lambda>d. length (audit_chan d))") auto

declare drainEvents.simps [simp del]

text \<open>
  The worker runs, drains once the context is cancelled, and stops when it finds the channel empty.
  The handlers call LogEvent at any time. A step is labelled with the event the channel has to accept: the
  one LogEvent is called with, its empty fields filled, when the buffer has room at that moment, and none
  when it is full. What the call does to the channel is left to LogEvent. Every other step of the program
  (a request, a clock tick, a fault) touches neither the channel nor the table.
\<close>

definition filled_event :: "AuditEvent \<Rightarrow> db \<Rightarrow> AuditEvent" where
  "filled_event event d = event\<lparr>aev_ID := (if aev_ID event = [] then uuids d 0 else aev_ID event),
     aev_EventID := (if aev_EventID event = [] then ''EVT-'' @ show_int (now d) else aev_EventID event),
     aev_Timestamp := Some (case aev_Timestamp event of None \<Rightarrow> now d | Some x \<Rightarrow> x),
     aev_OrganizationID := (if aev_OrganizationID event = [] then system_org else aev_OrganizationID event)\<rparr>"

definition due :: "AuditEvent \<Rightarrow> db \<Rightarrow> AuditEvent list" where
  "due event d = (if length (audit_chan d) < chan_capacity then [filled_event event d] else [])"

datatype worker = Running | Draining | Stopped

inductive audit_step :: "AuditEvent list \<Rightarrow> worker \<times> db \<Rightarrow> worker \<times> db \<Rightarrow> bool" where
  log: "LogEvent e d = (r, d') \<Longrightarrow> audit_step (due e d) (w, d) (w, d')"
| work: "audit_chan d = e # rest \<Longrightarrow> w \<noteq> Stopped \<Longrightarrow>
    audit_step [] (w, d) (w, snd (LogAuditEvent e (d\<lparr>audit_chan := rest\<rparr>)))"
| cancel: "audit_step [] (Running, d) (Draining, d)"
| finish: "audit_chan d = [] \<Longrightarrow> audit_step [] (Draining, d) (Stopped, d)"
| other: "audit_chan d' = audit_chan d \<Longrightarrow> t_audit_events d' = t_audit_events d \<Longrightarrow> audit_step [] (w, d) (w, d')"

inductive audit_run :: "AuditEvent list \<Rightarrow> worker \<times> db \<Rightarrow> worker \<times> db \<Rightarrow> bool" where
  start: "audit_run [] s s"
| step: "audit_run acc s s' \<Longrightarrow> audit_step a s' s'' \<Longrightarrow> audit_run (acc @ a) s s''"

section \<open>A bounded queue\<close>

locale bounded_fifo =
  fixes items :: "'s \<Rightarrow> 'e list" and put :: "'e \<Rightarrow> 's \<Rightarrow> 's" and take_one :: "'s \<Rightarrow> ('e \<times> 's) option" and cap :: nat
  assumes items_put: "items (put e s) = (if length (items s) < cap then items s @ [e] else items s)"
    and take_none: "take_one s = None \<longleftrightarrow> items s = []"
    and take_some: "take_one s = Some (e, s') \<Longrightarrow> items s = e # items s'"
begin

lemma put_bounded: "length (items s) \<le> cap \<Longrightarrow> length (items (put e s)) \<le> cap"
  by (simp add: items_put)

lemma take_bounded: "length (items s) \<le> cap \<Longrightarrow> take_one s = Some (e, s') \<Longrightarrow> length (items s') \<le> cap"
  by (drule take_some) simp

lemma put_accepts: "\<exists>acc. items (put e s) = items s @ acc \<and> set acc \<subseteq> {e}"
  by (simp add: items_put)

lemma burst: "items (fold put es s) = items s @ take (cap - length (items s)) es"
proof (induction es arbitrary: s)
  case (Cons e es)
  show ?case
  proof (cases "length (items s) < cap")
    case True
    then have "cap - length (items s) = Suc (cap - Suc (length (items s)))" by simp
    with True Cons show ?thesis by (simp add: items_put)
  qed (simp add: Cons items_put)
qed simp

end

definition receive :: "db \<Rightarrow> (AuditEvent \<times> db) option" where
  "receive d = (case audit_chan d of [] \<Rightarrow> None | e # rest \<Rightarrow> Some (e, d\<lparr>audit_chan := rest\<rparr>))"

interpretation chan: bounded_fifo audit_chan offer receive chan_capacity
  by unfold_locales (auto simp: offer_def receive_def split: list.splits)

section \<open>Lemmas\<close>

definition content :: "AuditEvent \<Rightarrow> AuditEvent" where
  "content e = e\<lparr>aev_Timestamp := None,
     aev_AdditionalContext := (if aev_AdditionalContext e = [] then ''{}'' else aev_AdditionalContext e)\<rparr>"

lemma content_stored [simp]: "content (stored_event t e) = content e"
  by (simp add: content_def stored_event_def)

lemma offer_state [simp]: "t_audit_events (offer e d) = t_audit_events d" "faults (offer e d) = faults d"
  "now (offer e d) = now d" "t_organizations (offer e d) = t_organizations d" "t_sessions (offer e d) = t_sessions d"
  by (simp_all add: offer_def)

text \<open>LogEvent offers one event with the action, result and severity it was given.\<close>

lemma LogEvent_offer:
  obtains f where "LogEvent e d = (Ok (), offer (filled_event e d) (d\<lparr>uuids := f\<rparr>))"
proof (cases "aev_ID e = []")
  case True
  then show ?thesis
    by (intro that [of "\<lambda>n. uuids d (Suc n)"])
      (simp add: LogEvent_def bnd_def fresh_uuid_def Let_def filled_event_def cong: option.case_cong)
next
  case False
  then show ?thesis
    by (intro that [of "uuids d"])
      (simp add: LogEvent_def bnd_def Let_def filled_event_def cong: option.case_cong)
qed

lemma LogEvent_run:
  obtains e' f where "LogEvent e d = (Ok (), offer e' (d\<lparr>uuids := f\<rparr>))" "aev_Result e' = aev_Result e"
    "aev_Severity e' = aev_Severity e" "aev_Action e' = aev_Action e"
proof -
  obtain f where "LogEvent e d = (Ok (), offer (filled_event e d) (d\<lparr>uuids := f\<rparr>))" by (rule LogEvent_offer)
  then show ?thesis by (rule that) (simp_all add: filled_event_def)
qed

lemma LogEvent_rows:
  assumes "LogEvent e d = (r, d')"
  shows "t_audit_events d' = t_audit_events d"
  by (cases rule: LogEvent_run [of e d]) (use assms in auto)

lemma LogEvent_chan:
  assumes "LogEvent e d = (r, d')"
  shows "audit_chan d' = audit_chan d @ due e d"
  by (rule LogEvent_offer [of e d]) (use assms in \<open>auto simp: offer_def due_def\<close>)

text \<open>What a run has done: the events taken off the channel, oldest first, and the rows they left.\<close>

definition trail :: "AuditEvent list \<Rightarrow> db \<Rightarrow> db \<Rightarrow> bool" where
  "trail acc d d' \<longleftrightarrow> (\<exists>processed rows. audit_chan d @ acc = processed @ audit_chan d' \<and>
     t_audit_events d' = t_audit_events d @ rows \<and> subseq (map content rows) (map content processed))"

lemma trail_work:
  assumes "audit_chan d = e # rest"
  shows "trail [] d (snd (LogAuditEvent e (d\<lparr>audit_chan := rest\<rparr>)))"
proof (cases rule: LogAuditEvent_cases [of "d\<lparr>audit_chan := rest\<rparr>" e])
  case stored
  with assms show ?thesis unfolding trail_def
    by (intro exI [of _ "[e]"] exI [of _ "[stored_event (now d) e]"]) simp
next
  case (lost err)
  with assms show ?thesis unfolding trail_def by (intro exI [of _ "[e]"] exI [of _ "[]"]) simp
qed

lemma trail_trans:
  assumes "trail a d d'" and "trail b d' d''"
  shows "trail (a @ b) d d''"
proof -
  from assms(1) obtain p r where 1: "audit_chan d @ a = p @ audit_chan d'" "t_audit_events d' = t_audit_events d @ r"
    "subseq (map content r) (map content p)" unfolding trail_def by blast
  from assms(2) obtain q s where 2: "audit_chan d' @ b = q @ audit_chan d''" "t_audit_events d'' = t_audit_events d' @ s"
    "subseq (map content s) (map content q)" unfolding trail_def by blast
  from 1(1) 2(1) have "audit_chan d @ a @ b = (p @ q) @ audit_chan d''" by (metis append_assoc)
  moreover from 1(3) 2(3) have "subseq (map content (r @ s)) (map content (p @ q))"
    by (simp add: list_emb_append_mono)
  ultimately show ?thesis unfolding trail_def using 1(2) 2(2) by auto
qed

lemma trail_same: "audit_chan d' = audit_chan d @ acc \<Longrightarrow> t_audit_events d' = t_audit_events d \<Longrightarrow> trail acc d d'"
  unfolding trail_def by (intro exI [of _ "[]"]) simp

lemma audit_step_trail: "audit_step acc s s' \<Longrightarrow> trail acc (snd s) (snd s')"
  by (induction rule: audit_step.induct) (auto intro: trail_same trail_work dest: LogEvent_rows LogEvent_chan)

text \<open>The constraints hold of every row that was inserted.\<close>

lemma first_violation:
  "(if a then Some x1 else if b then Some x2 else if c then Some x3 else if d then Some x4 else if e then Some x5
    else rest) = None \<Longrightarrow> \<not> c \<and> \<not> e"
  by (simp split: if_splits)

lemma row_ok:
  assumes "audit_violation d e = None"
  shows "aev_Result e \<in> set audit_results \<and> aev_Severity e \<in> set audit_severities"
proof -
  from assms have "row_violation d e = None" by (cases "row_violation d e") (simp_all add: audit_violation_def)
  from first_violation [OF this [unfolded row_violation_def]] show ?thesis by blast
qed

lemma stored_columns [simp]:
  "aev_Result (stored_event t e) = aev_Result e" "aev_Severity (stored_event t e) = aev_Severity e"
  "aev_ID (stored_event t e) = aev_ID e" "aev_EventID (stored_event t e) = aev_EventID e"
  by (simp_all add: stored_event_def)

lemma LogAuditEvent_row:
  assumes "r \<in> set (t_audit_events (snd (LogAuditEvent e d)))" and "r \<notin> set (t_audit_events d)"
  shows "aev_Result r \<in> set audit_results \<and> aev_Severity r \<in> set audit_severities"
proof (cases rule: LogAuditEvent_cases [of d e])
  case stored
  from stored(2) assms have "r = stored_event (now d) e" by simp
  with row_ok [OF stored(1)] show ?thesis by simp
qed (use assms in simp)

lemma LogAuditEvent_refused:
  assumes "aev_Result e \<notin> set audit_results \<or> aev_Severity e \<notin> set audit_severities"
  shows "t_audit_events (snd (LogAuditEvent e d)) = t_audit_events d"
proof (cases rule: LogAuditEvent_cases [of d e])
  case stored
  from row_ok [OF stored(1)] assms show ?thesis by simp
qed simp

lemma audit_step_rows:
  assumes "audit_step acc s s'" and "r \<in> set (t_audit_events (snd s'))" and "r \<notin> set (t_audit_events (snd s))"
  shows "aev_Result r \<in> set audit_results \<and> aev_Severity r \<in> set audit_severities"
  using assms by (induction rule: audit_step.induct) (auto dest: LogEvent_rows LogAuditEvent_row)

lemma audit_step_bounded:
  assumes "audit_step acc s s'" and "length (audit_chan (snd s)) \<le> chan_capacity"
  shows "length (audit_chan (snd s')) \<le> chan_capacity"
  using assms
proof (induction rule: audit_step.induct)
  case (log e d r d' w)
  obtain e' f where "LogEvent e d = (Ok (), offer e' (d\<lparr>uuids := f\<rparr>))" by (rule LogEvent_run [of e d])
  with log chan.put_bounded [of "d\<lparr>uuids := f\<rparr>" e'] show ?case by simp
qed auto

inductive_cases stopped_stepE: "audit_step acc (Stopped, d) s"

lemma stopped_rows: "audit_step acc (Stopped, d) s \<Longrightarrow> fst s = Stopped \<and> t_audit_events (snd s) = t_audit_events d"
  by (erule stopped_stepE) (auto dest: LogEvent_rows)

lemma row_violation_cong:
  assumes "t_organizations d' = t_organizations d" and "t_sessions d' = t_sessions d"
  shows "row_violation d' x = row_violation d x"
  unfolding row_violation_def assms ..

definition audit_db :: db where
  "audit_db = (empty_db 5)\<lparr>t_organizations := [\<lparr>org_ID = ''o1'', org_Name = ''Org'', org_Slug = ''org'',
     org_ParentID = None, org_Description = None, org_Metadata = ''{}'', org_Settings = ''{}'', org_AllowedOrigins = [],
     org_BillingTier = ''standard'', org_MaxUsers = 1000, org_MaxResources = 10000, org_Status = ''active'', org_CreatedAt = 0, org_UpdatedAt = 0, org_DeletedAt = None\<rparr>]\<rparr>"

section \<open>Properties\<close>

text \<open>C6. The audit trail is a bounded FIFO that loses events but never reorders, repeats or invents them. Take
  any run of LogEvent calls, worker steps and other steps, from a channel within its capacity: the channel stays within its capacity; the
  events that were waiting at the start, followed by those that were logged while the channel had room,
  are those the worker has taken, in order, followed by those still waiting, so that an event is lost
  before the worker only when it is logged to a full channel; and the rows added to the table are, in
  order, some of the events taken.\<close>

theorem audit_trail_fifo:
  assumes "audit_run acc (w, d) (w', d')" and "length (audit_chan d) \<le> chan_capacity"
  shows "length (audit_chan d') \<le> chan_capacity \<and>
    (\<exists>processed rows. audit_chan d @ acc = processed @ audit_chan d' \<and>
       t_audit_events d' = t_audit_events d @ rows \<and> subseq (map content rows) (map content processed))"
proof -
  from assms have "length (audit_chan (snd (w', d'))) \<le> chan_capacity \<and> trail acc (snd (w, d)) (snd (w', d'))"
  proof (induction acc "(w, d)" "(w', d')" arbitrary: w' d' rule: audit_run.induct)
    case start
    then show ?case by (simp add: trail_same)
  next
    case (step acc s' a)
    obtain w1 d1 where s': "s' = (w1, d1)" by (cases s')
    from step(2) [OF s' step(4)] audit_step_bounded [OF step(3)] audit_step_trail [OF step(3)] trail_trans s'
    show ?case by auto
  qed
  then show ?thesis by (simp add: trail_def)
qed

theorem audit_trail_fifo_witness:
  "\<exists>acc d'. audit_run acc (Running, audit_db) (Running, d') \<and> map aev_Action acc = [''login''] \<and>
     map aev_Action (t_audit_events d') = [''login''] \<and> length (audit_chan d') \<le> chan_capacity"
proof -
  let ?e = "no_event\<lparr>aev_OrganizationID := ''o1'', aev_PrincipalID := StringPtr ''u1'', aev_PrincipalType := Some ''user'',
     aev_Action := ''login'', aev_Result := ''success'', aev_Severity := ''info''\<rparr>"
  let ?d1 = "snd (LogEvent ?e audit_db)"
  let ?acc = "audit_chan ?d1"
  let ?d2 = "snd (LogAuditEvent (hd ?acc) (?d1\<lparr>audit_chan := []\<rparr>))"
  have chan: "audit_chan audit_db = [] \<and> ?acc = [hd ?acc]" by code_simp
  have "LogEvent ?e audit_db = (fst (LogEvent ?e audit_db), ?d1)" by simp
  from audit_step.log [OF this] LogEvent_chan [OF this] chan
  have "audit_step ?acc (Running, audit_db) (Running, ?d1)" by simp
  moreover have "audit_step [] (Running, ?d1) (Running, ?d2)"
    by (rule audit_step.work) (use chan in simp_all)
  ultimately have run: "audit_run ?acc (Running, audit_db) (Running, ?d2)"
    using audit_run.step [OF audit_run.step [OF audit_run.start]] by fastforce
  have "length (audit_chan audit_db) \<le> chan_capacity" by code_simp
  from audit_trail_fifo [OF run this] have "length (audit_chan ?d2) \<le> chan_capacity" by simp
  moreover have "map aev_Action ?acc = [''login''] \<and> map aev_Action (t_audit_events ?d2) = [''login'']" by code_simp
  ultimately show ?thesis using run by (intro exI [of _ ?acc] exI [of _ ?d2] conjI; simp only:)
qed

text \<open>No access decision is ever audited, and neither are the events the MFA endpoints log: in every run
  each new row has a result among success, failure and error and a severity among debug, info, warn,
  error and critical, while LogAccessCheck logs the result allowed or denied and the MFA handlers the
  severities MEDIUM and HIGH. Such a row is refused by the database and the worker drops it.\<close>

lemma access_checks_never_audited:
  assumes "audit_run acc (w, d) (w', d')" and "r \<in> set (t_audit_events d')" and "r \<notin> set (t_audit_events d)"
  shows "aev_Result r \<notin> {''allowed'', ''denied''} \<and> aev_Severity r \<notin> {''MEDIUM'', ''HIGH''}"
proof -
  from assms have "aev_Result r \<in> set audit_results \<and> aev_Severity r \<in> set audit_severities"
  proof (induction acc "(w, d)" "(w', d')" arbitrary: w' d' rule: audit_run.induct)
    case (step acc s' a)
    obtain w1 d1 where s': "s' = (w1, d1)" by (cases s')
    show ?case
    proof (cases "r \<in> set (t_audit_events d1)")
      case True
      from step(2) [OF s' True step(5)] show ?thesis .
    next
      case False
      with audit_step_rows [OF step(3)] step(4) s' show ?thesis by simp
    qed
  qed simp
  moreover have "{''allowed'', ''denied''} \<inter> set audit_results = {}" "{''MEDIUM'', ''HIGH''} \<inter> set audit_severities = {}"
    by code_simp+
  ultimately show ?thesis by blast
qed

text \<open>C35. The drain loop loses nothing that can be stored: when drainEvents runs on a database that does not
  fail, and every waiting event satisfies the constraints of the table and has an id and event id of its
  own, the loop ends with the channel empty and every event in the table, in the order in which it was
  accepted. This is a property of the loop alone: the server starts the worker with a context that is
  never cancelled, so a shutdown of the server does not reach it.\<close>

theorem drainEvents_complete:
  assumes "faults d = []"
    and "\<forall>e \<in> set (audit_chan d). row_violation d (stored_event (now d) e) = None"
    and "distinct (map aev_ID (t_audit_events d @ audit_chan d))"
    and "distinct (map aev_EventID (t_audit_events d @ audit_chan d))"
  shows "drainEvents d = d\<lparr>audit_chan := [], t_audit_events := t_audit_events d @ map (stored_event (now d)) (audit_chan d)\<rparr>"
  using assms
proof (induction d rule: drainEvents.induct)
  case (1 d)
  show ?case
  proof (cases "audit_chan d")
    case Nil
    then show ?thesis by (simp add: drainEvents.simps)
  next
    case (Cons e rest)
    let ?d1 = "d\<lparr>audit_chan := rest\<rparr>"
    let ?d2 = "?d1\<lparr>t_audit_events := t_audit_events d @ [stored_event (now d) e]\<rparr>"
    have same: "row_violation ?d1 x = row_violation d x" "row_violation ?d2 x = row_violation d x" for x
      by (rule row_violation_cong; simp)+
    from Cons 1(3) same have "row_violation ?d1 (stored_event (now d) e) = None" by simp
    moreover from Cons 1(4,5) have "\<not> list_ex (\<lambda>r. aev_ID r = aev_ID e) (t_audit_events d)"
      "\<not> list_ex (\<lambda>r. aev_EventID r = aev_EventID e) (t_audit_events d)"
      by (fastforce simp: list_ex_iff image_iff)+
    ultimately have "audit_violation ?d1 (stored_event (now d) e) = None"
      by (simp add: audit_violation_def)
    with 1(2) have run: "snd (LogAuditEvent e ?d1) = ?d2"
      by (simp add: LogAuditEvent_def stmt_ok Let_def)
    have "drainEvents ?d2 = ?d2\<lparr>audit_chan := [],
        t_audit_events := t_audit_events ?d2 @ map (stored_event (now ?d2)) (audit_chan ?d2)\<rparr>"
      using 1(1) [OF Cons] 1(2-5) Cons unfolding run by (simp add: same)
    with Cons run show ?thesis by (simp add: drainEvents.simps [of d])
  qed
qed

theorem drainEvents_complete_witness:
  "map aev_Action (t_audit_events (drainEvents (snd (LogLogin ''o1'' ''u1'' ''10.0.0.1'' ''curl'' True [] audit_db)))) = [''login'']"
proof -
  let ?d = "snd (LogLogin ''o1'' ''u1'' ''10.0.0.1'' ''curl'' True [] audit_db)"
  have "faults ?d = []" "\<forall>e \<in> set (audit_chan ?d). row_violation ?d (stored_event (now ?d) e) = None"
    "distinct (map aev_ID (t_audit_events ?d @ audit_chan ?d))"
    "distinct (map aev_EventID (t_audit_events ?d @ audit_chan ?d))"
    by code_simp+
  note drainEvents_complete [OF this]
  moreover have "map aev_Action (t_audit_events ?d @ map (stored_event (now ?d)) (audit_chan ?d)) = [''login'']" by code_simp
  ultimately show ?thesis by simp
qed

end
