(* ===== verification/SessionStore.thy ===== *)
theory SessionStore
  imports PolicyStore
begin

text \<open>
  Sessions: internal/queries/session_queries.go. The rows are the truth; Redis holds a text per session
  that is written and removed but never read back, as the code's own decoder always fails. How \<open>%+v\<close>
  prints a session is the parameter \<open>show_session\<close>.
\<close>

section \<open>The table and the cache\<close>

definition session_status :: "string list" where
  "session_status = [''active'', ''expired'', ''revoked'']"

definition sessions_violation :: "Session list \<Rightarrow> string option" where
  "sessions_violation t =
     (if \<exists>s \<in> set t. ses_Status s \<notin> set session_status then Some (bad_enum ''session_status'')
      else if \<exists>s \<in> set t. ses_PrincipalType s \<notin> {''user'', ''service_account'', ''group''}
        then Some (bad_enum ''principal_type'')
      else if \<exists>s \<in> set t. ses_ExpiresAt s \<le> ses_IssuedAt s then Some (check_violation ''valid_session_duration'')
      else if \<not> distinct (map ses_ID t) then Some (duplicate_key ''sessions_pkey'')
      else if \<not> distinct (map ses_SessionToken t) then Some (duplicate_key ''sessions_session_token_key'')
      else None)"

abbreviation put_sessions :: "Session list \<Rightarrow> db \<Rightarrow> db" where
  "put_sessions t d \<equiv> d\<lparr>t_sessions := t\<rparr>"

definition session_key :: "string \<Rightarrow> string" where
  "session_key sessionID = ''session:'' @ sessionID"

definition cacheSession :: "(Session \<Rightarrow> string) \<Rightarrow> Session \<Rightarrow> unit query" where
  "cacheSession show_session session = gets now (\<lambda>t. let ttl = ses_ExpiresAt session - t in
     if ttl \<le> 0 then ret ()
     else redis_set (session_key (ses_ID session)) (RString (show_session session)) ttl)"

definition getCachedSession :: "string \<Rightarrow> Session query" where
  "getCachedSession sessionID = bnd (redis_get (session_key sessionID)) (\<lambda>r. case r of
       None \<Rightarrow> fail ''redis: nil'' | Some _ \<Rightarrow> fail ''cache deserialization not implemented'')"

definition removeCachedSession :: "string \<Rightarrow> unit query" where
  "removeCachedSession sessionID = redis_del (session_key sessionID)"

section \<open>Operations\<close>

definition CreateSession :: "(string \<Rightarrow> string) \<Rightarrow> (Session \<Rightarrow> string) \<Rightarrow> Session \<Rightarrow> unit query" where
  "CreateSession jsonb show_session session =
     bnd (wrap ''failed to create session''
       (json_stmt [ses_Permissions session, ses_Context session, ses_Location session]
         (insert_checked t_sessions put_sessions sessions_violation
           (session\<lparr>ses_Permissions := jsonb (ses_Permissions session), ses_Context := jsonb (ses_Context session),
              ses_Location := jsonb (ses_Location session)\<rparr>)))) (\<lambda>_.
     ignore (cacheSession show_session session))"

definition RevokeSession :: "string \<Rightarrow> string \<Rightarrow> unit query" where
  "RevokeSession sessionID organizationID =
     bnd (must_affect ''session not found'' ''failed to revoke session''
       (exec_on t_sessions put_sessions (\<lambda>d. update_where
          (\<lambda>s. ses_ID s = sessionID \<and> ses_OrganizationID s = organizationID)
          (\<lambda>s. s\<lparr>ses_Status := ''revoked'', ses_LastUsedAt := now d\<rparr>)))) (\<lambda>_.
     ignore (removeCachedSession sessionID))"

definition active_session :: "string \<Rightarrow> string \<Rightarrow> Session \<Rightarrow> bool" where
  "active_session i organizationID s \<longleftrightarrow>
     ses_ID s = i \<and> ses_OrganizationID s = organizationID \<and> ses_Status s = ''active''"

definition fetch_session :: "(Session \<Rightarrow> string) \<Rightarrow> string \<Rightarrow> string \<Rightarrow> Session query" where
  "fetch_session show_session sessionID organizationID =
     bnd (query_row ''session not found'' ''failed to get session''
       (\<lambda>d. find (active_session sessionID organizationID) (t_sessions d))) (\<lambda>s. gets now (\<lambda>t.
     if ses_ExpiresAt s < t
     then bnd (ignore (RevokeSession sessionID organizationID)) (\<lambda>_. fail ''session expired'')
     else bnd (ignore (cacheSession show_session s)) (\<lambda>_. ret s)))"

definition GetSession :: "(Session \<Rightarrow> string) \<Rightarrow> string \<Rightarrow> string \<Rightarrow> Session query" where
  "GetSession show_session sessionID organizationID =
     bnd (attempt (getCachedSession sessionID)) (\<lambda>cached.
     case cached of
       Inr session \<Rightarrow> if ses_OrganizationID session = organizationID then ret session
         else fetch_session show_session sessionID organizationID
     | Inl _ \<Rightarrow> fetch_session show_session sessionID organizationID)"

definition GetSessionByToken :: "string \<Rightarrow> string \<Rightarrow> Session query" where
  "GetSessionByToken token organizationID =
     bnd (query_row ''session not found'' ''failed to get session''
       (\<lambda>d. find (\<lambda>s. ses_SessionToken s = token \<and> ses_OrganizationID s = organizationID \<and> ses_Status s = ''active'')
          (t_sessions d))) (\<lambda>s. gets now (\<lambda>t.
     if ses_ExpiresAt s < t
     then bnd (ignore (RevokeSession (ses_ID s) organizationID)) (\<lambda>_. fail ''session expired'')
     else ret s))"

definition UpdateSession :: "(string \<Rightarrow> string) \<Rightarrow> (Session \<Rightarrow> string) \<Rightarrow> Session \<Rightarrow> string \<Rightarrow> unit query" where
  "UpdateSession jsonb show_session session organizationID =
     bnd (must_affect ''session not found'' ''failed to update session''
       (json_stmt [ses_Permissions session, ses_Context session, ses_Location session]
         (update_checked t_sessions put_sessions sessions_violation
           (\<lambda>s. ses_ID s = ses_ID session \<and> ses_OrganizationID s = organizationID)
           (\<lambda>s. s\<lparr>ses_Permissions := jsonb (ses_Permissions session), ses_Context := jsonb (ses_Context session),
              ses_MFAVerified := ses_MFAVerified session, ses_MFAMethodsUsed := ses_MFAMethodsUsed session,
              ses_IPAddress := ses_IPAddress session, ses_UserAgent := ses_UserAgent session,
              ses_DeviceFingerprint := ses_DeviceFingerprint session, ses_Location := jsonb (ses_Location session),
              ses_ExpiresAt := ses_ExpiresAt session, ses_LastUsedAt := ses_LastUsedAt session,
              ses_Status := ses_Status session\<rparr>)))) (\<lambda>_.
     ignore (cacheSession show_session session))"

definition DeleteSession :: "string \<Rightarrow> string \<Rightarrow> unit query" where
  "DeleteSession sessionID organizationID =
     bnd (must_affect ''session not found'' ''failed to delete session''
       (exec_on t_sessions put_sessions (\<lambda>d. delete_where
          (\<lambda>s. ses_ID s = sessionID \<and> ses_OrganizationID s = organizationID)))) (\<lambda>_.
     ignore (removeCachedSession sessionID))"

definition ListSessions ::
  "(string \<Rightarrow> string \<Rightarrow> Session list \<Rightarrow> Session list) \<Rightarrow> ListParams \<Rightarrow> string \<Rightarrow> string \<Rightarrow> string \<Rightarrow>
    Session ListResult query" where
  "ListSessions sorted_by params organizationID principalID principalType =
     (let visible = (\<lambda>d. filter (\<lambda>s. ses_OrganizationID s = organizationID
            \<and> (principalID \<noteq> [] \<longrightarrow> ses_PrincipalID s = principalID)
            \<and> (principalType \<noteq> [] \<longrightarrow> ses_PrincipalType s = principalType)
            \<and> ses_Status s = ''active'') (t_sessions d));
          arrange = (if lp_SortBy params \<noteq> [] then sorted_by (lp_SortBy params) (lp_Order params)
            else order_desc ses_LastUsedAt)
      in bnd (wrap ''failed to list sessions''
           (select_page (lp_Limit params) (lp_Offset params) (\<lambda>d. arrange (visible d)))) (\<lambda>items.
         bnd (wrap ''failed to count sessions'' (select (\<lambda>d. int (length (visible d))))) (\<lambda>cnt.
         lift (list_result params items cnt))))"

definition ListUserSessions :: "string \<Rightarrow> string \<Rightarrow> Session list query" where
  "ListUserSessions userID organizationID =
     bnd (ListSessions (\<lambda>_ _. id) \<lparr>lp_Limit = 100, lp_Offset = 0, lp_SortBy = [], lp_Order = []\<rparr>
       organizationID userID ''user'') (\<lambda>result. ret (lr_Items result))"

text \<open>The list queries without paging: a condition on the rows, newest use first.\<close>

definition list_active :: "string \<Rightarrow> (db \<Rightarrow> Session \<Rightarrow> bool) \<Rightarrow> Session list query" where
  "list_active pre P = wrap pre (select (\<lambda>d. order_desc ses_LastUsedAt
     (filter (\<lambda>s. ses_Status s = ''active'' \<and> P d s) (t_sessions d))))"

definition ListActiveSessions :: "string \<Rightarrow> Session list query" where
  "ListActiveSessions organizationID = list_active ''failed to list active sessions''
     (\<lambda>d s. ses_OrganizationID s = organizationID \<and> ses_ExpiresAt s > now d)"

definition GetSessionsByIP :: "string \<Rightarrow> string \<Rightarrow> Session list query" where
  "GetSessionsByIP ipAddress organizationID = list_active ''failed to get sessions by IP''
     (\<lambda>d s. ses_IPAddress s = Some ipAddress \<and> ses_OrganizationID s = organizationID)"

definition GetSessionsByDeviceFingerprint :: "string \<Rightarrow> string \<Rightarrow> Session list query" where
  "GetSessionsByDeviceFingerprint fingerprint organizationID =
     list_active ''failed to get sessions by device fingerprint''
       (\<lambda>d s. ses_DeviceFingerprint s = Some fingerprint \<and> ses_OrganizationID s = organizationID)"

definition ExtendSession :: "(Session \<Rightarrow> string) \<Rightarrow> string \<Rightarrow> string \<Rightarrow> instant \<Rightarrow> unit query" where
  "ExtendSession show_session sessionID organizationID newExpiresAt =
     bnd (gets now (\<lambda>t. must_affect ''session not found or not active'' ''failed to extend session''
       (update_checked t_sessions put_sessions sessions_violation (active_session sessionID organizationID)
          (\<lambda>s. s\<lparr>ses_ExpiresAt := newExpiresAt, ses_LastUsedAt := t\<rparr>)))) (\<lambda>_.
     bnd (attempt (GetSession show_session sessionID organizationID)) (\<lambda>r. case r of
       Inl _ \<Rightarrow> ret ()
     | Inr session \<Rightarrow> gets now (\<lambda>t. ignore (cacheSession show_session
           (session\<lparr>ses_ExpiresAt := newExpiresAt, ses_LastUsedAt := t\<rparr>)))))"

definition RevokeAllUserSessions :: "string \<Rightarrow> string \<Rightarrow> unit query" where
  "RevokeAllUserSessions userID organizationID =
     bnd (wrap ''failed to revoke user sessions''
       (exec_on t_sessions put_sessions (\<lambda>d. update_where
          (\<lambda>s. ses_PrincipalID s = userID \<and> ses_PrincipalType s = ''user''
             \<and> ses_OrganizationID s = organizationID \<and> ses_Status s = ''active'')
          (\<lambda>s. s\<lparr>ses_Status := ''revoked'', ses_LastUsedAt := now d\<rparr>)))) (\<lambda>n.
     if n = 0 then ret ()
     else bnd (attempt (ListUserSessions userID organizationID)) (\<lambda>r.
       for_each (\<lambda>s. ignore (removeCachedSession (ses_ID s))) (case r of Inl _ \<Rightarrow> [] | Inr sessions \<Rightarrow> sessions)))"

text \<open>The revocation of the user endpoints (internal/queries/user.go), which leaves Redis alone.\<close>

definition active_of :: "string \<Rightarrow> string \<Rightarrow> Session \<Rightarrow> bool" where
  "active_of userID organizationID s \<longleftrightarrow> ses_PrincipalID s = userID \<and> ses_PrincipalType s = ''user''
     \<and> ses_OrganizationID s = organizationID \<and> ses_Status s = ''active''"

definition RevokeUserSessions :: "string \<Rightarrow> string \<Rightarrow> unit query" where
  "RevokeUserSessions userID organizationID = bnd (exec_on t_sessions (\<lambda>t d. d\<lparr>t_sessions := t\<rparr>)
     (\<lambda>d. update_where (active_of userID organizationID) (\<lambda>s. s\<lparr>ses_Status := ''revoked''\<rparr>))) (\<lambda>_. ret ())"

definition RevokeExpiredSessions :: "nat query" where
  "RevokeExpiredSessions = wrap ''failed to revoke expired sessions''
     (exec_on t_sessions put_sessions (\<lambda>d. update_where
        (\<lambda>s. ses_ExpiresAt s < now d \<and> ses_Status s = ''active'') (\<lambda>s. s\<lparr>ses_Status := ''expired''\<rparr>)))"

definition UpdateLastUsed :: "string \<Rightarrow> string \<Rightarrow> unit query" where
  "UpdateLastUsed sessionID organizationID = bnd (wrap ''failed to update last used''
     (exec_on t_sessions put_sessions (\<lambda>d. update_where (active_session sessionID organizationID)
        (\<lambda>s. s\<lparr>ses_LastUsedAt := now d\<rparr>)))) (\<lambda>_. ret ())"

definition CountActiveSessions :: "string \<Rightarrow> string \<Rightarrow> string \<Rightarrow> int query" where
  "CountActiveSessions organizationID principalID principalType = wrap ''failed to count active sessions''
     (select (\<lambda>d. int (length (filter (\<lambda>s. ses_PrincipalID s = principalID \<and> ses_PrincipalType s = principalType
        \<and> ses_OrganizationID s = organizationID \<and> ses_Status s = ''active'' \<and> ses_ExpiresAt s > now d) (t_sessions d)))))"

definition GetConcurrentSessions :: "string \<Rightarrow> string \<Rightarrow> string \<Rightarrow> Session list query" where
  "GetConcurrentSessions organizationID principalID principalType = ListUserSessions principalID organizationID"

record SessionStats =
  st_TotalSessions :: int
  st_ActiveSessions :: int
  st_ExpiredSessions :: int
  st_RevokedSessions :: int
  st_AverageSessionDuration :: int
  st_TotalSessionTime :: int
  st_UniqueUsers :: int
  st_GeneratedAt :: instant

text \<open>\<open>time.Duration(f) * time.Second\<close>: whole seconds, truncated towards zero; the sums are taken as exact.\<close>

definition whole_seconds :: "int \<Rightarrow> int \<Rightarrow> int" where
  "whole_seconds nanos n = sgn nanos * (\<bar>nanos\<bar> div (second * n)) * second"

definition session_stats :: "string \<Rightarrow> db \<Rightarrow> SessionStats" where
  "session_stats organizationID d = (let t = filter (\<lambda>s. ses_OrganizationID s = organizationID) (t_sessions d);
       count = (\<lambda>P. int (length (filter P t)));
       nanos = sum_list (map (\<lambda>s. ses_LastUsedAt s - ses_IssuedAt s) t)
     in \<lparr>st_TotalSessions = int (length t),
         st_ActiveSessions = count (\<lambda>s. ses_Status s = ''active'' \<and> ses_ExpiresAt s > now d),
         st_ExpiredSessions = count (\<lambda>s. ses_Status s = ''expired'' \<or> ses_ExpiresAt s \<le> now d),
         st_RevokedSessions = count (\<lambda>s. ses_Status s = ''revoked''),
         st_AverageSessionDuration = (if t = [] then 0 else whole_seconds nanos (int (length t))),
         st_TotalSessionTime = (if t = [] then 0 else whole_seconds nanos 1),
         st_UniqueUsers = int (length (remdups (map ses_PrincipalID (filter (\<lambda>s. ses_PrincipalType s = ''user'') t)))),
         st_GeneratedAt = now d\<rparr>)"

definition GetSessionStats :: "string \<Rightarrow> SessionStats query" where
  "GetSessionStats organizationID = wrap ''failed to get session stats'' (select (session_stats organizationID))"

section \<open>Lemmas\<close>

text \<open>The cache never answers, so GetSession is the query of the row.\<close>

lemma getCachedSession_fails: "\<exists>e. attempt (getCachedSession i) d = (Ok (Inl e), d)"
  by (auto simp: getCachedSession_def attempt_def bnd_def redis_get_run split: option.split redis_value.split)

lemma GetSession_uncached: "GetSession show_session i c d = fetch_session show_session i c d"
proof -
  obtain e where "attempt (getCachedSession i) d = (Ok (Inl e), d)" using getCachedSession_fails by blast
  then show ?thesis by (simp add: GetSession_def bnd_Ok)
qed

definition same_sessions :: "db \<Rightarrow> db \<Rightarrow> bool" where
  "same_sessions d d' \<longleftrightarrow> t_sessions d' = t_sessions d \<and> now d' = now d"

lemma same_sessions_order [keeps_intros]: "reflp same_sessions" "transp same_sessions"
  by (auto simp: reflp_def transp_def same_sessions_def)

lemma same_sessions_advance [keeps_intros]: "same_sessions d (advance d)"
  by (simp add: same_sessions_def)

lemma keeps_redis:
  assumes "\<And>d f. R d (d\<lparr>redis := f\<rparr>)" and "reflp R"
  shows "keeps R (redis_set k v ttl)" "keeps R (redis_del k)"
  unfolding redis_set_def redis_del_def
  using assms by (auto intro!: keeps_intros simp: reflp_def)

lemma same_sessions_redis [keeps_intros]:
  "keeps same_sessions (redis_set k v ttl)" "keeps same_sessions (redis_del k)"
  by (rule keeps_redis, simp add: same_sessions_def, rule same_sessions_order)+

lemma keeps_cacheSession [keeps_intros]: "keeps same_sessions (cacheSession show_session s)"
  unfolding cacheSession_def Let_def by (intro keeps_intros)

lemma fetch_session_Ok:
  assumes "fetch_session show_session i c d = (Ok s, d')"
  shows "s \<in> set (t_sessions d) \<and> active_session i c s \<and> now d \<le> ses_ExpiresAt s \<and> same_sessions d d'"
proof -
  from assms obtain d1 where q: "query_row ''session not found'' ''failed to get session''
      (\<lambda>d. find (active_session i c) (t_sessions d)) d = (Ok s, d1)" and live: "now d1 \<le> ses_ExpiresAt s"
    and c: "ignore (cacheSession show_session s) d1 = (Ok (), d')"
    by (auto simp: fetch_session_def elim!: bnd_OkE split: if_splits)
  from keepsD [OF keeps_ignore [OF same_sessions_order keeps_cacheSession] c] have "same_sessions d1 d'" .
  with query_row_Ok [OF q] live show ?thesis by (auto simp: same_sessions_def dest: find_SomeD)
qed

lemma GetSession_Ok:
  "GetSession show_session i c d = (Ok s, d') \<Longrightarrow>
     s \<in> set (t_sessions d) \<and> active_session i c s \<and> now d \<le> ses_ExpiresAt s \<and> same_sessions d d'"
  unfolding GetSession_uncached by (rule fetch_session_Ok)

lemma GetSessionByToken_Ok:
  "GetSessionByToken tok c d = (Ok s, d') \<Longrightarrow> s \<in> set (t_sessions d) \<and> ses_SessionToken s = tok
     \<and> ses_OrganizationID s = c \<and> ses_Status s = ''active'' \<and> now d \<le> ses_ExpiresAt s \<and> d' = advance d"
  by (auto simp: GetSessionByToken_def elim!: bnd_OkE dest!: query_row_Ok find_SomeD split: if_splits)

section \<open>Histories\<close>

text \<open>
  Every operation on the table of sessions, those of internal/queries/session_queries.go and
  RevokeUserSessions of internal/queries/user.go. Two writes that would bring the session \<open>i\<close> back are left
  out: an UpdateSession that sets its status to active, and a CreateSession with its id once its row has been
  deleted. The service does neither: UpdateSession and DeleteSession have no caller, and a session is created
  under a fresh identifier. \<open>other\<close> is any step, of the server or of the world, that leaves the rows of the
  table alone: time, Redis, faults and the other tables.
\<close>

inductive session_step :: "(string \<Rightarrow> string) \<Rightarrow> (Session \<Rightarrow> string) \<Rightarrow> string \<Rightarrow> db \<Rightarrow> db \<Rightarrow> bool"
  for jsonb show_session i where
  create: "CreateSession jsonb show_session s d = (r, d') \<Longrightarrow> ses_ID s \<noteq> i \<or> i \<in> ses_ID ` set (t_sessions d) \<Longrightarrow>
    session_step jsonb show_session i d d'"
| get: "GetSession show_session j c d = (x, d') \<Longrightarrow> session_step jsonb show_session i d d'"
| by_token: "GetSessionByToken tok c d = (x, d') \<Longrightarrow> session_step jsonb show_session i d d'"
| update: "UpdateSession jsonb show_session s c d = (r, d') \<Longrightarrow> ses_ID s \<noteq> i \<or> ses_Status s \<noteq> ''active'' \<Longrightarrow>
    session_step jsonb show_session i d d'"
| delete: "DeleteSession j c d = (r, d') \<Longrightarrow> session_step jsonb show_session i d d'"
| extend: "ExtendSession show_session j c t d = (r, d') \<Longrightarrow> session_step jsonb show_session i d d'"
| revoke: "RevokeSession j c d = (r, d') \<Longrightarrow> session_step jsonb show_session i d d'"
| revoke_all: "RevokeAllUserSessions u c d = (r, d') \<Longrightarrow> session_step jsonb show_session i d d'"
| revoke_user: "RevokeUserSessions u c d = (r, d') \<Longrightarrow> session_step jsonb show_session i d d'"
| expire: "RevokeExpiredSessions d = (n, d') \<Longrightarrow> session_step jsonb show_session i d d'"
| used: "UpdateLastUsed j c d = (r, d') \<Longrightarrow> session_step jsonb show_session i d d'"
| other: "t_sessions d' = t_sessions d \<Longrightarrow> session_step jsonb show_session i d d'"

text \<open>A session that is not active stays so.\<close>

definition dead_session :: "string \<Rightarrow> db \<Rightarrow> bool" where
  "dead_session i d \<longleftrightarrow> (\<forall>s \<in> set (t_sessions d). ses_ID s = i \<longrightarrow> ses_Status s \<noteq> ''active'')"

definition stays_dead :: "string \<Rightarrow> db \<Rightarrow> db \<Rightarrow> bool" where
  "stays_dead i d d' \<longleftrightarrow> (dead_session i d \<longrightarrow> dead_session i d')"

lemma stays_dead_order [keeps_intros]: "reflp (stays_dead i)" "transp (stays_dead i)"
  by (auto simp: reflp_def transp_def stays_dead_def)

lemma stays_dead_same: "t_sessions d' = t_sessions d \<Longrightarrow> stays_dead i d d'"
  by (simp add: stays_dead_def dead_session_def)

lemma stays_dead_advance [keeps_intros]: "stays_dead i d (advance d)"
  by (simp add: stays_dead_same)

lemma stays_dead_redis [keeps_intros]:
  "keeps (stays_dead i) (redis_set k v ttl)" "keeps (stays_dead i) (redis_del k)"
  by (rule keeps_redis, simp add: stays_dead_same, rule stays_dead_order)+

lemma stays_dead_map:
  assumes "\<And>s. ses_ID (f s) = ses_ID s"
    and "\<And>s. P s \<Longrightarrow> ses_ID s = i \<Longrightarrow> ses_Status (f s) = ''active'' \<Longrightarrow> ses_Status s = ''active''"
  shows "stays_dead i d (put_sessions (map (\<lambda>s. if P s then f s else s) (t_sessions (advance d))) (advance d))"
  using assms by (auto simp: stays_dead_def dead_session_def)

lemma stays_dead_where [keeps_intros]:
  assumes "\<And>t s. ses_ID (f t s) = ses_ID s"
    and "\<And>t s. P t s \<Longrightarrow> ses_Status (f t s) = ''active'' \<Longrightarrow> ses_Status s = ''active''"
  shows "keeps (stays_dead i) (exec_on t_sessions put_sessions (\<lambda>d. update_where (P (now d)) (f (now d))))"
  by (intro keeps_intros) (simp only: snd_update_where, rule stays_dead_map, rule assms, rule assms)

lemma stays_dead_insert:
  assumes "ses_ID s \<noteq> i"
  shows "stays_dead i d (put_sessions (t_sessions d @ [s]) (advance d))"
  using assms by (auto simp: stays_dead_def dead_session_def)

text \<open>An id that is in the table is not inserted again.\<close>

lemma CreateSession_taken:
  assumes "CreateSession jsonb show_session s d = (r, d')" and "ses_ID s \<in> ses_ID ` set (t_sessions d)"
  shows "t_sessions d' = t_sessions d"
proof -
  let ?row = "s\<lparr>ses_Permissions := jsonb (ses_Permissions s), ses_Context := jsonb (ses_Context s),
              ses_Location := jsonb (ses_Location s)\<rparr>"
  let ?R = "\<lambda>a b. ses_ID s \<in> ses_ID ` set (t_sessions a) \<longrightarrow> t_sessions b = t_sessions a"
  have R: "reflp ?R" "transp ?R" by (auto simp: reflp_def transp_def)
  have free: "sessions_violation (t_sessions x @ [?row]) = None \<Longrightarrow> ses_ID s \<notin> ses_ID ` set (t_sessions x)" for x
    by (auto simp: sessions_violation_def split: if_splits)
  have "keeps ?R (CreateSession jsonb show_session s)"
    unfolding CreateSession_def cacheSession_def Let_def redis_set_def
    by (intro keeps_intros R) (auto dest: free)
  from keepsD [OF this assms(1)] assms(2) show ?thesis by simp
qed

lemma stays_dead_cache [keeps_intros]: "keeps (stays_dead i) (cacheSession show_session s)"
  unfolding cacheSession_def Let_def by (intro keeps_intros)

lemma stays_dead_revoke [keeps_intros]: "keeps (stays_dead i) (RevokeSession j c)"
  unfolding RevokeSession_def removeCachedSession_def by (intro keeps_intros) simp_all

lemma stays_dead_get [keeps_intros]: "keeps (stays_dead i) (GetSession show_session j c)"
  unfolding GetSession_uncached [abs_def] fetch_session_def by (intro keeps_intros)

lemma stays_dead_by_token: "keeps (stays_dead i) (GetSessionByToken tok c)"
  unfolding GetSessionByToken_def by (intro keeps_intros)

lemma stays_dead_create: "ses_ID s \<noteq> i \<Longrightarrow> keeps (stays_dead i) (CreateSession jsonb show_session s)"
  unfolding CreateSession_def by (intro keeps_intros) (simp add: stays_dead_insert)

lemma stays_dead_update:
  "ses_ID s \<noteq> i \<or> ses_Status s \<noteq> ''active'' \<Longrightarrow> keeps (stays_dead i) (UpdateSession jsonb show_session s c)"
  unfolding UpdateSession_def by (intro keeps_intros) (rule stays_dead_map, auto)

lemma stays_dead_delete: "keeps (stays_dead i) (DeleteSession j c)"
  unfolding DeleteSession_def removeCachedSession_def
  by (intro keeps_intros) (simp add: snd_delete_where stays_dead_def dead_session_def)

lemma stays_dead_revoke_user: "keeps (stays_dead i) (RevokeUserSessions u c)"
  unfolding RevokeUserSessions_def by (intro keeps_intros) simp_all

lemma stays_dead_extend: "keeps (stays_dead i) (ExtendSession show_session j c t)"
  unfolding ExtendSession_def by (intro keeps_intros) (rule stays_dead_map, simp_all)

lemma stays_dead_list [keeps_intros]: "keeps (stays_dead i) (ListUserSessions u c)"
  unfolding ListUserSessions_def ListSessions_def Let_def by (intro keeps_intros)

lemma stays_dead_revoke_all: "keeps (stays_dead i) (RevokeAllUserSessions u c)"
  unfolding RevokeAllUserSessions_def removeCachedSession_def by (intro keeps_intros) simp_all

lemma stays_dead_expire: "keeps (stays_dead i) RevokeExpiredSessions"
  unfolding RevokeExpiredSessions_def by (intro keeps_intros) simp_all

lemma stays_dead_used: "keeps (stays_dead i) (UpdateLastUsed j c)"
  unfolding UpdateLastUsed_def by (intro keeps_intros) simp_all

lemmas stays_dead_ops = stays_dead_get stays_dead_by_token stays_dead_delete stays_dead_extend stays_dead_revoke
  stays_dead_revoke_all stays_dead_revoke_user stays_dead_expire stays_dead_used

lemma session_step_dead: "session_step jsonb show_session i d d' \<Longrightarrow> stays_dead i d d'"
proof (induction rule: session_step.induct)
  case (create s d r d')
  show ?case
  proof (cases "ses_ID s = i")
    case True
    with create CreateSession_taken [OF create(1)] show ?thesis by (intro stays_dead_same) simp
  next
    case False
    from keepsD [OF stays_dead_create [OF False] create(1)] show ?thesis .
  qed
next
  case (update s c d r d')
  from keepsD [OF stays_dead_update [OF update(2)] update(1)] show ?case .
qed (auto dest: stays_dead_ops [THEN keepsD] intro: stays_dead_same)

lemma session_steps_dead: "(session_step jsonb show_session i)\<^sup>*\<^sup>* d d' \<Longrightarrow> stays_dead i d d'"
  by (erule related_by_steps) (rule stays_dead_order session_step_dead, assumption?)+

lemma RevokeSession_done:
  assumes "RevokeSession i c d = (Ok u, d')"
  shows "(\<exists>s \<in> set (t_sessions d). ses_ID s = i \<and> ses_OrganizationID s = c) \<and>
    t_sessions d' = map (\<lambda>s. if ses_ID s = i \<and> ses_OrganizationID s = c
      then s\<lparr>ses_Status := ''revoked'', ses_LastUsedAt := now d\<rparr> else s) (t_sessions d)"
proof -
  let ?upd = "\<lambda>d. update_where (\<lambda>s. ses_ID s = i \<and> ses_OrganizationID s = c)
     (\<lambda>s. s\<lparr>ses_Status := ''revoked'', ses_LastUsedAt := now d\<rparr>)"
  from assms obtain n d1 where n: "n > 0" and run: "exec_on t_sessions put_sessions ?upd d = (Ok n, d1)"
    and rest: "ignore (removeCachedSession i) d1 = (Ok u, d')"
    unfolding RevokeSession_def by (auto elim!: bnd_OkE simp: must_affect_Ok)
  note eqs = exec_on_Ok [OF run, unfolded advance_tables]
  have "keeps same_sessions (removeCachedSession i)"
    unfolding removeCachedSession_def by (rule same_sessions_redis)
  from keepsD [OF keeps_ignore [OF same_sessions_order this] rest] have "t_sessions d' = t_sessions d1"
    by (simp add: same_sessions_def)
  moreover from n eqs have "fst (?upd d (t_sessions d)) \<noteq> 0" by linarith
  ultimately show ?thesis using eqs unfolding fst_update_where_0 by (auto simp: snd_update_where)
qed

lemma revoked_dead:
  assumes "RevokeSession i c d = (Ok u, d')" and "distinct (map ses_ID (t_sessions d))"
  shows "dead_session i d'"
proof -
  from RevokeSession_done [OF assms(1)] obtain s where s: "s \<in> set (t_sessions d)" "ses_ID s = i"
    "ses_OrganizationID s = c" and eq: "t_sessions d' = map (\<lambda>s. if ses_ID s = i \<and> ses_OrganizationID s = c
      then s\<lparr>ses_Status := ''revoked'', ses_LastUsedAt := now d\<rparr> else s) (t_sessions d)" by blast
  have "x = s" if "x \<in> set (t_sessions d)" "ses_ID x = i" for x
    using distinct_key_unique [OF assms(2) that(1) s(1)] that(2) s(2) by simp
  then have only: "ses_OrganizationID x = c" if "x \<in> set (t_sessions d)" "ses_ID x = i" for x
    using that s(3) by blast
  have dead: "ses_Status y = ''revoked''" if y: "y \<in> set (t_sessions d')" "ses_ID y = i" for y
  proof -
    from y(1) [unfolded eq set_map] obtain x where x: "x \<in> set (t_sessions d)" and
      yx: "y = (if ses_ID x = i \<and> ses_OrganizationID x = c
        then x\<lparr>ses_Status := ''revoked'', ses_LastUsedAt := now d\<rparr> else x)" by (rule imageE)
    from y(2) yx have "ses_ID x = i" by (cases "ses_ID x = i \<and> ses_OrganizationID x = c") simp_all
    with only [OF x] yx show ?thesis by simp
  qed
  then show ?thesis unfolding dead_session_def by simp
qed

section \<open>Revoking everything of a user\<close>

lemma not_after_update:
  assumes "x \<in> set (map (\<lambda>r. if P r then f r else r) t)" and "\<And>r. P r \<Longrightarrow> \<not> P (f r)"
  shows "\<not> P x"
proof -
  from assms(1) obtain r where "x = (if P r then f r else r)" unfolding set_map by (rule imageE)
  with assms(2) [of r] show ?thesis by (cases "P r") simp_all
qed

lemma no_active_page:
  assumes "\<forall>s \<in> set (t_sessions d). \<not> (ses_OrganizationID s = c \<and> ses_PrincipalID s = u \<and> ses_PrincipalType s = ''user''
      \<and> ses_Status s = ''active'')" and "u \<noteq> []"
    and "ListUserSessions u c d = (Ok xs, d')"
  shows "xs = []"
proof -
  have none: "filter (\<lambda>s. ses_OrganizationID s = c \<and> (u \<noteq> [] \<longrightarrow> ses_PrincipalID s = u)
      \<and> (''user'' \<noteq> [] \<longrightarrow> ses_PrincipalType s = ''user'') \<and> ses_Status s = ''active'') (t_sessions d) = []"
    using assms(1,2) by (auto simp: filter_empty_conv)
  show ?thesis
    using assms(3) none
    by (auto simp: ListUserSessions_def ListSessions_def Let_def list_result_def go_div_def select_page_def order_desc_def
        elim!: bnd_OkE stmt_OkE split: if_splits)
qed

text \<open>After RevokeAllUserSessions has succeeded no session of the user is active in the organization, and
  Redis is exactly as it was: the loop that is meant to drop the cached sessions lists the user's active
  sessions after the update that leaves none, so it never removes a key.\<close>

lemma RevokeAllUserSessions_done:
  assumes "RevokeAllUserSessions u c d = (Ok (), d')" and "u \<noteq> []"
  shows "(\<forall>s \<in> set (t_sessions d'). ses_PrincipalID s = u \<and> ses_PrincipalType s = ''user'' \<and> ses_OrganizationID s = c \<longrightarrow>
      ses_Status s \<noteq> ''active'') \<and> redis d' = redis d"
proof -
  let ?P = "\<lambda>s. ses_PrincipalID s = u \<and> ses_PrincipalType s = ''user'' \<and> ses_OrganizationID s = c \<and> ses_Status s = ''active''"
  from assms(1) obtain n d1 where
    run: "exec_on t_sessions put_sessions (\<lambda>d. update_where ?P (\<lambda>s. s\<lparr>ses_Status := ''revoked'', ses_LastUsedAt := now d\<rparr>)) d = (Ok n, d1)"
    and rest: "(if n = 0 then ret () else bnd (attempt (ListUserSessions u c)) (\<lambda>r.
       for_each (\<lambda>s. ignore (removeCachedSession (ses_ID s))) (case r of Inl _ \<Rightarrow> [] | Inr sessions \<Rightarrow> sessions))) d1 = (Ok (), d')"
    unfolding RevokeAllUserSessions_def by (auto elim!: bnd_OkE)
  from exec_on_Ok [OF run] have t1: "t_sessions d1 = map (\<lambda>s. if ?P s then s\<lparr>ses_Status := ''revoked'', ses_LastUsedAt := now d\<rparr> else s) (t_sessions d)"
    and r1: "redis d1 = redis d" by (simp_all add: snd_update_where)
  have none: "\<not> ?P s" if "s \<in> set (t_sessions d1)" for s
    using that unfolding t1 by (rule not_after_update) simp
  have "t_sessions d' = t_sessions d1 \<and> redis d' = redis d1"
  proof (cases "n = 0")
    case False
    with rest obtain r d2 where l: "attempt (ListUserSessions u c) d1 = (Ok r, d2)" and
      f: "for_each (\<lambda>s. ignore (removeCachedSession (ses_ID s))) (case r of Inl _ \<Rightarrow> [] | Inr sessions \<Rightarrow> sessions) d2 = (Ok (), d')"
      by (auto elim!: bnd_OkE)
    have "keeps (\<lambda>d d'. t_sessions d' = t_sessions d \<and> redis d' = redis d) (attempt (ListUserSessions u c))"
      unfolding ListUserSessions_def ListSessions_def Let_def
      by (intro keeps_intros) (auto simp: reflp_def transp_def)
    from keepsD [OF this l] have "t_sessions d2 = t_sessions d1 \<and> redis d2 = redis d1" .
    moreover have "(case r of Inl _ \<Rightarrow> [] | Inr sessions \<Rightarrow> sessions) = []"
    proof (cases r)
      case (Inr xs)
      with l have "ListUserSessions u c d1 = (Ok xs, d2)"
        by (auto simp: attempt_def split: prod.splits res.splits)
      with no_active_page [OF _ assms(2), of d1] none Inr show ?thesis by auto
    qed simp
    ultimately show ?thesis using f by simp
  qed (use rest in simp)
  with none r1 show ?thesis by auto
qed

definition stale_session_db :: db where
  "stale_session_db = (empty_db 1)\<lparr>redis := [''session:s1'' \<mapsto> (RString ''cached'', None)],
     t_sessions := [\<lparr>ses_ID = ''s1'', ses_SessionToken = ''tok'', ses_PrincipalID = ''u1'', ses_PrincipalType = ''user'',
     ses_OrganizationID = ''o1'', ses_AssumedRoleID = None, ses_Permissions = ''{}'', ses_Context = ''{}'',
     ses_MFAVerified = False, ses_MFAMethodsUsed = [], ses_IPAddress = None, ses_UserAgent = None,
     ses_DeviceFingerprint = None, ses_Location = ''{}'', ses_IssuedAt = 0, ses_ExpiresAt = 100,
     ses_LastUsedAt = 0, ses_Status = ''active''\<rparr>]\<rparr>"

end
