(* ===== verification/SessionHandler.thy ===== *)
theory SessionHandler
  imports SessionStore Http
begin

text \<open>
  The session endpoints of internal/handlers/handlers.go. The token of a session is parsed without
  verification by the JWT library: \<open>unverified\<close> gives its \<open>jti\<close> and expiry when it has a string \<open>jti\<close>.
  The duration of an extension arrives as the result of \<open>time.ParseDuration\<close>.
\<close>

definition isValidSortField :: "string \<Rightarrow> string list \<Rightarrow> bool" where
  "isValidSortField field validFields = list_ex (\<lambda>v. v = field) validFields"

definition handle_ListSessions ::
  "(string \<Rightarrow> string \<Rightarrow> Session list \<Rightarrow> Session list) \<Rightarrow> fiber_ctx \<Rightarrow> int \<Rightarrow> int \<Rightarrow> string \<Rightarrow> string \<Rightarrow>
    Session ListResult handler" where
  "handle_ListSessions sorted_by c limit_q offset_q sort_by order =
     (let params = \<lparr>lp_Limit = (if limit_q > 0 \<and> limit_q \<le> 100 then limit_q else 50),
            lp_Offset = (if offset_q \<ge> 0 then offset_q else 0),
            lp_SortBy = (if sort_by \<noteq> [] \<and> isValidSortField sort_by [''last_used_at'', ''issued_at'', ''expires_at'', ''status'']
              then sort_by else ''last_used_at''),
            lp_Order = (if order = ''asc'' \<or> order = ''desc'' then order else ''desc'')\<rparr>
      in bnd (local_string (c_user_id c)) (\<lambda>principalID. bnd (local_string (c_organization_id c)) (\<lambda>orgID.
         on_error (ListSessions sorted_by params orgID principalID ''user'')
           (\<lambda>_. apiError 500 ''internal_server_error'' ''Failed to list sessions'')
           (apiSuccess 200 []))))"

text \<open>The answer to an error of GetSession, with the status that the endpoint gives to a missing session.\<close>

definition session_error :: "nat \<Rightarrow> string \<Rightarrow> string \<Rightarrow> 'a handler" where
  "session_error status code e =
     (if contains e ''not found'' \<or> contains e ''expired''
      then apiError status code ''Session not found or expired''
      else apiError 500 ''internal_server_error'' ''Failed to retrieve session'')"

definition handle_GetCurrentSession :: "(Session \<Rightarrow> string) \<Rightarrow> fiber_ctx \<Rightarrow> Session handler" where
  "handle_GetCurrentSession show_session c = (let sessionID = local (c_session_id c) in
     if sessionID = [] then apiError 401 ''no_session'' ''No active session found''
     else bnd (local_string (c_organization_id c)) (\<lambda>orgID.
       on_error (GetSession show_session sessionID orgID) (session_error 401 ''session_invalid'')
         (\<lambda>session. bnd (ignore (UpdateLastUsed sessionID orgID)) (\<lambda>_.
            apiSuccess 200 [] (session\<lparr>ses_SessionToken := []\<rparr>)))))"

definition handle_RevokeCurrentSession :: "fiber_ctx \<Rightarrow> unit handler" where
  "handle_RevokeCurrentSession c = (let sessionID = local (c_session_id c) in
     if sessionID = [] then apiError 401 ''no_session'' ''No active session found''
     else bnd (local_string (c_organization_id c)) (\<lambda>orgID.
       on_error (RevokeSession sessionID orgID)
         (\<lambda>e. if contains e ''not found'' then apiError 401 ''session_not_found'' ''Session not found''
            else apiError 500 ''internal_server_error'' ''Failed to revoke session'')
         (\<lambda>_. apiSuccess 200 ''Session revoked successfully'' ())))"

definition is_admin_role :: "string \<Rightarrow> bool" where
  "is_admin_role role \<longleftrightarrow> role = ''admin'' \<or> role = ''super_admin''"

text \<open>Access to another user's session needs an admin role; the role is only read when it matters.\<close>

definition own_or_admin :: "fiber_ctx \<Rightarrow> Session \<Rightarrow> string \<Rightarrow> 'a handler \<Rightarrow> 'a handler" where
  "own_or_admin c session message k = bnd (local_string (c_user_id c)) (\<lambda>currentUserID.
     if ses_PrincipalID session \<noteq> currentUserID \<and> ses_PrincipalType session = ''user''
     then bnd (local_string (c_role c)) (\<lambda>userRole.
       if \<not> is_admin_role userRole then apiError 403 ''access_denied'' message else k)
     else k)"

definition handle_GetSession :: "(Session \<Rightarrow> string) \<Rightarrow> fiber_ctx \<Rightarrow> Session handler" where
  "handle_GetSession show_session c = (let sessionID = c_Param_id c in
     if sessionID = [] then apiError 400 ''invalid_request'' ''Session ID is required''
     else bnd (local_string (c_organization_id c)) (\<lambda>orgID.
       on_error (GetSession show_session sessionID orgID) (session_error 404 ''session_not_found'')
         (\<lambda>session. own_or_admin c session ''You can only view your own sessions''
            (apiSuccess 200 [] (session\<lparr>ses_SessionToken := []\<rparr>)))))"

definition blacklist_token :: "(string \<Rightarrow> (string \<times> instant) option) \<Rightarrow> string \<Rightarrow> unit query" where
  "blacklist_token unverified token = (if token = [] then ret ()
     else case unverified token of None \<Rightarrow> ret ()
     | Some (jti, exp) \<Rightarrow> gets now (\<lambda>t. if exp - t > 0
         then ignore (redis_set (''blacklist:jti:'' @ jti) (RString ''revoked'') (exp - t)) else ret ()))"

definition handle_RevokeSession ::
  "(string \<Rightarrow> (string \<times> instant) option) \<Rightarrow> (Session \<Rightarrow> string) \<Rightarrow> fiber_ctx \<Rightarrow> unit handler" where
  "handle_RevokeSession unverified show_session c = (let sessionID = c_Param_id c in
     if sessionID = [] then apiError 400 ''invalid_request'' ''Session ID is required''
     else bnd (local_string (c_organization_id c)) (\<lambda>orgID.
       on_error (GetSession show_session sessionID orgID) (session_error 404 ''session_not_found'')
         (\<lambda>session. bnd (local_string (c_user_id c)) (\<lambda>currentUserID. bnd (local_string (c_role c)) (\<lambda>userRole.
            if \<not> is_admin_role userRole \<and> ses_PrincipalID session \<noteq> currentUserID
            then apiError 403 ''access_denied'' ''You can only revoke your own sessions''
            else bnd (blacklist_token unverified (ses_SessionToken session)) (\<lambda>_.
              on_error (RevokeSession sessionID orgID)
                (\<lambda>_. apiError 500 ''internal_server_error'' ''Failed to revoke session'')
                (\<lambda>_. apiSuccess 200 ''Session revoked successfully'' ())))))))"

definition invalid_duration :: "'a handler" where
  "invalid_duration = apiError 400 ''invalid_duration''
     (let q = [CHR 0x27] in ''Invalid duration format. Use formats like '' @ q @ ''2h'' @ q @ '', '' @ q @ ''30m'' @ q
        @ '', '' @ q @ ''1h30m'' @ q)"

definition hour :: int where
  "hour = 3600 * second"

text \<open>
  \<open>body = None\<close> is a request whose body does not parse, for which the code takes \<open>1h\<close>; \<open>Some None\<close> one
  whose duration \<open>time.ParseDuration\<close> rejects.
\<close>

definition handle_ExtendSession ::
  "(Session \<Rightarrow> string) \<Rightarrow> fiber_ctx \<Rightarrow> int option option \<Rightarrow> Session option handler" where
  "handle_ExtendSession show_session c body = (let sessionID = c_Param_id c in
     if sessionID = [] then apiError 400 ''invalid_request'' ''Session ID is required''
     else case (case body of None \<Rightarrow> Some hour | Some parsed \<Rightarrow> parsed) of
       None \<Rightarrow> invalid_duration
     | Some requested \<Rightarrow>
         if requested \<le> 0 then invalid_duration
         else let duration = (if requested > 24 * hour then 24 * hour else requested)
           in bnd (local_string (c_organization_id c)) (\<lambda>orgID.
             on_error (GetSession show_session sessionID orgID) (session_error 404 ''session_not_found'')
               (\<lambda>session. own_or_admin c session ''You can only extend your own sessions'' (gets now (\<lambda>t.
                  on_error (ExtendSession show_session sessionID orgID (t + duration))
                    (\<lambda>e. if contains e ''not found'' \<or> contains e ''not active''
                       then apiError 404 ''session_not_found'' ''Session not found or not active''
                       else apiError 500 ''internal_server_error'' ''Failed to extend session'')
                    (\<lambda>_. on_error (GetSession show_session sessionID orgID)
                       (\<lambda>_. apiSuccess 200 ''Session extended successfully'' None)
                       (\<lambda>updated. apiSuccess 200 [] (Some (updated\<lparr>ses_SessionToken := []\<rparr>)))))))))"

section \<open>Inversion of the handlers\<close>

lemma session_error_no_Success [simp]: "session_error status code e d \<noteq> (Ok (Success st m x), d')"
  by (auto simp: session_error_def)

lemma invalid_duration_no_Success [simp]: "invalid_duration d \<noteq> (Ok (Success st m x), d')"
  by (auto simp: invalid_duration_def)

lemma local_string_Ok: "local_string v d = (Ok x, d') \<Longrightarrow> v = Some x \<and> d' = d"
  by (auto simp: local_string_def split: option.splits)

lemma bnd_local_string: "bnd (local_string (Some x)) k = k x"
  by (simp add: fun_eq_iff bnd_def)

lemma own_or_admin_Success:
  assumes "own_or_admin c session message k d = (Ok (Success st m x), d')"
  shows "k d = (Ok (Success st m x), d') \<and>
    (c_user_id c = Some (ses_PrincipalID session) \<or> ses_PrincipalType session \<noteq> ''user''
     \<or> (\<exists>r. c_role c = Some r \<and> is_admin_role r))"
  using assms unfolding own_or_admin_def
  by (auto elim!: bnd_OkE dest!: local_string_Ok split: if_splits)

definition sample_session :: Session where
  "sample_session = \<lparr>ses_ID = ''s1'', ses_SessionToken = ''tok'', ses_PrincipalID = ''u1'', ses_PrincipalType = ''user'',
     ses_OrganizationID = ''o1'', ses_AssumedRoleID = None, ses_Permissions = ''{}'', ses_Context = ''{}'',
     ses_MFAVerified = False, ses_MFAMethodsUsed = [], ses_IPAddress = None, ses_UserAgent = None,
     ses_DeviceFingerprint = None, ses_Location = ''{}'', ses_IssuedAt = 0, ses_ExpiresAt = hour,
     ses_LastUsedAt = 0, ses_Status = ''active''\<rparr>"

definition session_db :: db where
  "session_db = (empty_db 1)\<lparr>t_sessions := [sample_session]\<rparr>"

definition session_ctx :: fiber_ctx where
  "session_ctx = (sample_ctx ''tok'')\<lparr>c_user_id := Some ''u1'', c_organization_id := Some ''o1'', c_role := Some ''user'',
     c_Param_id := ''s1''\<rparr>"

section \<open>Properties\<close>

text \<open>C38. Once RevokeSession has succeeded (ids being the primary key of the table), no later history of the session
  operations makes the session readable again: GetSession fails for it in every organization and
  GetSessionByToken never yields it, whatever the faults, the clock, Redis and the rest of the database do in
  between. The history is any sequence of the operations of session_queries.go and of RevokeUserSessions of
  user.go, but for two writes that no endpoint reaches: an UpdateSession that sets the session's own status to
  active, and a CreateSession with its id after a DeleteSession has removed its row.\<close>

theorem revoked_session_final:
  assumes "RevokeSession i c d = (Ok u, d1)" and "distinct (map ses_ID (t_sessions d))"
    and "(session_step jsonb show_session i)\<^sup>*\<^sup>* d1 d2"
  shows "fst (GetSession show_session i c' d2) \<noteq> Ok s \<and> (fst (GetSessionByToken tok c' d2) = Ok s' \<longrightarrow> ses_ID s' \<noteq> i)"
proof -
  from session_steps_dead [OF assms(3)] revoked_dead [OF assms(1,2)] have dead: "dead_session i d2"
    by (auto simp: stays_dead_def)
  have "fst (GetSession show_session i c' d2) \<noteq> Ok s"
  proof
    assume "fst (GetSession show_session i c' d2) = Ok s"
    then have "GetSession show_session i c' d2 = (Ok s, snd (GetSession show_session i c' d2))" by (simp add: prod_eq_iff)
    from GetSession_Ok [OF this] dead show False by (auto simp: dead_session_def active_session_def)
  qed
  moreover have "ses_ID s' \<noteq> i" if "fst (GetSessionByToken tok c' d2) = Ok s'"
  proof -
    from that have "GetSessionByToken tok c' d2 = (Ok s', snd (GetSessionByToken tok c' d2))" by (simp add: prod_eq_iff)
    from GetSessionByToken_Ok [OF this] dead show ?thesis by (auto simp: dead_session_def)
  qed
  ultimately show ?thesis by blast
qed

theorem revoked_session_final_witness:
  "\<exists>d1 d2. RevokeSession ''s1'' ''o1'' session_db = (Ok (), d1) \<and>
     ExtendSession (\<lambda>_. []) ''s1'' ''o1'' (2 * hour) d1 = (Err ''session not found or not active'', d2) \<and>
     fst (GetSession (\<lambda>_. []) ''s1'' ''o1'' d2) \<noteq> Ok sample_session"
proof -
  let ?d1 = "snd (RevokeSession ''s1'' ''o1'' session_db)"
  let ?d2 = "snd (ExtendSession (\<lambda>_. []) ''s1'' ''o1'' (2 * hour) ?d1)"
  have "fst (RevokeSession ''s1'' ''o1'' session_db) = Ok ()" by code_simp
  then have 1: "RevokeSession ''s1'' ''o1'' session_db = (Ok (), ?d1)" by (simp add: prod_eq_iff)
  have "fst (ExtendSession (\<lambda>_. []) ''s1'' ''o1'' (2 * hour) ?d1) = Err ''session not found or not active''" by code_simp
  then have 2: "ExtendSession (\<lambda>_. []) ''s1'' ''o1'' (2 * hour) ?d1 = (Err ''session not found or not active'', ?d2)"
    by (simp add: prod_eq_iff)
  have "session_step id (\<lambda>_. []) ''s1'' ?d1 ?d2" by (rule session_step.extend [OF 2])
  then have "(session_step id (\<lambda>_. []) ''s1'')\<^sup>*\<^sup>* ?d1 ?d2" by blast
  moreover have "distinct (map ses_ID (t_sessions session_db))" by code_simp
  ultimately have "fst (GetSession (\<lambda>_. []) ''s1'' ''o1'' ?d2) \<noteq> Ok sample_session"
    using revoked_session_final [OF 1] by blast
  with 1 2 show ?thesis by blast
qed

text \<open>The excluded write would bring the session back: UpdateSession writes any status.\<close>

lemma updated_session_returns:
  "fst (bnd (RevokeSession ''s1'' ''o1'') (\<lambda>_. bnd (UpdateSession id (\<lambda>_. []) sample_session ''o1'')
     (\<lambda>_. GetSession (\<lambda>_. []) ''s1'' ''o1'')) session_db) = Ok sample_session"
  by code_simp

text \<open>A successful response of GET /sessions/{id} shows a stored session of the caller's organization that
  is active and not expired, without its token; it is the caller's own, or the caller is an admin, or
  the session is not a user's (then every member of the organization may read it).\<close>

lemma handle_GetSession_visible:
  assumes "handle_GetSession show_session c d = (Ok (Success st m s), d')"
  shows "\<exists>row \<in> set (t_sessions d). \<exists>org. c_organization_id c = Some org \<and>
    active_session (c_Param_id c) org row \<and> now d \<le> ses_ExpiresAt row \<and> s = row\<lparr>ses_SessionToken := []\<rparr> \<and>
    (c_user_id c = Some (ses_PrincipalID row) \<or> ses_PrincipalType row \<noteq> ''user'' \<or> (\<exists>r. c_role c = Some r \<and> is_admin_role r))"
proof -
  from assms obtain org row d1 where org: "c_organization_id c = Some org"
    and g: "GetSession show_session (c_Param_id c) org d = (Ok row, d1)"
    and k: "own_or_admin c row ''You can only view your own sessions''
      (apiSuccess 200 [] (row\<lparr>ses_SessionToken := []\<rparr>)) d1 = (Ok (Success st m s), d')"
    by (auto simp: handle_GetSession_def Let_def elim!: bnd_OkE on_error_OkE dest!: local_string_Ok split: if_splits)
  from GetSession_Ok [OF g] own_or_admin_Success [OF k] org show ?thesis by auto
qed

text \<open>
  What RequireAuth reads of the database for a token: the clock, whether Redis answers, and one key.
\<close>

definition same_key :: "string \<Rightarrow> db \<Rightarrow> db \<Rightarrow> bool" where
  "same_key k d d' \<longleftrightarrow> now d' = now d \<and> redis_up d' = redis_up d \<and> redis d' k = redis d k"

lemma same_key_order [keeps_intros]: "reflp (same_key k)" "transp (same_key k)"
  by (auto simp: reflp_def transp_def same_key_def)

lemma same_key_advance [keeps_intros]: "same_key k d (advance d)"
  by (simp add: same_key_def)

lemma same_key_set: "j \<noteq> k \<Longrightarrow> keeps (same_key k) (redis_set j v ttl)"
  unfolding redis_set_def by (intro keeps_intros) (simp add: same_key_def)

lemma same_key_del: "j \<noteq> k \<Longrightarrow> keeps (same_key k) (redis_del j)"
  unfolding redis_del_def by (intro keeps_intros) (simp add: same_key_def)

lemma same_key_session:
  assumes "\<And>i. session_key i \<noteq> k"
  shows "keeps (same_key k) (RevokeSession i c)" "keeps (same_key k) (GetSession show_session i c)"
proof -
  show r: "keeps (same_key k) (RevokeSession i c)" for i c
    unfolding RevokeSession_def removeCachedSession_def
    by (intro keeps_intros same_key_del assms) (simp add: same_key_def)
  show "keeps (same_key k) (GetSession show_session i c)"
    unfolding GetSession_uncached [abs_def] fetch_session_def cacheSession_def Let_def
    by (intro keeps_intros r same_key_set assms)
qed

lemma same_key_authenticated:
  assumes "same_key (''blacklist:'' @ cl_JTI claims) d d'" and "authenticated lib am c d = Some claims"
  shows "authenticated lib am c d' = Some claims"
  using assms by (auto simp: authenticated_def same_key_def redis_lookup_def split: if_splits option.splits)

text \<open>C39. Revoking a session through DELETE /sessions/{id} does not stop its access token: whatever the
  handler answers, every request that RequireAuth accepts before, with a token whose \<open>jti\<close> does not
  itself start with \<open>jti:\<close>, is accepted afterwards with the same claims, the revoked session's own token
  included. The handler writes the key \<open>blacklist:jti:<jti>\<close>, and the middleware reads \<open>blacklist:<jti>\<close>.\<close>

theorem revoked_session_token_survives:
  assumes "authenticated lib am c d = Some claims" and "\<not> prefix ''jti:'' (cl_JTI claims)"
    and "handle_RevokeSession unverified show_session request d = (r, d')"
  shows "authenticated lib am c d' = Some claims"
proof -
  let ?k = "''blacklist:'' @ cl_JTI claims"
  have "session_key i \<noteq> ?k" for i by (simp add: session_key_def)
  note [keeps_intros] = same_key_session [OF this]
  have "''blacklist:jti:'' @ j \<noteq> ?k" for j
  proof
    assume "''blacklist:jti:'' @ j = ?k"
    then have "cl_JTI claims = ''jti:'' @ j" by simp
    with assms(2) show False by (metis prefixI)
  qed
  then have "keeps (same_key ?k) (blacklist_token unverified token)" for token
    unfolding blacklist_token_def by (auto intro!: keeps_intros same_key_set split: option.split)
  then have "keeps (same_key ?k) (handle_RevokeSession unverified show_session request)"
    unfolding handle_RevokeSession_def session_error_def Let_def by (intro keeps_intros)
  from keepsD [OF this assms(3)] assms(1) show ?thesis by (rule same_key_authenticated)
qed

theorem revoked_session_token_survives_witness:
  "\<exists>d'. handle_RevokeSession (\<lambda>t. Some (''j1'', 500 * second)) (\<lambda>_. []) session_ctx
       (session_db\<lparr>now := 100\<rparr>) = (Ok (Success 200 ''Session revoked successfully'' ()), d') \<and>
     authenticated sample_lib sample_am (sample_ctx ''s1'') d' = Some sample_claims"
proof -
  let ?d = "session_db\<lparr>now := 100\<rparr>"
  let ?run = "handle_RevokeSession (\<lambda>t. Some (''j1'', 500 * second)) (\<lambda>_. []) session_ctx ?d"
  have "fst ?run = Ok (Success 200 ''Session revoked successfully'' ())" by code_simp
  then have run: "?run = (Ok (Success 200 ''Session revoked successfully'' ()), snd ?run)" by (simp add: prod_eq_iff)
  have "same_key (''blacklist:'' @ cl_JTI sample_claims) (empty_db 100) ?d"
    by (simp add: same_key_def session_db_def empty_db_def)
  from same_key_authenticated [OF this sample_authenticated]
  have "authenticated sample_lib sample_am (sample_ctx ''s1'') ?d = Some sample_claims" .
  moreover have "\<not> prefix ''jti:'' (cl_JTI sample_claims)" by (simp add: sample_claims_def)
  ultimately show ?thesis using revoked_session_token_survives [OF _ _ run] run by blast
qed

text \<open>How far an extension may change a row, and the table, at time \<open>t\<close>.\<close>

definition row_extended :: "instant \<Rightarrow> string \<Rightarrow> string \<Rightarrow> Session \<Rightarrow> Session \<Rightarrow> bool" where
  "row_extended t i c y x \<longleftrightarrow> ses_ID x = ses_ID y \<and> ses_OrganizationID x = ses_OrganizationID y \<and>
     (ses_Status x = ''active'' \<longrightarrow> ses_Status y = ''active'') \<and>
     (ses_ExpiresAt x = ses_ExpiresAt y \<or>
      active_session i c y \<and> t < ses_ExpiresAt x \<and> ses_ExpiresAt x \<le> t + 24 * hour)"

definition extends_only :: "instant \<Rightarrow> string \<Rightarrow> string \<Rightarrow> db \<Rightarrow> db \<Rightarrow> bool" where
  "extends_only t i c d d' \<longleftrightarrow> (now d = t \<longrightarrow> now d' = t \<and>
     (\<forall>x \<in> set (t_sessions d'). \<exists>y \<in> set (t_sessions d). row_extended t i c y x))"

lemma row_extended_refl [simp]: "row_extended t i c x x"
  by (simp add: row_extended_def)

lemma row_extended_trans: "row_extended t i c z y \<Longrightarrow> row_extended t i c y x \<Longrightarrow> row_extended t i c z x"
  by (auto simp: row_extended_def active_session_def)

lemma extends_only_order [keeps_intros]: "reflp (extends_only t i c)" "transp (extends_only t i c)"
proof -
  show "reflp (extends_only t i c)" unfolding reflp_def extends_only_def by (metis row_extended_refl)
  show "transp (extends_only t i c)" unfolding transp_def extends_only_def by (metis row_extended_trans)
qed

lemma extends_only_same: "t_sessions d' = t_sessions d \<Longrightarrow> now d' = now d \<Longrightarrow> extends_only t i c d d'"
  unfolding extends_only_def by (metis row_extended_refl)

lemma extends_only_advance [keeps_intros]: "extends_only t i c d (advance d)"
  by (simp add: extends_only_same)

lemma extends_only_map:
  assumes "\<And>s. P s \<Longrightarrow> now d = t \<Longrightarrow> row_extended t i c s (f s)"
  shows "extends_only t i c d (put_sessions (map (\<lambda>s. if P s then f s else s) (t_sessions (advance d))) (advance d))"
  unfolding extends_only_def
proof (intro impI conjI ballI)
  fix x assume "now d = t" and "x \<in> set (t_sessions (put_sessions (map (\<lambda>s. if P s then f s else s) (t_sessions (advance d))) (advance d)))"
  then obtain y where "y \<in> set (t_sessions d)" "x = (if P y then f y else y)" by auto
  with assms [of y] \<open>now d = t\<close> show "\<exists>y \<in> set (t_sessions d). row_extended t i c y x"
    by (metis row_extended_refl)
qed simp

lemma extends_only_redis [keeps_intros]:
  "keeps (extends_only t i c) (redis_set k v ttl)" "keeps (extends_only t i c) (redis_del k)"
  by (rule keeps_redis, simp add: extends_only_same, rule extends_only_order)+

lemma extends_only_revoke [keeps_intros]: "keeps (extends_only t i c) (RevokeSession j c')"
  unfolding RevokeSession_def removeCachedSession_def
  by (intro keeps_intros) (simp only: snd_update_where, rule extends_only_map, simp add: row_extended_def)

lemma extends_only_get [keeps_intros]: "keeps (extends_only t i c) (GetSession show_session j c')"
  unfolding GetSession_uncached [abs_def] fetch_session_def cacheSession_def Let_def by (intro keeps_intros)

lemma extends_only_extend:
  assumes "t < e" and "e \<le> t + 24 * hour"
  shows "keeps (extends_only t i c) (ExtendSession show_session i c e)"
  unfolding ExtendSession_def cacheSession_def Let_def
  by (intro keeps_intros) (rule extends_only_map, simp add: row_extended_def active_session_def assms)

lemma keeps_at_time:
  assumes "keeps (extends_only t i c) (k t)"
  shows "keeps (extends_only t i c) (gets now k)"
  using assms by (auto simp: keeps_def extends_only_def)

text \<open>C40. POST /sessions/{id}/extend gives a session at most 24 hours from now, whatever the request asks for
  and however the call ends: every row of the table afterwards comes from an old row of the same
  session with the same expiry, except that the addressed session, if it was active in the caller's
  organization, may expire at a later instant that is at most 24 hours away. No session is revived.\<close>

theorem handle_ExtendSession_bounded:
  assumes "handle_ExtendSession show_session request body d = (r, d')"
    and "c_organization_id request = Some org" and "x \<in> set (t_sessions d')"
  shows "\<exists>y \<in> set (t_sessions d). ses_ID x = ses_ID y \<and> (ses_Status x = ''active'' \<longrightarrow> ses_Status y = ''active'') \<and>
    (ses_ExpiresAt x = ses_ExpiresAt y \<or>
     active_session (c_Param_id request) org y \<and> now d < ses_ExpiresAt x \<and> ses_ExpiresAt x \<le> now d + 24 * hour)"
proof -
  let ?R = "extends_only (now d) (c_Param_id request) org"
  have in_range: "keeps ?R (ExtendSession show_session (c_Param_id request) org
      (now d + (if requested > 24 * hour then 24 * hour else requested)))" if "\<not> requested \<le> 0" for requested
    by (rule extends_only_extend) (use that in \<open>auto simp: hour_def\<close>)
  have "keeps ?R (handle_ExtendSession show_session request body)"
    unfolding handle_ExtendSession_def own_or_admin_def session_error_def invalid_duration_def Let_def
      assms(2) bnd_local_string
    by (intro keeps_at_time keeps_if keeps_option keeps_on_error keeps_bnd keeps_intros in_range)
  from keepsD [OF this assms(1)] assms(3) show ?thesis
    by (auto simp: extends_only_def row_extended_def)
qed

theorem handle_ExtendSession_bounded_witness:
  "\<exists>d'. handle_ExtendSession (\<lambda>_. []) session_ctx (Some (Some (1000 * hour))) session_db =
       (Ok (Success 200 [] (Some (sample_session\<lparr>ses_SessionToken := [], ses_ExpiresAt := 1 + 24 * hour, ses_LastUsedAt := 1\<rparr>))), d') \<and>
     (\<forall>x \<in> set (t_sessions d'). ses_ExpiresAt x \<le> 1 + 24 * hour)"
proof -
  let ?run = "handle_ExtendSession (\<lambda>_. []) session_ctx (Some (Some (1000 * hour))) session_db"
  let ?s = "sample_session\<lparr>ses_SessionToken := [], ses_ExpiresAt := 1 + 24 * hour, ses_LastUsedAt := 1\<rparr>"
  have "fst ?run = Ok (Success 200 [] (Some ?s))" by code_simp
  then have run: "?run = (Ok (Success 200 [] (Some ?s)), snd ?run)" by (simp add: prod_eq_iff)
  have org: "c_organization_id session_ctx = Some ''o1''" by code_simp
  have old: "\<forall>y \<in> set (t_sessions session_db). ses_ExpiresAt y \<le> 1 + 24 * hour \<and> now session_db = 1" by code_simp
  have "ses_ExpiresAt x \<le> 1 + 24 * hour" if "x \<in> set (t_sessions (snd ?run))" for x
    using handle_ExtendSession_bounded [OF run org that] old by auto
  with run show ?thesis by blast
qed

end
