(* ===== verification/AuthHandler.thy ===== *)
theory AuthHandler
  imports AuthStore AuditQueue SessionHandler
begin

text \<open>
  Login, registration, tokens, passwords and MFA: internal/handlers/auth.go. Bcrypt, the TOTP library and
  the JWT library are parameters (\<open>auth_env\<close>); a request body that does not parse is \<open>None\<close>. The cookie
  carries the access token of the response. Mail is sent and its errors are logged: no state changes.
\<close>

section \<open>Tokens\<close>

text \<open>The claims of a token as the JSON object that is signed, and as RequireAuth decodes it.\<close>

type_synonym map_claims = "(string \<times> json) list"

definition str_claim :: "map_claims \<Rightarrow> string \<Rightarrow> string option" where
  "str_claim m k = (case map_of m k of Some (JStr s) \<Rightarrow> Some s | _ \<Rightarrow> None)"

definition str_or_empty :: "map_claims \<Rightarrow> string \<Rightarrow> string" where
  "str_or_empty m k = (case str_claim m k of None \<Rightarrow> [] | Some s \<Rightarrow> s)"

definition time_claim :: "map_claims \<Rightarrow> string \<Rightarrow> instant option" where
  "time_claim m k = (case map_of m k of
     Some (JNum s) \<Rightarrow> if s \<noteq> [] \<and> list_all is_digit s then Some (int_of_digits s * second) else None | _ \<Rightarrow> None)"

definition to_claims :: "map_claims \<Rightarrow> Claims" where
  "to_claims m = \<lparr>cl_UserID = str_or_empty m ''user_id'', cl_OrganizationID = str_or_empty m ''organization_id'',
     cl_Email = str_or_empty m ''email'', cl_Role = str_or_empty m ''role'', cl_JTI = str_or_empty m ''jti'',
     cl_Subject = str_or_empty m ''sub'', cl_ExpiresAt = time_claim m ''exp''\<rparr>"

text \<open>Seconds since the epoch.\<close>

definition unix :: "instant \<Rightarrow> int" where
  "unix t = t div second"

record auth_env =
  bcrypt_ok :: "string \<Rightarrow> string \<Rightarrow> bool"
  bcrypt_hash :: "string \<Rightarrow> string option"
  totp_ok :: "instant \<Rightarrow> string \<Rightarrow> string \<Rightarrow> bool"
  totp_new :: "string \<Rightarrow> (string \<times> string \<times> string) option"
  backup_codes :: "db \<Rightarrow> string list"
  sign :: "map_claims \<Rightarrow> string option"
  map_claims_of :: "string \<Rightarrow> map_claims"
  jwt :: jwt_library
  unverified :: "string \<Rightarrow> (string \<times> instant) option"
  JWTSecret :: string
  OIDCIssuer :: string
  FrontendURL :: string
  jsonb_of :: "string \<Rightarrow> string"
  show_ses :: "Session \<Rightarrow> string"

definition access_claims :: "auth_env \<Rightarrow> User \<Rightarrow> string \<Rightarrow> string \<Rightarrow> instant \<Rightarrow> map_claims" where
  "access_claims env user accessID role t = [(''iss'', JStr (OIDCIssuer env)), (''sub'', JStr (usr_ID user)), (''jti'', JStr accessID),
     (''user_id'', JStr (usr_ID user)), (''email'', JStr (usr_Email user)),
     (''organization_id'', JStr (usr_OrganizationID user)), (''role'', JStr role),
     (''exp'', JNum (show_int (unix (t + hour)))), (''iat'', JNum (show_int (unix t))), (''type'', JStr ''access'')]"

definition refresh_claims :: "User \<Rightarrow> string \<Rightarrow> instant \<Rightarrow> map_claims" where
  "refresh_claims user refreshID t = [(''sub'', JStr (usr_ID user)), (''jti'', JStr refreshID), (''user_id'', JStr (usr_ID user)),
     (''exp'', JNum (show_int (unix (t + 24 * 7 * hour)))), (''iat'', JNum (show_int (unix t))), (''type'', JStr ''refresh'')]"

definition resolve_role :: "User \<Rightarrow> string query" where
  "resolve_role user = bnd (attempt (GetPrimaryRoleForUser (usr_ID user) (usr_OrganizationID user)))
     (\<lambda>r. ret (case r of Inr role \<Rightarrow> if role = [] then ''user'' else role | Inl _ \<Rightarrow> ''user''))"

definition signed :: "auth_env \<Rightarrow> map_claims \<Rightarrow> string query" where
  "signed env m = (case sign env m of None \<Rightarrow> fail ''key is invalid'' | Some tok \<Rightarrow> ret tok)"

definition generateTokens :: "auth_env \<Rightarrow> User \<Rightarrow> string \<Rightarrow> string \<Rightarrow> (string \<times> string \<times> int) query" where
  "generateTokens env user accessID refreshID = gets now (\<lambda>t.
     bnd (resolve_role user) (\<lambda>role.
     bnd (signed env (access_claims env user accessID role t)) (\<lambda>accessToken.
     bnd (signed env (refresh_claims user refreshID t)) (\<lambda>refreshToken.
     ret (accessToken, refreshToken, unix (t + hour) - unix t)))))"

section \<open>Login\<close>

record LoginResponse =
  lr_AccessToken :: string
  lr_RefreshToken :: string
  lr_ExpiresIn :: int
  lr_User :: User
  lr_Role :: string

datatype login_reply = MFARequired string | LoggedIn LoginResponse

definition new_session :: "fiber_ctx \<Rightarrow> User \<Rightarrow> bool \<Rightarrow> string \<Rightarrow> string \<Rightarrow> int \<Rightarrow> instant \<Rightarrow> Session" where
  "new_session c user mfa accessID accessToken expiresIn t = \<lparr>ses_ID = accessID, ses_SessionToken = accessToken,
     ses_PrincipalID = usr_ID user, ses_PrincipalType = ''user'', ses_OrganizationID = usr_OrganizationID user,
     ses_AssumedRoleID = None, ses_Permissions = ''{}'', ses_Context = ''{}'', ses_MFAVerified = mfa, ses_MFAMethodsUsed = [],
     ses_IPAddress = Some (c_IP c), ses_UserAgent = Some (c_UserAgent c), ses_DeviceFingerprint = None, ses_Location = ''{}'',
     ses_IssuedAt = t, ses_ExpiresAt = t + expiresIn * second, ses_LastUsedAt = t, ses_Status = ''active''\<rparr>"

definition open_session :: "auth_env \<Rightarrow> fiber_ctx \<Rightarrow> User \<Rightarrow> bool \<Rightarrow> string \<Rightarrow> string \<Rightarrow> int \<Rightarrow> unit query" where
  "open_session env c user mfa accessID accessToken expiresIn = gets now (\<lambda>t.
     bnd (ignore (CreateSession (jsonb_of env) (show_ses env) (new_session c user mfa accessID accessToken expiresIn t))) (\<lambda>_.
     ignore (UpdateLastLogin (usr_ID user) (usr_OrganizationID user))))"

definition invalid_credentials :: "'a handler" where
  "invalid_credentials = apiError 401 ''invalid_credentials'' ''Invalid email or password''"

definition mfa_key :: "string \<Rightarrow> string" where
  "mfa_key token = ''mfa_login:'' @ token"

definition handle_Login :: "auth_env \<Rightarrow> fiber_ctx \<Rightarrow> (string \<times> string) option \<Rightarrow> login_reply handler" where
  "handle_Login env c body = (case body of
       None \<Rightarrow> apiError 400 ''invalid_request'' ''Invalid request format''
     | Some (given_email, password) \<Rightarrow> let email = trim_space (to_lower given_email) in
         if email = [] \<or> password = [] then apiError 400 ''validation_error'' ''Email and password are required''
         else on_error (GetUserByEmail email [])
           (\<lambda>_. bnd (LogLogin [] [] (c_IP c) (c_UserAgent c) False ''user_not_found'') (\<lambda>_. invalid_credentials))
           (\<lambda>user. if \<not> bcrypt_ok env (usr_PasswordHash user) password
              then bnd (LogLogin (usr_OrganizationID user) (usr_ID user) (c_IP c) (c_UserAgent c) False ''invalid_password'')
                     (\<lambda>_. invalid_credentials)
              else if usr_Status user = ''suspended''
              then apiError 403 ''account_suspended'' ''Your account has been suspended. Contact your administrator.''
              else if usr_Status user \<noteq> ''active''
              then apiError 403 ''account_inactive'' ''Your account is not active. Please verify your email or contact your administrator.''
              else if usr_MFAEnabled user
              then bnd fresh_uuid (\<lambda>mfaToken.
                on_error (redis_set (mfa_key mfaToken) (RString (usr_ID user @ '':'' @ usr_OrganizationID user)) (5 * 60 * second))
                  (\<lambda>_. apiError 500 ''server_error'' ''An internal error occurred. Please try again later.'')
                  (\<lambda>_. apiSuccess 200 [] (MFARequired mfaToken)))
              else bnd fresh_uuid (\<lambda>accessID. bnd fresh_uuid (\<lambda>refreshID.
                on_error (generateTokens env user accessID refreshID)
                  (\<lambda>_. apiError 500 ''token_error'' ''Failed to generate authentication tokens. Please try again.'')
                  (\<lambda>(accessToken, refreshToken, expiresIn).
                     bnd (resolve_role user) (\<lambda>userRole.
                     bnd (open_session env c user (usr_MFAEnabled user) accessID accessToken expiresIn) (\<lambda>_.
                     bnd (LogLogin (usr_OrganizationID user) (usr_ID user) (c_IP c) (c_UserAgent c) True []) (\<lambda>_.
                     apiSuccess 200 ''Login successful'' (LoggedIn \<lparr>lr_AccessToken = accessToken, lr_RefreshToken = refreshToken,
                        lr_ExpiresIn = expiresIn, lr_User = user, lr_Role = userRole\<rparr>)))))))))"

text \<open>The other endpoints answer with a message only.\<close>

definition json_error :: "nat \<Rightarrow> string \<Rightarrow> 'a handler" where
  "json_error status message = apiError status [] message"

definition bad_format :: "'a handler" where
  "bad_format = json_error 400 ''Invalid request format''"

definition mfa_event :: "User \<Rightarrow> string \<Rightarrow> string \<Rightarrow> string \<Rightarrow> unit query" where
  "mfa_event user action result severity = LogEvent (no_event\<lparr>aev_OrganizationID := usr_OrganizationID user,
     aev_PrincipalID := StringPtr (usr_ID user), aev_PrincipalType := Some ''user'', aev_Action := action,
     aev_Result := result, aev_Severity := severity\<rparr>)"

definition handle_LoginMFAVerify :: "auth_env \<Rightarrow> fiber_ctx \<Rightarrow> (string \<times> string) option \<Rightarrow> LoginResponse handler" where
  "handle_LoginMFAVerify env c body = (case body of None \<Rightarrow> bad_format
     | Some (mfaToken, code) \<Rightarrow> on_error (redis_result (mfa_key mfaToken))
         (\<lambda>_. json_error 401 ''Invalid or expired MFA token'')
         (\<lambda>val. case split_on CHR '':'' val of
             [userID, orgID] \<Rightarrow> on_error (GetUserByID userID orgID) (\<lambda>_. json_error 401 ''User not found'')
               (\<lambda>user. gets now (\<lambda>t.
                  if \<not> totp_ok env t code (usr_TOTPSecret user)
                  then bnd (mfa_event user ''login_mfa_failed'' ''failure'' ''MEDIUM'') (\<lambda>_. json_error 401 ''Invalid MFA code'')
                  else bnd fresh_uuid (\<lambda>accessID. bnd fresh_uuid (\<lambda>refreshID.
                    on_error (generateTokens env user accessID refreshID) (\<lambda>_. json_error 500 ''Failed to generate tokens'')
                      (\<lambda>(accessToken, refreshToken, expiresIn).
                         bnd (open_session env c user True accessID accessToken expiresIn) (\<lambda>_.
                         bnd (ignore (redis_del (mfa_key mfaToken))) (\<lambda>_.
                         bnd (LogLogin (usr_OrganizationID user) (usr_ID user) (c_IP c) (c_UserAgent c) True []) (\<lambda>_.
                         apiSuccess 200 [] \<lparr>lr_AccessToken = accessToken, lr_RefreshToken = refreshToken, lr_ExpiresIn = expiresIn,
                           lr_User = user, lr_Role = []\<rparr>))))))))
           | _ \<Rightarrow> json_error 500 ''Internal server error''))"

section \<open>Registration\<close>

record RegisterRequest =
  rq_Username :: string
  rq_Email :: string
  rq_Password :: string
  rq_DisplayName :: string
  rq_OrganizationID :: string

definition registered_user :: "RegisterRequest \<Rightarrow> string \<Rightarrow> string \<Rightarrow> string \<Rightarrow> bool \<Rightarrow> instant \<Rightarrow> User" where
  "registered_user req i email hash verified t = \<lparr>usr_ID = i, usr_Username = rq_Username req, usr_Email = email,
     usr_EmailVerified = verified, usr_DisplayName = rq_DisplayName req, usr_AvatarURL = None,
     usr_OrganizationID = rq_OrganizationID req, usr_PasswordHash = hash, usr_PasswordChangedAt = None, usr_MFAEnabled = False,
     usr_MFAMethods = [], usr_TOTPSecret = [], usr_MFABackupCodes = [], usr_Attributes = [], usr_Preferences = [], usr_Role = [],
     usr_LastLogin = None, usr_FailedLoginAttempts = 0, usr_LockedUntil = None, usr_Status = ''active'',
     usr_CreatedAt = t, usr_UpdatedAt = t, usr_DeletedAt = None\<rparr>"

definition already_registered :: "'a handler" where
  "already_registered = json_error 409 ''User with this email already exists''"

definition handle_Register :: "auth_env \<Rightarrow> RegisterRequest option \<Rightarrow> string handler" where
  "handle_Register env body = (case body of None \<Rightarrow> bad_format
     | Some req \<Rightarrow> let email = trim_space (to_lower (rq_Email req)) in
         bnd (attempt (GetUserByEmail email (rq_OrganizationID req))) (\<lambda>existing. case existing of
           Inr _ \<Rightarrow> already_registered
         | Inl _ \<Rightarrow> (case bcrypt_hash env (rq_Password req) of
             None \<Rightarrow> json_error 500 ''Failed to process password''
           | Some hash \<Rightarrow> bnd fresh_uuid (\<lambda>i. gets now (\<lambda>t.
               on_error (CreateUser (registered_user req i email hash False t))
                 (\<lambda>e. if isConflictErr e then json_error 409 ''A user with this email or username already exists''
                    else json_error 500 ''Failed to create user account'')
                 (\<lambda>_. bnd fresh_uuid (\<lambda>verificationToken.
                    bnd (ignore (SetEmailVerificationToken i verificationToken (24 * hour))) (\<lambda>_.
                    apiSuccess 201 ''User account created successfully. Please check your email to verify your account.'' i))))))))"

definition handle_CreateAdminUser :: "auth_env \<Rightarrow> RegisterRequest option \<Rightarrow> string handler" where
  "handle_CreateAdminUser env body = (case body of None \<Rightarrow> bad_format
     | Some req \<Rightarrow> let email = trim_space (to_lower (rq_Email req)) in
         on_error CheckAdminExists (\<lambda>_. json_error 500 ''Failed to verify system state'')
         (\<lambda>adminExists. if adminExists then json_error 409 ''Admin user already exists in the system''
          else bnd (attempt (GetUserByEmail email (rq_OrganizationID req))) (\<lambda>existing. case existing of
            Inr _ \<Rightarrow> already_registered
          | Inl _ \<Rightarrow> (case bcrypt_hash env (rq_Password req) of
              None \<Rightarrow> json_error 500 ''Failed to process password''
            | Some hash \<Rightarrow> bnd fresh_uuid (\<lambda>i. gets now (\<lambda>t.
                on_error (CreateAdminUser (jsonb_of env) (registered_user req i email hash True t))
                  (\<lambda>_. json_error 500 ''Failed to create admin user'')
                  (\<lambda>_. apiSuccess 201 ''Admin user created successfully'' i)))))))"

section \<open>Refresh and logout\<close>

text \<open>
  \<open>jwt.Parse\<close> with a key function that always returns the shared secret. A missing or non-string claim
  makes the type assertion panic.
\<close>

definition parse_refresh :: "auth_env \<Rightarrow> instant \<Rightarrow> string \<Rightarrow> map_claims option" where
  "parse_refresh env t tok = (case decode (jwt env) tok of None \<Rightarrow> None
     | Some (_, claims) \<Rightarrow> if sig_ok (jwt env) tok (Secret (JWTSecret env)) \<and> claims_ok (jwt env) t claims
         then Some (map_claims_of env tok) else None)"

definition handle_RefreshToken :: "auth_env \<Rightarrow> string option \<Rightarrow> (string \<times> int) handler" where
  "handle_RefreshToken env body = (case body of None \<Rightarrow> bad_format
     | Some tok \<Rightarrow> gets now (\<lambda>t. case parse_refresh env t tok of
           None \<Rightarrow> json_error 401 ''Invalid refresh token''
         | Some claims \<Rightarrow> bnd (local_string (str_claim claims ''user_id'')) (\<lambda>userID.
             bnd (local_string (str_claim claims ''organization_id'')) (\<lambda>orgID.
             on_error (GetUserByID userID orgID) (\<lambda>_. json_error 401 ''User not found'')
               (\<lambda>user. bnd fresh_uuid (\<lambda>accessID. bnd fresh_uuid (\<lambda>refreshID.
                  on_error (generateTokens env user accessID refreshID) (\<lambda>_. json_error 500 ''Failed to generate new token'')
                    (\<lambda>(accessToken, _, expiresIn). apiSuccess 200 [] (accessToken, expiresIn)))))))))"

definition bearer_token :: "string \<Rightarrow> string" where
  "bearer_token authHeader = (if length authHeader > 7 \<and> take 7 authHeader = ''Bearer '' then drop 7 authHeader else authHeader)"

definition blacklist_jti :: "auth_env \<Rightarrow> string \<Rightarrow> unit query" where
  "blacklist_jti env token = (case unverified env token of None \<Rightarrow> ret ()
     | Some (jti, exp) \<Rightarrow> gets now (\<lambda>t. let ttl = (unix exp - unix t) * second in
         if ttl > 0 then ignore (redis_set (''blacklist:'' @ jti) (RString ''revoked'') ttl) else ret ()))"

definition handle_Logout :: "auth_env \<Rightarrow> fiber_ctx \<Rightarrow> unit handler" where
  "handle_Logout env c = (case c_user_id c of None \<Rightarrow> json_error 401 ''Invalid session''
     | Some userID \<Rightarrow>
         if c_Authorization c = [] then json_error 401 ''No authorization token provided''
         else let token = bearer_token (c_Authorization c) in
           bnd (local_string (c_organization_id c)) (\<lambda>orgID.
           bnd (on_error (GetSessionByToken token orgID) (\<lambda>_. ret ()) (\<lambda>session. ignore (RevokeSession (ses_ID session) orgID))) (\<lambda>_.
           bnd (ignore (auth_DeleteSession token)) (\<lambda>_.
           bnd (blacklist_jti env token) (\<lambda>_.
           apiSuccess 200 ''Successfully logged out'' ())))))"

section \<open>Multi-factor authentication\<close>

definition setup_key :: "string \<Rightarrow> string" where
  "setup_key userID = ''mfa_setup:'' @ userID"

definition user_or_error :: "fiber_ctx \<Rightarrow> (User \<Rightarrow> 'a handler) \<Rightarrow> 'a handler" where
  "user_or_error c k = bnd (local_string (c_user_id c)) (\<lambda>userID. bnd (local_string (c_organization_id c)) (\<lambda>orgID.
     on_error (GetUserByID userID orgID)
       (\<lambda>e. if isNotFoundErr e then json_error 404 ''User not found'' else json_error 500 ''Failed to retrieve user'') k))"

definition own_event :: "string \<Rightarrow> string \<Rightarrow> string \<Rightarrow> string \<Rightarrow> string \<Rightarrow> unit query" where
  "own_event orgID userID action result severity = LogEvent (no_event\<lparr>aev_OrganizationID := orgID,
     aev_PrincipalID := StringPtr userID, aev_PrincipalType := Some ''user'', aev_Action := action,
     aev_Result := result, aev_Severity := severity\<rparr>)"

definition handle_SetupMFA :: "auth_env \<Rightarrow> fiber_ctx \<Rightarrow> (string \<times> string \<times> string) handler" where
  "handle_SetupMFA env c = user_or_error c (\<lambda>user.
     if usr_MFAEnabled user then json_error 409 ''MFA is already enabled for this account''
     else case totp_new env (usr_Email user) of None \<Rightarrow> json_error 500 ''Failed to generate MFA secret''
       | Some (secret, url, qr) \<Rightarrow> bnd (local_string (c_user_id c)) (\<lambda>userID. bnd (local_string (c_organization_id c)) (\<lambda>orgID.
           on_error (redis_set (setup_key userID) (RString secret) (600 * second))
             (\<lambda>_. json_error 500 ''Failed to initiate MFA setup'')
             (\<lambda>_. bnd (own_event orgID userID ''mfa_setup_initiated'' ''success'' ''MEDIUM'') (\<lambda>_.
                apiSuccess 200 ''MFA setup initiated. Scan the QR code with your authenticator app, then verify with a code.''
                  (secret, qr, url))))))"

definition handle_VerifyMFA :: "auth_env \<Rightarrow> fiber_ctx \<Rightarrow> string option \<Rightarrow> string list handler" where
  "handle_VerifyMFA env c body = (case body of None \<Rightarrow> bad_format
     | Some code \<Rightarrow> bnd (local_string (c_user_id c)) (\<lambda>userID. bnd (local_string (c_organization_id c)) (\<lambda>orgID.
         bnd (attempt (redis_result (setup_key userID))) (\<lambda>pending. gets now (\<lambda>t.
         case pending of
           Inr secret \<Rightarrow> if totp_ok env t code secret
             then gets (backup_codes env) (\<lambda>codes.
               on_error (EnableMFA userID orgID secret codes) (\<lambda>_. json_error 500 ''Failed to complete MFA setup'')
                 (\<lambda>_. bnd (ignore (redis_del (setup_key userID))) (\<lambda>_.
                    bnd (own_event orgID userID ''mfa_setup_complete'' ''success'' ''MEDIUM'') (\<lambda>_.
                    apiSuccess 200 ''MFA setup complete'' codes))))
             else json_error 401 ''Invalid MFA code''
         | Inl _ \<Rightarrow> json_error 401 ''Invalid MFA code'')))))"

definition handle_GenerateBackupCodes :: "auth_env \<Rightarrow> fiber_ctx \<Rightarrow> string list handler" where
  "handle_GenerateBackupCodes env c = user_or_error c (\<lambda>user.
     if \<not> usr_MFAEnabled user then json_error 400 ''MFA is not enabled. Please set up MFA first.''
     else gets (backup_codes env) (\<lambda>codes. bnd (local_string (c_user_id c)) (\<lambda>userID. bnd (local_string (c_organization_id c)) (\<lambda>orgID.
       on_error (UpdateBackupCodes userID orgID codes) (\<lambda>_. json_error 500 ''Failed to generate backup codes'')
         (\<lambda>_. bnd (own_event orgID userID ''mfa_backup_codes_regenerated'' ''success'' ''MEDIUM'') (\<lambda>_.
            apiSuccess 200 [] codes))))))"

definition handle_DisableMFA :: "auth_env \<Rightarrow> fiber_ctx \<Rightarrow> string option \<Rightarrow> unit handler" where
  "handle_DisableMFA env c body = bnd (local_string (c_user_id c)) (\<lambda>userID. bnd (local_string (c_organization_id c)) (\<lambda>orgID.
     case body of None \<Rightarrow> bad_format
     | Some password \<Rightarrow> user_or_error c (\<lambda>user.
         if \<not> usr_MFAEnabled user then json_error 400 ''MFA is not currently enabled''
         else if \<not> bcrypt_ok env (usr_PasswordHash user) password
         then bnd (own_event orgID userID ''mfa_disable_failed'' ''failure'' ''HIGH'') (\<lambda>_. json_error 401 ''Invalid password'')
         else on_error (DisableMFA userID orgID) (\<lambda>_. json_error 500 ''Failed to disable MFA'')
           (\<lambda>_. bnd (own_event orgID userID ''mfa_disabled'' ''success'' ''HIGH'') (\<lambda>_.
              apiSuccess 200 ''Multi-factor authentication has been disabled'' ())))))"

section \<open>Passwords and verification\<close>

definition reset_sent :: "unit handler" where
  "reset_sent = apiSuccess 200 ''If an account with that email exists, a password reset link has been sent'' ()"

definition handle_ForgotPassword :: "string option \<Rightarrow> unit handler" where
  "handle_ForgotPassword body = (case body of None \<Rightarrow> bad_format
     | Some email \<Rightarrow> on_error (GetUserByEmail email []) (\<lambda>_. reset_sent)
         (\<lambda>user. bnd fresh_uuid (\<lambda>resetToken.
            on_error (SetPasswordResetToken (usr_ID user) resetToken hour)
              (\<lambda>_. json_error 500 ''Failed to process password reset request'') (\<lambda>_. reset_sent))))"

definition handle_ResetPassword :: "auth_env \<Rightarrow> (string \<times> string) option \<Rightarrow> unit handler" where
  "handle_ResetPassword env body = (case body of None \<Rightarrow> bad_format
     | Some (token, newPassword) \<Rightarrow> bnd (attempt (GetPasswordResetToken token)) (\<lambda>r.
         let userID = (case r of Inl _ \<Rightarrow> [] | Inr u \<Rightarrow> u) in
         if userID = [] then json_error 400 ''Invalid or expired reset token''
         else case bcrypt_hash env newPassword of None \<Rightarrow> json_error 500 ''Failed to process new password''
           | Some hash \<Rightarrow> on_error (UpdatePassword userID hash []) (\<lambda>_. json_error 500 ''Failed to update password'')
               (\<lambda>_. bnd (ignore (DeletePasswordResetToken token)) (\<lambda>_.
                  bnd (ignore (InvalidateUserSessions userID)) (\<lambda>_.
                  apiSuccess 200 ''Password updated successfully'' ())))))"

definition handle_VerifyEmail :: "string option \<Rightarrow> unit handler" where
  "handle_VerifyEmail body = (case body of None \<Rightarrow> bad_format
     | Some token \<Rightarrow> on_error (GetEmailVerificationToken token) (\<lambda>_. json_error 400 ''Invalid or expired verification token'')
         (\<lambda>userID. on_error (UpdateEmailVerification userID True []) (\<lambda>_. json_error 500 ''Failed to verify email'')
            (\<lambda>_. bnd (ignore (DeleteEmailVerificationToken token)) (\<lambda>_. apiSuccess 200 ''Email verified successfully'' ()))))"

definition handle_ResendVerification :: "string option \<Rightarrow> unit handler" where
  "handle_ResendVerification body =
     (let sent = apiSuccess 200 ''If an account with that email exists and is unverified, a verification email has been sent'' () in
      case body of None \<Rightarrow> bad_format
      | Some email \<Rightarrow> on_error (GetUserByEmail email []) (\<lambda>_. sent)
          (\<lambda>user. if usr_EmailVerified user then apiSuccess 200 ''Email is already verified'' ()
             else bnd fresh_uuid (\<lambda>verificationToken.
               on_error (SetEmailVerificationToken (usr_ID user) verificationToken (24 * hour))
                 (\<lambda>_. json_error 500 ''Failed to process verification request'') (\<lambda>_. sent))))"

end
