(* ===== verification/AuthFlow.thy ===== *)
theory AuthFlow
  imports AuthHandler
begin

text \<open>
  What login, refresh, logout and password reset establish together with the middleware that checks the
  tokens. The contract of the JWT library is \<open>signs_for\<close>.
\<close>

section \<open>The contract of the JWT library\<close>

text \<open>
  A token signed with the RSA key of the service has no space, decodes to the claims it was signed over,
  verifies under the public key of the middleware and under no shared secret. The library accepts
  claims with an expiry exactly while the expiry lies ahead.
\<close>

definition signs_for :: "auth_env \<Rightarrow> AuthMiddleware \<Rightarrow> bool" where
  "signs_for env am \<longleftrightarrow> (\<exists>pk. publicKey am = Some pk \<and>
     (\<forall>m tok. sign env m = Some tok \<longrightarrow> tok \<noteq> [] \<and> CHR '' '' \<notin> set tok \<and>
        decode (jwt env) tok = Some (RSA, to_claims m) \<and> sig_ok (jwt env) tok (PublicKey pk) \<and>
        (\<forall>s. \<not> sig_ok (jwt env) tok (Secret s)))) \<and>
     (\<forall>t c e. cl_ExpiresAt c = Some e \<longrightarrow> claims_ok (jwt env) t c = (t < e))"

lemma signs_forE:
  assumes "signs_for env am" and "sign env m = Some tok"
  obtains pk where "publicKey am = Some pk" and "tok \<noteq> []" and "CHR '' '' \<notin> set tok"
    and "decode (jwt env) tok = Some (RSA, to_claims m)" and "sig_ok (jwt env) tok (PublicKey pk)"
    and "\<And>s. \<not> sig_ok (jwt env) tok (Secret s)"
  using assms unfolding signs_for_def by blast

lemma signs_for_expiry: "signs_for env am \<Longrightarrow> cl_ExpiresAt c = Some e \<Longrightarrow> claims_ok (jwt env) t c \<longleftrightarrow> t < e"
  unfolding signs_for_def by blast

lemma bearer_header:
  assumes "c_Authorization c = ''Bearer '' @ tok" and "tok \<noteq> []" and "CHR '' '' \<notin> set tok"
  shows "token_string c = tok"
proof -
  have "split_on CHR '' '' (c_Authorization c) = [''Bearer'', tok]"
    using split_on_join [of "CHR '' ''" "''Bearer''" tok] assms(1,3) by (simp add: split_on_no_sep)
  with assms(1,2) show ?thesis by (simp add: token_string_def)
qed

lemma parse_signed:
  assumes "signs_for env am" and "sign env m = Some tok" and "time_claim m ''exp'' = Some e" and "t < e"
  shows "parse_with_claims (jwt env) am t tok = Some (to_claims m)"
proof (rule signs_forE [OF assms(1,2)])
  fix pk assume pk: "publicKey am = Some pk" and dec: "decode (jwt env) tok = Some (RSA, to_claims m)"
    and ok: "sig_ok (jwt env) tok (PublicKey pk)"
  have "cl_ExpiresAt (to_claims m) = Some e" using assms(3) by (simp add: to_claims_def)
  with signs_for_expiry [OF assms(1) this] pk dec ok assms(4) show ?thesis
    by (simp add: parse_with_claims_def key_for_def)
qed

section \<open>The claims of an access token\<close>

lemma unix_bounds: "unix t * second \<le> t" "t < (unix t + 1) * second"
  unfolding unix_def by (auto simp: minus_mod_eq_div_mult [symmetric])

lemma access_expiry:
  assumes "0 \<le> t"
  shows "time_claim (access_claims env user i role t) ''exp'' = Some (unix (t + hour) * second)"
proof -
  have "0 \<le> unix (t + hour)" using assms by (simp add: unix_def hour_def)
  then show ?thesis
    using show_nat_digits by (simp add: time_claim_def access_claims_def show_int_def)
qed

lemma access_to_claims [simp]:
  "cl_UserID (to_claims (access_claims env user i role t)) = usr_ID user"
  "cl_OrganizationID (to_claims (access_claims env user i role t)) = usr_OrganizationID user"
  "cl_Email (to_claims (access_claims env user i role t)) = usr_Email user"
  "cl_Role (to_claims (access_claims env user i role t)) = role"
  "cl_JTI (to_claims (access_claims env user i role t)) = i"
  "cl_Subject (to_claims (access_claims env user i role t)) = usr_ID user"
  by (simp_all add: to_claims_def str_or_empty_def str_claim_def access_claims_def)

lemma refresh_to_claims: "str_claim (refresh_claims user i t) ''organization_id'' = None"
  by (simp add: str_claim_def refresh_claims_def)

lemma access_token_window:
  assumes "signs_for env am" and "sign env (access_claims env user i role t) = Some tok" and "0 \<le> t"
    and "redis_lookup d (''blacklist:'' @ i) = None" and "c_Authorization request = ''Bearer '' @ tok"
  shows "authenticated (jwt env) am request d =
    (if now d < unix (t + hour) * second then Some (to_claims (access_claims env user i role t)) else None)"
proof -
  let ?m = "access_claims env user i role t"
  let ?e = "unix (t + hour) * second"
  have tok: "token_string request = tok" "tok \<noteq> []"
    using signs_forE [OF assms(1,2)] bearer_header [OF assms(5)] by blast+
  note exp = access_expiry [OF assms(3), of env user i role]
  then have at: "cl_ExpiresAt (to_claims ?m) = Some ?e" by (simp add: to_claims_def)
  show ?thesis
  proof (cases "now d < ?e")
    case True
    with parse_signed [OF assms(1,2) exp] tok at assms(4) show ?thesis by (auto simp: authenticated_def)
  next
    case False
    have "parse_with_claims (jwt env) am (now d) tok = None"
    proof (rule signs_forE [OF assms(1,2)])
      assume "decode (jwt env) tok = Some (RSA, to_claims ?m)"
      then show ?thesis
        using signs_for_expiry [OF assms(1) at] False by (simp add: parse_with_claims_def split: option.split)
    qed
    with False tok show ?thesis by (simp add: authenticated_def)
  qed
qed

section \<open>Login\<close>

lemma one_user_Ok: "one_user P d = (Ok u, d') \<Longrightarrow> \<exists>row \<in> set (t_users d). P row \<and> u = scanned_user row \<and> d' = advance d"
  unfolding one_user_def
  by (auto elim!: bnd_OkE dest!: select_Ok split: option.splits) (metis advance_tables(4) find_SomeD)

lemma signed_Ok: "signed env m d = (Ok tok, d') \<Longrightarrow> sign env m = Some tok \<and> d' = d"
  by (auto simp: signed_def split: option.splits)

lemma resolve_role_state: "snd (resolve_role user d) = advance d"
  unfolding resolve_role_def GetPrimaryRoleForUser_def
  using select_state [of "primary_role (usr_ID user) (usr_OrganizationID user)" d]
  by (cases "select (primary_role (usr_ID user) (usr_OrganizationID user)) d")
    (auto simp: bnd_def attempt_def split: res.splits)

lemma generateTokens_Ok:
  assumes "generateTokens env user i j d = (Ok (access, refresh, n), d')"
  obtains role where "sign env (access_claims env user i role (now d)) = Some access"
    and "sign env (refresh_claims user j (now d)) = Some refresh" and "d' = advance d"
  using assms unfolding generateTokens_def
  by (auto elim!: bnd_OkE dest!: signed_Ok) (metis resolve_role_state snd_conv)

text \<open>Logging an event and reading a user leave every key of Redis alone.\<close>

lemma keeps_LogEvent:
  assumes "\<And>d e f. R d (offer e (d\<lparr>uuids := f\<rparr>))"
  shows "keeps R (LogEvent e)"
  unfolding keeps_def
proof
  fix d
  show "R d (snd (LogEvent e d))" by (cases rule: LogEvent_run [of e d]) (simp add: assms)
qed

lemma same_key_events [keeps_intros]: "keeps (same_key k) (LogEvent e)" "keeps (same_key k) (LogLogin o1 u ip ua ok err)"
  "keeps (same_key k) fresh_uuid"
  unfolding LogLogin_def
  by (intro keeps_LogEvent keeps_intros, simp add: same_key_def offer_def)+

lemma same_key_users [keeps_intros]: "keeps (same_key k) (one_user P)" "keeps (same_key k) (change_users P f)"
  "keeps (same_key k) (resolve_role user)" "keeps (same_key k) (signed env m)"
  unfolding one_user_def change_users_def resolve_role_def GetPrimaryRoleForUser_def signed_def
  by (intro keeps_intros; simp add: same_key_def)+

lemma same_key_generateTokens [keeps_intros]: "keeps (same_key k) (generateTokens env user i j)"
  unfolding generateTokens_def by (intro keeps_intros)

lemma same_key_create:
  assumes "\<And>i. session_key i \<noteq> k"
  shows "keeps (same_key k) (CreateSession jsonb show_session s)" "keeps (same_key k) (open_session env c user mfa i tok n)"
proof -
  show k: "keeps (same_key k) (CreateSession jsonb show_session s)" for jsonb show_session s
    unfolding CreateSession_def cacheSession_def Let_def
    by (intro keeps_intros same_key_set assms) (simp add: same_key_def)
  show "keeps (same_key k) (open_session env c user mfa i tok n)"
    unfolding open_session_def UpdateLastLogin_def by (intro keeps_intros k)
qed

lemma same_key_login:
  assumes "prefix ''blacklist:'' k"
  shows "keeps (same_key k) (handle_Login env c body)"
proof -
  have "session_key i \<noteq> k" "mfa_key i \<noteq> k" for i
    using assms by (auto simp: session_key_def mfa_key_def prefix_def)
  then show ?thesis
    unfolding handle_Login_def GetUserByEmail_def invalid_credentials_def Let_def
    by (cases body) (auto intro!: keeps_intros same_key_create same_key_set split: prod.split)
qed

lemma fresh_uuid_Ok: "fresh_uuid d = (Ok i, d') \<Longrightarrow> i = uuids d 0 \<and> d' = d\<lparr>uuids := (\<lambda>n. uuids d (Suc n))\<rparr>"
  by (auto simp: fresh_uuid_def)

lemma invalid_credentials_run [simp]:
  "invalid_credentials d = (Ok (Failure 401 ''invalid_credentials'' ''Invalid email or password''), d)"
  by (simp add: invalid_credentials_def)

lemma login_OkE:
  assumes "handle_Login env c body d = (Ok (Success st msg (LoggedIn resp)), d')"
  obtains given password row role where "body = Some (given, password)" and "row \<in> set (t_users d)"
    and "usr_Email row = trim_space (to_lower given)" and "usr_DeletedAt row = None"
    and "bcrypt_ok env (usr_PasswordHash row) password" and "usr_Status row = ''active''" and "\<not> usr_MFAEnabled row"
    and "lr_User resp = scanned_user row"
    and "sign env (access_claims env (scanned_user row) (uuids d 0) role (now d)) = Some (lr_AccessToken resp)"
    and "\<exists>j. sign env (refresh_claims (scanned_user row) j (now d)) = Some (lr_RefreshToken resp)"
proof -
  from assms obtain given password where body: "body = Some (given, password)"
    by (cases body) (auto simp: handle_Login_def)
  let ?email = "trim_space (to_lower given)"
  note run = assms [unfolded handle_Login_def body, simplified, unfolded Let_def]
  from run obtain user d1 where user: "GetUserByEmail ?email [] d = (Ok user, d1)"
    and pass: "bcrypt_ok env (usr_PasswordHash user) password" "usr_Status user = ''active''" "\<not> usr_MFAEnabled user"
    and issue: "bnd fresh_uuid (\<lambda>accessID. bnd fresh_uuid (\<lambda>refreshID.
                on_error (generateTokens env user accessID refreshID)
                  (\<lambda>_. apiError 500 ''token_error'' ''Failed to generate authentication tokens. Please try again.'')
                  (\<lambda>(accessToken, refreshToken, expiresIn).
                     bnd (resolve_role user) (\<lambda>userRole.
                     bnd (open_session env c user False accessID accessToken expiresIn) (\<lambda>_.
                     bnd (LogLogin (usr_OrganizationID user) (usr_ID user) (c_IP c) (c_UserAgent c) True []) (\<lambda>_.
                     apiSuccess 200 ''Login successful'' (LoggedIn \<lparr>lr_AccessToken = accessToken, lr_RefreshToken = refreshToken,
                        lr_ExpiresIn = expiresIn, lr_User = user, lr_Role = userRole\<rparr>))))))) d1 = (Ok (Success st msg (LoggedIn resp)), d')"
    by (auto elim!: on_error_OkE bnd_OkE split: if_splits)
  from user obtain row where row: "row \<in> set (t_users d)" "usr_Email row = ?email" "usr_DeletedAt row = None"
    and u: "user = scanned_user row" "d1 = advance d"
    unfolding GetUserByEmail_def by (auto dest!: one_user_Ok simp: in_scope_def)
  from issue obtain role j where
    "sign env (access_claims env user (uuids d1 0) role (now d1)) = Some (lr_AccessToken resp)"
    "sign env (refresh_claims user j (now d1)) = Some (lr_RefreshToken resp)" "lr_User resp = user"
    by (auto elim!: on_error_OkE bnd_OkE dest!: fresh_uuid_Ok elim!: generateTokens_Ok)
  with row u pass body show ?thesis by (intro that) (auto simp: scanned_user_def)
qed

text \<open>The access token that was signed, read by the middleware at the same moment.\<close>

lemma access_token_authenticates:
  assumes "signs_for env am" and "sign env (access_claims env user i role (now d)) = Some tok" and "0 \<le> now d"
    and "redis_lookup d (''blacklist:'' @ i) = None" and "c_Authorization request = ''Bearer '' @ tok"
  shows "authenticated (jwt env) am request d = Some (to_claims (access_claims env user i role (now d)))"
  using access_token_window [OF assms(1,2,3) assms(4,5)] unix_bounds(2) [of "now d + hour"]
  by (simp add: hour_def)

text \<open>
  A login that runs through: the first live row with the email decides, and what comes after the check of the
  password (the row of the session, its cache entry, the audit event) cannot stop it.
\<close>

lemma open_session_run: "\<exists>d'. open_session env c user mfa i tok n d = (Ok (), d')"
proof -
  have "calm (CreateSession jsonb show_session s)" "calm (UpdateLastLogin u org)" for jsonb show_session s u org
    unfolding CreateSession_def cacheSession_def UpdateLastLogin_def change_users_def Let_def by (intro calm_intros)+
  then show ?thesis by (simp add: open_session_def bnd_Ok [OF ignore_calm] ignore_calm)
qed

definition token_role :: "string \<Rightarrow> string \<Rightarrow> db \<Rightarrow> string" where
  "token_role userID organizationID d = (let r = primary_role userID organizationID d in if r = [] then ''user'' else r)"

lemma resolve_role_run: "healthy d \<Longrightarrow> resolve_role user d = (Ok (token_role (usr_ID user) (usr_OrganizationID user) d), d)"
  by (simp add: resolve_role_def GetPrimaryRoleForUser_def token_role_def Let_def bnd_def attempt_def select_ok)

lemma login_runs:
  assumes "healthy d" and "find (\<lambda>u. usr_Email u = trim_space (to_lower given) \<and> in_scope [] u) (t_users d) = Some row"
    and "trim_space (to_lower given) \<noteq> []" and "password \<noteq> []" and "bcrypt_ok env (usr_PasswordHash row) password"
    and "usr_Status row = ''active''" and "\<not> usr_MFAEnabled row" and "\<forall>m. sign env m \<noteq> None"
  shows "\<exists>resp d'. handle_Login env c (Some (given, password)) d = (Ok (Success 200 ''Login successful'' (LoggedIn resp)), d') \<and>
    lr_User resp = scanned_user row \<and> lr_Role resp = token_role (usr_ID row) (usr_OrganizationID row) d \<and>
    sign env (access_claims env (scanned_user row) (uuids d 0) (lr_Role resp) (now d)) = Some (lr_AccessToken resp)"
proof -
  let ?user = "scanned_user row"
  have user: "usr_PasswordHash ?user = usr_PasswordHash row" "usr_Status ?user = usr_Status row"
    "usr_MFAEnabled ?user = usr_MFAEnabled row" "usr_ID ?user = usr_ID row" "usr_OrganizationID ?user = usr_OrganizationID row"
    by (simp_all add: scanned_user_def)
  have get: "GetUserByEmail (trim_space (to_lower given)) [] d = (Ok ?user, d)"
    using assms(1,2) by (simp add: GetUserByEmail_def one_user_def bnd_def select_ok)
  define d2 where "d2 = d\<lparr>uuids := (\<lambda>n. uuids d (Suc (Suc n)))\<rparr>"
  have d2: "healthy d2" "now d2 = now d" "token_role (usr_ID row) (usr_OrganizationID row) d2 = token_role (usr_ID row) (usr_OrganizationID row) d"
    using assms(1) by (simp_all add: d2_def token_role_def primary_role_def)
  obtain access refresh where sig: "sign env (access_claims env ?user (uuids d 0) (token_role (usr_ID row) (usr_OrganizationID row) d) (now d)) = Some access"
    "sign env (refresh_claims ?user (uuids d (Suc 0)) (now d)) = Some refresh"
    using assms(8) by (metis option.collapse)
  have gen: "generateTokens env ?user (uuids d 0) (uuids d (Suc 0)) d2 = (Ok (access, refresh, unix (now d + hour) - unix (now d)), d2)"
    using sig d2 resolve_role_run [OF d2(1), of ?user]
    by (simp add: generateTokens_def bnd_def signed_def user)
  obtain d3 where opened: "open_session env c ?user False (uuids d 0) access (unix (now d + hour) - unix (now d)) d2 = (Ok (), d3)"
    using open_session_run by blast
  obtain d4 where logged: "LogLogin (usr_OrganizationID ?user) (usr_ID ?user) (c_IP c) (c_UserAgent c) True [] d3 = (Ok (), d4)"
    unfolding LogLogin_def using LogEvent_run by metis
  have uuids: "fresh_uuid d = (Ok (uuids d 0), d\<lparr>uuids := (\<lambda>n. uuids d (Suc n))\<rparr>)"
    "fresh_uuid (d\<lparr>uuids := (\<lambda>n. uuids d (Suc n))\<rparr>) = (Ok (uuids d (Suc 0)), d2)"
    by (simp_all add: fresh_uuid_def d2_def)
  have role: "resolve_role ?user d2 = (Ok (token_role (usr_ID row) (usr_OrganizationID row) d), d2)"
    using resolve_role_run [OF d2(1), of ?user] d2(3) by (simp add: user)
  show ?thesis
    using assms(3-7) get sig(1)
    by (simp add: handle_Login_def Let_def on_error_Ok bnd_Ok uuids gen role opened logged [unfolded user] user)
qed

section \<open>Logout and password reset\<close>

text \<open>What the unverified parse of a token reads: the \<open>jti\<close> and the expiry, a whole second, that the verified parse reads.\<close>

definition reads_claims :: "auth_env \<Rightarrow> bool" where
  "reads_claims env \<longleftrightarrow> (\<forall>tok m cl e. decode (jwt env) tok = Some (m, cl) \<longrightarrow> cl_ExpiresAt cl = Some e \<longrightarrow>
     unverified env tok = Some (cl_JTI cl, e) \<and> unix e * second = e)"

lemma blacklist_jti_run:
  assumes "unverified env tok = Some (jti, e)" and "redis_up d" and "now d < unix e * second" and "blacklist_jti env tok d = (Ok u, d')"
  shows "d' = d\<lparr>redis := (redis d)(''blacklist:'' @ jti \<mapsto> (RString ''revoked'', Some (now d + (unix e - unix (now d)) * second)))\<rparr>"
proof -
  have "unix (now d) < unix e"
    using assms(3) unix_bounds(1) [of "now d"] by (smt (verit) mult_right_mono zero_le_numeral)
  with assms show ?thesis
    by (auto simp: blacklist_jti_def Let_def redis_set_def redis_cmd_def dest!: ignore_Ok)
qed

lemma logout_blacklists:
  assumes "handle_Logout env c d = (Ok (Success st msg u), d')" and "unverified env (bearer_token (c_Authorization c)) = Some (jti, e)"
    and "redis_up d" and "now d < unix e * second"
  shows "now d' = now d \<and> redis_up d' \<and>
    redis d' (''blacklist:'' @ jti) = Some (RString ''revoked'', Some (now d + (unix e - unix (now d)) * second))"
proof -
  let ?tok = "bearer_token (c_Authorization c)" and ?R = "same_key (''blacklist:'' @ jti)"
  have other: "session_key i \<noteq> ''blacklist:'' @ jti" for i by (simp add: session_key_def)
  from assms(1) obtain org d1 d2 where
    revoke: "on_error (GetSessionByToken ?tok org) (\<lambda>_. ret ()) (\<lambda>session. ignore (RevokeSession (ses_ID session) org)) d = (Ok (), d1)"
    and legacy: "ignore (auth_DeleteSession ?tok) d1 = (Ok (), d2)" and black: "blacklist_jti env ?tok d2 = (Ok (), d')"
    by (auto simp: handle_Logout_def Let_def json_error_def elim!: bnd_OkE dest!: local_string_Ok split: option.splits if_splits)
  note [keeps_intros] = same_key_session(1) [OF other]
  have "keeps ?R (GetSessionByToken ?tok org)"
    unfolding GetSessionByToken_def by (intro keeps_intros)
  then have "keeps ?R (on_error (GetSessionByToken ?tok org) (\<lambda>_. ret ()) (\<lambda>session. ignore (RevokeSession (ses_ID session) org)))"
    by (intro keeps_intros)
  from keepsD [OF this revoke] have 1: "?R d d1" .
  have "keeps ?R (ignore (auth_DeleteSession ?tok))"
    unfolding auth_DeleteSession_def by (intro keeps_intros same_key_del) simp
  from keepsD [OF this legacy] 1 have d2: "redis_up d2" "now d2 = now d"
    using assms(3) by (simp_all add: same_key_def)
  with blacklist_jti_run [OF assms(2) _ _ black] assms(4) show ?thesis by simp
qed

lemma bearer_token_header: "tok \<noteq> [] \<Longrightarrow> bearer_token (''Bearer '' @ tok) = tok"
  by (simp add: bearer_token_def)

text \<open>A key that lies in the blacklist until the expiry of the token keeps the token out.\<close>

lemma blacklisted_refused:
  assumes "decode (jwt env) (token_string c) = Some (m, cl)" and "cl_ExpiresAt cl = Some e" and "cl_JTI cl \<noteq> []"
    and "redis d (''blacklist:'' @ cl_JTI cl) = Some (v, Some x)" and "e \<le> x" and "redis_up d"
    and "claims_ok (jwt env) (now d) cl \<Longrightarrow> now d < e"
  shows "authenticated (jwt env) am c d = None"
  using assms by (auto simp: authenticated_def parse_with_claims_def redis_lookup_def split: option.splits if_splits)

lemma same_key_reset:
  assumes "prefix ''blacklist:'' k"
  shows "keeps (same_key k) (handle_ResetPassword env body)"
proof -
  have "''password_reset:'' @ t \<noteq> k" for t using assms by (auto simp: prefix_def)
  then have del: "keeps (same_key k) (DeletePasswordResetToken t)" for t
    unfolding DeletePasswordResetToken_def by (intro same_key_del)
  have "\<not> prefix ''session:'' k" using assms by (auto simp: prefix_def)
  then have inv: "keeps (same_key k) (InvalidateUserSessions i)" for i
    unfolding InvalidateUserSessions_def by (intro keeps_intros) (simp add: same_key_def user_hash_def)
  show ?thesis
    unfolding handle_ResetPassword_def GetPasswordResetToken_def redis_result_def UpdatePassword_def bad_format_def
      json_error_def Let_def
    by (cases body) (auto intro!: keeps_intros del inv split: prod.split)
qed

lemma reset_keeps_sessions: "keeps same_sessions (handle_ResetPassword env body)"
  unfolding handle_ResetPassword_def GetPasswordResetToken_def DeletePasswordResetToken_def redis_result_def UpdatePassword_def
    change_users_def InvalidateUserSessions_def bad_format_def json_error_def Let_def
  by (cases body) (auto intro!: keeps_intros simp: same_sessions_def split: prod.split)

lemma change_users_Ok:
  "change_users P f d = (Ok u, d') \<Longrightarrow> d' = put_users (map (\<lambda>x. if P x then f (now d) x else x) (t_users d)) (advance d)"
  unfolding change_users_def by (auto elim!: bnd_OkE dest!: exec_on_Ok simp: snd_update_where)

lemma redis_result_Ok: "redis_result k d = (Ok s, d') \<Longrightarrow> redis_lookup d k = Some (RString s) \<and> d' = d"
  unfolding redis_result_def
  by (auto elim!: bnd_OkE simp: redis_get_run split: option.splits if_splits redis_value.splits)

section \<open>The second factor and the role of a token\<close>

lemma split_on_two:
  assumes "split_on c s = [a, b]"
  shows "s = a @ c # b"
  using assms
proof (induction s arbitrary: a)
  case (Cons x xs)
  show ?case
  proof (cases "x = c")
    case True
    with Cons.prems have "a = []" "split_on c xs = [b]" by auto
    moreover have "split_on c ys = [y] \<Longrightarrow> ys = y" for ys y
      by (induction ys arbitrary: y) (auto split: if_splits list.splits)
    ultimately show ?thesis using True by simp
  next
    case False
    with Cons show ?thesis by (auto split: list.splits)
  qed
qed simp

lemma mfa_login_OkE:
  assumes "handle_LoginMFAVerify env c (Some (token, code)) d = (Ok (Success st msg resp), d')" and "redis_up d"
  obtains i org row where "redis_lookup d (mfa_key token) = Some (RString (i @ '':'' @ org))" and "row \<in> set (t_users d)"
    and "usr_ID row = i" and "in_scope org row" and "totp_ok env (now d) code (usr_TOTPSecret row)"
    and "lr_User resp = scanned_user row" and "redis d' (mfa_key token) = None"
proof -
  let ?k = "mfa_key token"
  from assms(1) obtain val i org d1 user d2 where key: "redis_result ?k d = (Ok val, d1)" and val: "split_on CHR '':'' val = [i, org]"
    and get: "GetUserByID i org d1 = (Ok user, d2)" and totp: "totp_ok env (now d2) code (usr_TOTPSecret user)"
    and issue: "bnd fresh_uuid (\<lambda>accessID. bnd fresh_uuid (\<lambda>refreshID.
         on_error (generateTokens env user accessID refreshID) (\<lambda>_. json_error 500 ''Failed to generate tokens'')
           (\<lambda>(accessToken, refreshToken, expiresIn).
              bnd (open_session env c user True accessID accessToken expiresIn) (\<lambda>_.
              bnd (ignore (redis_del ?k)) (\<lambda>_.
              bnd (LogLogin (usr_OrganizationID user) (usr_ID user) (c_IP c) (c_UserAgent c) True []) (\<lambda>_.
              apiSuccess 200 [] \<lparr>lr_AccessToken = accessToken, lr_RefreshToken = refreshToken, lr_ExpiresIn = expiresIn,
                lr_User = user, lr_Role = []\<rparr>)))))) d2 = (Ok (Success st msg resp), d')"
    by (auto simp: handle_LoginMFAVerify_def json_error_def mfa_event_def elim!: on_error_OkE bnd_OkE split: list.splits if_splits)
  from redis_result_Ok [OF key] have d1: "redis_lookup d ?k = Some (RString val)" "d1 = d" by auto
  have "val = i @ '':'' @ org" using split_on_two [OF val] by simp
  from get obtain row where row: "row \<in> set (t_users d)" "usr_ID row = i" "in_scope org row" and u: "user = scanned_user row" "d2 = advance d"
    unfolding GetUserByID_def d1(2) by (auto dest!: one_user_Ok)
  from issue obtain a e1 j e2 acc ref n e3 u4 e4 u5 e5 u6 where
    "fresh_uuid d2 = (Ok a, e1)" and "fresh_uuid e1 = (Ok j, e2)" and gen: "generateTokens env user a j e2 = (Ok (acc, ref, n), e3)"
    and opens: "open_session env c user True a acc n e3 = (Ok u4, e4)" and del: "ignore (redis_del ?k) e4 = (Ok u5, e5)"
    and log: "LogLogin (usr_OrganizationID user) (usr_ID user) (c_IP c) (c_UserAgent c) True [] e5 = (Ok u6, d')"
    and "lr_User resp = user"
    by (auto simp: json_error_def elim!: on_error_OkE bnd_OkE)
  moreover have other: "session_key s \<noteq> ?k" for s by (simp add: session_key_def mfa_key_def)
  ultimately have "redis_up e4"
    using u(2) d1(2) assms(2) keepsD [OF same_key_generateTokens [where k = ?k] gen] keepsD [OF same_key_create(2) [OF other] opens]
    by (auto dest!: fresh_uuid_Ok simp: same_key_def)
  with del have "redis e5 ?k = None" by (auto dest!: ignore_Ok simp: redis_del_def redis_cmd_def)
  with keepsD [OF same_key_events(2) [where k = ?k] log] have "redis d' ?k = None" by (simp add: same_key_def)
  with d1 \<open>val = i @ '':'' @ org\<close> row u totp \<open>lr_User resp = user\<close> show ?thesis
    by (intro that [of i org row]) (simp_all add: scanned_user_def)
qed

text \<open>Sorting by a key commutes with a change of the rows that keeps the key.\<close>

lemma insort_key_map: "(\<And>x. k (f x) = k x) \<Longrightarrow> insort_key k (f x) (map f xs) = map f (insort_key k x xs)"
  by (induction xs) auto

lemma sort_key_map: "(\<And>x. k (f x) = k x) \<Longrightarrow> sort_key k (map f xs) = map f (sort_key k xs)"
  by (induction xs) (simp_all add: insort_key_map)

lemma join_map:
  assumes "\<And>x y. P (f x) (g y) = P x y"
  shows "[r. a \<leftarrow> map f xs, r \<leftarrow> map g ys, P a r] = map g [r. a \<leftarrow> xs, r \<leftarrow> ys, P a r]"
proof -
  have "concat (map (\<lambda>r. if P (f a) r then [r] else []) (map g ys)) = map g (concat (map (\<lambda>r. if P a r then [r] else []) ys))" for a
    by (induction ys) (simp_all add: assms)
  then show ?thesis by (induction xs) simp_all
qed

section \<open>A sample service\<close>

definition sample_user :: User where
  "sample_user = \<lparr>usr_ID = ''u1'', usr_Username = ''ann'', usr_Email = ''ann@example.org'', usr_EmailVerified = False,
     usr_DisplayName = ''Ann'', usr_AvatarURL = None, usr_OrganizationID = ''o1'', usr_PasswordHash = ''#secret'',
     usr_PasswordChangedAt = None, usr_MFAEnabled = False, usr_MFAMethods = [], usr_TOTPSecret = [], usr_MFABackupCodes = [],
     usr_Attributes = [], usr_Preferences = [], usr_Role = [], usr_LastLogin = None, usr_FailedLoginAttempts = 0,
     usr_LockedUntil = None, usr_Status = ''active'', usr_CreatedAt = 0, usr_UpdatedAt = 0, usr_DeletedAt = None\<rparr>"

definition login_db :: db where
  "login_db = audit_db\<lparr>t_users := [sample_user]\<rparr>"

definition sample_access :: map_claims where
  "sample_access = [(''iss'', JStr ''iam''), (''sub'', JStr ''u1''), (''jti'', JStr ''uuid-v4-0''),
     (''user_id'', JStr ''u1''), (''email'', JStr ''ann@example.org''), (''organization_id'', JStr ''o1''), (''role'', JStr ''user''),
     (''exp'', JNum ''3600''), (''iat'', JNum ''0''), (''type'', JStr ''access'')]"

definition sample_refresh :: map_claims where
  "sample_refresh = refresh_claims sample_user ''uuid-v4-1'' 5"

text \<open>A signer that knows two tokens, and a password hash that only prepends a mark.\<close>

definition sample_env :: auth_env where
  "sample_env = \<lparr>bcrypt_ok = (\<lambda>h p. h = CHR ''#'' # p), bcrypt_hash = (\<lambda>p. Some (CHR ''#'' # p)), totp_ok = (\<lambda>_ _ _. False),
     totp_new = (\<lambda>_. None), backup_codes = (\<lambda>_. []),
     sign = (\<lambda>m. if m = sample_access then Some ''A.B.C'' else if m = sample_refresh then Some ''R.S.T'' else None),
     map_claims_of = (\<lambda>_. []),
     jwt = \<lparr>decode = (\<lambda>t. if t = ''A.B.C'' then Some (RSA, to_claims sample_access)
         else if t = ''R.S.T'' then Some (RSA, to_claims sample_refresh) else None),
       sig_ok = (\<lambda>t k. k = PublicKey ''pk''), claims_ok = (\<lambda>t cl. \<forall>e \<in> set_option (cl_ExpiresAt cl). t < e)\<rparr>,
     unverified = (\<lambda>t. if t = ''A.B.C'' then Some (''uuid-v4-0'', 3600 * second) else if t = ''R.S.T''
         then Some (''uuid-v4-1'', 24 * 7 * hour) else None),
     JWTSecret = ''s'', OIDCIssuer = ''iam'', FrontendURL = [], jsonb_of = id, show_ses = (\<lambda>_. [])\<rparr>"

definition signer_am :: AuthMiddleware where
  "signer_am = \<lparr>jwtSecret = ''s'', publicKey = Some ''pk''\<rparr>"

definition bearer_ctx :: "string \<Rightarrow> fiber_ctx" where
  "bearer_ctx tok = session_ctx\<lparr>c_Authorization := ''Bearer '' @ tok, c_Cookie := []\<rparr>"

lemma sample_signs: "signs_for sample_env signer_am"
  unfolding signs_for_def
  by (rule conjI, rule exI [of _ "''pk''"]) (auto simp: sample_env_def signer_am_def)

lemma sample_reads: "reads_claims sample_env"
proof -
  have "cl_ExpiresAt (to_claims sample_access) = Some (3600 * second)" "cl_JTI (to_claims sample_access) = ''uuid-v4-0''"
    "cl_ExpiresAt (to_claims sample_refresh) = Some (24 * 7 * hour)" "cl_JTI (to_claims sample_refresh) = ''uuid-v4-1''"
    by code_simp+
  then show ?thesis by (auto simp: reads_claims_def sample_env_def unix_def hour_def)
qed

definition sample_login :: "(login_reply http) res \<times> db" where
  "sample_login = handle_Login sample_env (bearer_ctx []) (Some ('' Ann@Example.org'', ''secret'')) login_db"

definition sample_response :: LoginResponse where
  "sample_response = \<lparr>lr_AccessToken = ''A.B.C'', lr_RefreshToken = ''R.S.T'', lr_ExpiresIn = 3600, lr_User = sample_user, lr_Role = ''user''\<rparr>"

lemma sample_login_run:
  "handle_Login sample_env (bearer_ctx []) (Some ('' Ann@Example.org'', ''secret'')) login_db
     = (Ok (Success 200 ''Login successful'' (LoggedIn sample_response)), snd sample_login)"
proof -
  have "fst sample_login = Ok (Success 200 ''Login successful'' (LoggedIn sample_response))" by code_simp
  then show ?thesis by (simp add: sample_login_def prod_eq_iff)
qed

section \<open>Properties\<close>

text \<open>C33. POST /auth/login hands out tokens only for a stored, undeleted account with the normalized email whose
  password hash accepts the password, whose status is active and which has no second factor to check.\<close>

theorem Login_sound:
  assumes "handle_Login env c body d = (Ok (Success st msg (LoggedIn resp)), d')"
  shows "\<exists>given password. body = Some (given, password) \<and> (\<exists>row \<in> set (t_users d).
    usr_Email row = trim_space (to_lower given) \<and> usr_DeletedAt row = None \<and>
    bcrypt_ok env (usr_PasswordHash row) password \<and> usr_Status row = ''active'' \<and> \<not> usr_MFAEnabled row \<and>
    lr_User resp = scanned_user row)"
  by (rule login_OkE [OF assms]) blast

theorem Login_sound_witness:
  "\<exists>d'. handle_Login sample_env (bearer_ctx []) (Some ('' Ann@Example.org'', ''secret'')) login_db
     = (Ok (Success 200 ''Login successful'' (LoggedIn sample_response)), d') \<and>
     (\<exists>row \<in> set (t_users login_db). bcrypt_ok sample_env (usr_PasswordHash row) ''secret'')"
  using sample_login_run Login_sound [OF sample_login_run] by blast

text \<open>C4. With a JWT library that verifies what it signed, and a clock past 1970, the access token of a successful
  login is accepted for one hour: in every state in which its fresh
  identifier is not blacklisted, RequireAuth, on any request that carries it as a bearer token, passes
  with the identity and the organization of the account, the email it is stored with and the session id
  of the login while the clock is before the second in which the hour after the login ends, and refuses it
  from that second on. The state the login leaves, when the identifier was not blacklisted before, is one
  of those in which it passes.\<close>

theorem Login_token_accepted:
  assumes "signs_for env am" and "handle_Login env c body d = (Ok (Success st msg (LoggedIn resp)), d')"
    and "0 \<le> now d" and "redis d (''blacklist:'' @ uuids d 0) = None"
    and "c_Authorization request = ''Bearer '' @ lr_AccessToken resp"
  shows "\<exists>claims. cl_UserID claims = usr_ID (lr_User resp) \<and>
    cl_OrganizationID claims = usr_OrganizationID (lr_User resp) \<and> cl_Email claims = usr_Email (lr_User resp) \<and>
    cl_JTI claims = uuids d 0 \<and> authenticated (jwt env) am request d' = Some claims \<and>
    (\<forall>later. redis_lookup later (''blacklist:'' @ uuids d 0) = None \<longrightarrow>
       authenticated (jwt env) am request later =
         (if now later < unix (now d + hour) * second then Some claims else None))"
proof -
  let ?k = "''blacklist:'' @ uuids d 0"
  from assms(2) obtain user role where user: "lr_User resp = user"
    and sig: "sign env (access_claims env user (uuids d 0) role (now d)) = Some (lr_AccessToken resp)"
    by (rule login_OkE) blast
  have "same_key ?k d d'" by (rule keepsD [OF same_key_login assms(2)]) simp
  then have d': "now d' = now d" "redis_lookup d' ?k = None" using assms(4) by (simp_all add: same_key_def redis_lookup_def)
  have "authenticated (jwt env) am request later = (if now later < unix (now d + hour) * second
      then Some (to_claims (access_claims env user (uuids d 0) role (now d))) else None)"
    if "redis_lookup later ?k = None" for later
    using access_token_window [OF assms(1) sig assms(3) that assms(5)] .
  moreover have "now d < unix (now d + hour) * second"
    using unix_bounds(2) [of "now d + hour"] by (simp add: hour_def)
  ultimately show ?thesis
    using d' user by (intro exI [of _ "to_claims (access_claims env user (uuids d 0) role (now d))"]) simp
qed

theorem Login_token_accepted_witness:
  "\<exists>d' claims. handle_Login sample_env (bearer_ctx []) (Some ('' Ann@Example.org'', ''secret'')) login_db
       = (Ok (Success 200 ''Login successful'' (LoggedIn sample_response)), d') \<and>
     authenticated (jwt sample_env) signer_am (bearer_ctx ''A.B.C'') d' = Some claims \<and> cl_UserID claims = ''u1''"
proof -
  have "0 \<le> now login_db" "redis login_db (''blacklist:'' @ uuids login_db 0) = None"
    "c_Authorization (bearer_ctx ''A.B.C'') = ''Bearer '' @ lr_AccessToken sample_response"
    by (simp_all add: login_db_def audit_db_def empty_db_def bearer_ctx_def sample_response_def)
  from Login_token_accepted [OF sample_signs sample_login_run this] sample_login_run show ?thesis
    by (auto simp: sample_response_def sample_user_def)
qed

text \<open>The refresh token of a login never refreshes anything: POST /auth/refresh verifies it under the shared
  secret, while it is signed with the RSA key, so it is always answered with 401.\<close>

lemma refresh_token_refused:
  assumes "signs_for env am" and "handle_Login env c body d = (Ok (Success st msg (LoggedIn resp)), d')"
  shows "handle_RefreshToken env (Some (lr_RefreshToken resp)) later = (Ok (Failure 401 [] ''Invalid refresh token''), later)"
proof -
  from assms(2) obtain j where "sign env (refresh_claims (lr_User resp) j (now d)) = Some (lr_RefreshToken resp)"
    by (rule login_OkE) auto
  then have "parse_refresh env (now later) (lr_RefreshToken resp) = None"
    by (rule signs_forE [OF assms(1)]) (simp add: parse_refresh_def)
  then show ?thesis by (simp add: handle_RefreshToken_def json_error_def)
qed

text \<open>C8. After a logout with a bearer token that has an identifier (a \<open>jti\<close> claim, which every token of
  POST /auth/login carries and an OIDC access token does not), while Redis answers, no request that
  carries the token is accepted again, at any later time. (The JWT library verifies what it signed, reads the same
  claims with and without verification, and the token is a text without spaces.)\<close>

theorem Logout_final:
  assumes "signs_for env am" and "reads_claims env" and "authenticated (jwt env) am c d = Some claims"
    and "c_Authorization c = ''Bearer '' @ tok" and "tok \<noteq> []" and "CHR '' '' \<notin> set tok" and "cl_JTI claims \<noteq> []"
    and "handle_Logout env c d = (Ok (Success st msg u), d')" and "redis_up d"
    and "token_string request = tok"
  shows "authenticated (jwt env) am request (d'\<lparr>now := t\<rparr>) = None"
proof -
  have tok: "token_string c = tok" by (rule bearer_header [OF assms(4-6)])
  from assms(3) obtain m e where dec: "decode (jwt env) tok = Some (m, claims)" and e: "cl_ExpiresAt claims = Some e"
    and valid: "claims_ok (jwt env) (now d) claims"
    by (auto simp: authenticated_def parse_with_claims_def tok split: option.splits if_splits)
  from assms(2) dec e have read: "unverified env tok = Some (cl_JTI claims, e)" "unix e * second = e"
    unfolding reads_claims_def by blast+
  have ahead: "now d < e" using signs_for_expiry [OF assms(1) e] valid by simp
  have "unverified env (bearer_token (c_Authorization c)) = Some (cl_JTI claims, e)"
    using read(1) bearer_token_header [OF assms(5)] assms(4) by simp
  from logout_blacklists [OF assms(8) this assms(9)] read(2) ahead
  have key: "redis d' (''blacklist:'' @ cl_JTI claims) = Some (RString ''revoked'', Some (now d + (unix e - unix (now d)) * second))"
    and up: "redis_up d'" by simp_all
  have "e \<le> now d + (unix e - unix (now d)) * second"
    using read(2) unix_bounds(1) [of "now d"] by (simp add: left_diff_distrib)
  then show ?thesis
    using signs_for_expiry [OF assms(1) e, of t] dec e assms(7,10) key up
    by (intro blacklisted_refused) auto
qed

theorem Logout_final_witness:
  "\<exists>d'. handle_Logout sample_env (bearer_ctx ''A.B.C'') login_db = (Ok (Success 200 ''Successfully logged out'' ()), d') \<and>
     authenticated (jwt sample_env) signer_am (bearer_ctx ''A.B.C'') (d'\<lparr>now := 7 * second\<rparr>) = None"
proof -
  let ?run = "handle_Logout sample_env (bearer_ctx ''A.B.C'') login_db"
  have "fst ?run = Ok (Success 200 ''Successfully logged out'' ())" by code_simp
  then have run: "?run = (Ok (Success 200 ''Successfully logged out'' ()), snd ?run)" by (simp add: prod_eq_iff)
  have auth: "authenticated (jwt sample_env) signer_am (bearer_ctx ''A.B.C'') login_db = Some (to_claims sample_access)"
  proof -
    have "cl_ExpiresAt (to_claims sample_access) = Some (3600 * second)" by code_simp
    moreover have "token_string (bearer_ctx ''A.B.C'') = ''A.B.C''" by code_simp
    ultimately show ?thesis
      by (simp add: authenticated_def parse_with_claims_def sample_env_def signer_am_def key_for_def login_db_def
          audit_db_def empty_db_def redis_lookup_def)
  qed
  have jti: "cl_JTI (to_claims sample_access) \<noteq> []" by code_simp
  have "authenticated (jwt sample_env) signer_am (bearer_ctx ''A.B.C'') ((snd ?run)\<lparr>now := 7 * second\<rparr>) = None"
    by (rule Logout_final [OF sample_signs sample_reads auth _ _ _ jti run])
      (simp_all add: bearer_ctx_def token_string_def login_db_def audit_db_def empty_db_def)
  with run show ?thesis by blast
qed

text \<open>C34. Resetting a password through POST /auth/reset-password ends no session: whatever the request and the
  answer, the session table is unchanged and every access token accepted before is accepted afterwards.\<close>

theorem ResetPassword_keeps_tokens:
  assumes "handle_ResetPassword env body d = (r, d')" and "authenticated lib am c d = Some claims"
  shows "t_sessions d' = t_sessions d \<and> authenticated lib am c d' = Some claims"
proof
  show "t_sessions d' = t_sessions d"
    using keepsD [OF reset_keeps_sessions assms(1)] by (simp add: same_sessions_def)
  show "authenticated lib am c d' = Some claims"
    by (rule same_key_authenticated [OF keepsD [OF same_key_reset assms(1)] assms(2)]) simp
qed

definition reset_db :: db where
  "reset_db = login_db\<lparr>redis := [''password_reset:T'' \<mapsto> (RString ''u1'', Some hour)], now := 100\<rparr>"

lemma reset_run: "handle_ResetPassword sample_env (Some (''T'', ''new'')) reset_db
  = (Ok (Success 200 ''Password updated successfully'' ()), snd (handle_ResetPassword sample_env (Some (''T'', ''new'')) reset_db))"
proof -
  have "fst (handle_ResetPassword sample_env (Some (''T'', ''new'')) reset_db) = Ok (Success 200 ''Password updated successfully'' ())"
    by code_simp
  then show ?thesis by (simp add: prod_eq_iff)
qed

theorem ResetPassword_keeps_tokens_witness:
  "\<exists>d'. handle_ResetPassword sample_env (Some (''T'', ''new'')) reset_db = (Ok (Success 200 ''Password updated successfully'' ()), d') \<and>
     authenticated sample_lib sample_am (sample_ctx []) d' = Some sample_claims"
proof -
  have "same_key (''blacklist:'' @ cl_JTI sample_claims) (empty_db 100) reset_db"
    by (simp add: same_key_def reset_db_def login_db_def audit_db_def empty_db_def sample_claims_def)
  from same_key_authenticated [OF this sample_authenticated]
  have "authenticated sample_lib sample_am (sample_ctx []) reset_db = Some sample_claims" .
  from ResetPassword_keeps_tokens [OF reset_run this] reset_run show ?thesis by blast
qed

text \<open>A successful password reset spends its token: while Redis answers, the token named a user, every row
  of that user has the new hash and every other row is as before, and the same token is refused from
  then on, at any later time.\<close>

lemma ResetPassword_once:
  assumes "handle_ResetPassword env (Some (token, password)) d = (Ok (Success st msg u), d')" and "redis_up d"
  shows "\<exists>i hash. redis_lookup d (''password_reset:'' @ token) = Some (RString i) \<and> bcrypt_hash env password = Some hash \<and>
    t_users d' = map (\<lambda>x. if usr_ID x = i then x\<lparr>usr_PasswordHash := hash, usr_PasswordChangedAt := Some (now d),
      usr_UpdatedAt := now d\<rparr> else x) (t_users d) \<and>
    handle_ResetPassword env (Some (token, again)) (d'\<lparr>now := t\<rparr>)
      = (Ok (Failure 400 [] ''Invalid or expired reset token''), d'\<lparr>now := t\<rparr>)"
proof -
  let ?k = "''password_reset:'' @ token"
  from assms(1) obtain i hash d1 d2 d3 where get: "GetPasswordResetToken token d = (Ok i, d1)" and hash: "bcrypt_hash env password = Some hash"
    and upd: "UpdatePassword i hash [] d1 = (Ok (), d2)" and del: "ignore (DeletePasswordResetToken token) d2 = (Ok (), d3)"
    and inv: "ignore (InvalidateUserSessions i) d3 = (Ok (), d')"
    by (auto simp: handle_ResetPassword_def Let_def json_error_def attempt_def elim!: bnd_OkE on_error_OkE
        split: if_splits option.splits prod.splits res.splits)
  from get have d1: "d1 = d" "redis_lookup d ?k = Some (RString i)"
    unfolding GetPasswordResetToken_def by (auto dest: redis_result_Ok)
  let ?t = "map (\<lambda>x. if usr_ID x = i then x\<lparr>usr_PasswordHash := hash, usr_PasswordChangedAt := Some (now d),
      usr_UpdatedAt := now d\<rparr> else x) (t_users d)"
  from upd d1 have d2: "d2 = put_users ?t (advance d)"
    unfolding UpdatePassword_def by (auto dest!: change_users_Ok)
  with del assms(2) have d3: "d3 = d2\<lparr>redis := (redis d2)(?k := None)\<rparr>"
    by (auto dest!: ignore_Ok simp: DeletePasswordResetToken_def redis_del_def redis_cmd_def)
  with inv d2 assms(2) have d': "t_users d' = ?t" "redis d' ?k = None" "redis_up d'"
    by (auto dest!: ignore_Ok simp: InvalidateUserSessions_def redis_cmd_def)
  then have "attempt (GetPasswordResetToken token) (d'\<lparr>now := t\<rparr>) = (Ok (Inl ''redis: nil''), d'\<lparr>now := t\<rparr>)"
    by (simp add: GetPasswordResetToken_def redis_result_def attempt_def redis_get_run redis_lookup_def bnd_def)
  then have "handle_ResetPassword env (Some (token, again)) (d'\<lparr>now := t\<rparr>)
      = (Ok (Failure 400 [] ''Invalid or expired reset token''), d'\<lparr>now := t\<rparr>)"
    by (simp add: handle_ResetPassword_def bnd_Ok json_error_def)
  with d1(2) hash d'(1) show ?thesis by blast
qed

text \<open>POST /auth/login/mfa answers with tokens only when its token is the key of a pending login in Redis, of
  a stored, undeleted account whose TOTP secret accepts the code at this moment; and the pending login
  is then spent. The status of the account is not looked at again.\<close>

lemma LoginMFAVerify_sound:
  assumes "handle_LoginMFAVerify env c (Some (token, code)) d = (Ok (Success st msg resp), d')" and "redis_up d"
  shows "redis d' (mfa_key token) = None \<and> (\<exists>row \<in> set (t_users d). \<exists>org.
    redis_lookup d (mfa_key token) = Some (RString (usr_ID row @ '':'' @ org)) \<and> in_scope org row \<and>
    totp_ok env (now d) code (usr_TOTPSecret row) \<and> lr_User resp = scanned_user row)"
  by (rule mfa_login_OkE [OF assms]) blast

definition mfa_db :: db where
  "mfa_db = login_db\<lparr>t_users := [sample_user\<lparr>usr_Status := ''suspended'', usr_MFAEnabled := True, usr_TOTPSecret := ''JBSW''\<rparr>],
     redis := [''mfa_login:T'' \<mapsto> (RString ''u1:o1'', Some 100)]\<rparr>"

text \<open>The role that a token carries ignores the life of what it comes from: changing when assignments expire
  and what status the roles have, deleting them softly included, never changes the role that login puts
  into the token.\<close>

lemma token_role_ignores_expiry:
  "primary_role userID org (d\<lparr>t_role_assignments := map (\<lambda>a. a\<lparr>ra_ExpiresAt := expiry a\<rparr>) (t_role_assignments d),
     t_roles := map (\<lambda>r. r\<lparr>rol_Status := status r, rol_DeletedAt := deleted r\<rparr>) (t_roles d)\<rparr>)
   = primary_role userID org d"
proof -
  let ?P = "\<lambda>ra r. ra_RoleID ra = rol_ID r \<and> ra_PrincipalID ra = userID \<and> ra_PrincipalType ra = ''user'' \<and> rol_OrganizationID r = org"
  have "[r. ra \<leftarrow> map (\<lambda>a. a\<lparr>ra_ExpiresAt := expiry a\<rparr>) (t_role_assignments d),
        r \<leftarrow> map (\<lambda>r. r\<lparr>rol_Status := status r, rol_DeletedAt := deleted r\<rparr>) (t_roles d), ?P ra r]
      = map (\<lambda>r. r\<lparr>rol_Status := status r, rol_DeletedAt := deleted r\<rparr>) [r. ra \<leftarrow> t_role_assignments d, r \<leftarrow> t_roles d, ?P ra r]"
    by (rule join_map) simp
  then show ?thesis by (simp add: primary_role_def sort_key_map split: list.split)
qed

end
