(* ===== verification/AdminBootstrap.thy ===== *)
theory AdminBootstrap
  imports AuthFlow
begin

text \<open>
  The bootstrap of an administrator (CreateAdminUser of internal/queries/auth.go) together with the
  authorization service: the new account may do everything in its organization that no rule denies.
\<close>

section \<open>The statements of the bootstrap\<close>

lemma transaction_Ok:
  assumes "transaction m d = (Ok x, d')"
  obtains d1 where "m (advance d) = (Ok x, d1)" and "d' = advance d1"
proof -
  from assms have "bnd (select (\<lambda>_. ())) (\<lambda>_. bnd m (\<lambda>x. bnd (select (\<lambda>_. ())) (\<lambda>_. ret x))) d = (Ok x, d')"
    unfolding transaction_def by (auto split: prod.splits res.splits)
  then show ?thesis by (auto elim!: bnd_OkE dest!: select_Ok intro: that)
qed

definition same_policies :: "db \<Rightarrow> db \<Rightarrow> bool" where
  "same_policies d d' \<longleftrightarrow> t_policies d' = t_policies d \<and> now d' = now d"

lemma same_policies_order [keeps_intros]: "reflp same_policies" "transp same_policies"
  by (auto simp: reflp_def transp_def same_policies_def)

lemma same_policies_advance [keeps_intros]: "same_policies d (advance d)"
  by (simp add: same_policies_def)

lemma same_policies_fresh [keeps_intros]: "keeps same_policies fresh_uuid" "keeps same_policies (first8 s)"
  unfolding first8_def by (intro keeps_intros; simp add: same_policies_def)+

lemma same_policies_org: "keeps same_policies (ensure_org i t)"
  unfolding ensure_org_def organizationExists_def
  by (intro keeps_intros) (simp_all add: same_policies_def)

lemma same_policies_user: "keeps same_policies (insert_user u)"
  unfolding insert_user_def by (rule keeps_stmt) (auto simp: same_policies_def split: if_splits option.splits)

lemma same_policies_role: "keeps same_policies (ensure_admin_role i t)"
  unfolding ensure_admin_role_def
  by (intro keeps_intros keeps_stmt) (auto simp: same_policies_def split: if_splits option.splits)

text \<open>The policy that the bootstrap leaves in the organization, and the two links to the account.\<close>

definition grants_all :: "(string \<Rightarrow> string) \<Rightarrow> string \<Rightarrow> string \<Rightarrow> db \<Rightarrow> bool" where
  "grants_all jsonb org policyID d \<longleftrightarrow> (\<exists>p \<in> set (t_policies d). pol_ID p = policyID \<and> pol_OrganizationID p = org \<and>
     pol_Status p = ''active'' \<and> pol_Document p = jsonb full_access)"

lemma upsert_full_access_Ok:
  assumes "upsert_full_access jsonb org t i d = Inr (policyID, d')"
    and "\<forall>p \<in> set (t_policies d). is_full_access org p \<longrightarrow> pol_Status p = ''active''"
  shows "grants_all jsonb org policyID d' \<and> now d' = now d"
proof (cases "find (is_full_access org) (t_policies d)")
  case None
  with assms(1) show ?thesis
    by (auto simp: upsert_full_access_def grants_all_def full_access_policy_def split: option.splits)
next
  case (Some old)
  define f where "f p = (if is_full_access org p
      then p\<lparr>pol_Description := ''Administrator full access policy'', pol_Document := jsonb full_access, pol_UpdatedAt := t\<rparr>
      else p)" for p
  from find_SomeD [OF Some] assms(2) have old: "old \<in> set (t_policies d)" "is_full_access org old" "pol_Status old = ''active''" by auto
  then have "pol_ID (f old) = pol_ID old" "pol_OrganizationID (f old) = org" "pol_Status (f old) = ''active''"
    "pol_Document (f old) = jsonb full_access"
    by (simp_all add: f_def is_full_access_def)
  moreover from assms(1) Some have "policyID = pol_ID old" "now d' = now d" "t_policies d' = map f (t_policies d)"
    by (auto simp: upsert_full_access_def f_def [abs_def])
  moreover have "f old \<in> set (map f (t_policies d))" using old(1) by simp
  ultimately show ?thesis unfolding grants_all_def by metis
qed

lemma ensureAdminPolicy_Ok:
  assumes "ensureAdminPolicy jsonb org t d = (Ok policyID, d')"
    and "\<forall>p \<in> set (t_policies d). is_full_access org p \<longrightarrow> pol_Status p = ''active''"
  shows "grants_all jsonb org policyID d' \<and> now d' = now d"
proof -
  let ?d = "d\<lparr>uuids := (\<lambda>n. uuids d (Suc n))\<rparr>"
  from assms(1) have "stmt (upsert_full_access jsonb org t (uuids d 0)) ?d = (Ok policyID, d')"
    unfolding ensureAdminPolicy_def by (auto elim!: bnd_OkE dest!: fresh_uuid_Ok)
  then show ?thesis
    by (rule stmt_OkE) (use upsert_full_access_Ok [of jsonb org t "uuids d 0" "advance ?d" policyID d'] assms(2) in simp)
qed

text \<open>The link of the role to the policy, and of the account to the role.\<close>

lemma ensureRoleHasPolicy_Ok:
  assumes "ensureRoleHasPolicy roleID policyID actor t d = (Ok u, d')"
  shows "(\<exists>rp \<in> set (t_role_policies d'). rlp_RoleID rp = roleID \<and> rlp_PolicyID rp = policyID) \<and> same_policies d d'"
proof -
  let ?d = "d\<lparr>uuids := (\<lambda>n. uuids d (Suc n))\<rparr>" and ?i = "uuids d 0"
  from assms have "stmt (\<lambda>d. if list_ex (\<lambda>r. rlp_RoleID r = roleID \<and> rlp_PolicyID r = policyID) (t_role_policies d) then Inr ((), d)
     else Inr ((), d\<lparr>t_role_policies := t_role_policies d @ [\<lparr>rlp_ID = ?i, rlp_RoleID = roleID, rlp_PolicyID = policyID,
            rlp_AttachedAt = t, rlp_AttachedBy = Some actor\<rparr>]\<rparr>)) ?d = (Ok u, d')"
    unfolding ensureRoleHasPolicy_def by (auto elim!: bnd_OkE dest!: fresh_uuid_Ok)
  then show "(\<exists>rp \<in> set (t_role_policies d'). rlp_RoleID rp = roleID \<and> rlp_PolicyID rp = policyID) \<and> same_policies d d'"
    by (rule stmt_OkE) (auto simp: same_policies_def list_ex_iff split: if_splits)
qed

lemma assign_role_to_Ok:
  assumes "assign_role_to roleID userID t d = (Ok u, d')"
  shows "(\<exists>ra \<in> set (t_role_assignments d'). ra_RoleID ra = roleID \<and> ra_PrincipalID ra = userID \<and>
      ra_PrincipalType ra = ''user'' \<and> ra_ExpiresAt ra = None) \<and> same_policies d d' \<and> t_role_policies d' = t_role_policies d"
  using assms unfolding assign_role_to_def
  by (auto elim!: bnd_OkE dest!: fresh_uuid_Ok insert_row_Ok simp: same_policies_def)

text \<open>The chain from the account to the full-access policy that a successful bootstrap leaves.\<close>

lemma CreateAdminUser_policy:
  assumes "CreateAdminUser jsonb user d = (Ok org, d')"
    and "\<forall>p \<in> set (t_policies d). is_full_access org p \<longrightarrow> pol_Status p = ''active''"
  shows "\<exists>p \<in> set (principal_policies (usr_ID user) ''user'' org d'). pol_Document p = jsonb full_access"
proof -
  let ?t = "now d"
  from assms(1) obtain dn where d': "d' = advance dn" and "(bnd (ensure_org (usr_OrganizationID user) ?t) (\<lambda>orgID.
      bnd (insert_user (new_user ?t (user\<lparr>usr_OrganizationID := orgID\<rparr>))) (\<lambda>_.
      bnd (ensure_admin_role orgID ?t) (\<lambda>_.
      bnd (admin_role_id orgID) (\<lambda>roleID.
      bnd (ensureAdminPolicy jsonb orgID ?t) (\<lambda>policyID.
      bnd (ensureRoleHasPolicy roleID policyID (usr_ID user) ?t) (\<lambda>_.
      bnd (assign_role_to roleID (usr_ID user) ?t) (\<lambda>_. ret orgID)))))))) (advance d) = (Ok org, dn)"
    unfolding CreateAdminUser_def by (auto elim: transaction_Ok)
  then obtain x d1 u2 d2 u3 d3 roleID d4 policyID d5 u6 d6 u7 d7 where
    1: "ensure_org (usr_OrganizationID user) ?t (advance d) = (Ok x, d1)"
    and 2: "insert_user (new_user ?t (user\<lparr>usr_OrganizationID := x\<rparr>)) d1 = (Ok u2, d2)"
    and 3: "ensure_admin_role x ?t d2 = (Ok u3, d3)" and 4: "admin_role_id x d3 = (Ok roleID, d4)"
    and 5: "ensureAdminPolicy jsonb x ?t d4 = (Ok policyID, d5)"
    and 6: "ensureRoleHasPolicy roleID policyID (usr_ID user) ?t d5 = (Ok u6, d6)"
    and 7: "assign_role_to roleID (usr_ID user) ?t d6 = (Ok u7, d7)" and fin: "ret x d7 = (Ok org, dn)"
    by (elim bnd_OkE) (rule that)
  from fin have [simp]: "x = org" "dn = d7" by simp_all
  from 4 have "same_policies d3 d4" unfolding admin_role_id_def by (auto elim!: bnd_OkE dest!: select_Ok split: option.splits simp: same_policies_def)
  then have "t_policies d4 = t_policies d"
    using keepsD [OF same_policies_org 1] keepsD [OF same_policies_user 2] keepsD [OF same_policies_role 3]
    by (simp add: same_policies_def)
  with ensureAdminPolicy_Ok [OF 5] assms(2) have grants: "grants_all jsonb org policyID d5" by simp
  with ensureRoleHasPolicy_Ok [OF 6] assign_role_to_Ok [OF 7] d' obtain p rp ra where
    p: "p \<in> set (t_policies d')" "pol_ID p = policyID" "pol_OrganizationID p = org" "pol_Status p = ''active''"
      "pol_Document p = jsonb full_access"
    and rp: "rp \<in> set (t_role_policies d')" "rlp_RoleID rp = roleID" "rlp_PolicyID rp = policyID"
    and ra: "ra \<in> set (t_role_assignments d')" "ra_RoleID ra = roleID" "ra_PrincipalID ra = usr_ID user"
      "ra_PrincipalType ra = ''user''" "ra_ExpiresAt ra = None"
    by (auto simp: grants_all_def same_policies_def)
  from ra have "holds_role d' (usr_ID user) ''user'' roleID"
    unfolding principal_roles_iff [symmetric]
    by (auto simp: principal_roles_def direct_roles_def unexpired_def intro!: image_eqI [of _ _ ra])
  with p rp have "coalesced p \<in> set (principal_policies (usr_ID user) ''user'' org d')"
    unfolding principal_policies_iff by blast
  moreover have "pol_Document (coalesced p) = jsonb full_access" using p(5) by (simp add: coalesced_def)
  ultimately show ?thesis by blast
qed

lemma full_access_allows:
  assumes "unmarshal_policy doc = unmarshal_policy full_access"
  shows "Evaluate num_v ord doc action resource ctx = (DecisionAllow, None)"
proof -
  let ?st = "zero_statement\<lparr>Effect := ''Allow'', Action := JArr [JStr ''*''], Resource := JArr [JStr ''*'']\<rparr>"
  have "unmarshal_policy full_access = Some [?st]" by code_simp
  moreover have "stmt_matches num_v ord ?st action resource ctx = Ok True"
    by (simp add: stmt_matches_def matchField_def MatchWildcard_def zero_statement_def)
  moreover have "equal_fold ''Allow'' ''Allow''" "\<not> equal_fold ''Allow'' ''Deny''" by code_simp+
  ultimately show ?thesis using assms by (simp add: Evaluate_def)
qed

section \<open>Properties\<close>

text \<open>C7. The administrator that the bootstrap creates is one: when CreateAdminUser succeeds (and the database
  keeps the content of a JSON document, and an older FullAccess policy of the organization, if there is
  one, is active), Authorize allows the new account every action on every resource of its organization,
  in the state the bootstrap leaves while the database answers (no fault is pending there), unless a
  policy or a grant of the account denies it.\<close>

theorem bootstrap_admin_allowed:
  assumes "CreateAdminUser jsonb user d = (Ok org, d')"
    and "\<forall>p \<in> set (t_policies d). is_full_access org p \<longrightarrow> pol_Status p = ''active''"
    and "unmarshal_policy (jsonb full_access) = unmarshal_policy full_access"
    and "healthy d'"
    and "\<forall>p \<in> set (principal_policies (usr_ID user) ''user'' org d').
      document_vote num_v ord action resource ctx p \<noteq> DecisionDeny"
    and "\<forall>p \<in> set (held_permissions (usr_ID user) ''user'' org d'). permission_vote action resource p \<noteq> DecisionDeny"
  shows "Authorize num_v ord (usr_ID user) ''user'' org action resource ctx d' = (Ok DecisionAllow, d')"
proof -
  from CreateAdminUser_policy [OF assms(1,2)] obtain p where "p \<in> set (principal_policies (usr_ID user) ''user'' org d')"
    and "pol_Document p = jsonb full_access" by blast
  moreover from this(2) have "document_vote num_v ord action resource ctx p = DecisionAllow"
    using full_access_allows [OF assms(3)] by (simp add: document_vote_def)
  ultimately have "combine num_v ord action resource ctx (principal_policies (usr_ID user) ''user'' org d')
      (held_permissions (usr_ID user) ''user'' org d')
      (readable_shares (held_shares (usr_ID user) ''user'' org d')) = DecisionAllow"
    using assms(5,6) by (auto simp: combine_def)
  with Authorize_healthy [OF assms(4)] show ?thesis by simp
qed

theorem bootstrap_admin_allowed_witness:
  "\<exists>d'. CreateAdminUser id (sample_user\<lparr>usr_OrganizationID := []\<rparr>) (empty_db 5) = (Ok ''uuid-v4-0'', d') \<and>
     Authorize id id ''u1'' ''user'' ''uuid-v4-0'' ''iam:DeleteUser'' ''anything'' Map.empty d' = (Ok DecisionAllow, d')"
proof -
  let ?u = "sample_user\<lparr>usr_OrganizationID := []\<rparr>"
  let ?run = "CreateAdminUser id ?u (empty_db 5)"
  have "fst ?run = Ok ''uuid-v4-0''" by code_simp
  then have run: "?run = (Ok ''uuid-v4-0'', snd ?run)" by (simp add: prod_eq_iff)
  have old: "\<forall>p \<in> set (t_policies (empty_db 5)). is_full_access ''uuid-v4-0'' p \<longrightarrow> pol_Status p = ''active''"
    by (simp add: empty_db_def)
  have healthy: "healthy (snd ?run)" by code_simp
  have none: "\<forall>p \<in> set (principal_policies (usr_ID ?u) ''user'' ''uuid-v4-0'' (snd ?run)).
      document_vote id id ''iam:DeleteUser'' ''anything'' Map.empty p \<noteq> DecisionDeny"
    "\<forall>p \<in> set (held_permissions (usr_ID ?u) ''user'' ''uuid-v4-0'' (snd ?run)).
      permission_vote ''iam:DeleteUser'' ''anything'' p \<noteq> DecisionDeny" by code_simp+
  from bootstrap_admin_allowed [OF run old _ healthy none] run show ?thesis by (auto simp: sample_user_def)
qed

end
