(* ===== verification/OidcStore.thy ===== *)
theory OidcStore
  imports AuthStore
begin

text \<open>
  The OAuth clients and the authorization codes: internal/queries/oidc_queries.go over the tables of
  migrations 000004 and 000005. The table of codes has no organization column, so a stored code has the
  empty organization.
\<close>

section \<open>The tables\<close>

definition clients_violation :: "OAuthClient list \<Rightarrow> string option" where
  "clients_violation t =
     (if \<exists>c \<in> set t. oc_RedirectURIs c = None then Some (not_null ''redirect_uris'')
      else if \<exists>c \<in> set t. length (oc_ClientName c) > 255 \<or> length (oc_ClientSecretHash c) > 255
          \<or> (\<exists>u \<in> \<Union> (set_option ` {oc_LogoURL c, oc_PolicyURI c, oc_TosURI c}). length u > 1024) then Some varchar_overflow
      else if \<not> distinct (map oc_ID t) then Some (duplicate_key ''oauth_clients_pkey'')
      else None)"

abbreviation put_clients :: "OAuthClient list \<Rightarrow> db \<Rightarrow> db" where
  "put_clients t d \<equiv> d\<lparr>t_oauth_clients := t\<rparr>"

abbreviation put_codes :: "OIDCAuthCode list \<Rightarrow> db \<Rightarrow> db" where
  "put_codes t d \<equiv> d\<lparr>t_oidc_codes := t\<rparr>"

definition live_client :: "string \<Rightarrow> OAuthClient \<Rightarrow> bool" where
  "live_client i c \<longleftrightarrow> oc_ID c = i \<and> oc_DeletedAt c = None"

section \<open>Clients\<close>

text \<open>No row is not an error: the result is nil.\<close>

definition GetClientByID :: "string \<Rightarrow> OAuthClient option query" where
  "GetClientByID i = wrap ''failed to get oauth client'' (select (\<lambda>d. find (live_client i) (t_oauth_clients d)))"

definition CreateClient :: "OAuthClient \<Rightarrow> unit query" where
  "CreateClient client = wrap ''failed to create oauth client'' (stmt (\<lambda>d.
     let row = client\<lparr>oc_DeletedAt := None\<rparr>; t = t_oauth_clients d @ [row] in
     case clients_violation t of Some e \<Rightarrow> Inl e
     | None \<Rightarrow> if oc_OrganizationID client \<notin> org_ID ` set (t_organizations d)
         then Inl (foreign_key ''oauth_clients_organization_id_fkey'') else Inr ((), put_clients t d)))"

definition ListClientsByOrg :: "string \<Rightarrow> OAuthClient list query" where
  "ListClientsByOrg orgID = wrap ''failed to list oauth clients'' (select (\<lambda>d. order_desc oc_CreatedAt
     (filter (\<lambda>c. oc_OrganizationID c = orgID \<and> oc_DeletedAt c = None) (t_oauth_clients d))))"

text \<open>The number of rows is not looked at.\<close>

definition UpdateClient :: "OAuthClient \<Rightarrow> unit query" where
  "UpdateClient client = bnd (wrap ''failed to update oauth client''
     (update_checked t_oauth_clients put_clients clients_violation
       (\<lambda>c. live_client (oc_ID client) c \<and> oc_OrganizationID c = oc_OrganizationID client)
       (\<lambda>c. c\<lparr>oc_ClientName := oc_ClientName client, oc_RedirectURIs := oc_RedirectURIs client,
          oc_GrantTypes := oc_GrantTypes client, oc_ResponseTypes := oc_ResponseTypes client, oc_Scope := oc_Scope client,
          oc_IsPublic := oc_IsPublic client, oc_IsTrusted := oc_IsTrusted client, oc_LogoURL := oc_LogoURL client,
          oc_PolicyURI := oc_PolicyURI client, oc_TosURI := oc_TosURI client, oc_UpdatedAt := oc_UpdatedAt client\<rparr>)))
     (\<lambda>_. ret ())"

definition DeleteClient :: "string \<Rightarrow> string \<Rightarrow> unit query" where
  "DeleteClient clientID orgID = must_affect ''client not found'' ''failed to delete oauth client''
     (exec_on t_oauth_clients put_clients (\<lambda>d. update_where
        (\<lambda>c. live_client clientID c \<and> oc_OrganizationID c = orgID) (\<lambda>c. c\<lparr>oc_DeletedAt := Some (now d)\<rparr>)))"

section \<open>Authorization codes\<close>

text \<open>The row that the insert builds: unused, created now, without the organization of the struct.\<close>

definition stored_code :: "instant \<Rightarrow> OIDCAuthCode \<Rightarrow> OIDCAuthCode" where
  "stored_code t c = c\<lparr>ac_Used := False, ac_OrganizationID := [], ac_CreatedAt := t\<rparr>"

definition SaveAuthCode :: "OIDCAuthCode \<Rightarrow> unit query" where
  "SaveAuthCode code = wrap ''failed to save oidc code'' (stmt (\<lambda>d.
     if length (ac_Code code) > 255 \<or> (\<exists>n \<in> set_option (ac_Nonce code). length n > 255) then Inl varchar_overflow
     else if ac_Code code \<in> ac_Code ` set (t_oidc_codes d) then Inl (duplicate_key ''oidc_codes_pkey'')
     else if ac_UserID code \<notin> usr_ID ` set (t_users d) then Inl (foreign_key ''oidc_codes_user_id_fkey'')
     else if ac_ClientID code \<notin> oc_ID ` set (t_oauth_clients d) then Inl (foreign_key ''oidc_codes_client_id_fkey'')
     else Inr ((), put_codes (t_oidc_codes d @ [stored_code (now d) code]) d)))"

definition GetAuthCode :: "string \<Rightarrow> OIDCAuthCode option query" where
  "GetAuthCode code = wrap ''failed to get oidc code'' (select (\<lambda>d. find (\<lambda>c. ac_Code c = code) (t_oidc_codes d)))"

definition MarkAuthCodeUsed :: "string \<Rightarrow> unit query" where
  "MarkAuthCodeUsed code = bnd (wrap ''failed to mark oidc code as used''
     (exec_on t_oidc_codes put_codes (\<lambda>_. update_where (\<lambda>c. ac_Code c = code) (\<lambda>c. c\<lparr>ac_Used := True\<rparr>)))) (\<lambda>_. ret ())"

end
