(* ===== verification/OidcHandler.thy ===== *)
theory OidcHandler
  imports OidcStore AuthFlow
begin

text \<open>
  The OpenID provider: internal/services/oidc_service.go and internal/handlers/oidc_handler.go. Bcrypt, the
  JWT library and the random secret are parameters; query and form values arrive parsed. A redirect is
  a response with status 302 and the location.
\<close>

section \<open>The service\<close>

text \<open>An empty client secret is not checked: front-channel requests carry none.\<close>

definition ValidateClient :: "auth_env \<Rightarrow> string \<Rightarrow> string \<Rightarrow> string \<Rightarrow> OAuthClient query" where
  "ValidateClient env clientID clientSecret redirectURI = bnd (GetClientByID clientID) (\<lambda>r. case r of
       None \<Rightarrow> fail ''invalid_client''
     | Some client \<Rightarrow>
         if \<not> oc_IsPublic client \<and> clientSecret \<noteq> [] \<and> \<not> bcrypt_ok env (oc_ClientSecretHash client) clientSecret
         then fail ''invalid_client_secret''
         else if redirectURI \<notin> set (case oc_RedirectURIs client of None \<Rightarrow> [] | Some uris \<Rightarrow> uris)
         then fail ''invalid_redirect_uri'' else ret client)"

definition new_code :: "string \<Rightarrow> string \<Rightarrow> string \<Rightarrow> string \<Rightarrow> string \<Rightarrow> string \<Rightarrow> string \<Rightarrow> instant \<Rightarrow> OIDCAuthCode" where
  "new_code code userID orgID clientID scope nonce redirectURI t = \<lparr>ac_Code = code, ac_UserID = userID, ac_ClientID = clientID,
     ac_Scope = scope, ac_Nonce = (if nonce = [] then None else Some nonce), ac_RedirectURI = redirectURI,
     ac_ExpiresAt = t + 10 * 60 * second, ac_Used = False, ac_OrganizationID = orgID, ac_CreatedAt = 0\<rparr>"

definition CreateAuthorizationCode :: "string \<Rightarrow> string \<Rightarrow> string \<Rightarrow> string \<Rightarrow> string \<Rightarrow> string \<Rightarrow> string query" where
  "CreateAuthorizationCode userID orgID clientID scope nonce redirectURI = bnd fresh_uuid (\<lambda>code. gets now (\<lambda>t.
     bnd (SaveAuthCode (new_code code userID orgID clientID scope nonce redirectURI t)) (\<lambda>_. ret code)))"

record TokenResponse =
  tr_AccessToken :: string
  tr_IDToken :: string
  tr_ExpiresIn :: int
  tr_Scope :: string

definition id_claims :: "auth_env \<Rightarrow> OIDCAuthCode \<Rightarrow> string \<Rightarrow> User \<Rightarrow> instant \<Rightarrow> map_claims" where
  "id_claims env ac clientID user t = [(''iss'', JStr (OIDCIssuer env)), (''sub'', JStr (ac_UserID ac)), (''aud'', JStr clientID),
     (''exp'', JNum (show_int (unix (t + hour)))), (''iat'', JNum (show_int (unix t))),
     (''nonce'', case ac_Nonce ac of None \<Rightarrow> JNull | Some n \<Rightarrow> JStr n), (''email'', JStr (usr_Email user)),
     (''email_verified'', JBool (usr_EmailVerified user)), (''name'', JStr (usr_DisplayName user)),
     (''preferred_username'', JStr (usr_Username user))]"

definition oidc_access_claims :: "auth_env \<Rightarrow> OIDCAuthCode \<Rightarrow> string \<Rightarrow> instant \<Rightarrow> map_claims" where
  "oidc_access_claims env ac clientID t = [(''iss'', JStr (OIDCIssuer env)), (''sub'', JStr (ac_UserID ac)), (''aud'', JStr clientID),
     (''exp'', JNum (show_int (unix (t + hour)))), (''iat'', JNum (show_int (unix t))), (''scope'', JStr (ac_Scope ac)),
     (''client_id'', JStr clientID), (''type'', JStr ''access''), (''organization_id'', JStr (ac_OrganizationID ac))]"

text \<open>The exchange up to the point where the code is marked, and from there on.\<close>

definition check_grant :: "auth_env \<Rightarrow> string \<Rightarrow> string \<Rightarrow> string \<Rightarrow> OIDCAuthCode query" where
  "check_grant env code clientID clientSecret = bnd (GetAuthCode code) (\<lambda>r. gets now (\<lambda>t. case r of
       None \<Rightarrow> fail ''invalid_grant''
     | Some ac \<Rightarrow> if ac_Used ac \<or> ac_ExpiresAt ac < t then fail ''invalid_grant''
         else bnd (ValidateClient env clientID clientSecret (ac_RedirectURI ac)) (\<lambda>client.
           if \<not> oc_IsPublic client \<and> clientSecret = [] then fail ''invalid_client_secret'' else ret ac)))"

definition sign_as :: "auth_env \<Rightarrow> string \<Rightarrow> map_claims \<Rightarrow> string query" where
  "sign_as env what m = wrap (''failed to sign '' @ what) (signed env m)"

definition redeem :: "auth_env \<Rightarrow> string \<Rightarrow> string \<Rightarrow> OIDCAuthCode \<Rightarrow> TokenResponse query" where
  "redeem env code clientID ac = bnd (MarkAuthCodeUsed code) (\<lambda>_.
     bnd (wrap ''failed to fetch user for ID token claims'' (GetUserByID (ac_UserID ac) (ac_OrganizationID ac))) (\<lambda>user. gets now (\<lambda>t.
     bnd (sign_as env ''id_token'' (id_claims env ac clientID user t)) (\<lambda>idToken.
     bnd (sign_as env ''access_token'' (oidc_access_claims env ac clientID t)) (\<lambda>accessToken.
     ret \<lparr>tr_AccessToken = accessToken, tr_IDToken = idToken, tr_ExpiresIn = 3600, tr_Scope = ac_Scope ac\<rparr>)))))"

definition ExchangeCodeForToken :: "auth_env \<Rightarrow> string \<Rightarrow> string \<Rightarrow> string \<Rightarrow> TokenResponse query" where
  "ExchangeCodeForToken env code clientID clientSecret =
     bnd (check_grant env code clientID clientSecret) (redeem env code clientID)"

record RegisterClientRequest =
  rc_ClientName :: string
  rc_RedirectURIs :: "string list option"
  rc_Scope :: string
  rc_IsPublic :: bool
  rc_LogoURL :: "string option"

text \<open>The policy and terms URIs of the handler's client are nil, so an update always clears them.\<close>

definition updated_client :: "RegisterClientRequest \<Rightarrow> instant \<Rightarrow> OAuthClient \<Rightarrow> OAuthClient" where
  "updated_client req t existing = existing\<lparr>oc_ClientName := rc_ClientName req, oc_RedirectURIs := rc_RedirectURIs req,
     oc_Scope := rc_Scope req, oc_IsPublic := rc_IsPublic req, oc_LogoURL := rc_LogoURL req, oc_PolicyURI := None,
     oc_TosURI := None, oc_UpdatedAt := t\<rparr>"

definition svc_UpdateClient :: "string \<Rightarrow> RegisterClientRequest \<Rightarrow> unit query" where
  "svc_UpdateClient clientID req = bnd (GetClientByID clientID) (\<lambda>r. gets now (\<lambda>t. case r of
       None \<Rightarrow> fail ''client_not_found'' | Some existing \<Rightarrow> UpdateClient (updated_client req t existing)))"

definition GetDiscoveryConfiguration :: "auth_env \<Rightarrow> (string \<times> json) list" where
  "GetDiscoveryConfiguration env = (let issuer = OIDCIssuer env; strs = (\<lambda>xs. JArr (map JStr xs)) in
     [(''issuer'', JStr issuer), (''authorization_endpoint'', JStr (issuer @ ''/api/v1/oauth2/authorize'')),
      (''token_endpoint'', JStr (issuer @ ''/api/v1/oauth2/token'')), (''userinfo_endpoint'', JStr (issuer @ ''/api/v1/oauth2/userinfo'')),
      (''jwks_uri'', JStr (issuer @ ''/.well-known/jwks.json'')), (''scopes_supported'', strs [''openid'', ''profile'', ''email'']),
      (''response_types_supported'', strs [''code'', ''token'', ''id_token'']), (''subject_types_supported'', strs [''public'']),
      (''id_token_signing_alg_values_supported'', strs [''RS256''])])"

section \<open>Redirects\<close>

definition hex_digit :: "nat \<Rightarrow> char" where
  "hex_digit n = ''0123456789ABCDEF'' ! n"

text \<open>\<open>url.QueryEscape\<close>.\<close>

definition query_escape :: "string \<Rightarrow> string" where
  "query_escape s = concat (map (\<lambda>c. if alnum_or ''-_.~'' c then [c] else if c = CHR '' '' then ''+''
     else (let n = of_char c in [CHR ''%'', hex_digit (n div 16), hex_digit (n mod 16)])) s)"

definition with_code :: "string \<Rightarrow> string \<Rightarrow> string \<Rightarrow> string" where
  "with_code redirectURI code state = redirectURI @ ''?code='' @ code @ ''&state='' @ state"

definition redirect :: "string \<Rightarrow> string handler" where
  "redirect location = apiSuccess 302 [] location"

section \<open>The endpoints\<close>

record AuthorizeQuery =
  q_client_id :: string
  q_redirect_uri :: string
  q_scope :: string
  q_state :: string
  q_nonce :: string
  q_OriginalURL :: string

definition handle_Authorize :: "auth_env \<Rightarrow> fiber_ctx \<Rightarrow> AuthorizeQuery \<Rightarrow> string handler" where
  "handle_Authorize env c q = on_error (ValidateClient env (q_client_id q) [] (q_redirect_uri q)) (json_error 400)
     (\<lambda>client. case c_user_id c of
        None \<Rightarrow> redirect (FrontendURL env @ ''/login?return_to='' @ query_escape (OIDCIssuer env @ q_OriginalURL q))
      | Some userID \<Rightarrow>
          if oc_IsTrusted client
          then on_error (CreateAuthorizationCode userID (local (c_organization_id c)) (q_client_id q) (q_scope q) (q_nonce q)
                 (q_redirect_uri q)) (\<lambda>_. json_error 500 ''server_error'')
               (\<lambda>code. redirect (with_code (q_redirect_uri q) code (q_state q)))
          else redirect (FrontendURL env @ ''/consent?client_id='' @ q_client_id q @ ''&scope='' @ q_scope q @ ''&state='' @ q_state q
                 @ ''&redirect_uri='' @ q_redirect_uri q))"

record ClientInfo =
  ci_client_id :: string
  ci_client_name :: string
  ci_logo_url :: "string option"
  ci_policy_uri :: "string option"
  ci_tos_uri :: "string option"

definition client_info :: "OAuthClient \<Rightarrow> ClientInfo" where
  "client_info client = \<lparr>ci_client_id = oc_ID client, ci_client_name = oc_ClientName client, ci_logo_url = oc_LogoURL client,
     ci_policy_uri = oc_PolicyURI client, ci_tos_uri = oc_TosURI client\<rparr>"

text \<open>The first call's result is dropped; its statement still runs.\<close>

definition handle_GetPublicClientInfo :: "auth_env \<Rightarrow> string \<Rightarrow> ClientInfo handler" where
  "handle_GetPublicClientInfo env clientID = (if clientID = [] then json_error 400 ''client_id_required''
     else bnd (ignore (ValidateClient env clientID [] [])) (\<lambda>_.
       on_error (GetClientByID clientID) (\<lambda>_. json_error 500 ''server_error'')
         (\<lambda>r. case r of None \<Rightarrow> json_error 404 ''client_not_found'' | Some client \<Rightarrow> apiSuccess 200 [] (client_info client))))"

record ConsentRequest =
  cr_ClientID :: string
  cr_RedirectURI :: string
  cr_Scope :: string
  cr_State :: string
  cr_Nonce :: string
  cr_Decision :: string

definition handle_Consent :: "auth_env \<Rightarrow> fiber_ctx \<Rightarrow> ConsentRequest option \<Rightarrow> string handler" where
  "handle_Consent env c body = (case body of None \<Rightarrow> json_error 400 ''invalid_request''
     | Some req \<Rightarrow> (case c_user_id c of None \<Rightarrow> json_error 401 ''login_required''
         | Some userID \<Rightarrow>
             if cr_Decision req \<noteq> ''allow''
             then apiSuccess 200 [] (cr_RedirectURI req @ ''?error=access_denied&state='' @ cr_State req)
             else on_error (ValidateClient env (cr_ClientID req) [] (cr_RedirectURI req)) (json_error 400)
               (\<lambda>_. on_error (CreateAuthorizationCode userID (local (c_organization_id c)) (cr_ClientID req) (cr_Scope req)
                      (cr_Nonce req) (cr_RedirectURI req)) (\<lambda>_. json_error 500 ''server_error'')
                    (\<lambda>code. apiSuccess 200 [] (with_code (cr_RedirectURI req) code (cr_State req))))))"

text \<open>The credentials of a token request: the form values, or those of a Basic header; \<open>decode64\<close> is base64 decoding.\<close>

definition client_credentials :: "(string \<Rightarrow> string option) \<Rightarrow> fiber_ctx \<Rightarrow> string \<Rightarrow> string \<Rightarrow> string \<times> string" where
  "client_credentials decode64 c clientID clientSecret =
     (if clientID = [] \<and> prefix ''Basic '' (c_Authorization c)
      then case decode64 (drop 6 (c_Authorization c)) of None \<Rightarrow> (clientID, clientSecret)
        | Some decoded \<Rightarrow> (case split_on CHR '':'' decoded of
              name # part # parts \<Rightarrow> (name, drop (length name + 1) decoded) | _ \<Rightarrow> (clientID, clientSecret))
      else (clientID, clientSecret))"

definition handle_Token ::
  "auth_env \<Rightarrow> (string \<Rightarrow> string option) \<Rightarrow> fiber_ctx \<Rightarrow> string \<Rightarrow> string \<Rightarrow> string \<Rightarrow> string \<Rightarrow> TokenResponse handler" where
  "handle_Token env decode64 c grantType code formID formSecret =
     (case client_credentials decode64 c formID formSecret of (clientID, clientSecret) \<Rightarrow>
        if grantType \<noteq> ''authorization_code'' then json_error 400 ''unsupported_grant_type''
        else on_error (ExchangeCodeForToken env code clientID clientSecret) (json_error 400) (apiSuccess 200 []))"

record UserProfile =
  up_sub :: string
  up_name :: string
  up_preferred_username :: string
  up_email :: string
  up_email_verified :: bool
  up_updated_at :: int
  up_picture :: "string option"

definition user_profile :: "User \<Rightarrow> UserProfile" where
  "user_profile user = \<lparr>up_sub = usr_ID user, up_name = usr_DisplayName user, up_preferred_username = usr_Username user,
     up_email = usr_Email user, up_email_verified = usr_EmailVerified user, up_updated_at = unix (usr_UpdatedAt user),
     up_picture = usr_AvatarURL user\<rparr>"

definition handle_UserInfo :: "fiber_ctx \<Rightarrow> UserProfile handler" where
  "handle_UserInfo c = (case c_user_id c of None \<Rightarrow> json_error 401 ''invalid_token''
     | Some userID \<Rightarrow> on_error (GetUserByID userID (local (c_organization_id c))) (\<lambda>_. json_error 404 ''user_not_found'')
         (\<lambda>user. apiSuccess 200 [] (user_profile user)))"

definition registered_client :: "RegisterClientRequest \<Rightarrow> string \<Rightarrow> string \<Rightarrow> string \<Rightarrow> instant \<Rightarrow> OAuthClient" where
  "registered_client req clientID orgID hash t = \<lparr>oc_ID = clientID, oc_OrganizationID = orgID, oc_ClientName = rc_ClientName req,
     oc_ClientSecretHash = hash, oc_RedirectURIs = rc_RedirectURIs req, oc_GrantTypes = [''authorization_code'', ''refresh_token''],
     oc_ResponseTypes = [''code''], oc_Scope = (if rc_Scope req = [] then ''openid profile email'' else rc_Scope req),
     oc_IsPublic = rc_IsPublic req, oc_IsTrusted = False, oc_LogoURL = rc_LogoURL req, oc_PolicyURI = None, oc_TosURI = None,
     oc_CreatedAt = t, oc_UpdatedAt = t, oc_DeletedAt = None\<rparr>"

text \<open>\<open>new_secret\<close> is the random client secret.\<close>

definition handle_RegisterClient :: "auth_env \<Rightarrow> string \<Rightarrow> fiber_ctx \<Rightarrow> RegisterClientRequest option \<Rightarrow> (string \<times> string) handler" where
  "handle_RegisterClient env new_secret c body = (case body of None \<Rightarrow> bad_format
     | Some req \<Rightarrow>
         if rc_ClientName req = [] \<or> rc_RedirectURIs req \<in> {None, Some []}
         then json_error 400 ''client_name and redirect_uris are required''
         else bnd (local_string (c_organization_id c)) (\<lambda>orgID. bnd fresh_uuid (\<lambda>clientID. gets now (\<lambda>t.
           case bcrypt_hash env new_secret of None \<Rightarrow> json_error 500 ''Failed to create client''
           | Some hash \<Rightarrow> on_error (CreateClient (registered_client req clientID orgID hash t))
               (\<lambda>_. json_error 500 ''Failed to register client'')
               (\<lambda>_. apiSuccess 201 (''OIDC client registered successfully. Save the client_secret ''
                  @ [CHR 0xE2, CHR 0x80, CHR 0x94] @ '' it cannot be retrieved later.'') (clientID, new_secret))))))"

definition handle_UpdateClient :: "fiber_ctx \<Rightarrow> RegisterClientRequest option \<Rightarrow> unit handler" where
  "handle_UpdateClient c body = (if c_Param_id c = [] then json_error 400 ''client_id is required''
     else case body of None \<Rightarrow> bad_format
       | Some req \<Rightarrow> on_error (svc_UpdateClient (c_Param_id c) req)
           (\<lambda>e. if e = ''client_not_found'' then json_error 404 ''Client not found'' else json_error 500 ''Failed to update client'')
           (\<lambda>_. apiSuccess 200 ''OIDC client updated successfully'' ()))"

definition handle_ListClients :: "fiber_ctx \<Rightarrow> OAuthClient list handler" where
  "handle_ListClients c = bnd (local_string (c_organization_id c)) (\<lambda>orgID.
     on_error (ListClientsByOrg orgID) (\<lambda>_. json_error 500 ''Failed to retrieve clients'') (apiSuccess 200 []))"

definition handle_DeleteClient :: "fiber_ctx \<Rightarrow> unit handler" where
  "handle_DeleteClient c = bnd (local_string (c_organization_id c)) (\<lambda>orgID.
     on_error (DeleteClient (c_Param_id c) orgID)
       (\<lambda>e. if isNotFoundErr e then json_error 404 ''Client not found'' else json_error 500 ''Failed to delete client'')
       (\<lambda>_. apiSuccess 200 ''OIDC client deleted successfully'' ()))"

end
