(* ===== verification/OidcFlow.thy ===== *)
theory OidcFlow
  imports OidcHandler
begin

text \<open>
  What the authorization-code flow guarantees, and what it does not: issuing, exchanging and replaying
  codes, in sequential histories and in the interleaving of two exchanges, and what the token is worth.
\<close>

section \<open>Running the flow\<close>

definition redirect_uris :: "OAuthClient \<Rightarrow> string set" where
  "redirect_uris c = set (case oc_RedirectURIs c of None \<Rightarrow> [] | Some uris \<Rightarrow> uris)"

lemma GetClientByID_Ok:
  "GetClientByID i d = (Ok r, d') \<Longrightarrow> r = find (live_client i) (t_oauth_clients d) \<and> d' = advance d"
  unfolding GetClientByID_def by (auto dest!: select_Ok)

lemma ValidateClient_Ok:
  assumes "ValidateClient env i secret uri d = (Ok client, d')"
  shows "find (live_client i) (t_oauth_clients d) = Some client \<and> uri \<in> redirect_uris client \<and>
    (oc_IsPublic client \<or> secret = [] \<or> bcrypt_ok env (oc_ClientSecretHash client) secret) \<and> d' = advance d"
  using assms unfolding ValidateClient_def
  by (auto elim!: bnd_OkE dest!: GetClientByID_Ok simp: redirect_uris_def split: option.splits if_splits)

lemma check_grant_Ok:
  assumes "check_grant env code i secret d = (Ok ac, d')"
  obtains client where "find (\<lambda>c. ac_Code c = code) (t_oidc_codes d) = Some ac" and "\<not> ac_Used ac" and "now d \<le> ac_ExpiresAt ac"
    and "find (live_client i) (t_oauth_clients d) = Some client" and "ac_RedirectURI ac \<in> redirect_uris client"
    and "oc_IsPublic client \<or> secret \<noteq> [] \<and> bcrypt_ok env (oc_ClientSecretHash client) secret" and "d' = advance (advance d)"
  using assms unfolding check_grant_def GetAuthCode_def
  by (auto elim!: bnd_OkE dest!: select_Ok ValidateClient_Ok split: option.splits if_splits)

definition mark_used :: "string \<Rightarrow> OIDCAuthCode list \<Rightarrow> OIDCAuthCode list" where
  "mark_used code = map (\<lambda>c. if ac_Code c = code then c\<lparr>ac_Used := True\<rparr> else c)"

lemma MarkAuthCodeUsed_Ok: "MarkAuthCodeUsed code d = (Ok u, d') \<Longrightarrow> d' = put_codes (mark_used code (t_oidc_codes d)) (advance d)"
  unfolding MarkAuthCodeUsed_def mark_used_def by (auto elim!: bnd_OkE dest!: exec_on_Ok simp: snd_update_where)

lemma GetUserByID_Ok:
  "GetUserByID i org d = (Ok u, d') \<Longrightarrow> \<exists>row \<in> set (t_users d). usr_ID row = i \<and> in_scope org row \<and> u = scanned_user row \<and> d' = advance d"
  unfolding GetUserByID_def by (auto dest: one_user_Ok)

lemma redeem_Ok:
  assumes "redeem env code i ac d = (Ok resp, d')"
  obtains user where "d' = put_codes (mark_used code (t_oidc_codes d)) (advance (advance d))"
    and "sign env (oidc_access_claims env ac i (now d)) = Some (tr_AccessToken resp)"
    and "sign env (id_claims env ac i user (now d)) = Some (tr_IDToken resp)" and "usr_ID user = ac_UserID ac"
proof -
  from assms obtain u d1 user d2 where 1: "MarkAuthCodeUsed code d = (Ok u, d1)"
    and 2: "GetUserByID (ac_UserID ac) (ac_OrganizationID ac) d1 = (Ok user, d2)"
    and 3: "sign env (oidc_access_claims env ac i (now d2)) = Some (tr_AccessToken resp)"
      "sign env (id_claims env ac i user (now d2)) = Some (tr_IDToken resp)" "d' = d2"
    unfolding redeem_def sign_as_def by (auto elim!: bnd_OkE dest!: signed_Ok)
  from MarkAuthCodeUsed_Ok [OF 1] GetUserByID_Ok [OF 2] have "d2 = put_codes (mark_used code (t_oidc_codes d)) (advance (advance d))"
    "usr_ID user = ac_UserID ac"
    by (auto simp: scanned_user_def advance_def)
  with 3 show ?thesis by (intro that) auto
qed

section \<open>Histories\<close>

text \<open>
  A code is spent when its row is marked. The steps of a history are the operations on codes and clients,
  whatever their outcome, and any change elsewhere (other operations, the clock, faults).
\<close>

definition spent :: "string \<Rightarrow> db \<Rightarrow> bool" where
  "spent code d \<longleftrightarrow> code \<in> ac_Code ` set (t_oidc_codes d) \<and> (\<forall>c \<in> set (t_oidc_codes d). ac_Code c = code \<longrightarrow> ac_Used c)"

inductive oidc_step :: "auth_env \<Rightarrow> db \<Rightarrow> db \<Rightarrow> bool" for env where
  create: "CreateAuthorizationCode u org i scope nonce uri d = (r, d') \<Longrightarrow> oidc_step env d d'"
| exchange: "ExchangeCodeForToken env code i secret d = (r, d') \<Longrightarrow> oidc_step env d d'"
| register: "CreateClient client d = (r, d') \<Longrightarrow> oidc_step env d d'"
| change: "svc_UpdateClient i req d = (r, d') \<Longrightarrow> oidc_step env d d'"
| remove: "DeleteClient i org d = (r, d') \<Longrightarrow> oidc_step env d d'"
| elsewhere: "t_oidc_codes d' = t_oidc_codes d \<Longrightarrow> oidc_step env d d'"

definition stays_spent :: "string \<Rightarrow> db \<Rightarrow> db \<Rightarrow> bool" where
  "stays_spent code d d' \<longleftrightarrow> (spent code d \<longrightarrow> spent code d')"

lemma stays_spent_order [keeps_intros]: "reflp (stays_spent code)" "transp (stays_spent code)"
  by (auto simp: reflp_def transp_def stays_spent_def)

lemma stays_spent_same: "t_oidc_codes d' = t_oidc_codes d \<Longrightarrow> stays_spent code d d'"
  by (simp add: stays_spent_def spent_def)

lemma stays_spent_advance [keeps_intros]: "stays_spent code d (advance d)"
  by (simp add: stays_spent_same)

lemma stays_spent_fresh [keeps_intros]: "keeps (stays_spent code) fresh_uuid"
  by (intro keeps_intros) (simp add: stays_spent_same)

lemma codes_mark_used [simp]: "ac_Code ` set (mark_used code t) = ac_Code ` set t"
proof -
  have "map ac_Code (mark_used code t) = map ac_Code t" unfolding mark_used_def by (rule map_cond_inj_key) simp
  then show ?thesis by (metis image_set)
qed

lemma mark_usedE:
  assumes "c \<in> set (mark_used code t)"
  obtains y where "y \<in> set t" and "ac_Code c = ac_Code y" and "ac_Used c \<longleftrightarrow> ac_Used y \<or> ac_Code y = code"
proof -
  from assms obtain y where "y \<in> set t" and "c = (if ac_Code y = code then y\<lparr>ac_Used := True\<rparr> else y)"
    unfolding mark_used_def set_map by (rule imageE)
  then show ?thesis by (intro that [of y]) simp_all
qed

lemma spent_mark: "spent code d \<Longrightarrow> t_oidc_codes d' = mark_used code' (t_oidc_codes d) \<Longrightarrow> spent code d'"
  unfolding spent_def by (auto elim!: mark_usedE)

lemma mark_spent: "code \<in> ac_Code ` set (t_oidc_codes d) \<Longrightarrow> t_oidc_codes d' = mark_used code (t_oidc_codes d) \<Longrightarrow> spent code d'"
  unfolding spent_def by (auto elim!: mark_usedE)

lemma stays_spent_mark [keeps_intros]: "keeps (stays_spent code) (MarkAuthCodeUsed code')"
  unfolding MarkAuthCodeUsed_def
  by (intro keeps_intros) (auto simp: stays_spent_def snd_update_where mark_used_def [symmetric] intro: spent_mark)

lemma stays_spent_save [keeps_intros]: "keeps (stays_spent code) (SaveAuthCode ac)"
  unfolding SaveAuthCode_def
  by (intro keeps_intros keeps_stmt)
    (auto simp: stays_spent_def spent_def stored_code_def split: if_splits)

lemma stays_spent_reads [keeps_intros]:
  "keeps (stays_spent code) (GetAuthCode c)" "keeps (stays_spent code) (GetClientByID i)"
  "keeps (stays_spent code) (GetUserByID u org)" "keeps (stays_spent code) (sign_as env what m)"
  unfolding GetAuthCode_def GetClientByID_def GetUserByID_def one_user_def sign_as_def signed_def
  by (intro keeps_intros)+

lemma stays_spent_exchange: "keeps (stays_spent code) (ExchangeCodeForToken env c i secret)"
  unfolding ExchangeCodeForToken_def check_grant_def redeem_def ValidateClient_def by (intro keeps_intros)

lemma stays_spent_clients:
  "keeps (stays_spent code) (CreateClient client)" "keeps (stays_spent code) (svc_UpdateClient i req)"
  "keeps (stays_spent code) (DeleteClient i org)"
  unfolding CreateClient_def svc_UpdateClient_def UpdateClient_def DeleteClient_def Let_def
  by (intro keeps_intros keeps_stmt; auto simp: stays_spent_same split: option.splits if_splits)+

lemma stays_spent_create: "keeps (stays_spent code) (CreateAuthorizationCode u org i scope nonce uri)"
  unfolding CreateAuthorizationCode_def by (intro keeps_intros)

lemma oidc_step_spent: "oidc_step env d d' \<Longrightarrow> stays_spent code d d'"
  by (induction rule: oidc_step.induct)
    (auto intro: keepsD stays_spent_create stays_spent_exchange stays_spent_clients stays_spent_same)

lemma oidc_steps_spent: "(oidc_step env)\<^sup>*\<^sup>* d d' \<Longrightarrow> spent code d \<Longrightarrow> spent code d'"
  using related_by_steps [of "oidc_step env" d d' "stays_spent code"] stays_spent_order oidc_step_spent
  by (auto simp: stays_spent_def)

section \<open>Issuing codes\<close>

text \<open>The codes are those of before, or one more that satisfies \<open>P\<close>.\<close>

definition issues_only :: "(OIDCAuthCode \<Rightarrow> bool) \<Rightarrow> db \<Rightarrow> db \<Rightarrow> bool" where
  "issues_only P d d' \<longleftrightarrow> t_oidc_codes d' = t_oidc_codes d \<or> (\<exists>x. t_oidc_codes d' = t_oidc_codes d @ [x] \<and> P x)"

lemma SaveAuthCode_issues: "SaveAuthCode ac d = (r, d') \<Longrightarrow> issues_only ((=) (stored_code (now d) ac)) d d'"
  unfolding SaveAuthCode_def wrap_def
  by (rule stmt_cases [of "\<lambda>d. if length (ac_Code ac) > 255 \<or> (\<exists>n \<in> set_option (ac_Nonce ac). length n > 255) then Inl varchar_overflow
     else if ac_Code ac \<in> ac_Code ` set (t_oidc_codes d) then Inl (duplicate_key ''oidc_codes_pkey'')
     else if ac_UserID ac \<notin> usr_ID ` set (t_users d) then Inl (foreign_key ''oidc_codes_user_id_fkey'')
     else if ac_ClientID ac \<notin> oc_ID ` set (t_oauth_clients d) then Inl (foreign_key ''oidc_codes_client_id_fkey'')
     else Inr ((), put_codes (t_oidc_codes d @ [stored_code (now d) ac]) d)" d])
    (auto simp: issues_only_def split: if_splits prod.splits res.splits)

definition granted_to :: "string \<Rightarrow> string \<Rightarrow> string \<Rightarrow> instant \<Rightarrow> OIDCAuthCode \<Rightarrow> bool" where
  "granted_to userID i uri t x \<longleftrightarrow> ac_UserID x = userID \<and> ac_ClientID x = i \<and> ac_RedirectURI x = uri \<and>
     ac_ExpiresAt x = t + 10 * 60 * second \<and> \<not> ac_Used x"

lemma CreateAuthorizationCode_issues:
  assumes "CreateAuthorizationCode u org i scope nonce uri d = (r, d')"
  shows "issues_only (granted_to u i uri (now d)) d d'"
proof -
  let ?d = "d\<lparr>uuids := (\<lambda>n. uuids d (Suc n))\<rparr>" and ?c = "new_code (uuids d 0) u org i scope nonce uri (now d)"
  obtain r1 d1 where save: "SaveAuthCode ?c ?d = (r1, d1)" by (cases "SaveAuthCode ?c ?d")
  with assms have "d' = d1"
    by (cases r1) (auto simp: CreateAuthorizationCode_def fresh_uuid_def bnd_def)
  with SaveAuthCode_issues [OF save] show ?thesis
    by (auto simp: issues_only_def granted_to_def stored_code_def new_code_def)
qed

lemma on_error_cases:
  assumes "on_error m h k d = (r, d')"
  obtains (fine) x d1 where "m d = (Ok x, d1)" and "k x d1 = (r, d')"
  | (error) e d1 where "m d = (Err e, d1)" and "h e d1 = (r, d')"
  | (panicked) "snd (m d) = d'"
proof (cases "m d")
  case (Pair s d1)
  with assms show ?thesis by (cases s) (auto simp: prog_simps intro: fine error panicked)
qed

lemma ValidateClient_state: "t_oidc_codes (snd (ValidateClient env i secret uri d)) = t_oidc_codes d"
  using select_state [of "\<lambda>d. find (live_client i) (t_oauth_clients d)" d]
  by (auto simp: ValidateClient_def GetClientByID_def bnd_def wrap_def split: prod.splits res.splits option.splits)

lemma create_then:
  assumes "on_error (CreateAuthorizationCode u org i scope nonce uri) (\<lambda>_. json_error st msg) (\<lambda>code. apiSuccess st' msg' (f code)) d = (r, d')"
  shows "issues_only (granted_to u i uri (now d)) d d'"
  using assms
proof (cases rule: on_error_cases)
  case panicked
  then show ?thesis using CreateAuthorizationCode_issues [of u org i scope nonce uri d] by (metis prod.collapse)
qed (auto simp: json_error_def dest: CreateAuthorizationCode_issues)

text \<open>A code may be issued for a live client at a registered redirect URI, to the caller.\<close>

definition may_issue :: "fiber_ctx \<Rightarrow> (OAuthClient \<Rightarrow> bool) \<Rightarrow> db \<Rightarrow> OIDCAuthCode \<Rightarrow> bool" where
  "may_issue c Q d x \<longleftrightarrow> (\<exists>client \<in> set (t_oauth_clients d). live_client (ac_ClientID x) client \<and> Q client \<and>
     ac_RedirectURI x \<in> redirect_uris client \<and> c_user_id c = Some (ac_UserID x) \<and>
     ac_ExpiresAt x = now d + 10 * 60 * second \<and> \<not> ac_Used x)"

lemma validated_issue:
  assumes "on_error (ValidateClient env i [] uri) (json_error 400) k d = (r, d')"
    and "\<And>client d1. k client d1 = (r, d') \<Longrightarrow> Q client \<and> issues_only (granted_to u i uri (now d1)) d1 d' \<or> t_oidc_codes d' = t_oidc_codes d1"
    and "c_user_id c = Some u"
  shows "issues_only (may_issue c Q d) d d'"
  using assms(1)
proof (cases rule: on_error_cases)
  case (fine client d1)
  from ValidateClient_Ok [OF fine(1)] have v: "find (live_client i) (t_oauth_clients d) = Some client" "uri \<in> redirect_uris client" "d1 = advance d"
    by auto
  from assms(2) [OF fine(2)] show ?thesis
  proof
    assume "Q client \<and> issues_only (granted_to u i uri (now d1)) d1 d'"
    with v find_SomeD [OF v(1)] assms(3) show ?thesis
      by (auto simp: issues_only_def granted_to_def may_issue_def)
  qed (simp add: issues_only_def v(3))
next
  case (error e d1)
  then show ?thesis using ValidateClient_state [of env i "[]" uri d] by (auto simp: json_error_def issues_only_def)
next
  case panicked
  then show ?thesis using ValidateClient_state [of env i "[]" uri d] by (auto simp: issues_only_def)
qed

section \<open>A sample provider\<close>

definition sample_client :: OAuthClient where
  "sample_client = \<lparr>oc_ID = ''cl1'', oc_OrganizationID = ''o1'', oc_ClientName = ''App'', oc_ClientSecretHash = ''#s3cret'',
     oc_RedirectURIs = Some [''https://app/cb''], oc_GrantTypes = [''authorization_code''], oc_ResponseTypes = [''code''],
     oc_Scope = ''openid'', oc_IsPublic = False, oc_IsTrusted = True, oc_LogoURL = None, oc_PolicyURI = None, oc_TosURI = None,
     oc_CreatedAt = 0, oc_UpdatedAt = 0, oc_DeletedAt = None\<rparr>"

definition sample_code :: OIDCAuthCode where
  "sample_code = \<lparr>ac_Code = ''c0de'', ac_UserID = ''u1'', ac_ClientID = ''cl1'', ac_Scope = ''openid'', ac_Nonce = None,
     ac_RedirectURI = ''https://app/cb'', ac_ExpiresAt = 10 * 60 * second, ac_Used = False, ac_OrganizationID = [], ac_CreatedAt = 0\<rparr>"

definition oidc_db :: db where
  "oidc_db = login_db\<lparr>t_oauth_clients := [sample_client, sample_client\<lparr>oc_ID := ''cl2'', oc_IsPublic := True, oc_OrganizationID := ''o2''\<rparr>],
     t_oidc_codes := [sample_code]\<rparr>"

definition sample_oidc_access :: "string \<Rightarrow> map_claims" where
  "sample_oidc_access i = [(''iss'', JStr ''iam''), (''sub'', JStr ''u1''), (''aud'', JStr i), (''exp'', JNum ''3600''), (''iat'', JNum ''0''),
     (''scope'', JStr ''openid''), (''client_id'', JStr i), (''type'', JStr ''access''), (''organization_id'', JStr [])]"

definition sample_id_claims :: "string \<Rightarrow> map_claims" where
  "sample_id_claims i = [(''iss'', JStr ''iam''), (''sub'', JStr ''u1''), (''aud'', JStr i), (''exp'', JNum ''3600''), (''iat'', JNum ''0''),
     (''nonce'', JNull), (''email'', JStr ''ann@example.org''), (''email_verified'', JBool False), (''name'', JStr ''Ann''),
     (''preferred_username'', JStr ''ann'')]"

text \<open>A signer of the tokens that two clients obtain for the sample user.\<close>

definition oidc_sign :: "map_claims \<Rightarrow> string option" where
  "oidc_sign m = (if m = sample_oidc_access ''cl1'' then Some ''A.1'' else if m = sample_oidc_access ''cl2'' then Some ''A.2''
     else if m = sample_id_claims ''cl1'' then Some ''I.1'' else if m = sample_id_claims ''cl2'' then Some ''I.2'' else None)"

definition oidc_tokens :: "string \<Rightarrow> map_claims option" where
  "oidc_tokens tok = map_of [(''A.1'', sample_oidc_access ''cl1''), (''A.2'', sample_oidc_access ''cl2''),
     (''I.1'', sample_id_claims ''cl1''), (''I.2'', sample_id_claims ''cl2'')] tok"

definition oidc_env :: auth_env where
  "oidc_env = sample_env\<lparr>sign := oidc_sign, jwt := \<lparr>decode = (\<lambda>t. map_option (\<lambda>m. (RSA, to_claims m)) (oidc_tokens t)),
     sig_ok = (\<lambda>t k. k = PublicKey ''pk''), claims_ok = (\<lambda>t cl. \<forall>e \<in> set_option (cl_ExpiresAt cl). t < e)\<rparr>\<rparr>"

lemma oidc_signs: "signs_for oidc_env signer_am"
  unfolding signs_for_def
  by (rule conjI, rule exI [of _ "''pk''"]) (auto simp: oidc_env_def signer_am_def oidc_sign_def oidc_tokens_def split: if_splits)

definition sample_exchange :: "TokenResponse res \<times> db" where
  "sample_exchange = ExchangeCodeForToken oidc_env ''c0de'' ''cl1'' ''s3cret'' oidc_db"

definition sample_tokens :: TokenResponse where
  "sample_tokens = \<lparr>tr_AccessToken = ''A.1'', tr_IDToken = ''I.1'', tr_ExpiresIn = 3600, tr_Scope = ''openid''\<rparr>"

lemma sample_exchange_run:
  "ExchangeCodeForToken oidc_env ''c0de'' ''cl1'' ''s3cret'' oidc_db = (Ok sample_tokens, snd sample_exchange)"
proof -
  have "fst sample_exchange = Ok sample_tokens" by code_simp
  then show ?thesis by (simp add: sample_exchange_def prod_eq_iff)
qed

section \<open>Properties\<close>

lemma exchange_OkE:
  assumes "ExchangeCodeForToken env code i secret d = (Ok resp, d')"
  obtains ac d1 where "check_grant env code i secret d = (Ok ac, d1)" and "redeem env code i ac d1 = (Ok resp, d')"
  using assms unfolding ExchangeCodeForToken_def by (rule bnd_OkE)

text \<open>A successful token exchange is backed by a stored code that is unused and not expired, by a live client with
  the given id that has the redirect URI of the code registered, and, unless the client is public, by
  that client's secret; the code is marked used and no other code changes.\<close>

lemma exchange_sound:
  assumes "ExchangeCodeForToken env code i secret d = (Ok resp, d')"
  shows "\<exists>ac \<in> set (t_oidc_codes d). \<exists>client \<in> set (t_oauth_clients d). ac_Code ac = code \<and> \<not> ac_Used ac \<and>
    now d \<le> ac_ExpiresAt ac \<and> live_client i client \<and> ac_RedirectURI ac \<in> redirect_uris client \<and>
    (oc_IsPublic client \<or> secret \<noteq> [] \<and> bcrypt_ok env (oc_ClientSecretHash client) secret) \<and>
    t_oidc_codes d' = map (\<lambda>c. if ac_Code c = code then c\<lparr>ac_Used := True\<rparr> else c) (t_oidc_codes d)"
proof -
  from assms obtain ac d1 where check: "check_grant env code i secret d = (Ok ac, d1)" and redeem: "redeem env code i ac d1 = (Ok resp, d')"
    by (rule exchange_OkE)
  from check obtain client where ac: "find (\<lambda>c. ac_Code c = code) (t_oidc_codes d) = Some ac" "\<not> ac_Used ac" "now d \<le> ac_ExpiresAt ac"
    and client: "find (live_client i) (t_oauth_clients d) = Some client" "ac_RedirectURI ac \<in> redirect_uris client"
      "oc_IsPublic client \<or> secret \<noteq> [] \<and> bcrypt_ok env (oc_ClientSecretHash client) secret" and d1: "d1 = advance (advance d)"
    by (rule check_grant_Ok)
  from redeem have "t_oidc_codes d' = mark_used code (t_oidc_codes d)" by (rule redeem_Ok) (simp add: d1)
  with find_SomeD [OF ac(1)] find_SomeD [OF client(1)] ac(2,3) client(2,3) show ?thesis
    unfolding mark_used_def by blast
qed

text \<open>C3. In a sequential history an authorization code buys tokens once: after a successful exchange, whatever
  operations on codes and clients follow and whatever else happens in between, every later exchange of
  the same code fails, for every client and secret.\<close>

theorem auth_code_single_use:
  assumes "ExchangeCodeForToken env code i secret d = (Ok resp, d1)" and "(oidc_step env)\<^sup>*\<^sup>* d1 d2"
  shows "fst (ExchangeCodeForToken env code j secret' d2) \<noteq> Ok resp'"
proof
  assume "fst (ExchangeCodeForToken env code j secret' d2) = Ok resp'"
  then have "ExchangeCodeForToken env code j secret' d2 = (Ok resp', snd (ExchangeCodeForToken env code j secret' d2))"
    by (simp add: prod_eq_iff)
  then obtain ac d3 where "check_grant env code j secret' d2 = (Ok ac, d3)" by (rule exchange_OkE)
  then obtain ac where fresh: "ac \<in> set (t_oidc_codes d2)" "ac_Code ac = code" "\<not> ac_Used ac"
    by (rule check_grant_Ok) (blast dest: find_SomeD)
  from assms(1) obtain ac0 d0 where "check_grant env code i secret d = (Ok ac0, d0)" and "redeem env code i ac0 d0 = (Ok resp, d1)"
    by (rule exchange_OkE)
  then have "code \<in> ac_Code ` set (t_oidc_codes d0)" and "t_oidc_codes d1 = mark_used code (t_oidc_codes d0)"
    by (auto elim!: check_grant_Ok redeem_Ok dest!: find_SomeD)
  then have "spent code d1" by (rule mark_spent)
  with assms(2) have "spent code d2" by (rule oidc_steps_spent)
  with fresh show False unfolding spent_def by blast
qed

theorem auth_code_single_use_witness:
  "\<exists>d1 d2. ExchangeCodeForToken oidc_env ''c0de'' ''cl1'' ''s3cret'' oidc_db = (Ok sample_tokens, d1) \<and>
     CreateAuthorizationCode ''u1'' ''o1'' ''cl1'' ''openid'' [] ''https://app/cb'' d1 = (Ok ''uuid-v4-0'', d2) \<and>
     fst (ExchangeCodeForToken oidc_env ''c0de'' ''cl1'' ''s3cret'' d2) \<noteq> Ok sample_tokens"
proof -
  let ?d1 = "snd sample_exchange"
  let ?run = "CreateAuthorizationCode ''u1'' ''o1'' ''cl1'' ''openid'' [] ''https://app/cb'' ?d1"
  have "fst ?run = Ok ''uuid-v4-0''" by code_simp
  then have run: "?run = (Ok ''uuid-v4-0'', snd ?run)" by (simp add: prod_eq_iff)
  have "(oidc_step oidc_env)\<^sup>*\<^sup>* ?d1 (snd ?run)" by (rule r_into_rtranclp, rule oidc_step.create [OF run])
  from auth_code_single_use [OF sample_exchange_run this] sample_exchange_run run show ?thesis by blast
qed

text \<open>On a server that does not fail, the second half of an exchange answers by the users and the clock alone.\<close>

lemma redeem_answer:
  assumes "healthy d" and "healthy e" and "now e = now d" and "t_users e = t_users d"
  shows "fst (redeem env code i ac e) = fst (redeem env code i ac d)"
proof -
  have "fst (redeem env code i ac d') = (case find (\<lambda>u. usr_ID u = ac_UserID ac \<and> in_scope (ac_OrganizationID ac) u) (t_users d') of
       None \<Rightarrow> Err (''failed to fetch user for ID token claims: '' @ no_rows)
     | Some u \<Rightarrow> (case sign env (id_claims env ac i (scanned_user u) (now d')) of
           None \<Rightarrow> Err ''failed to sign id_token: key is invalid''
         | Some idToken \<Rightarrow> (case sign env (oidc_access_claims env ac i (now d')) of
               None \<Rightarrow> Err ''failed to sign access_token: key is invalid''
             | Some acc \<Rightarrow> Ok \<lparr>tr_AccessToken = acc, tr_IDToken = idToken, tr_ExpiresIn = 3600, tr_Scope = ac_Scope ac\<rparr>)))"
    if "healthy d'" for d'
    using that by (simp add: redeem_def MarkAuthCodeUsed_def GetUserByID_def one_user_def sign_as_def signed_def bnd_def wrap_def
        exec_on_ok select_ok split: option.split)
  from this [OF assms(2)] this [OF assms(1)] show ?thesis unfolding assms(3,4) by (rule trans [OF _ sym])
qed

text \<open>C32. Two exchanges of the same code that overlap both succeed: the check of the code and the update that marks it
  are separate statements without a lock or a condition on the update, so when two requests check before
  either marks, each gets its tokens.\<close>

theorem auth_code_race:
  assumes "healthy d" and "ExchangeCodeForToken env code i secret d = (Ok resp, d')"
  shows "\<exists>ac d1 d2 d3 d4. check_grant env code i secret d = (Ok ac, d1) \<and> check_grant env code i secret d1 = (Ok ac, d2) \<and>
    redeem env code i ac d2 = (Ok resp, d3) \<and> redeem env code i ac d3 = (Ok resp, d4)"
proof -
  from assms(2) obtain ac d1 where check: "check_grant env code i secret d = (Ok ac, d1)" and redeem: "redeem env code i ac d1 = (Ok resp, d')"
    by (rule exchange_OkE)
  from check have d1: "d1 = d" using advance_healthy [OF assms(1)] by (auto elim!: check_grant_Ok)
  from redeem have d': "d' = put_codes (mark_used code (t_oidc_codes d)) d"
    using advance_healthy [OF assms(1)] by (auto elim!: redeem_Ok simp: d1)
  with assms(1) have "fst (redeem env code i ac d') = fst (redeem env code i ac d)" by (intro redeem_answer) simp_all
  with redeem d1 have "redeem env code i ac d' = (Ok resp, snd (redeem env code i ac d'))" by (simp add: prod_eq_iff)
  with check redeem d1 show ?thesis by blast
qed

theorem auth_code_race_witness:
  "\<exists>ac d1 d2 d3 d4. check_grant oidc_env ''c0de'' ''cl1'' ''s3cret'' oidc_db = (Ok ac, d1) \<and>
     check_grant oidc_env ''c0de'' ''cl1'' ''s3cret'' d1 = (Ok ac, d2) \<and>
     redeem oidc_env ''c0de'' ''cl1'' ac d2 = (Ok sample_tokens, d3) \<and> redeem oidc_env ''c0de'' ''cl1'' ac d3 = (Ok sample_tokens, d4)"
  by (rule auth_code_race [OF _ sample_exchange_run]) (simp add: oidc_db_def login_db_def audit_db_def empty_db_def)

text \<open>A code is not bound to the client it was issued to: when a live public client (of any organization) has
  the redirect URI of an unused, unexpired code registered, it passes the check of the exchange without
  a secret, whatever client the code names.\<close>

lemma auth_code_not_bound:
  assumes "healthy d" and "find (\<lambda>c. ac_Code c = code) (t_oidc_codes d) = Some ac" and "\<not> ac_Used ac" and "now d \<le> ac_ExpiresAt ac"
    and "find (live_client thief) (t_oauth_clients d) = Some client" and "oc_IsPublic client" and "ac_RedirectURI ac \<in> redirect_uris client"
  shows "check_grant env code thief [] d = (Ok ac, d)"
  using assms by (auto simp: check_grant_def GetAuthCode_def ValidateClient_def GetClientByID_def bnd_def wrap_def select_ok redirect_uris_def)

lemma oidc_to_claims [simp]:
  "cl_UserID (to_claims (oidc_access_claims env ac i t)) = []" "cl_Subject (to_claims (oidc_access_claims env ac i t)) = ac_UserID ac"
  "cl_OrganizationID (to_claims (oidc_access_claims env ac i t)) = ac_OrganizationID ac"
  "cl_JTI (to_claims (oidc_access_claims env ac i t)) = []"
  by (simp_all add: to_claims_def str_or_empty_def str_claim_def oidc_access_claims_def)

lemma oidc_expiry:
  assumes "0 \<le> t"
  shows "time_claim (oidc_access_claims env ac i t) ''exp'' = Some (unix (t + hour) * second)"
proof -
  have "0 \<le> unix (t + hour)" using assms by (simp add: unix_def hour_def)
  then show ?thesis using show_nat_digits by (simp add: time_claim_def oidc_access_claims_def show_int_def)
qed

text \<open>No stored code has an organization.\<close>

definition no_code_org :: "db \<Rightarrow> bool" where
  "no_code_org d \<longleftrightarrow> (\<forall>c \<in> set (t_oidc_codes d). ac_OrganizationID c = [])"

text \<open>The access token of the code flow is good for no tenant route: since the organization of a code is not
  stored, RequireAuth accepts the token as the user of the code with the empty organization and no token
  identifier, and ResolveTenant answers 401.\<close>

lemma exchanged_token_no_tenant:
  assumes "signs_for env am" and "no_code_org d" and "ExchangeCodeForToken env code i secret d = (Ok resp, d')" and "0 \<le> now d"
    and "c_Authorization request = ''Bearer '' @ tr_AccessToken resp"
  shows "\<exists>c. RequireAuth (jwt env) am request d' = (Ok (Next c), d') \<and> c_organization_id c = Some [] \<and> c_session_id c = Some [] \<and>
    ResolveTenant sys c d' = (Ok (Reply 401 ''Authentication context incomplete''), d')"
proof -
  from assms(3) obtain ac d1 where check: "check_grant env code i secret d = (Ok ac, d1)" and redeem: "redeem env code i ac d1 = (Ok resp, d')"
    by (rule exchange_OkE)
  from check have ac: "ac \<in> set (t_oidc_codes d)" and d1: "d1 = advance (advance d)"
    by (auto elim!: check_grant_Ok dest: find_SomeD)
  from redeem have sig: "sign env (oidc_access_claims env ac i (now d)) = Some (tr_AccessToken resp)" and d': "now d' = now d"
    by (auto elim!: redeem_Ok simp: d1)
  let ?m = "oidc_access_claims env ac i (now d)"
  have tok: "token_string request = tr_AccessToken resp" "tr_AccessToken resp \<noteq> []"
    using signs_forE [OF assms(1) sig] bearer_header [OF assms(5)] by blast+
  have exp: "time_claim ?m ''exp'' = Some (unix (now d + hour) * second)" "now d < unix (now d + hour) * second"
    using oidc_expiry [OF assms(4)] unix_bounds(2) [of "now d + hour"] by (simp_all add: hour_def)
  then have "parse_with_claims (jwt env) am (now d) (tr_AccessToken resp) = Some (to_claims ?m)"
    by (rule parse_signed [OF assms(1) sig])
  moreover have "cl_ExpiresAt (to_claims ?m) = Some (unix (now d + hour) * second)" using exp(1) by (simp add: to_claims_def)
  ultimately have "authenticated (jwt env) am request d' = Some (to_claims ?m)"
    using tok d' exp(2) by (auto simp: authenticated_def)
  moreover have "ac_OrganizationID ac = []" using assms(2) ac by (simp add: no_code_org_def)
  ultimately show ?thesis
    using RequireAuth_accepts [of "jwt env" am request d'] by (simp add: ResolveTenant_run set_locals_def local_def)
qed

lemma Authorize_issues:
  assumes "handle_Authorize env c q d = (r, d')"
  shows "issues_only (may_issue c oc_IsTrusted d) d d'"
proof (cases "c_user_id c")
  case None
  with assms show ?thesis unfolding handle_Authorize_def
    by (cases rule: on_error_cases; insert ValidateClient_state [of env "q_client_id q" "[]" "q_redirect_uri q" d])
      (auto simp: redirect_def json_error_def issues_only_def)
next
  case (Some u)
  show ?thesis
    using assms unfolding handle_Authorize_def
  proof (rule validated_issue [OF _ _ Some])
    fix client d1
    assume "(case c_user_id c of
        None \<Rightarrow> redirect (FrontendURL env @ ''/login?return_to='' @ query_escape (OIDCIssuer env @ q_OriginalURL q))
      | Some userID \<Rightarrow>
          if oc_IsTrusted client
          then on_error (CreateAuthorizationCode userID (local (c_organization_id c)) (q_client_id q) (q_scope q) (q_nonce q)
                 (q_redirect_uri q)) (\<lambda>_. json_error 500 ''server_error'')
               (\<lambda>code. redirect (with_code (q_redirect_uri q) code (q_state q)))
          else redirect (FrontendURL env @ ''/consent?client_id='' @ q_client_id q @ ''&scope='' @ q_scope q @ ''&state='' @ q_state q
                 @ ''&redirect_uri='' @ q_redirect_uri q)) d1 = (r, d')"
    then show "oc_IsTrusted client \<and> issues_only (granted_to u (q_client_id q) (q_redirect_uri q) (now d1)) d1 d' \<or> t_oidc_codes d' = t_oidc_codes d1"
      using Some by (auto simp: redirect_def split: if_splits dest: create_then)
  qed
qed

lemma Consent_issues:
  assumes "handle_Consent env c (Some req) d = (r, d')" and "cr_Decision req = ''allow''"
  shows "issues_only (may_issue c (\<lambda>_. True) d) d d'"
proof (cases "c_user_id c")
  case (Some u)
  have "on_error (ValidateClient env (cr_ClientID req) [] (cr_RedirectURI req)) (json_error 400)
      (\<lambda>_. on_error (CreateAuthorizationCode u (local (c_organization_id c)) (cr_ClientID req) (cr_Scope req)
         (cr_Nonce req) (cr_RedirectURI req)) (\<lambda>_. json_error 500 ''server_error'')
       (\<lambda>code. apiSuccess 200 [] (with_code (cr_RedirectURI req) code (cr_State req)))) d = (r, d')"
    using assms Some by (simp add: handle_Consent_def)
  then show ?thesis by (rule validated_issue [OF _ _ Some]) (auto dest: create_then)
qed (use assms in \<open>simp add: handle_Consent_def json_error_def issues_only_def\<close>)

text \<open>C31. Codes are only issued to an authenticated caller, for a live client, at a redirect URI that the client has
  registered, for ten minutes: by GET /oauth2/authorize for a trusted client, by POST /oauth2/consent
  when the decision is allow. Each run of the two endpoints, whatever the request and the failures, either adds
  one such code, not used yet, to the codes or leaves them as they were.\<close>

theorem codes_issued_soundly:
  assumes "handle_Authorize env c q d = (r, d') \<and> Q = oc_IsTrusted \<or>
    handle_Consent env c body d = (r, d') \<and> Q = (\<lambda>_. \<exists>req. body = Some req \<and> cr_Decision req = ''allow'')"
  shows "t_oidc_codes d' = t_oidc_codes d \<or> (\<exists>x. t_oidc_codes d' = t_oidc_codes d @ [x] \<and>
    (\<exists>client \<in> set (t_oauth_clients d). live_client (ac_ClientID x) client \<and> Q client \<and>
      ac_RedirectURI x \<in> redirect_uris client \<and> c_user_id c = Some (ac_UserID x) \<and>
      ac_ExpiresAt x = now d + 10 * 60 * second \<and> \<not> ac_Used x))"
  using assms(1)
proof
  assume "handle_Authorize env c q d = (r, d') \<and> Q = oc_IsTrusted"
  with Authorize_issues [of env c q d r d'] show ?thesis unfolding issues_only_def may_issue_def by simp
next
  assume run: "handle_Consent env c body d = (r, d') \<and> Q = (\<lambda>_. \<exists>req. body = Some req \<and> cr_Decision req = ''allow'')"
  show ?thesis
  proof (cases "\<exists>req. body = Some req \<and> cr_Decision req = ''allow''")
    case True
    with run Consent_issues [of env c _ d r d'] show ?thesis unfolding issues_only_def may_issue_def by auto
  next
    case False
    with run have "d' = d" by (auto simp: handle_Consent_def json_error_def split: option.splits)
    then show ?thesis by simp
  qed
qed

definition authorize_query :: AuthorizeQuery where
  "authorize_query = \<lparr>q_client_id = ''cl1'', q_redirect_uri = ''https://app/cb'', q_scope = ''openid'', q_state = ''x'',
     q_nonce = [], q_OriginalURL = ''/oauth2/authorize''\<rparr>"

theorem codes_issued_soundly_witness:
  "\<exists>d'. handle_Authorize oidc_env session_ctx authorize_query oidc_db
       = (Ok (Success 302 [] ''https://app/cb?code=uuid-v4-0&state=x''), d') \<and>
     (\<exists>x \<in> set (t_oidc_codes d'). ac_Code x = ''uuid-v4-0'' \<and> (\<exists>client \<in> set (t_oauth_clients oidc_db).
       live_client (ac_ClientID x) client \<and> oc_IsTrusted client))"
proof -
  let ?run = "handle_Authorize oidc_env session_ctx authorize_query oidc_db"
  have "fst ?run = Ok (Success 302 [] ''https://app/cb?code=uuid-v4-0&state=x'')" by code_simp
  then have run: "?run = (Ok (Success 302 [] ''https://app/cb?code=uuid-v4-0&state=x''), snd ?run)" by (simp add: prod_eq_iff)
  have "list_ex (\<lambda>x. ac_Code x = ''uuid-v4-0'') (t_oidc_codes (snd ?run))" by code_simp
  then obtain x where x: "x \<in> set (t_oidc_codes (snd ?run))" "ac_Code x = ''uuid-v4-0''" by (auto simp: list_ex_iff)
  have "x \<notin> set (t_oidc_codes oidc_db)" using x(2) by (auto simp: oidc_db_def sample_code_def)
  with codes_issued_soundly [of oidc_env session_ctx authorize_query oidc_db _ _ oc_IsTrusted None] run x show ?thesis by fastforce
qed

end
