(* ===== verification/GroupStore.thy ===== *)
theory GroupStore
  imports OidcStore Evaluator
begin

text \<open>
  Groups and their members: internal/queries/group_queries.go. The iteration order of the maps that
  collect actions is the parameter \<open>ord_keys\<close>, the order by a text column the parameter \<open>sorted_by\<close>.
\<close>

section \<open>The tables\<close>

definition principal_types :: "string list" where
  "principal_types = [''user'', ''service_account'', ''group'']"

definition groups_violation :: "Group list \<Rightarrow> string option" where
  "groups_violation t =
     (if \<exists>g \<in> set t. grp_Status g \<notin> set entity_status then Some (bad_enum ''entity_status'')
      else if \<exists>g \<in> set t. \<not> int4 (grp_MaxMembers g) then Some int4_overflow
      else if \<exists>g \<in> set t. length (grp_Name g) > 255 \<or> length (grp_GroupType g) > 50 then Some varchar_overflow
      else if \<exists>g \<in> set t. grp_ParentGroupID g = Some (grp_ID g) then Some (check_violation ''no_self_parent_group'')
      else if \<exists>g \<in> set t. length (grp_Name g) < 2 then Some (check_violation ''valid_group_name'')
      else if \<not> distinct (map grp_ID t) then Some (duplicate_key ''groups_pkey'')
      else if \<not> distinct (map (\<lambda>g. (grp_OrganizationID g, grp_Name g)) t)
        then Some (duplicate_key ''unique_group_name_per_org'')
      else if \<exists>g \<in> set t. \<exists>p. grp_ParentGroupID g = Some p \<and> p \<notin> grp_ID ` set t
        then Some (foreign_key ''groups_parent_group_id_fkey'')
      else None)"

abbreviation put_groups :: "Group list \<Rightarrow> db \<Rightarrow> db" where
  "put_groups t d \<equiv> d\<lparr>t_groups := t\<rparr>"

abbreviation put_members :: "GroupMembership list \<Rightarrow> db \<Rightarrow> db" where
  "put_members t d \<equiv> d\<lparr>t_group_memberships := t\<rparr>"

definition live_group :: "string \<Rightarrow> string \<Rightarrow> Group \<Rightarrow> bool" where
  "live_group i organizationID g \<longleftrightarrow> grp_ID g = i \<and> grp_OrganizationID g = organizationID \<and> grp_Status g \<noteq> ''deleted''"

text \<open>The error of a name that is taken is the package's own.\<close>

definition ErrGroupNameConflict :: string where
  "ErrGroupNameConflict = ''group name already exists in organization''"

definition name_conflict :: "('s, 'a) prog \<Rightarrow> ('s, 'a) prog" where
  "name_conflict m s = (case m s of
       (Err e, t) \<Rightarrow> (Err (if e = duplicate_key ''unique_group_name_per_org'' then ErrGroupNameConflict else e), t) | r \<Rightarrow> r)"

section \<open>Groups\<close>

text \<open>The total is a column of the page's rows, so a page without rows has the total zero.\<close>

definition ListGroups ::
  "(string \<Rightarrow> bool \<Rightarrow> Group list \<Rightarrow> Group list) \<Rightarrow> ListParams \<Rightarrow> string \<Rightarrow> Group ListResult query" where
  "ListGroups sorted_by params orgID =
     (let visible = (\<lambda>d. filter (\<lambda>g. grp_Status g \<noteq> ''deleted'' \<and> (orgID \<noteq> [] \<longrightarrow> grp_OrganizationID g = orgID)) (t_groups d));
          column = (if lp_SortBy params \<in> set [''name'', ''created_at'', ''updated_at'', ''group_type''] then lp_SortBy params
            else ''created_at'');
          ascending = (to_lower (lp_Order params) = ''asc'');
          limit = (if lp_Limit params \<le> 0 \<or> lp_Limit params > 200 then 50 else lp_Limit params);
          offset = max 0 (lp_Offset params)
      in bnd (select_page limit offset (\<lambda>d. map (\<lambda>g. (g, length (visible d))) (sorted_by column ascending (visible d)))) (\<lambda>page.
         let total = (if page = [] then 0 else int (snd (last page))) in
         ret \<lparr>lr_Items = map fst page, lr_Total = total, lr_Limit = limit, lr_Offset = offset,
           lr_HasMore = (offset + int (length page) < total), lr_TotalPages = 0\<rparr>))"

definition CreateGroup :: "(string \<Rightarrow> string) \<Rightarrow> Group \<Rightarrow> Group query" where
  "CreateGroup jsonb g = gets now (\<lambda>t. bnd (name_conflict (json_stmt [grp_Attributes g] (stmt (\<lambda>d.
       let row = g\<lparr>grp_Attributes := jsonb (grp_Attributes g), grp_CreatedAt := t, grp_UpdatedAt := t, grp_DeletedAt := None\<rparr> in
       case groups_violation (t_groups d @ [row]) of Some e \<Rightarrow> Inl e
       | None \<Rightarrow> if grp_OrganizationID g \<notin> org_ID ` set (t_organizations d) then Inl (foreign_key ''groups_organization_id_fkey'')
           else Inr ((), put_groups (t_groups d @ [row]) d)))))
     (\<lambda>_. ret (g\<lparr>grp_CreatedAt := t, grp_UpdatedAt := t\<rparr>)))"

definition GetGroup :: "string \<Rightarrow> string \<Rightarrow> Group query" where
  "GetGroup i organizationID = bnd (select (\<lambda>d. find (live_group i organizationID) (t_groups d)))
     (\<lambda>r. case r of None \<Rightarrow> fail ''group not found'' | Some g \<Rightarrow> ret g)"

definition UpdateGroup :: "(string \<Rightarrow> string) \<Rightarrow> Group \<Rightarrow> string \<Rightarrow> Group query" where
  "UpdateGroup jsonb g organizationID = gets now (\<lambda>t. bnd (name_conflict (json_stmt [grp_Attributes g]
       (update_checked t_groups put_groups groups_violation (live_group (grp_ID g) organizationID)
          (\<lambda>r. r\<lparr>grp_Name := grp_Name g, grp_Description := grp_Description g, grp_ParentGroupID := grp_ParentGroupID g,
             grp_GroupType := grp_GroupType g, grp_Attributes := jsonb (grp_Attributes g), grp_MaxMembers := grp_MaxMembers g,
             grp_Status := grp_Status g, grp_UpdatedAt := t\<rparr>))))
     (\<lambda>n. if n = 0 then fail ''group not found or deleted'' else ret (g\<lparr>grp_UpdatedAt := t\<rparr>)))"

definition DeleteGroup :: "string \<Rightarrow> string \<Rightarrow> unit query" where
  "DeleteGroup i organizationID = bnd (exec_on t_groups put_groups (\<lambda>d. update_where (live_group i organizationID)
       (\<lambda>g. g\<lparr>grp_Status := ''deleted'', grp_DeletedAt := Some (now d), grp_UpdatedAt := now d\<rparr>)))
     (\<lambda>n. if n = 0 then fail ''group not found or deleted'' else ret ())"

section \<open>Members\<close>

text \<open>
  A row as it is scanned, with the joined name and email of the user or the service account. The struct has no pointers here, so a NULL expiry, or a NULL \<open>added_by\<close> (the empty
  text, which is no UUID), is a scan error of the whole list.
\<close>

definition member_name :: "ServiceAccount list \<Rightarrow> User list \<Rightarrow> GroupMembership \<Rightarrow> string" where
  "member_name accounts users m = (case find (\<lambda>u. gm_PrincipalType m = ''user'' \<and> usr_ID u = gm_PrincipalID m) users of
       Some u \<Rightarrow> usr_DisplayName u
     | None \<Rightarrow> (case find (\<lambda>a. gm_PrincipalType m = ''service_account'' \<and> sa_ID a = gm_PrincipalID m) accounts of
           Some a \<Rightarrow> sa_Name a | None \<Rightarrow> ''Unknown''))"

definition member_email :: "User list \<Rightarrow> GroupMembership \<Rightarrow> string" where
  "member_email users m = (case find (\<lambda>u. gm_PrincipalType m = ''user'' \<and> usr_ID u = gm_PrincipalID m) users of
       Some u \<Rightarrow> usr_Email u | None \<Rightarrow> [])"

definition scan_error :: string where
  "scan_error = ''sql: Scan error: unsupported Scan, storing NULL''"

definition ListGroupMembers :: "string \<Rightarrow> string \<Rightarrow> (GroupMembership \<times> string \<times> string) list query" where
  "ListGroupMembers groupID organizationID = stmt (\<lambda>d.
     let rows = filter (\<lambda>m. gm_GroupID m = groupID \<and> (\<exists>g \<in> set (t_groups d). grp_ID g = groupID \<and> grp_OrganizationID g = organizationID))
           (t_group_memberships d) in
     if \<exists>m \<in> set rows. gm_ExpiresAt m = None \<or> gm_AddedBy m = [] then Inl scan_error
     else Inr (map (\<lambda>m. (m, member_name (t_service_accounts d) (t_users d) m, member_email (t_users d) m)) rows, d))"

definition same_member :: "GroupMembership \<Rightarrow> GroupMembership \<Rightarrow> bool" where
  "same_member n m \<longleftrightarrow> gm_GroupID m = gm_GroupID n \<and> gm_PrincipalID m = gm_PrincipalID n \<and> gm_PrincipalType m = gm_PrincipalType n"

text \<open>
  The upsert of a membership. The empty \<open>added_by\<close> is not a UUID; the expiry of the struct is always given,
  the zero time when the caller has none.
\<close>

definition upsert_member :: "GroupMembership \<Rightarrow> db \<Rightarrow> string + instant \<times> db" where
  "upsert_member m d =
     (if gm_AddedBy m = [] then Inl bad_uuid
      else if gm_PrincipalType m \<notin> set principal_types then Inl (bad_enum ''principal_type'')
      else if length (gm_RoleInGroup m) > 50 then Inl varchar_overflow
      else case find (same_member m) (t_group_memberships d) of
        Some old \<Rightarrow> Inr (gm_JoinedAt old, put_members (map (\<lambda>r. if same_member m r
            then r\<lparr>gm_RoleInGroup := gm_RoleInGroup m, gm_ExpiresAt := gm_ExpiresAt m\<rparr> else r) (t_group_memberships d)) d)
      | None \<Rightarrow> if gm_ID m \<in> gm_ID ` set (t_group_memberships d) then Inl (duplicate_key ''group_memberships_pkey'')
          else if gm_GroupID m \<notin> grp_ID ` set (t_groups d) then Inl (foreign_key ''group_memberships_group_id_fkey'')
          else Inr (now d, put_members (t_group_memberships d @ [m\<lparr>gm_JoinedAt := now d\<rparr>]) d))"

definition group_exists :: "string \<Rightarrow> string \<Rightarrow> db \<Rightarrow> bool" where
  "group_exists groupID organizationID d \<longleftrightarrow> list_ex (live_group groupID organizationID) (t_groups d)"

definition AddGroupMember :: "GroupMembership \<Rightarrow> string \<Rightarrow> GroupMembership query" where
  "AddGroupMember m organizationID =
     bnd (wrap ''failed to verify group'' (select (group_exists (gm_GroupID m) organizationID))) (\<lambda>exists.
     if \<not> exists then fail ''group not found or not in organization''
     else bnd (stmt (upsert_member m)) (\<lambda>t. ret (m\<lparr>gm_JoinedAt := t\<rparr>)))"

definition RemoveGroupMember :: "string \<Rightarrow> string \<Rightarrow> string \<Rightarrow> string \<Rightarrow> unit query" where
  "RemoveGroupMember groupID organizationID principalID principalType =
     bnd (exec_on t_group_memberships put_members (\<lambda>d. delete_where (\<lambda>m. gm_GroupID m = groupID \<and> gm_PrincipalID m = principalID
        \<and> gm_PrincipalType m = principalType \<and> group_exists groupID organizationID d)))
     (\<lambda>n. if n = 0 then fail ''membership not found'' else ret ())"

section \<open>The permissions of a group\<close>

text \<open>
  The documents of the policies that the roles of the group's members carry. The struct the code decodes
  into knows \<open>Statement\<close>, \<open>Effect\<close> and \<open>Action\<close> only, so other keys of any type are ignored.
\<close>

definition member_roles :: "string \<Rightarrow> string \<Rightarrow> db \<Rightarrow> string list" where
  "member_roles groupID organizationID d = [ra_RoleID ra. ra \<leftarrow> t_role_assignments d,
     unexpired (now d) (ra_ExpiresAt ra) \<and>
     list_ex (\<lambda>m. gm_GroupID m = groupID \<and> gm_PrincipalID m = ra_PrincipalID ra \<and> gm_PrincipalType m = ra_PrincipalType ra \<and>
        list_ex (\<lambda>g. grp_ID g = groupID \<and> grp_OrganizationID g = organizationID) (t_groups d)) (t_group_memberships d) \<and>
     list_ex (\<lambda>r. rol_ID r = ra_RoleID ra \<and> rol_OrganizationID r = organizationID) (t_roles d)]"

definition group_documents :: "string \<Rightarrow> string \<Rightarrow> db \<Rightarrow> string list" where
  "group_documents groupID organizationID d = map pol_Document (filter (\<lambda>p. pol_Status p = ''active''
     \<and> pol_OrganizationID p = organizationID \<and> list_ex (\<lambda>rp. rlp_PolicyID rp = pol_ID p
        \<and> rlp_RoleID rp \<in> set (member_roles groupID organizationID d)) (t_role_policies d)) (t_policies d))"

definition drop_keys :: "string list \<Rightarrow> (string \<times> json) list \<Rightarrow> (string \<times> json) list" where
  "drop_keys names kvs = filter (\<lambda>(k, _). \<not> list_ex (equal_fold k) names) kvs"

definition drop_statement_keys :: "json \<Rightarrow> json" where
  "drop_statement_keys j = (case j of JObj kvs \<Rightarrow> JObj (drop_keys [''Sid''] kvs) | _ \<Rightarrow> j)"

definition group_statements :: "string \<Rightarrow> statement list" where
  "group_statements raw = (case parse_json raw of
       Some (JObj kvs) \<Rightarrow> (case decode_document [] (map (\<lambda>(k, v). (k, case v of
            JArr js \<Rightarrow> if equal_fold k ''Statement'' then JArr (map drop_statement_keys js) else v | _ \<Rightarrow> v))
            (drop_keys [''Version''] kvs)) of None \<Rightarrow> [] | Some sts \<Rightarrow> sts)
     | _ \<Rightarrow> [])"

definition actions_of :: "json \<Rightarrow> string list" where
  "actions_of j = (case j of JStr s \<Rightarrow> [s] | JArr xs \<Rightarrow> concat (map (\<lambda>x. case x of JStr s \<Rightarrow> [s] | _ \<Rightarrow> []) xs) | _ \<Rightarrow> [])"

record GroupPermissions =
  gp_GroupID :: string
  gp_Allow :: "string list"
  gp_Deny :: "string list"

definition with_effect :: "string \<Rightarrow> string list \<Rightarrow> string list" where
  "with_effect effect docs = remdups (concat (map (\<lambda>st. if equal_fold (Effect st) effect then actions_of (Action st) else [])
     (concat (map group_statements docs))))"

definition GetGroupPermissions :: "(string list \<Rightarrow> string list) \<Rightarrow> string \<Rightarrow> string \<Rightarrow> GroupPermissions query" where
  "GetGroupPermissions ord_keys groupID organizationID = bnd (GetGroup groupID organizationID) (\<lambda>_.
     bnd (select (group_documents groupID organizationID)) (\<lambda>docs.
     ret \<lparr>gp_GroupID = groupID, gp_Allow = ord_keys (with_effect ''allow'' docs), gp_Deny = ord_keys (with_effect ''deny'' docs)\<rparr>))"

end
