(* ===== verification/RoleStore.thy ===== *)
theory RoleStore
  imports GroupStore AuditQueue
begin

text \<open>
  Roles, the policies attached to them and their assignments: internal/queries/role.go. Roles of the
  organization with the nil id are visible to every organization.
\<close>

section \<open>The tables\<close>

text \<open>The CHECK \<open>valid_role_path\<close> and the columns with a bound, besides the keys of \<open>roles_violation\<close>.\<close>

definition valid_role_path :: "string option \<Rightarrow> bool" where
  "valid_role_path p = (case p of None \<Rightarrow> True
     | Some s \<Rightarrow> s = ''/'' \<or> length s \<ge> 2 \<and> hd s = CHR ''/'' \<and> last s = CHR ''/'')"

definition role_row_violation :: "db \<Rightarrow> Role list \<Rightarrow> string option" where
  "role_row_violation d t =
     (if \<exists>r \<in> set t. length (rol_Name r) > 255 \<or> length (rol_RoleType r) > 50 \<or> (\<exists>s \<in> set_option (rol_Path r). length s > 512)
        then Some varchar_overflow
      else if \<exists>r \<in> set t. \<not> valid_role_path (rol_Path r) then Some (check_violation ''valid_role_path'')
      else case roles_violation t of Some e \<Rightarrow> Some e
        | None \<Rightarrow> if \<exists>r \<in> set t. \<exists>b \<in> set_option (rol_PermissionsBoundary r). b \<notin> pol_ID ` set (t_policies d)
            then Some (foreign_key ''roles_permissions_boundary_fkey'') else None)"

definition shared_org :: string where
  "shared_org = ''00000000-0000-0000-0000-000000000000''"

definition visible_role :: "string \<Rightarrow> Role \<Rightarrow> bool" where
  "visible_role organizationID r \<longleftrightarrow> (rol_OrganizationID r = organizationID \<or> rol_OrganizationID r = shared_org) \<and> rol_Status r \<noteq> ''deleted''"

definition live_role :: "string \<Rightarrow> string \<Rightarrow> Role \<Rightarrow> bool" where
  "live_role i organizationID r \<longleftrightarrow> rol_ID r = i \<and> rol_OrganizationID r = organizationID \<and> rol_Status r \<noteq> ''deleted''"

definition role_of :: "string \<Rightarrow> string \<Rightarrow> db \<Rightarrow> bool" where
  "role_of i organizationID d \<longleftrightarrow> list_ex (\<lambda>r. rol_ID r = i \<and> rol_OrganizationID r = organizationID) (t_roles d)"

section \<open>Roles\<close>

text \<open>Without a limit there is no LIMIT clause; only the exact text \<open>asc\<close> sorts upwards.\<close>

definition ListRoles ::
  "(string \<Rightarrow> bool \<Rightarrow> Role list \<Rightarrow> Role list) \<Rightarrow> ListParams \<Rightarrow> string \<Rightarrow> Role ListResult query" where
  "ListRoles sorted_by params organizationID =
     (let visible = (\<lambda>d. filter (visible_role organizationID) (t_roles d));
          column = (if lp_SortBy params \<in> set [''name'', ''created_at'', ''updated_at'', ''role_type'', ''organization_id'']
            then lp_SortBy params else ''created_at'');
          rows = (\<lambda>d. map (\<lambda>r. (r, length (visible d))) (sorted_by column (lp_Order params = ''asc'') (visible d)));
          skip = nat (lp_Offset params)
      in bnd (wrap ''failed to query roles'' (select (\<lambda>d. if lp_Limit params > 0
             then take (nat (lp_Limit params)) (drop skip (rows d)) else drop skip (rows d)))) (\<lambda>page.
         let total = (if page = [] then 0 else int (snd (last page))) in
         ret \<lparr>lr_Items = map fst page, lr_Total = total, lr_Limit = lp_Limit params, lr_Offset = lp_Offset params,
           lr_HasMore = (lp_Offset params + int (length page) < total), lr_TotalPages = 0\<rparr>))"

definition CreateRole :: "(string \<Rightarrow> string) \<Rightarrow> Role \<Rightarrow> Role query" where
  "CreateRole jsonb role = gets now (\<lambda>t. bnd (wrap ''failed to create role''
       (json_stmt [rol_TrustPolicy role, rol_AssumeRolePolicy role, rol_Tags role] (stmt (\<lambda>d.
          let row = role\<lparr>rol_TrustPolicy := jsonb (rol_TrustPolicy role), rol_AssumeRolePolicy := jsonb (rol_AssumeRolePolicy role),
                rol_Tags := jsonb (rol_Tags role), rol_CreatedAt := t, rol_UpdatedAt := t, rol_DeletedAt := None\<rparr> in
          case role_row_violation d (t_roles d @ [row]) of Some e \<Rightarrow> Inl e
          | None \<Rightarrow> if rol_OrganizationID role \<notin> org_ID ` set (t_organizations d) then Inl (foreign_key ''roles_organization_id_fkey'')
              else Inr ((), put_roles (t_roles d @ [row]) d)))))
     (\<lambda>_. ret (role\<lparr>rol_CreatedAt := t, rol_UpdatedAt := t\<rparr>)))"

definition GetRole :: "string \<Rightarrow> string \<Rightarrow> Role query" where
  "GetRole i organizationID = query_row ''role not found'' ''failed to get role''
     (\<lambda>d. find (\<lambda>r. rol_ID r = i \<and> visible_role organizationID r) (t_roles d))"

definition UpdateRole :: "(string \<Rightarrow> string) \<Rightarrow> Role \<Rightarrow> string \<Rightarrow> Role query" where
  "UpdateRole jsonb role organizationID = gets now (\<lambda>t. bnd (wrap ''failed to update role''
       (json_stmt [rol_TrustPolicy role, rol_AssumeRolePolicy role, rol_Tags role] (stmt (\<lambda>d.
          let P = live_role (rol_ID role) organizationID;
              f = (\<lambda>r. r\<lparr>rol_Name := rol_Name role, rol_Description := rol_Description role, rol_RoleType := rol_RoleType role,
                rol_MaxSessionDuration := rol_MaxSessionDuration role, rol_TrustPolicy := jsonb (rol_TrustPolicy role),
                rol_AssumeRolePolicy := jsonb (rol_AssumeRolePolicy role), rol_Tags := jsonb (rol_Tags role),
                rol_Path := rol_Path role, rol_PermissionsBoundary := rol_PermissionsBoundary role, rol_Status := rol_Status role,
                rol_UpdatedAt := t\<rparr>);
              rows = map (\<lambda>r. if P r then f r else r) (t_roles d) in
          case role_row_violation d rows of Some e \<Rightarrow> Inl e
          | None \<Rightarrow> Inr (length (filter P (t_roles d)), put_roles rows d)))))
     (\<lambda>n. if n = 0 then fail ''role not found or already deleted'' else ret (role\<lparr>rol_UpdatedAt := t\<rparr>)))"

definition DeleteRole :: "string \<Rightarrow> string \<Rightarrow> unit query" where
  "DeleteRole i organizationID = must_affect ''role not found or already deleted'' ''failed to delete role''
     (exec_on t_roles put_roles (\<lambda>d. update_where (live_role i organizationID)
        (\<lambda>r. r\<lparr>rol_Status := ''deleted'', rol_DeletedAt := Some (now d), rol_UpdatedAt := now d\<rparr>)))"

section \<open>Policies of a role\<close>

text \<open>The columns that are selected; the other fields of the struct stay zero.\<close>

definition listed_policy :: "Policy \<Rightarrow> Policy" where
  "listed_policy p = p\<lparr>pol_Version := [], pol_PolicyType := [], pol_Effect := [], pol_CreatedBy := None, pol_ApprovedBy := None,
     pol_ApprovedAt := None\<rparr>"

definition GetRolePolicies :: "string \<Rightarrow> string \<Rightarrow> Policy list query" where
  "GetRolePolicies roleID organizationID = wrap ''failed to query role policies'' (select (\<lambda>d.
     [listed_policy p. rp \<leftarrow> order_desc rlp_AttachedAt (t_role_policies d), p \<leftarrow> t_policies d,
       rlp_RoleID rp = roleID \<and> pol_ID p = rlp_PolicyID rp \<and> pol_Status p = ''active''
       \<and> (role_of roleID organizationID d \<or> role_of roleID shared_org d)]))"

definition put_role_policies :: "RolePolicy list \<Rightarrow> db \<Rightarrow> db" where
  "put_role_policies t d = d\<lparr>t_role_policies := t\<rparr>"

definition put_assignments :: "RoleAssignment list \<Rightarrow> db \<Rightarrow> db" where
  "put_assignments t d = d\<lparr>t_role_assignments := t\<rparr>"

text \<open>\<open>INSERT ... SELECT ... ON CONFLICT DO NOTHING\<close>: no row when the role or the policy is not the organization's.\<close>

definition attach_rows :: "string \<Rightarrow> string \<Rightarrow> string \<Rightarrow> string \<Rightarrow> string \<Rightarrow> db \<Rightarrow> string + nat \<times> db" where
  "attach_rows i roleID policyID organizationID attachedBy d =
     (if attachedBy = [] then Inl bad_uuid
      else if \<not> role_of roleID organizationID d
         \<or> \<not> list_ex (\<lambda>p. pol_ID p = policyID \<and> pol_OrganizationID p = organizationID) (t_policies d)
         \<or> list_ex (\<lambda>rp. rlp_RoleID rp = roleID \<and> rlp_PolicyID rp = policyID) (t_role_policies d) then Inr (0, d)
      else if attachedBy \<notin> usr_ID ` set (t_users d) then Inl (foreign_key ''role_policies_attached_by_fkey'')
      else Inr (1, put_role_policies (t_role_policies d @ [\<lparr>rlp_ID = i, rlp_RoleID = roleID, rlp_PolicyID = policyID,
             rlp_AttachedAt = now d, rlp_AttachedBy = Some attachedBy\<rparr>]) d))"

definition foreign_key_as :: "string \<Rightarrow> string \<Rightarrow> ('s, 'a) prog \<Rightarrow> ('s, 'a) prog" where
  "foreign_key_as msg pre m s = (case m s of
       (Err e, t) \<Rightarrow> (Err (if contains e ''foreign key'' then msg else pre @ '': '' @ e), t) | r \<Rightarrow> r)"

definition AttachPolicyToRole :: "string \<Rightarrow> string \<Rightarrow> string \<Rightarrow> string \<Rightarrow> unit query" where
  "AttachPolicyToRole roleID policyID organizationID attachedBy = bnd fresh_uuid (\<lambda>i.
     bnd (foreign_key_as ''role or policy not found'' ''failed to attach policy to role''
       (stmt (attach_rows i roleID policyID organizationID attachedBy)))
     (\<lambda>n. if n = 0 then fail ''policy already attached to role'' else ret ()))"

definition DetachPolicyFromRole :: "string \<Rightarrow> string \<Rightarrow> string \<Rightarrow> unit query" where
  "DetachPolicyFromRole roleID policyID organizationID =
     must_affect ''policy not attached to role'' ''failed to detach policy from role''
       (exec_on t_role_policies put_role_policies (\<lambda>d. delete_where (\<lambda>rp. rlp_RoleID rp = roleID \<and> rlp_PolicyID rp = policyID
          \<and> role_of roleID organizationID d)))"

section \<open>Assignments\<close>

text \<open>\<open>AssignedBy\<close> is scanned into a string, so an assignment without an assigner makes the whole list fail.\<close>

definition GetRoleAssignments :: "string \<Rightarrow> string \<Rightarrow> RoleAssignment list query" where
  "GetRoleAssignments roleID organizationID =
     bnd (wrap ''failed to query role assignments'' (select (\<lambda>d.
       order_desc ra_AssignedAt (filter (\<lambda>ra. ra_RoleID ra = roleID \<and> role_of roleID organizationID d) (t_role_assignments d)))))
     (\<lambda>rows. if list_ex (\<lambda>ra. ra_AssignedBy ra = None) rows then fail (''failed to scan role assignment: '' @ scan_error)
        else ret rows)"

text \<open>\<open>ON CONFLICT (name, organization_id) DO UPDATE\<close> restores an existing role; the other columns take their defaults.\<close>

definition named_role :: "string \<Rightarrow> string \<Rightarrow> string \<Rightarrow> string \<Rightarrow> instant \<Rightarrow> Role" where
  "named_role i name description organizationID t = \<lparr>rol_ID = i, rol_Name = name, rol_Description = Some description,
     rol_OrganizationID = organizationID, rol_RoleType = ''custom'', rol_MaxSessionDuration = Some ''12:00:00'',
     rol_TrustPolicy = ''{}'', rol_AssumeRolePolicy = ''{}'', rol_Tags = ''{}'', rol_IsSystemRole = True, rol_Path = Some ''/'',
     rol_PermissionsBoundary = None, rol_Status = ''active'', rol_CreatedAt = t, rol_UpdatedAt = t, rol_DeletedAt = None\<rparr>"

definition upsert_role :: "string \<Rightarrow> string \<Rightarrow> string \<Rightarrow> string \<Rightarrow> db \<Rightarrow> string + string \<times> db" where
  "upsert_role i name description organizationID d =
     (let here = (\<lambda>r. rol_Name r = name \<and> rol_OrganizationID r = organizationID) in
      case find here (t_roles d) of
        Some old \<Rightarrow> Inr (rol_ID old, put_roles (map (\<lambda>r. if here r
            then r\<lparr>rol_Status := ''active'', rol_DeletedAt := None, rol_UpdatedAt := now d\<rparr> else r) (t_roles d)) d)
      | None \<Rightarrow> (let t = t_roles d @ [named_role i name description organizationID (now d)] in
          case role_row_violation d t of Some e \<Rightarrow> Inl e
          | None \<Rightarrow> if organizationID \<notin> org_ID ` set (t_organizations d) then Inl (foreign_key ''roles_organization_id_fkey'')
              else Inr (i, put_roles t d)))"

definition EnsureRoleByName :: "string \<Rightarrow> string \<Rightarrow> string \<Rightarrow> string query" where
  "EnsureRoleByName name description organizationID = bnd fresh_uuid (\<lambda>i.
     wrap (''failed to ensure role '' @ [CHR 0x22] @ name @ [CHR 0x22]) (stmt (upsert_role i name description organizationID)))"

definition same_assignment :: "RoleAssignment \<Rightarrow> RoleAssignment \<Rightarrow> bool" where
  "same_assignment n a \<longleftrightarrow> ra_RoleID a = ra_RoleID n \<and> ra_PrincipalID a = ra_PrincipalID n \<and> ra_PrincipalType a = ra_PrincipalType n"

text \<open>
  \<open>NULLIF($5, '')\<close>: an empty assigner is NULL. \<open>COALESCE\<close> turns absent conditions into \<open>{}\<close>, the text that stands
  for them here. A role of another organization selects no row to insert.
\<close>

definition upsert_assignment :: "(string \<Rightarrow> string) \<Rightarrow> RoleAssignment \<Rightarrow> string \<Rightarrow> db \<Rightarrow> string + instant \<times> db" where
  "upsert_assignment jsonb a organizationID d =
     (let by = (case ra_AssignedBy a of Some u \<Rightarrow> if u = [] then None else Some u | None \<Rightarrow> None);
          row = a\<lparr>ra_AssignedBy := by, ra_AssignedAt := now d, ra_Conditions := jsonb (ra_Conditions a)\<rparr> in
      if ra_PrincipalType a \<notin> set principal_types then Inl (bad_enum ''principal_type'')
      else if \<not> role_of (ra_RoleID a) organizationID d then Inl no_rows
      else if by \<noteq> None \<and> the by \<notin> usr_ID ` set (t_users d) then Inl (foreign_key ''role_assignments_assigned_by_fkey'')
      else if list_ex (same_assignment a) (t_role_assignments d)
      then Inr (now d, put_assignments (map (\<lambda>r. if same_assignment a r
             then r\<lparr>ra_AssignedBy := by, ra_AssignedAt := now d, ra_ExpiresAt := ra_ExpiresAt a, ra_Conditions := jsonb (ra_Conditions a)\<rparr>
             else r) (t_role_assignments d)) d)
      else if ra_ID a \<in> ra_ID ` set (t_role_assignments d) then Inl (duplicate_key ''role_assignments_pkey'')
      else Inr (now d, put_assignments (t_role_assignments d @ [row]) d))"

definition AssignRole :: "(string \<Rightarrow> string) \<Rightarrow> RoleAssignment \<Rightarrow> string \<Rightarrow> RoleAssignment query" where
  "AssignRole jsonb a organizationID = bnd (foreign_key_as ''role or principal not found'' ''failed to assign role''
     (json_stmt [ra_Conditions a] (stmt (upsert_assignment jsonb a organizationID)))) (\<lambda>t. ret (a\<lparr>ra_AssignedAt := t\<rparr>))"

definition UnassignRole :: "string \<Rightarrow> string \<Rightarrow> string \<Rightarrow> unit query" where
  "UnassignRole roleID principalID organizationID = must_affect ''role assignment not found'' ''failed to unassign role''
     (exec_on t_role_assignments put_assignments (\<lambda>d. delete_where (\<lambda>a. ra_RoleID a = roleID \<and> ra_PrincipalID a = principalID
        \<and> role_of roleID organizationID d)))"

end
