(* ===== verification/GrantFlow.thy ===== *)
theory GrantFlow
  imports RoleStore AuthFlow
begin

text \<open>
  How roles, groups and policies reach a decision: what an attachment and an assignment add to the
  policies of a principal, what their removal takes away, and that links never cross an organization.
\<close>

section \<open>Links within an organization\<close>

definition role_keys :: "db \<Rightarrow> (string \<times> string) set" where
  "role_keys d = (\<lambda>r. (rol_ID r, rol_OrganizationID r)) ` set (t_roles d)"

definition policy_keys :: "db \<Rightarrow> (string \<times> string) set" where
  "policy_keys d = (\<lambda>p. (pol_ID p, pol_OrganizationID p)) ` set (t_policies d)"

definition linked :: "db \<Rightarrow> RolePolicy \<Rightarrow> bool" where
  "linked d rp \<longleftrightarrow> (\<exists>org. (rlp_RoleID rp, org) \<in> role_keys d \<and> (rlp_PolicyID rp, org) \<in> policy_keys d)"

definition links_kept :: "db \<Rightarrow> db \<Rightarrow> bool" where
  "links_kept d d' \<longleftrightarrow> role_keys d \<subseteq> role_keys d' \<and> policy_keys d \<subseteq> policy_keys d' \<and>
     (\<forall>rp \<in> set (t_role_policies d'). rp \<in> set (t_role_policies d) \<or> linked d' rp)"

lemma linked_mono: "linked d rp \<Longrightarrow> role_keys d \<subseteq> role_keys d' \<Longrightarrow> policy_keys d \<subseteq> policy_keys d' \<Longrightarrow> linked d' rp"
  unfolding linked_def by blast

lemma links_kept_order [keeps_intros]: "reflp links_kept" "transp links_kept"
proof -
  show "reflp links_kept" by (simp add: reflp_def links_kept_def)
  show "transp links_kept"
  proof (rule transpI)
    fix a b c assume ab: "links_kept a b" and bc: "links_kept b c"
    have "rp \<in> set (t_role_policies a) \<or> linked c rp" if "rp \<in> set (t_role_policies c)" for rp
      using that ab bc linked_mono [of b rp c] unfolding links_kept_def by blast
    with ab bc show "links_kept a c" unfolding links_kept_def by blast
  qed
qed

lemma links_kept_keys:
  assumes "t_role_policies d' = t_role_policies d" and "role_keys d \<subseteq> role_keys d'" and "policy_keys d \<subseteq> policy_keys d'"
  shows "links_kept d d'"
  using assms by (simp add: links_kept_def)

lemma links_kept_same: "t_role_policies d' = t_role_policies d \<Longrightarrow> t_roles d' = t_roles d \<Longrightarrow> t_policies d' = t_policies d \<Longrightarrow> links_kept d d'"
  by (rule links_kept_keys) (simp_all add: role_keys_def policy_keys_def)

lemma links_kept_advance [keeps_intros]: "links_kept d (advance d)"
  by (rule links_kept_same) simp_all

lemma links_kept_fresh [keeps_intros]: "keeps links_kept fresh_uuid"
  by (intro keeps_intros) (simp add: links_kept_same)

lemma keys_of_map:
  assumes "\<And>r. P r \<Longrightarrow> k (f r) = k r"
  shows "k ` set (map (\<lambda>r. if P r then f r else r) xs) = k ` set xs"
proof -
  have "map k (map (\<lambda>r. if P r then f r else r) xs) = map k xs" using assms by auto
  then show ?thesis by (metis image_set)
qed

text \<open>The effects of statements on the tables, each as it is left by a statement that has succeeded.\<close>

named_theorems link_effects \<open>effects of statements that keep the links\<close>

lemma links_kept_roles [link_effects]:
  assumes "\<And>r. P r \<Longrightarrow> rol_ID (f r) = rol_ID r \<and> rol_OrganizationID (f r) = rol_OrganizationID r"
  shows "links_kept d (put_roles (map (\<lambda>r. if P r then f r else r) (t_roles d)) (advance d))"
proof (rule links_kept_keys)
  show "role_keys d \<subseteq> role_keys (put_roles (map (\<lambda>r. if P r then f r else r) (t_roles d)) (advance d))"
    using keys_of_map [where k = "\<lambda>r. (rol_ID r, rol_OrganizationID r)", of P f "t_roles d"] assms by (simp add: role_keys_def)
qed (simp_all add: policy_keys_def)

lemma links_kept_policies [link_effects]:
  assumes "\<And>r. P r \<Longrightarrow> pol_ID (f r) = pol_ID r \<and> pol_OrganizationID (f r) = pol_OrganizationID r"
  shows "links_kept d (put_policies (map (\<lambda>r. if P r then f r else r) (t_policies d)) (advance d))"
proof (rule links_kept_keys)
  show "policy_keys d \<subseteq> policy_keys (put_policies (map (\<lambda>r. if P r then f r else r) (t_policies d)) (advance d))"
    using keys_of_map [where k = "\<lambda>r. (pol_ID r, pol_OrganizationID r)", of P f "t_policies d"] assms by (simp add: policy_keys_def)
qed (simp_all add: role_keys_def)

lemma links_kept_append [link_effects]:
  "links_kept d (put_roles (t_roles d @ [r]) (advance d))" "links_kept d (put_policies (t_policies d @ [p]) (advance d))"
  "links_kept d (put_versions vs (advance d))"
  by (rule links_kept_keys; auto simp: role_keys_def policy_keys_def)+

lemma links_kept_fewer [link_effects]:
  "links_kept d (put_role_policies (filter P (t_role_policies d)) (advance d))"
  by (auto simp: links_kept_def put_role_policies_def role_keys_def policy_keys_def)

text \<open>The operations on policies.\<close>

lemma links_kept_policy_ops:
  "keeps links_kept (CreatePolicy jsonb vid p)" "keeps links_kept (UpdatePolicy jsonb vid p c)"
  "keeps links_kept (DeletePolicy i c)" "keeps links_kept (ApprovePolicy i c by)" "keeps links_kept (RollbackPolicy i c v)"
  unfolding CreatePolicy_def UpdatePolicy_def GetPolicy_def DeletePolicy_def ApprovePolicy_def RollbackPolicy_def Let_def
  by (intro keeps_intros; simp add: link_effects snd_update_where live_policy_def)+

lemma links_kept_policy_step: "policy_step jsonb d d' \<Longrightarrow> links_kept d d'"
  by (induction rule: policy_step.induct) (auto intro: keepsD links_kept_policy_ops links_kept_same)

text \<open>The operations on roles.\<close>

lemma keeps_foreign_key_as [keeps_intros]: "keeps R m \<Longrightarrow> keeps R (foreign_key_as msg pre m)"
  by (simp add: keeps_def foreign_key_as_def split: prod.splits res.splits) (metis snd_conv)

lemma attach_rows_links:
  assumes "attach_rows i roleID policyID org by (advance d) = Inr (n, d')"
  shows "links_kept d d'"
proof (cases "d' = advance d")
  case False
  with assms have d': "d' = put_role_policies (t_role_policies d @ [\<lparr>rlp_ID = i, rlp_RoleID = roleID, rlp_PolicyID = policyID,
             rlp_AttachedAt = now d, rlp_AttachedBy = Some by\<rparr>]) (advance d)"
    and here: "role_of roleID org d" "list_ex (\<lambda>p. pol_ID p = policyID \<and> pol_OrganizationID p = org) (t_policies d)"
    by (auto simp: attach_rows_def role_of_def split: if_splits)
  from here have "(roleID, org) \<in> role_keys d" "(policyID, org) \<in> policy_keys d"
    by (auto simp: role_of_def role_keys_def policy_keys_def list_ex_iff image_iff)
  moreover have "role_keys d' = role_keys d" "policy_keys d' = policy_keys d"
    by (simp_all add: d' put_role_policies_def role_keys_def policy_keys_def)
  ultimately show ?thesis by (auto simp: links_kept_def d' put_role_policies_def linked_def)
qed (simp add: links_kept_advance)

lemma links_kept_attach: "keeps links_kept (AttachPolicyToRole roleID policyID org by)"
  unfolding AttachPolicyToRole_def by (intro keeps_intros keeps_stmt) (rule attach_rows_links)

lemma upsert_role_links: "upsert_role i name description org (advance d) = Inr (x, d') \<Longrightarrow> links_kept d d'"
  unfolding upsert_role_def Let_def
  by (auto simp: link_effects split: option.splits if_splits)

lemma links_kept_role_ops:
  "keeps links_kept (CreateRole jsonb role)" "keeps links_kept (UpdateRole jsonb role org)" "keeps links_kept (DeleteRole i org)"
  "keeps links_kept (DetachPolicyFromRole i p org)" "keeps links_kept (EnsureRoleByName name description org)"
  unfolding CreateRole_def UpdateRole_def DeleteRole_def DetachPolicyFromRole_def EnsureRoleByName_def Let_def
  by (intro keeps_intros keeps_stmt; auto simp: link_effects snd_update_where snd_delete_where comp_def dest: upsert_role_links split: option.splits if_splits)+

text \<open>Any call on roles, any call on policies, and changes of other tables or of the clock.\<close>

inductive grant_step :: "(string \<Rightarrow> string) \<Rightarrow> db \<Rightarrow> db \<Rightarrow> bool" for jsonb where
  create: "CreateRole jsonb role d = (r, d') \<Longrightarrow> grant_step jsonb d d'"
| update: "UpdateRole jsonb role org d = (r, d') \<Longrightarrow> grant_step jsonb d d'"
| delete: "DeleteRole i org d = (u, d') \<Longrightarrow> grant_step jsonb d d'"
| ensure: "EnsureRoleByName name description org d = (r', d') \<Longrightarrow> grant_step jsonb d d'"
| attach: "AttachPolicyToRole i p org by d = (u, d') \<Longrightarrow> grant_step jsonb d d'"
| detach: "DetachPolicyFromRole i p org d = (u, d') \<Longrightarrow> grant_step jsonb d d'"
| policy: "policy_step jsonb d d' \<Longrightarrow> grant_step jsonb d d'"
| elsewhere: "t_roles d' = t_roles d \<Longrightarrow> t_policies d' = t_policies d \<Longrightarrow> t_role_policies d' = t_role_policies d \<Longrightarrow>
    grant_step jsonb d d'"

lemma grant_step_links: "grant_step jsonb d d' \<Longrightarrow> links_kept d d'"
  by (induction rule: grant_step.induct)
    (auto intro: keepsD links_kept_role_ops links_kept_attach links_kept_policy_step links_kept_same)

definition within_org :: "db \<Rightarrow> bool" where
  "within_org d \<longleftrightarrow> (\<forall>rp \<in> set (t_role_policies d). linked d rp)"

lemma grant_steps_within: "(grant_step jsonb)\<^sup>*\<^sup>* d d' \<Longrightarrow> within_org d \<Longrightarrow> within_org d'"
proof -
  assume run: "(grant_step jsonb)\<^sup>*\<^sup>* d d'" and inv: "within_org d"
  have "links_kept d d'" using related_by_steps [OF run links_kept_order grant_step_links] .
  with inv linked_mono [of d _ d'] show "within_org d'" unfolding within_org_def links_kept_def by blast
qed

section \<open>Attaching, assigning, removing\<close>

lemma foreign_key_as_Ok [simp]: "foreign_key_as msg pre m s = (Ok x, t) \<longleftrightarrow> m s = (Ok x, t)"
  by (auto simp: foreign_key_as_def split: prod.splits res.splits)

lemma json_stmt_Ok: "json_stmt texts m d = (Ok x, d') \<Longrightarrow> m d = (Ok x, d')"
  unfolding json_stmt_def by (auto split: if_splits elim: stmt_OkE)

lemma AttachPolicyToRole_Ok:
  assumes "AttachPolicyToRole roleID policyID org by d = (Ok u, d')"
  shows "role_of roleID org d \<and> (\<exists>rp \<in> set (t_role_policies d'). rlp_RoleID rp = roleID \<and> rlp_PolicyID rp = policyID) \<and>
    t_policies d' = t_policies d \<and> t_roles d' = t_roles d \<and> now d' = now d"
proof -
  let ?d = "d\<lparr>uuids := (\<lambda>n. uuids d (Suc n))\<rparr>"
  from assms obtain n d1 where "stmt (attach_rows (uuids d 0) roleID policyID org by) ?d = (Ok n, d1)" and "n \<noteq> 0" "d' = d1"
    unfolding AttachPolicyToRole_def by (auto elim!: bnd_OkE dest!: fresh_uuid_Ok split: if_splits)
  from this(1) have "attach_rows (uuids d 0) roleID policyID org by (advance ?d) = Inr (n, d')"
    unfolding \<open>d' = d1\<close> by (rule stmt_OkE)
  with \<open>n \<noteq> 0\<close> show ?thesis
    by (auto simp: attach_rows_def role_of_def put_role_policies_def split: if_splits)
qed

lemma upsert_assignment_Inr:
  assumes "upsert_assignment jsonb a org d = Inr (t, d')"
  shows "role_of (ra_RoleID a) org d \<and> (\<exists>r \<in> set (t_role_assignments d'). same_assignment a r \<and> ra_ExpiresAt r = ra_ExpiresAt a) \<and>
    (\<exists>x. d' = put_assignments x d)"
proof (cases "list_ex (same_assignment a) (t_role_assignments d)")
  case True
  define f where "f r = (if same_assignment a r
      then r\<lparr>ra_AssignedBy := (case ra_AssignedBy a of Some u \<Rightarrow> if u = [] then None else Some u | None \<Rightarrow> None), ra_AssignedAt := now d,
        ra_ExpiresAt := ra_ExpiresAt a, ra_Conditions := jsonb (ra_Conditions a)\<rparr> else r)" for r
  from True obtain r where r: "r \<in> set (t_role_assignments d)" "same_assignment a r" by (auto simp: list_ex_iff)
  from assms True have d': "d' = put_assignments (map f (t_role_assignments d)) d" and here: "role_of (ra_RoleID a) org d"
    by (auto simp: upsert_assignment_def Let_def f_def [abs_def] split: if_splits)
  moreover have "same_assignment a (f r)" "ra_ExpiresAt (f r) = ra_ExpiresAt a" using r(2) by (simp_all add: f_def same_assignment_def)
  moreover have "f r \<in> set (t_role_assignments d')" using r(1) by (simp add: d' put_assignments_def)
  ultimately show ?thesis by blast
next
  case False
  with assms show ?thesis
    by (auto simp: upsert_assignment_def Let_def put_assignments_def same_assignment_def split: if_splits)
qed

lemma AssignRole_Ok:
  assumes "AssignRole jsonb a org d = (Ok a', d')"
  shows "role_of (ra_RoleID a) org d \<and> (\<exists>r \<in> set (t_role_assignments d'). same_assignment a r \<and> ra_ExpiresAt r = ra_ExpiresAt a) \<and>
    t_policies d' = t_policies d \<and> t_role_policies d' = t_role_policies d \<and> now d' = now d"
proof -
  from assms obtain t where "stmt (upsert_assignment jsonb a org) d = (Ok t, d')"
    unfolding AssignRole_def by (auto elim!: bnd_OkE dest!: json_stmt_Ok)
  then have "upsert_assignment jsonb a org (advance d) = Inr (t, d')" by (rule stmt_OkE)
  from upsert_assignment_Inr [OF this] show ?thesis by (auto simp: role_of_def put_assignments_def)
qed

definition grant_db :: db where
  "grant_db = sample_db\<lparr>t_organizations := [new_org ''o1'' ''Org'' ''org'' 0], t_users := [sample_user],
     t_roles := [named_role ''r1'' ''reader'' [] ''o1'' 0, named_role ''r2'' ''writer'' [] ''o1'' 0], t_role_policies := []\<rparr>"

definition grant_assignment :: RoleAssignment where
  "grant_assignment = \<lparr>ra_ID = ''a9'', ra_RoleID = ''r2'', ra_PrincipalID = ''u1'', ra_PrincipalType = ''user'', ra_AssignedBy = Some ''u1'',
     ra_AssignedAt = 0, ra_ExpiresAt = None, ra_Conditions = ''{}''\<rparr>"

lemma grant_runs:
  "AttachPolicyToRole ''r2'' ''p1'' ''o1'' ''u1'' grant_db = (Ok (), snd (AttachPolicyToRole ''r2'' ''p1'' ''o1'' ''u1'' grant_db))"
  "AssignRole id grant_assignment ''o1'' (snd (AttachPolicyToRole ''r2'' ''p1'' ''o1'' ''u1'' grant_db))
     = (Ok (grant_assignment\<lparr>ra_AssignedAt := 100\<rparr>), snd (AssignRole id grant_assignment ''o1'' (snd (AttachPolicyToRole ''r2'' ''p1'' ''o1'' ''u1'' grant_db))))"
proof -
  have "fst (AttachPolicyToRole ''r2'' ''p1'' ''o1'' ''u1'' grant_db) = Ok ()" by code_simp
  then show "AttachPolicyToRole ''r2'' ''p1'' ''o1'' ''u1'' grant_db = (Ok (), snd (AttachPolicyToRole ''r2'' ''p1'' ''o1'' ''u1'' grant_db))"
    by (simp add: prod_eq_iff)
  have "fst (AssignRole id grant_assignment ''o1'' (snd (AttachPolicyToRole ''r2'' ''p1'' ''o1'' ''u1'' grant_db)))
     = Ok (grant_assignment\<lparr>ra_AssignedAt := 100\<rparr>)" by code_simp
  then show "AssignRole id grant_assignment ''o1'' (snd (AttachPolicyToRole ''r2'' ''p1'' ''o1'' ''u1'' grant_db))
     = (Ok (grant_assignment\<lparr>ra_AssignedAt := 100\<rparr>), snd (AssignRole id grant_assignment ''o1'' (snd (AttachPolicyToRole ''r2'' ''p1'' ''o1'' ''u1'' grant_db))))"
    by (simp add: prod_eq_iff)
qed

section \<open>Properties\<close>

text \<open>C25. Policies do not leak between organizations through roles: starting from tables whose links stay within an
  organization, after any history of role and policy operations, every policy that a principal has in an
  organization comes from a role of that same organization that the principal holds.\<close>

theorem grants_stay_in_org:
  assumes "(grant_step jsonb)\<^sup>*\<^sup>* d d'" and "within_org d" and "distinct (map pol_ID (t_policies d'))"
    and "p \<in> set (principal_policies pid pty org d')"
  shows "\<exists>rp \<in> set (t_role_policies d'). \<exists>r \<in> set (t_roles d'). rlp_PolicyID rp = pol_ID p \<and> rlp_RoleID rp = rol_ID r \<and>
    rol_OrganizationID r = org \<and> holds_role d' pid pty (rol_ID r)"
proof -
  from assms(4) obtain q rp where q: "q \<in> set (t_policies d')" "p = coalesced q" "pol_OrganizationID q = org"
    and rp: "rp \<in> set (t_role_policies d')" "rlp_PolicyID rp = pol_ID q" "holds_role d' pid pty (rlp_RoleID rp)"
    unfolding principal_policies_iff by blast
  have "linked d' rp" using grant_steps_within [OF assms(1,2)] rp(1) unfolding within_org_def by blast
  then obtain r q' where r: "r \<in> set (t_roles d')" "rol_ID r = rlp_RoleID rp" and q': "q' \<in> set (t_policies d')" "pol_ID q' = rlp_PolicyID rp"
    and org: "rol_OrganizationID r = pol_OrganizationID q'"
    by (auto simp: linked_def role_keys_def policy_keys_def)
  have "q' = q" by (rule distinct_key_unique [OF assms(3) q'(1) q(1)]) (use q'(2) rp(2) in simp)
  with r org q rp have "rlp_PolicyID rp = pol_ID p \<and> rlp_RoleID rp = rol_ID r \<and> rol_OrganizationID r = org \<and> holds_role d' pid pty (rol_ID r)"
    by (simp add: coalesced_def)
  with rp(1) r(1) show ?thesis by blast
qed

theorem grants_stay_in_org_witness:
  "\<exists>d'. (grant_step id)\<^sup>*\<^sup>* grant_db d' \<and> principal_policies ''u1'' ''user'' ''o1'' d' \<noteq> [] \<and>
     (\<forall>p \<in> set (principal_policies ''u1'' ''user'' ''o1'' d'). \<exists>r \<in> set (t_roles d'). rol_OrganizationID r = ''o1'' \<and>
        holds_role d' ''u1'' ''user'' (rol_ID r))"
proof -
  let ?d1 = "snd (AttachPolicyToRole ''r2'' ''p1'' ''o1'' ''u1'' grant_db)"
  let ?d2 = "snd (AssignRole id grant_assignment ''o1'' ?d1)"
  have "grant_step id grant_db ?d1" by (rule grant_step.attach [OF grant_runs(1)])
  moreover have "t_roles ?d2 = t_roles ?d1 \<and> t_policies ?d2 = t_policies ?d1 \<and> t_role_policies ?d2 = t_role_policies ?d1"
    by code_simp
  then have "grant_step id ?d1 ?d2" by (intro grant_step.elsewhere) simp_all
  ultimately have run: "(grant_step id)\<^sup>*\<^sup>* grant_db ?d2" by (meson converse_rtranclp_into_rtranclp r_into_rtranclp)
  have inv: "within_org grant_db" by (simp add: within_org_def grant_db_def)
  have ids: "distinct (map pol_ID (t_policies ?d2))" by code_simp
  have "principal_policies ''u1'' ''user'' ''o1'' ?d2 \<noteq> []" by code_simp
  with run grants_stay_in_org [OF run inv ids] show ?thesis by blast
qed

text \<open>C27. Deleting a role or a group revokes nothing: whatever the outcome of DeleteRole or DeleteGroup, every
  principal has the same policies afterwards, since neither the status of a role nor that of a group is
  looked at when the policies are collected, and the attachments, assignments and memberships stay.\<close>

theorem deleted_role_still_grants:
  assumes "DeleteRole i org d = (r, d') \<or> DeleteGroup i org d = (r, d')"
  shows "principal_policies pid pty c d' = principal_policies pid pty c d"
proof -
  let ?R = "\<lambda>d d'. t_policies d' = t_policies d \<and> t_role_policies d' = t_role_policies d \<and> t_role_assignments d' = t_role_assignments d \<and>
    t_group_memberships d' = t_group_memberships d \<and> now d' = now d"
  have R: "reflp ?R" "transp ?R" by (auto simp: reflp_def transp_def)
  have "keeps ?R (DeleteRole i org)" "keeps ?R (DeleteGroup i org)"
    unfolding DeleteRole_def DeleteGroup_def by (intro keeps_intros R; simp)+
  with assms have "?R d d'" by (auto dest: keepsD)
  then show ?thesis
    by (simp add: principal_policies_def principal_roles_def direct_roles_def group_roles_def)
qed

theorem deleted_role_still_grants_witness:
  "fst (DeleteRole ''r2'' ''o1'' grant_db) = Ok () \<and>
   principal_policies ''u1'' ''user'' ''o1'' (snd (DeleteRole ''r2'' ''o1'' grant_db)) = principal_policies ''u1'' ''user'' ''o1'' grant_db"
proof
  show "fst (DeleteRole ''r2'' ''o1'' grant_db) = Ok ()" by code_simp
  show "principal_policies ''u1'' ''user'' ''o1'' (snd (DeleteRole ''r2'' ''o1'' grant_db)) = principal_policies ''u1'' ''user'' ''o1'' grant_db"
    by (rule deleted_role_still_grants [where i = "''r2''" and org = "''o1''" and r = "fst (DeleteRole ''r2'' ''o1'' grant_db)"]) simp
qed

text \<open>C26. Attaching a policy to a role and assigning the role grants the policy: when both calls succeed, one after the
  other, an active policy of the organization is among those that authorization collects for the principal,
  unless the assignment has expired.\<close>

theorem attach_and_assign_grants:
  assumes "AttachPolicyToRole (ra_RoleID a) (pol_ID p) org by d = (Ok u, d1)" and "AssignRole jsonb a org' d1 = (Ok a', d2)"
    and "p \<in> set (t_policies d)" and "pol_Status p = ''active''" and "pol_OrganizationID p = org"
    and "unexpired (now d) (ra_ExpiresAt a)"
  shows "coalesced p \<in> set (principal_policies (ra_PrincipalID a) (ra_PrincipalType a) org d2)"
proof -
  from AttachPolicyToRole_Ok [OF assms(1)] AssignRole_Ok [OF assms(2)] obtain rp r where
    rp: "rp \<in> set (t_role_policies d2)" "rlp_RoleID rp = ra_RoleID a" "rlp_PolicyID rp = pol_ID p"
    and r: "r \<in> set (t_role_assignments d2)" "same_assignment a r" "ra_ExpiresAt r = ra_ExpiresAt a"
    and d2: "t_policies d2 = t_policies d" "now d2 = now d"
    by auto
  from r d2 assms(6) have "holds_role d2 (ra_PrincipalID a) (ra_PrincipalType a) (ra_RoleID a)"
    unfolding principal_roles_iff [symmetric] principal_roles_def direct_roles_def
    by (auto simp: same_assignment_def intro!: image_eqI [of _ _ r])
  with rp assms(3-5) d2 show ?thesis unfolding principal_policies_iff
    by (intro exI [of _ p] bexI [of _ p] bexI [of _ rp] conjI) simp_all
qed

theorem attach_and_assign_grants_witness:
  "\<exists>d1 d2. AttachPolicyToRole ''r2'' ''p1'' ''o1'' ''u1'' grant_db = (Ok (), d1) \<and>
     AssignRole id grant_assignment ''o1'' d1 = (Ok (grant_assignment\<lparr>ra_AssignedAt := 100\<rparr>), d2) \<and>
     coalesced (sample_policy allow_read) \<in> set (principal_policies ''u1'' ''user'' ''o1'' d2)"
proof -
  have p: "sample_policy allow_read \<in> set (t_policies grant_db)" "pol_Status (sample_policy allow_read) = ''active''"
    "pol_OrganizationID (sample_policy allow_read) = ''o1''" "unexpired (now grant_db) (ra_ExpiresAt grant_assignment)"
    and i: "pol_ID (sample_policy allow_read) = ''p1''" "ra_RoleID grant_assignment = ''r2''"
      "ra_PrincipalID grant_assignment = ''u1''" "ra_PrincipalType grant_assignment = ''user''"
    by (simp_all add: grant_db_def sample_db_def grant_assignment_def unexpired_def sample_policy_def)
  have 1: "AttachPolicyToRole (ra_RoleID grant_assignment) (pol_ID (sample_policy allow_read)) ''o1'' ''u1'' grant_db
      = (Ok (), snd (AttachPolicyToRole ''r2'' ''p1'' ''o1'' ''u1'' grant_db))"
    using grant_runs(1) i by simp
  from attach_and_assign_grants [OF 1 grant_runs(2) p] grant_runs i show ?thesis by metis
qed

text \<open>Removing an assignment takes the role away: after UnassignRole succeeds, the assignments are the old ones
  without those of the role to the principal, and the principal holds the role only through a group.\<close>

lemma UnassignRole_revokes:
  assumes "UnassignRole roleID principalID org d = (Ok u, d')"
  shows "t_role_assignments d' = filter (\<lambda>a. \<not> (ra_RoleID a = roleID \<and> ra_PrincipalID a = principalID)) (t_role_assignments d) \<and>
    (\<forall>pty. holds_role d' principalID pty roleID \<longrightarrow> (\<exists>gm \<in> set (t_group_memberships d'). gm_PrincipalID gm = principalID \<and>
       (\<exists>ra \<in> set (t_role_assignments d'). ra_RoleID ra = roleID \<and> ra_PrincipalType ra = ''group'' \<and> ra_PrincipalID ra = gm_GroupID gm)))"
proof -
  from assms obtain n where "n > 0" and run: "exec_on t_role_assignments put_assignments (\<lambda>d. delete_where
      (\<lambda>a. ra_RoleID a = roleID \<and> ra_PrincipalID a = principalID \<and> role_of roleID org d)) d = (Ok n, d')"
    unfolding UnassignRole_def must_affect_Ok by blast
  from exec_on_Ok [OF run] have n: "n = fst (delete_where (\<lambda>a. ra_RoleID a = roleID \<and> ra_PrincipalID a = principalID \<and> role_of roleID org d) (t_role_assignments d))"
    and d': "d' = put_assignments (filter (\<lambda>a. \<not> (ra_RoleID a = roleID \<and> ra_PrincipalID a = principalID \<and> role_of roleID org d)) (t_role_assignments d)) (advance d)"
    by (simp_all add: role_of_def snd_delete_where comp_def)
  have "role_of roleID org d"
  proof (rule ccontr)
    assume "\<not> role_of roleID org d"
    then have "n = 0" unfolding n by simp
    with \<open>n > 0\<close> show False by simp
  qed
  with d' have t: "t_role_assignments d' = filter (\<lambda>a. \<not> (ra_RoleID a = roleID \<and> ra_PrincipalID a = principalID)) (t_role_assignments d)"
    by (simp add: put_assignments_def)
  then show ?thesis unfolding holds_role_iff by auto
qed

end
