(* ===== verification/GroupHandler.thy ===== *)
theory GroupHandler
  imports GroupStore SessionHandler
begin

text \<open>
  The group endpoints of internal/handlers/handlers.go. Query parameters arrive as numbers, bodies parsed
  (\<open>None\<close> when the parser refuses them), and a time in a body as the result of \<open>time.Parse\<close>.
\<close>

definition handle_ListGroups ::
  "(string \<Rightarrow> bool \<Rightarrow> Group list \<Rightarrow> Group list) \<Rightarrow> fiber_ctx \<Rightarrow> int \<Rightarrow> int \<Rightarrow> string \<Rightarrow> string \<Rightarrow> Group ListResult handler" where
  "handle_ListGroups sorted_by c limit offset sortBy order = bnd (local_string (c_organization_id c)) (\<lambda>organizationID.
     if limit < 1 \<or> limit > 200 then apiError 400 ''invalid_limit'' ''limit must be 1-200''
     else if offset < 0 then apiError 400 ''invalid_offset'' ''offset must be >=0''
     else on_error (ListGroups sorted_by \<lparr>lp_Limit = limit, lp_Offset = offset, lp_SortBy = sortBy, lp_Order = order\<rparr> organizationID)
       (\<lambda>_. apiError 500 ''internal_server_error'' ''Failed to list groups'')
       (apiSuccess 200 ''Groups retrieved successfully''))"

definition or_default :: "string \<Rightarrow> string \<Rightarrow> string" where
  "or_default s v = (if s = [] then v else s)"

text \<open>The body is decoded into the whole struct, so every field that is not set below is the caller's.\<close>

definition handle_CreateGroup :: "(string \<Rightarrow> string) \<Rightarrow> fiber_ctx \<Rightarrow> Group option \<Rightarrow> Group handler" where
  "handle_CreateGroup jsonb c body = (case body of
       None \<Rightarrow> apiError 400 ''invalid_request_body'' ''Failed to parse request body''
     | Some g \<Rightarrow> bnd (local_string (c_organization_id c)) (\<lambda>organizationID.
         if grp_Name g = [] then apiError 400 ''validation_failed'' ''name is required''
         else bnd fresh_uuid (\<lambda>i.
           let group = g\<lparr>grp_OrganizationID := organizationID, grp_ID := i, grp_GroupType := or_default (grp_GroupType g) ''standard'',
                 grp_Attributes := or_default (grp_Attributes g) ''{}'', grp_Status := or_default (grp_Status g) ''active''\<rparr>
           in on_error (CreateGroup jsonb group)
             (\<lambda>e. if e = ErrGroupNameConflict
                then apiError 409 ''group_already_exists'' ''A group with this name already exists in the organization''
                else apiError 500 ''internal_server_error'' ''Failed to create group'')
             (apiSuccess 201 ''Group created successfully''))))"

definition handle_GetGroup :: "fiber_ctx \<Rightarrow> Group handler" where
  "handle_GetGroup c = (let i = c_Param_id c in
     if i = [] then apiError 400 ''invalid_group_id'' ''Group ID is required''
     else bnd (local_string (c_organization_id c)) (\<lambda>organizationID.
       on_error (GetGroup i organizationID)
         (\<lambda>e. if e = ''group not found'' then apiError 404 ''group_not_found'' ''Group not found''
            else apiError 500 ''internal_server_error'' ''Failed to get group'')
         (apiSuccess 200 ''Group retrieved successfully'')))"

text \<open>The fields of an update that are present.\<close>

record update_group_body =
  ug_Name :: "string option"
  ug_Description :: "string option"
  ug_MaxMembers :: "int option"
  ug_Status :: "string option"

definition given :: "'a option \<Rightarrow> 'a \<Rightarrow> 'a" where
  "given v old = (case v of None \<Rightarrow> old | Some x \<Rightarrow> x)"

definition handle_UpdateGroup :: "(string \<Rightarrow> string) \<Rightarrow> fiber_ctx \<Rightarrow> update_group_body option \<Rightarrow> Group handler" where
  "handle_UpdateGroup jsonb c body = (let i = c_Param_id c in
     if i = [] then apiError 400 ''invalid_group_id'' ''Group ID is required''
     else bnd (local_string (c_organization_id c)) (\<lambda>organizationID.
       on_error (GetGroup i organizationID)
         (\<lambda>e. if e = ''group not found'' then apiError 404 ''group_not_found'' ''Group not found or deleted''
            else apiError 500 ''internal_server_error'' ''Failed to retrieve group'')
         (\<lambda>g. case body of
            None \<Rightarrow> apiError 400 ''invalid_request_body'' ''Failed to parse request body''
          | Some u \<Rightarrow> on_error (UpdateGroup jsonb (g\<lparr>grp_ID := i, grp_Name := given (ug_Name u) (grp_Name g),
                grp_Description := given (ug_Description u) (grp_Description g), grp_MaxMembers := given (ug_MaxMembers u) (grp_MaxMembers g),
                grp_Status := given (ug_Status u) (grp_Status g)\<rparr>) organizationID)
              (\<lambda>e. if e = ''group not found or deleted'' then apiError 404 ''group_not_found'' ''Group not found or deleted''
                 else if e = ErrGroupNameConflict
                 then apiError 409 ''group_name_conflict'' ''A group with this name already exists in the organization''
                 else apiError 500 ''internal_server_error'' ''Failed to update group'')
              (apiSuccess 200 ''Group updated successfully''))))"

definition handle_DeleteGroup :: "fiber_ctx \<Rightarrow> (string \<times> instant) handler" where
  "handle_DeleteGroup c = (let i = c_Param_id c in
     if i = [] then apiError 400 ''invalid_group_id'' ''Group ID is required''
     else bnd (local_string (c_organization_id c)) (\<lambda>organizationID.
       on_error (DeleteGroup i organizationID)
         (\<lambda>e. if e = ''group not found or deleted'' then apiError 404 ''group_not_found'' ''Group not found or deleted''
            else apiError 500 ''internal_server_error'' ''Failed to delete group'')
         (\<lambda>_. gets now (\<lambda>t. apiSuccess 200 ''Group deleted successfully'' (i, t)))))"

section \<open>Members\<close>

definition handle_GetGroupMembers ::
  "fiber_ctx \<Rightarrow> (string \<times> (GroupMembership \<times> string \<times> string) list \<times> nat) handler" where
  "handle_GetGroupMembers c = (let i = c_Param_id c in
     if i = [] then apiError 400 ''invalid_group_id'' ''Group ID is required''
     else bnd (local_string (c_organization_id c)) (\<lambda>organizationID.
       on_error (ListGroupMembers i organizationID)
         (\<lambda>_. apiError 500 ''internal_server_error'' ''Failed to list group members'')
         (\<lambda>members. apiSuccess 200 ''Group members retrieved successfully'' (i, members, length members))))"

text \<open>\<open>am_ExpiresAt\<close>: absent, malformed (\<open>Some None\<close>) or a time.\<close>

record add_member_body =
  am_PrincipalID :: string
  am_PrincipalType :: string
  am_RoleInGroup :: string
  am_ExpiresAt :: "instant option option"

definition handle_AddGroupMember :: "fiber_ctx \<Rightarrow> add_member_body option \<Rightarrow> GroupMembership handler" where
  "handle_AddGroupMember c body = (let i = c_Param_id c in
     if i = [] then apiError 400 ''invalid_group_id'' ''Group ID is required''
     else case body of
       None \<Rightarrow> apiError 400 ''invalid_request_body'' ''Failed to parse request body''
     | Some req \<Rightarrow>
         if am_PrincipalID req = [] \<or> am_PrincipalType req = []
         then apiError 400 ''validation_failed'' ''principal_id and principal_type are required''
         else if am_ExpiresAt req = Some None then apiError 400 ''invalid_expires_at'' ''expires_at must be RFC3339''
         else bnd (local_string (c_organization_id c)) (\<lambda>organizationID. bnd fresh_uuid (\<lambda>mid.
           on_error (AddGroupMember \<lparr>gm_ID = mid, gm_GroupID = i, gm_PrincipalID = am_PrincipalID req,
               gm_PrincipalType = am_PrincipalType req, gm_RoleInGroup = or_default (am_RoleInGroup req) ''member'', gm_JoinedAt = 0,
               gm_ExpiresAt = Some (case am_ExpiresAt req of Some (Some t) \<Rightarrow> t | _ \<Rightarrow> 0), gm_AddedBy = []\<rparr> organizationID)
             (\<lambda>e. if isNotFoundErr e then apiError 404 ''not_found'' ''Group or principal not found''
                else apiError 500 ''internal_server_error'' ''Failed to add group member'')
             (apiSuccess 201 ''Group member added successfully''))))"

text \<open>The principal's id is the second path parameter, the type a query parameter (\<open>user\<close> when absent).\<close>

definition handle_RemoveGroupMember :: "fiber_ctx \<Rightarrow> string \<Rightarrow> string \<Rightarrow> (string \<times> string) handler" where
  "handle_RemoveGroupMember c principalID principalType = (let i = c_Param_id c in
     if i = [] \<or> principalID = [] then apiError 400 ''invalid_parameters'' ''Group ID and principal ID are required''
     else bnd (local_string (c_organization_id c)) (\<lambda>organizationID.
       on_error (RemoveGroupMember i organizationID principalID principalType)
         (\<lambda>e. if e = ''membership not found'' then apiError 404 ''membership_not_found'' ''Membership not found''
            else apiError 500 ''internal_server_error'' ''Failed to remove group member'')
         (\<lambda>_. apiSuccess 200 ''Group member removed successfully'' (i, principalID))))"

definition handle_GetGroupPermissions :: "(string list \<Rightarrow> string list) \<Rightarrow> fiber_ctx \<Rightarrow> (string \<times> GroupPermissions) handler" where
  "handle_GetGroupPermissions ord_keys c = (let i = c_Param_id c in
     if i = [] then apiError 400 ''invalid_group_id'' ''Group ID is required''
     else bnd (local_string (c_organization_id c)) (\<lambda>organizationID.
       on_error (GetGroupPermissions ord_keys i organizationID)
         (\<lambda>_. apiError 500 ''internal_server_error'' ''Failed to get group permissions'')
         (\<lambda>perms. apiSuccess 200 ''Group permissions retrieved successfully'' (i, perms))))"

section \<open>Nobody joins a group\<close>

lemma upsert_member_unsigned: "gm_AddedBy m = [] \<Longrightarrow> stmt (upsert_member m) d \<noteq> (Ok t, d')"
  by (auto simp: upsert_member_def elim: stmt_OkE)

text \<open>No request adds a member: the endpoint leaves \<open>added_by\<close> empty, which is no UUID.\<close>

lemma AddGroupMember_endpoint_fails:
  "handle_AddGroupMember c body d \<noteq> (Ok (Success status message m), d')"
proof
  assume "handle_AddGroupMember c body d = (Ok (Success status message m), d')"
  then obtain x org d1 d2 y where "AddGroupMember x org d1 = (Ok y, d2)" and "gm_AddedBy x = []"
    unfolding handle_AddGroupMember_def
    by (fastforce simp: Let_def isNotFoundErr_def elim!: bnd_OkE on_error_OkE split: option.splits if_splits)
  then show False
    unfolding AddGroupMember_def by (auto elim!: bnd_OkE dest: upsert_member_unsigned split: if_splits)
qed

end
