(* ===== verification/RoleHandler.thy ===== *)
theory RoleHandler
  imports RoleStore GroupHandler
begin

text \<open>
  The role endpoints of internal/handlers/handlers.go, and what protects the role \<open>admin\<close>.
\<close>

definition handle_ListRoles ::
  "(string \<Rightarrow> bool \<Rightarrow> Role list \<Rightarrow> Role list) \<Rightarrow> fiber_ctx \<Rightarrow> int \<Rightarrow> int \<Rightarrow> string \<Rightarrow> string \<Rightarrow> Role ListResult handler" where
  "handle_ListRoles sorted_by c limit offset sortBy order =
     (if limit < 1 \<or> limit > 1000 then apiError 400 ''invalid_limit'' ''Limit must be between 1 and 1000''
      else if offset < 0 then apiError 400 ''invalid_offset'' ''Offset must be non-negative''
      else bnd (local_string (c_organization_id c)) (\<lambda>organizationID.
        on_error (ListRoles sorted_by \<lparr>lp_Limit = limit, lp_Offset = offset, lp_SortBy = sortBy, lp_Order = order\<rparr> organizationID)
          (\<lambda>_. apiError 500 ''internal_server_error'' ''Failed to retrieve roles'')
          (apiSuccess 200 ''Roles retrieved successfully'')))"

text \<open>The organization is the one of the body; the locals of the request are not read.\<close>

definition handle_CreateRole :: "(string \<Rightarrow> string) \<Rightarrow> Role option \<Rightarrow> Role handler" where
  "handle_CreateRole jsonb body = (case body of
       None \<Rightarrow> apiError 400 ''invalid_request_body'' ''Failed to parse request body''
     | Some role \<Rightarrow>
         if rol_Name role = [] then apiError 400 ''validation_failed'' ''Role name is required''
         else if rol_OrganizationID role = [] then apiError 400 ''validation_failed'' ''Organization ID is required''
         else bnd fresh_uuid (\<lambda>i. on_error (CreateRole jsonb (role\<lparr>rol_ID := i, rol_RoleType := or_default (rol_RoleType role) ''custom'',
             rol_MaxSessionDuration := Some (given (rol_MaxSessionDuration role) ''12 hours''),
             rol_TrustPolicy := or_default (rol_TrustPolicy role) ''{}'', rol_AssumeRolePolicy := or_default (rol_AssumeRolePolicy role) ''{}'',
             rol_Tags := or_default (rol_Tags role) ''{}'', rol_Path := Some (or_default (given (rol_Path role) []) ''/''),
             rol_Status := or_default (rol_Status role) ''active''\<rparr>))
           (\<lambda>e. if e = ''role already exists'' then apiError 409 ''role_exists'' ''Role with this name already exists in the organization''
              else apiError 500 ''internal_server_error'' ''Failed to create role'')
           (apiSuccess 201 ''Role created successfully'')))"

definition handle_GetRole :: "fiber_ctx \<Rightarrow> Role handler" where
  "handle_GetRole c = (let i = c_Param_id c in
     if i = [] then apiError 400 ''invalid_role_id'' ''Role ID is required''
     else bnd (local_string (c_organization_id c)) (\<lambda>organizationID.
       on_error (GetRole i organizationID)
         (\<lambda>e. if e = ''role not found'' then apiError 404 ''role_not_found'' ''Role not found''
            else apiError 500 ''internal_server_error'' ''Failed to retrieve role'')
         (apiSuccess 200 ''Role retrieved successfully'')))"

text \<open>The name is overwritten even when the body has none; the reply is the body, not the stored role.\<close>

definition handle_UpdateRole :: "(string \<Rightarrow> string) \<Rightarrow> fiber_ctx \<Rightarrow> Role option \<Rightarrow> Role handler" where
  "handle_UpdateRole jsonb c body = (let i = c_Param_id c in
     if i = [] then apiError 400 ''invalid_role_id'' ''Role ID is required''
     else case body of
       None \<Rightarrow> apiError 400 ''invalid_request_body'' ''Failed to parse request body''
     | Some updates \<Rightarrow> bnd (local_string (c_organization_id c)) (\<lambda>organizationID.
         on_error (GetRole i organizationID)
           (\<lambda>e. if e = ''role not found'' \<or> e = ''role not found or already deleted''
              then apiError 404 ''role_not_found'' ''Role not found or already deleted''
              else apiError 500 ''internal_server_error'' ''Failed to update role'')
           (\<lambda>existing. on_error (UpdateRole jsonb (existing\<lparr>rol_Name := rol_Name updates,
                rol_Description := (case rol_Description updates of None \<Rightarrow> rol_Description existing | Some s \<Rightarrow> Some s)\<rparr>) organizationID)
              (\<lambda>e. if e = ''role not found or already deleted''
                 then apiError 404 ''role_not_found'' ''Role not found or already deleted''
                 else apiError 500 ''internal_server_error'' ''Failed to update role'')
              (\<lambda>_. apiSuccess 200 ''Role updated successfully'' (updates\<lparr>rol_ID := i\<rparr>)))))"

definition handle_DeleteRole :: "fiber_ctx \<Rightarrow> (string \<times> instant) handler" where
  "handle_DeleteRole c = (let i = c_Param_id c in
     if i = [] then apiError 400 ''invalid_role_id'' ''Role ID is required''
     else bnd (local_string (c_organization_id c)) (\<lambda>organizationID.
       on_error (GetRole i organizationID)
         (\<lambda>e. if e = ''role not found'' \<or> e = ''role not found or already deleted''
            then apiError 404 ''role_not_found'' ''Role not found or already deleted''
            else apiError 500 ''internal_server_error'' ''Failed to delete role'')
         (\<lambda>existing. if rol_Name existing = ''admin'' then apiError 403 ''cannot_delete_admin_role'' ''The admin role cannot be deleted''
            else on_error (DeleteRole i organizationID)
              (\<lambda>e. if e = ''role not found or already deleted''
                 then apiError 404 ''role_not_found'' ''Role not found or already deleted''
                 else apiError 500 ''internal_server_error'' ''Failed to delete role'')
              (\<lambda>_. gets now (\<lambda>t. apiSuccess 200 ''Role deleted successfully'' (i, t))))))"

section \<open>Policies of a role\<close>

definition role_visible :: "string \<Rightarrow> fiber_ctx \<Rightarrow> (string \<Rightarrow> string \<Rightarrow> 'a handler) \<Rightarrow> 'a handler" where
  "role_visible what c k = (let i = c_Param_id c in
     if i = [] then apiError 400 ''invalid_role_id'' ''Role ID is required''
     else bnd (local_string (c_organization_id c)) (\<lambda>organizationID.
       on_error (GetRole i organizationID)
         (\<lambda>e. if e = ''role not found'' then apiError 404 ''role_not_found'' ''Role not found''
            else apiError 500 ''internal_server_error'' what)
         (\<lambda>_. k i organizationID)))"

definition handle_GetRolePolicies :: "fiber_ctx \<Rightarrow> (string \<times> Policy list \<times> nat) handler" where
  "handle_GetRolePolicies c = role_visible ''Failed to retrieve role policies'' c (\<lambda>i organizationID.
     on_error (GetRolePolicies i organizationID)
       (\<lambda>_. apiError 500 ''internal_server_error'' ''Failed to retrieve role policies'')
       (\<lambda>policies. apiSuccess 200 ''Role policies retrieved successfully'' (i, policies, length policies)))"

text \<open>The body is the policy's id and the id of who attaches it; the result is whether it was attached.\<close>

definition handle_AttachPolicyToRole :: "fiber_ctx \<Rightarrow> (string \<times> string) option \<Rightarrow> (string \<times> string \<times> bool) handler" where
  "handle_AttachPolicyToRole c body = (let i = c_Param_id c in
     if i = [] then apiError 400 ''invalid_role_id'' ''Role ID is required''
     else case body of
       None \<Rightarrow> apiError 400 ''invalid_request_body'' ''Failed to parse request body''
     | Some (policyID, attachedBy) \<Rightarrow>
         if policyID = [] then apiError 400 ''validation_failed'' ''policy_id is required''
         else bnd (local_string (c_organization_id c)) (\<lambda>organizationID.
           on_error (AttachPolicyToRole i policyID organizationID (or_default attachedBy (local (c_user_id c))))
             (\<lambda>e. if e = ''role or policy not found'' then apiError 404 ''role_or_policy_not_found'' ''Role or policy not found''
                else if e = ''policy already attached to role''
                then apiSuccess 200 ''Policy already attached to role'' (i, policyID, False)
                else apiError 500 ''internal_server_error'' ''Failed to attach policy to role'')
             (\<lambda>_. apiSuccess 201 ''Policy attached to role successfully'' (i, policyID, True))))"

definition handle_DetachPolicyFromRole :: "fiber_ctx \<Rightarrow> string \<Rightarrow> (string \<times> string) handler" where
  "handle_DetachPolicyFromRole c policyID = (let i = c_Param_id c in
     if i = [] \<or> policyID = [] then apiError 400 ''invalid_parameters'' ''Role ID and policy ID are required''
     else bnd (local_string (c_organization_id c)) (\<lambda>organizationID.
       on_error (DetachPolicyFromRole i policyID organizationID)
         (\<lambda>e. if e = ''policy not attached to role'' then apiError 404 ''policy_not_attached'' ''Policy not attached to role''
            else apiError 500 ''internal_server_error'' ''Failed to detach policy from role'')
         (\<lambda>_. apiSuccess 200 ''Policy detached from role successfully'' (i, policyID))))"

section \<open>Assignments\<close>

definition handle_GetRoleAssignments :: "fiber_ctx \<Rightarrow> (string \<times> RoleAssignment list \<times> nat) handler" where
  "handle_GetRoleAssignments c = role_visible ''Failed to retrieve role assignments'' c (\<lambda>i organizationID.
     on_error (GetRoleAssignments i organizationID)
       (\<lambda>_. apiError 500 ''internal_server_error'' ''Failed to retrieve role assignments'')
       (\<lambda>assignments. apiSuccess 200 ''Role assignments retrieved successfully'' (i, assignments, length assignments)))"

record assign_role_body =
  ar_PrincipalID :: string
  ar_PrincipalType :: string
  ar_ExpiresAt :: "instant option option"
  ar_Conditions :: string

definition handle_AssignRole :: "(string \<Rightarrow> string) \<Rightarrow> fiber_ctx \<Rightarrow> assign_role_body option \<Rightarrow> RoleAssignment handler" where
  "handle_AssignRole jsonb c body = (let i = c_Param_id c in
     if i = [] then apiError 400 ''invalid_role_id'' ''Role ID is required''
     else case body of
       None \<Rightarrow> apiError 400 ''invalid_request_body'' ''Failed to parse request body''
     | Some req \<Rightarrow>
         if ar_PrincipalID req = [] \<or> ar_PrincipalType req = []
         then apiError 400 ''validation_failed'' ''principal_id and principal_type are required''
         else if ar_PrincipalType req \<notin> {''user'', ''service_account''}
         then apiError 400 ''invalid_principal_type'' (''principal_type must be '' @ [CHR 0x27] @ ''user'' @ [CHR 0x27]
            @ '' or '' @ [CHR 0x27] @ ''service_account'' @ [CHR 0x27])
         else if ar_ExpiresAt req = Some None then apiError 400 ''invalid_expires_at'' ''expires_at must be RFC3339 format''
         else bnd fresh_uuid (\<lambda>aid. bnd (local_string (c_organization_id c)) (\<lambda>organizationID.
           on_error (AssignRole jsonb \<lparr>ra_ID = aid, ra_RoleID = i, ra_PrincipalID = ar_PrincipalID req,
               ra_PrincipalType = ar_PrincipalType req, ra_AssignedBy = Some (local (c_user_id c)), ra_AssignedAt = 0,
               ra_ExpiresAt = given (ar_ExpiresAt req) None, ra_Conditions = or_default (ar_Conditions req) ''{}''\<rparr> organizationID)
             (\<lambda>e. if e = ''role or principal not found''
                then apiError 404 ''role_or_principal_not_found'' ''Role or principal not found''
                else apiError 500 ''internal_server_error'' ''Failed to assign role'')
             (apiSuccess 201 ''Role assigned successfully''))))"

definition handle_UnassignRole :: "fiber_ctx \<Rightarrow> string \<Rightarrow> (string \<times> string) handler" where
  "handle_UnassignRole c principalID = (let i = c_Param_id c in
     if i = [] \<or> principalID = [] then apiError 400 ''invalid_parameters'' ''Role ID and principal ID are required''
     else bnd (local_string (c_organization_id c)) (\<lambda>organizationID.
       on_error (UnassignRole i principalID organizationID)
         (\<lambda>e. if e = ''role assignment not found'' then apiError 404 ''role_assignment_not_found'' ''Role assignment not found''
            else apiError 500 ''internal_server_error'' ''Failed to unassign role'')
         (\<lambda>_. apiSuccess 200 ''Role unassigned successfully'' (i, principalID))))"

end
