(* ===== verification/ResourceHandler.thy ===== *)
theory ResourceHandler
  imports ResourceStore GroupHandler
begin

text \<open>
  The resource endpoints of internal/handlers/handlers.go. Query parameters are texts, read by
  \<open>strconv.Atoi\<close> (\<open>Atoi\<close>); times in bodies arrive parsed (\<open>None\<close> when \<open>time.Parse\<close> refuses the text).
\<close>

text \<open>A number among the query parameters: kept only when it parses and is accepted.\<close>

definition query_number :: "string \<Rightarrow> (int \<Rightarrow> bool) \<Rightarrow> int \<Rightarrow> int" where
  "query_number s ok v = (case Atoi s of None \<Rightarrow> v | Some w \<Rightarrow> if s \<noteq> [] \<and> ok (sint w) then sint w else v)"

definition with_resource_id :: "fiber_ctx \<Rightarrow> (string \<Rightarrow> 'a handler) \<Rightarrow> 'a handler" where
  "with_resource_id c k = (if c_Param_id c = [] then apiError 400 ''invalid_resource_id'' ''Resource ID is required''
     else k (c_Param_id c))"

text \<open>The answer to an error: 404 for exactly this text, 500 otherwise.\<close>

definition resource_error :: "string \<Rightarrow> string \<Rightarrow> 'a handler" where
  "resource_error message e = (if e = ''resource not found'' then apiError 404 ''resource_not_found'' ''Resource not found''
     else apiError 500 ''internal_server_error'' message)"

definition handle_ListResources ::
  "(string \<Rightarrow> string \<Rightarrow> Resource list \<Rightarrow> Resource list) \<Rightarrow> fiber_ctx \<Rightarrow> string \<Rightarrow> string \<Rightarrow> Resource ListResult handler" where
  "handle_ListResources sorted_by c limit offset =
     (let params = \<lparr>lp_Limit = query_number limit (\<lambda>l. l > 0 \<and> l \<le> 100) 20, lp_Offset = query_number offset (\<lambda>x. x \<ge> 0) 0,
            lp_SortBy = ''created_at'', lp_Order = ''DESC''\<rparr>
      in bnd (local_string (c_organization_id c)) (\<lambda>organizationID.
         on_error (ListResources sorted_by params organizationID)
           (\<lambda>_. apiError 500 ''internal_server_error'' ''Failed to retrieve resources'')
           (apiSuccess 200 ''Resources listed successfully'')))"

definition with_resource_defaults :: "string \<Rightarrow> string \<Rightarrow> Resource \<Rightarrow> Resource" where
  "with_resource_defaults i organizationID r = r\<lparr>rsc_OrganizationID := organizationID, rsc_ID := i,
     rsc_Status := or_default (rsc_Status r) ''active'', rsc_AccessLevel := or_default (rsc_AccessLevel r) ''private'',
     rsc_Attributes := or_default (rsc_Attributes r) ''{}'', rsc_Tags := or_default (rsc_Tags r) ''{}'',
     rsc_LifecyclePolicy := or_default (rsc_LifecyclePolicy r) ''{}'',
     rsc_ARN := or_default (rsc_ARN r) (''arn:monkey:resource::'' @ organizationID @ '':'' @ rsc_Type r @ ''/'' @ i)\<rparr>"

definition handle_CreateResource :: "(string \<Rightarrow> string) \<Rightarrow> fiber_ctx \<Rightarrow> Resource option \<Rightarrow> Resource handler" where
  "handle_CreateResource jsonb c body = (case body of
       None \<Rightarrow> apiError 400 ''invalid_request_body'' ''Failed to parse request body''
     | Some r \<Rightarrow> bnd (local_string (c_organization_id c)) (\<lambda>organizationID.
         if rsc_Name r = [] \<or> rsc_Type r = [] then apiError 400 ''validation_failed'' ''name and type are required''
         else bnd fresh_uuid (\<lambda>i. let resource = with_resource_defaults i organizationID r in
           on_error (CreateResource jsonb resource)
             (\<lambda>e. if isConflictErr e then apiError 409 ''conflict'' ''A resource with this identifier already exists''
                else apiError 500 ''internal_server_error'' ''Failed to create resource'')
             (\<lambda>_. apiSuccess 201 ''Resource created successfully'' resource))))"

definition handle_GetResource :: "fiber_ctx \<Rightarrow> Resource handler" where
  "handle_GetResource c = with_resource_id c (\<lambda>i. bnd (local_string (c_organization_id c)) (\<lambda>organizationID.
     on_error (GetResource i organizationID) (resource_error ''Failed to retrieve resource'')
       (apiSuccess 200 ''Resource retrieved successfully'')))"

definition merge_resource_body :: "Resource \<Rightarrow> Resource \<Rightarrow> Resource" where
  "merge_resource_body u r = r\<lparr>rsc_Name := or_default (rsc_Name u) (rsc_Name r),
     rsc_Description := (case rsc_Description u of None \<Rightarrow> rsc_Description r | Some s \<Rightarrow> if s = [] then rsc_Description r else Some s),
     rsc_Type := or_default (rsc_Type u) (rsc_Type r), rsc_Status := or_default (rsc_Status u) (rsc_Status r),
     rsc_Attributes := or_default (rsc_Attributes u) (rsc_Attributes r), rsc_Tags := or_default (rsc_Tags u) (rsc_Tags r),
     rsc_AccessLevel := or_default (rsc_AccessLevel u) (rsc_AccessLevel r)\<rparr>"

definition handle_UpdateResource :: "(string \<Rightarrow> string) \<Rightarrow> fiber_ctx \<Rightarrow> Resource option \<Rightarrow> Resource handler" where
  "handle_UpdateResource jsonb c body = with_resource_id c (\<lambda>i. case body of
       None \<Rightarrow> apiError 400 ''invalid_request_body'' ''Failed to parse request body''
     | Some updates \<Rightarrow> bnd (local_string (c_organization_id c)) (\<lambda>organizationID.
         on_error (GetResource i organizationID) (resource_error ''Failed to retrieve resource for update'')
           (\<lambda>existing. on_error (UpdateResource jsonb (merge_resource_body updates existing) organizationID)
              (\<lambda>_. apiError 500 ''internal_server_error'' ''Failed to update resource'')
              (\<lambda>_. on_error (GetResource i organizationID)
                 (\<lambda>_. apiError 500 ''internal_server_error'' ''Resource updated but failed to retrieve updated data'')
                 (apiSuccess 200 ''Resource updated successfully'')))))"

definition handle_DeleteResource :: "fiber_ctx \<Rightarrow> unit handler" where
  "handle_DeleteResource c = with_resource_id c (\<lambda>i. bnd (local_string (c_organization_id c)) (\<lambda>organizationID.
     on_error (DeleteResource i organizationID) (resource_error ''Failed to delete resource'')
       (apiSuccess 200 ''Resource deleted successfully'')))"

section \<open>Grants\<close>

definition handle_GetResourcePermissions :: "fiber_ctx \<Rightarrow> ResourcePermission list handler" where
  "handle_GetResourcePermissions c = with_resource_id c (\<lambda>i. bnd (local_string (c_organization_id c)) (\<lambda>organizationID.
     on_error (GetResourcePermissions i organizationID) (resource_error ''Failed to retrieve resource permissions'')
       (apiSuccess 200 ''Resource permissions retrieved successfully'')))"

text \<open>One row per permission, each with a fresh id; the creator and the time are left out.\<close>

fun permission_rows :: "string \<Rightarrow> string \<Rightarrow> string \<Rightarrow> string list \<Rightarrow> ResourcePermission list query" where
  "permission_rows resourceID principalID principalType [] = ret []"
| "permission_rows resourceID principalID principalType (perm # perms) = bnd fresh_uuid (\<lambda>i.
     bnd (permission_rows resourceID principalID principalType perms) (\<lambda>rows.
     ret (\<lparr>rp_ID = i, rp_ResourceID = resourceID, rp_PrincipalID = principalID, rp_PrincipalType = principalType,
       rp_Permission = perm, rp_Effect = ''allow'', rp_CreatedAt = 0, rp_CreatedBy = []\<rparr> # rows)))"

definition handle_SetResourcePermissions :: "fiber_ctx \<Rightarrow> (string \<times> string \<times> string list) option \<Rightarrow> unit handler" where
  "handle_SetResourcePermissions c body = with_resource_id c (\<lambda>i. case body of
       None \<Rightarrow> apiError 400 ''invalid_request_body'' ''Failed to parse request body''
     | Some (principalID, principalType, permissions) \<Rightarrow>
         if principalID = [] \<or> principalType = [] \<or> permissions = []
         then apiError 400 ''validation_failed'' ''principal_id, principal_type, and permissions are required''
         else bnd (permission_rows i principalID principalType permissions) (\<lambda>rows.
           bnd (local_string (c_organization_id c)) (\<lambda>organizationID.
           on_error (SetResourcePermissions i organizationID rows) (resource_error ''Failed to set resource permissions'')
             (apiSuccess 200 ''Permissions set successfully''))))"

definition handle_GetResourceAccessLog :: "fiber_ctx \<Rightarrow> string \<Rightarrow> string \<Rightarrow> ResourceAccessLog ListResult handler" where
  "handle_GetResourceAccessLog c limit offset = with_resource_id c (\<lambda>i.
     let params = \<lparr>lp_Limit = query_number limit (\<lambda>l. l > 0 \<and> l \<le> 100) 50, lp_Offset = query_number offset (\<lambda>x. x \<ge> 0) 0,
           lp_SortBy = ''accessed_at'', lp_Order = ''DESC''\<rparr>
     in bnd (local_string (c_organization_id c)) (\<lambda>organizationID.
        on_error (GetResourceAccessLog i organizationID params) (resource_error ''Failed to retrieve resource access log'')
          (apiSuccess 200 ''Access log retrieved successfully'')))"

section \<open>Shares\<close>

record share_body =
  sb_PrincipalID :: string
  sb_PrincipalType :: string
  sb_AccessLevel :: string
  sb_SharedBy :: string
  sb_ExpiresAt :: "instant option"

text \<open>Without a valid expiry the struct keeps the zero time.\<close>

definition handle_ShareResource :: "fiber_ctx \<Rightarrow> share_body option \<Rightarrow> ResourceShare handler" where
  "handle_ShareResource c body = with_resource_id c (\<lambda>i. case body of
       None \<Rightarrow> apiError 400 ''invalid_request_body'' ''Failed to parse request body''
     | Some req \<Rightarrow>
         if sb_PrincipalID req = [] \<or> sb_PrincipalType req = [] \<or> sb_AccessLevel req = []
         then apiError 400 ''validation_failed'' ''principal_id, principal_type, and access_level are required''
         else bnd fresh_uuid (\<lambda>sid.
           let share = \<lparr>rs_ID = sid, rs_ResourceID = i, rs_PrincipalID = sb_PrincipalID req, rs_PrincipalType = sb_PrincipalType req,
                 rs_AccessLevel = sb_AccessLevel req, rs_ExpiresAt = Some (given (sb_ExpiresAt req) 0), rs_SharedBy = sb_SharedBy req,
                 rs_CreatedAt = 0\<rparr>
           in bnd (local_string (c_organization_id c)) (\<lambda>organizationID.
             on_error (ShareResource share organizationID)
               (\<lambda>e. if e = ''resource not found'' \<or> e = ''resource not found or not in organization''
                  then apiError 404 ''resource_not_found'' ''Resource not found''
                  else if e = ''resource already shared with this principal''
                  then apiError 409 ''already_shared'' ''Resource is already shared with this principal''
                  else apiError 500 ''internal_server_error'' ''Failed to share resource'')
               (\<lambda>_. apiSuccess 200 ''Resource shared successfully'' share))))"

definition handle_UnshareResource :: "fiber_ctx \<Rightarrow> (string \<times> string) option \<Rightarrow> unit handler" where
  "handle_UnshareResource c body = with_resource_id c (\<lambda>i. case body of
       None \<Rightarrow> apiError 400 ''invalid_request_body'' ''Failed to parse request body''
     | Some (principalID, principalType) \<Rightarrow>
         if principalID = [] \<or> principalType = []
         then apiError 400 ''validation_failed'' ''principal_id and principal_type are required''
         else bnd (local_string (c_organization_id c)) (\<lambda>organizationID.
           on_error (UnshareResource i organizationID principalID principalType)
             (\<lambda>e. if e = ''resource not found'' \<or> e = ''share not found''
                then apiError 404 ''not_found'' ''Resource or share not found''
                else apiError 500 ''internal_server_error'' ''Failed to unshare resource'')
             (apiSuccess 200 ''Resource unshared successfully'')))"

section \<open>What the endpoints answer\<close>

text \<open>
  The error texts of the store do not match the ones these endpoints look for, so a resource or share that
  does not exist is reported as an internal error.
\<close>

lemma missing_is_internal:
  assumes "healthy d" and "c_organization_id c = Some org" and "c_Param_id c \<noteq> []"
    and "find (live_resource (c_Param_id c) org) (t_resources d) = None"
  shows "fst (handle_DeleteResource c d) = Ok (Failure 500 ''internal_server_error'' ''Failed to delete resource'')"
proof -
  have "fst (DeleteResource (c_Param_id c) org d) = Err ''resource not found or already deleted''"
    using assms(1,4) unfolding DeleteResource_def must_affect_def
    by (simp add: bnd_def wrap_def exec_on_ok update_where_def find_None filter_False)
  then obtain d' where "DeleteResource (c_Param_id c) org d = (Err ''resource not found or already deleted'', d')"
    by (metis prod.collapse)
  with assms(2,3) show ?thesis
    by (simp add: handle_DeleteResource_def with_resource_id_def bnd_local_string on_error_Err resource_error_def)
qed

text \<open>A share that the endpoint creates without a usable expiry is stored with the zero time.\<close>

lemma share_endpoint_expiry:
  assumes "handle_ShareResource c (Some req) d = (Ok (Success status message s), d')"
  shows "s \<in> set (t_resource_shares d') \<and> rs_ExpiresAt s = Some (given (sb_ExpiresAt req) 0)"
proof -
  from assms obtain org d1 d2 where share: "ShareResource s org d1 = (Ok (), d2)" "d' = d2"
    and s: "rs_ExpiresAt s = Some (given (sb_ExpiresAt req) 0)"
    unfolding handle_ShareResource_def with_resource_id_def Let_def
    by (fastforce elim!: bnd_OkE on_error_OkE split: if_splits)
  from ShareResource_Ok [OF share(1)] s share(2) show ?thesis by simp
qed

end
