(* ===== verification/PolicyHandler.thy ===== *)
theory PolicyHandler
  imports ResourceHandler PolicyCheck Authorizer AuditQueue
begin

text \<open>
  The policy and permission endpoints of internal/handlers/handlers.go. A document in a body arrives as its
  raw JSON text; a pointer in a list of requests may be nil (\<open>None\<close>). The text of a time under \<open>%v\<close> is the
  parameter \<open>show_time\<close>.
\<close>

definition with_policy_id :: "fiber_ctx \<Rightarrow> (string \<Rightarrow> 'a handler) \<Rightarrow> 'a handler" where
  "with_policy_id c k = (if c_Param_id c = [] then apiError 400 ''invalid_request'' ''Policy ID is required'' else k (c_Param_id c))"

definition invalid_json :: "'a handler" where
  "invalid_json = apiError 400 ''invalid_request'' ''Invalid JSON format''"

definition server_error :: "string \<Rightarrow> 'a handler" where
  "server_error message = apiError 500 ''internal_server_error'' message"

definition handle_ListPolicies ::
  "(string \<Rightarrow> string \<Rightarrow> Policy list \<Rightarrow> Policy list) \<Rightarrow> fiber_ctx \<Rightarrow> int \<Rightarrow> int \<Rightarrow> string \<Rightarrow> string \<Rightarrow> Policy ListResult handler" where
  "handle_ListPolicies sorted_by c limit offset sortBy order =
     (let params = \<lparr>lp_Limit = (if limit > 0 \<and> limit \<le> 100 then limit else 50), lp_Offset = (if offset \<ge> 0 then offset else 0),
            lp_SortBy = (if sortBy \<noteq> [] \<and> isValidSortField sortBy [''created_at'', ''name'', ''status'', ''policy_type''] then sortBy
              else ''created_at''),
            lp_Order = (if order = ''asc'' \<or> order = ''desc'' then order else ''desc'')\<rparr>
      in bnd (local_string (c_organization_id c)) (\<lambda>organizationID.
         on_error (ListPolicies sorted_by params organizationID) (\<lambda>_. server_error ''Failed to list policies'') (apiSuccess 200 [])))"

section \<open>Policies\<close>

record policy_body =
  pb_ID :: string
  pb_Name :: string
  pb_Description :: string
  pb_Version :: string
  pb_Document :: string
  pb_PolicyType :: string
  pb_Effect :: string
  pb_IsSystemPolicy :: bool
  pb_Status :: string
  pb_ApprovedBy :: string
  pb_ApprovedAt :: "instant option"

text \<open>A document that is a JSON string is unquoted, \<open>null\<close> gives the empty text, anything else stays raw.\<close>

definition document_text :: "string \<Rightarrow> string" where
  "document_text raw = (case parse_json raw of Some (JStr s) \<Rightarrow> s | Some JNull \<Rightarrow> [] | _ \<Rightarrow> raw)"

definition policy_of_body :: "string \<Rightarrow> string \<Rightarrow> policy_body \<Rightarrow> Policy" where
  "policy_of_body i organizationID req = \<lparr>pol_ID = i, pol_Name = pb_Name req, pol_Description = pb_Description req,
     pol_Version = pb_Version req, pol_OrganizationID = organizationID, pol_Document = document_text (pb_Document req),
     pol_PolicyType = pb_PolicyType req, pol_Effect = pb_Effect req, pol_IsSystemPolicy = pb_IsSystemPolicy req,
     pol_CreatedBy = None, pol_ApprovedBy = None, pol_ApprovedAt = None, pol_Status = pb_Status req, pol_CreatedAt = 0,
     pol_UpdatedAt = 0, pol_DeletedAt = None\<rparr>"

definition name_taken :: "string \<Rightarrow> 'a handler" where
  "name_taken name = apiError 409 ''policy_already_exists''
     (''A policy with the name '' @ [CHR 0x27] @ name @ [CHR 0x27] @ '' already exists in this organization'')"

text \<open>The id of the body is used when there is one. \<open>vid\<close> is the id of the version row.\<close>

definition handle_CreatePolicy :: "(string \<Rightarrow> string) \<Rightarrow> string \<Rightarrow> fiber_ctx \<Rightarrow> policy_body option \<Rightarrow> Policy handler" where
  "handle_CreatePolicy jsonb vid c body = (case body of
       None \<Rightarrow> invalid_json
     | Some req \<Rightarrow> bnd (if pb_ID req = [] then fresh_uuid else ret (pb_ID req)) (\<lambda>i.
         if pb_Document req = [] \<or> parse_json (pb_Document req) = None
         then apiError 400 ''invalid_policy_document'' ''Policy document must be valid JSON''
         else bnd (local_string (c_organization_id c)) (\<lambda>organizationID.
           let policy = (policy_of_body i organizationID req)\<lparr>pol_CreatedBy := Some (local (c_user_id c)),
                 pol_Status := or_default (pb_Status req) ''active'', pol_Version := or_default (pb_Version req) ''1.0.0''\<rparr>
           in on_error (CreatePolicy jsonb vid policy)
             (\<lambda>e. if contains e ''invalid policy document'' then apiError 400 ''invalid_policy_document'' e
                else if contains e ''duplicate key value violates unique constraint'' then name_taken (pb_Name req)
                else server_error ''Failed to create policy'')
             (apiSuccess 201 []))))"

definition handle_GetPolicy :: "fiber_ctx \<Rightarrow> Policy handler" where
  "handle_GetPolicy c = with_policy_id c (\<lambda>i. bnd (local_string (c_organization_id c)) (\<lambda>organizationID.
     on_error (GetPolicy i organizationID)
       (\<lambda>e. if contains e ''not found'' then apiError 404 ''policy_not_found'' ''Policy not found''
          else server_error ''Failed to retrieve policy'')
       (apiSuccess 200 [])))"

definition handle_UpdatePolicy :: "(string \<Rightarrow> string) \<Rightarrow> string \<Rightarrow> fiber_ctx \<Rightarrow> policy_body option \<Rightarrow> Policy handler" where
  "handle_UpdatePolicy jsonb vid c body = with_policy_id c (\<lambda>i. case body of
       None \<Rightarrow> invalid_json
     | Some req \<Rightarrow>
         if pb_Document req = [] then apiError 400 ''invalid_policy_document'' ''Policy document is required''
         else if parse_json (pb_Document req) = None
         then apiError 400 ''invalid_policy_document'' ''Policy document must be valid JSON''
         else bnd (local_string (c_organization_id c)) (\<lambda>organizationID.
           let policy = (policy_of_body i organizationID req)\<lparr>
                 pol_CreatedBy := (case c_user_id c of Some u \<Rightarrow> if u = [] then None else Some u | None \<Rightarrow> None),
                 pol_ApprovedBy := (if pb_ApprovedBy req = [] then None else Some (pb_ApprovedBy req)),
                 pol_ApprovedAt := pb_ApprovedAt req\<rparr>
           in on_error (UpdatePolicy jsonb vid policy organizationID)
             (\<lambda>e. if contains e ''not found'' then apiError 404 ''policy_not_found'' ''Policy not found''
                else if contains e ''invalid policy document'' then apiError 400 ''invalid_policy_document'' e
                else if contains e ''duplicate key value violates unique constraint'' then name_taken (pb_Name req)
                else server_error ''Failed to update policy'')
             (\<lambda>given_back. on_error (GetPolicy i organizationID) (\<lambda>_. apiSuccess 200 [] given_back) (apiSuccess 200 []))))"

definition handle_DeletePolicy :: "fiber_ctx \<Rightarrow> unit handler" where
  "handle_DeletePolicy c = with_policy_id c (\<lambda>i. bnd (local_string (c_organization_id c)) (\<lambda>organizationID.
     on_error (DeletePolicy i organizationID)
       (\<lambda>e. if contains e ''not found'' then apiError 404 ''policy_not_found'' ''Policy not found or already deleted''
          else server_error ''Failed to delete policy'')
       (apiSuccess 200 ''Policy deleted successfully'')))"

definition handle_SimulatePolicy :: "PolicySimulationRequest option \<Rightarrow> PolicySimulationResult handler" where
  "handle_SimulatePolicy body = (case body of
       None \<Rightarrow> invalid_json
     | Some request \<Rightarrow>
         if psr_PolicyDocument request = [] then apiError 400 ''invalid_request'' ''Policy document is required''
         else on_error (lift (SimulatePolicy request)) (\<lambda>_. server_error ''Failed to simulate policy'') (apiSuccess 200 []))"

definition handle_GetPolicyVersions :: "fiber_ctx \<Rightarrow> PolicyVersion list handler" where
  "handle_GetPolicyVersions c = with_policy_id c (\<lambda>i. bnd (local_string (c_organization_id c)) (\<lambda>organizationID.
     on_error (GetPolicyVersions i organizationID)
       (\<lambda>e. if isNotFoundErr e then apiError 404 ''policy_not_found'' ''Policy not found''
          else server_error ''Failed to retrieve policy versions'')
       (\<lambda>versions. if versions = [] then apiError 404 ''policy_not_found'' ''Policy not found or has no versions''
          else apiSuccess 200 [] versions)))"

definition handle_ApprovePolicy :: "fiber_ctx \<Rightarrow> unit handler" where
  "handle_ApprovePolicy c = with_policy_id c (\<lambda>i. case c_user_id c of
       None \<Rightarrow> apiError 401 ''unauthorized'' ''Invalid session''
     | Some approvedBy \<Rightarrow> bnd (local_string (c_organization_id c)) (\<lambda>organizationID.
         on_error (ApprovePolicy i organizationID approvedBy)
           (\<lambda>e. if contains e ''not found'' then apiError 404 ''policy_not_found'' ''Policy not found''
              else if contains e ''not in draft status''
              then apiError 400 ''invalid_policy_status'' ''Policy must be in draft status to approve''
              else server_error ''Failed to approve policy'')
           (apiSuccess 200 ''Policy approved successfully'')))"

definition handle_RollbackPolicy :: "fiber_ctx \<Rightarrow> string option \<Rightarrow> unit handler" where
  "handle_RollbackPolicy c body = with_policy_id c (\<lambda>i. case body of
       None \<Rightarrow> invalid_json
     | Some version \<Rightarrow>
         if version = [] then apiError 400 ''invalid_request'' ''Version is required''
         else bnd (local_string (c_organization_id c)) (\<lambda>organizationID.
           on_error (RollbackPolicy i organizationID version)
             (\<lambda>e. if contains e ''not found'' then apiError 404 ''version_not_found'' ''Policy or version not found''
                else server_error ''Failed to rollback policy'')
             (apiSuccess 200 ''Policy rolled back successfully'')))"

section \<open>Permission checks\<close>

text \<open>
  The context of the body as the evaluator sees it. The environment comes last, so it may overwrite the
  other entries.
\<close>

definition eval_context :: "(instant \<Rightarrow> string) \<Rightarrow> PolicyEvaluationContext option \<Rightarrow> context_map" where
  "eval_context show_time ctx = (case ctx of None \<Rightarrow> Map.empty
     | Some x \<Rightarrow> [''principal'' \<mapsto> JStr (pec_Principal x), ''resource'' \<mapsto> JStr (pec_Resource x), ''action'' \<mapsto> JStr (pec_Action x),
           ''source_ip'' \<mapsto> JStr (pec_SourceIP x), ''request_time'' \<mapsto> JStr (show_time (pec_RequestTime x))]
         ++ (map_option JStr \<circ> map_of (pec_Environment x)))"

definition decision_text :: "decision \<Rightarrow> string" where
  "decision_text v = (case v of DecisionAllow \<Rightarrow> ''allow'' | DecisionDeny \<Rightarrow> ''deny'' | DecisionNotApplicable \<Rightarrow> ''not_applicable'')"

definition check_result :: "PermissionCheckRequest \<Rightarrow> decision \<Rightarrow> PermissionCheckResult" where
  "check_result request v = \<lparr>pcr_Allowed = (v = DecisionAllow), pcr_Decision = decision_text v, pcr_Policies = [],
     pcr_Evaluation = None, pcr_Request = request\<rparr>"

definition incomplete_check :: "PermissionCheckRequest \<Rightarrow> bool" where
  "incomplete_check q \<longleftrightarrow> pcq_PrincipalID q = [] \<or> pcq_Resource q = [] \<or> pcq_Action q = []"

definition handle_CheckPermission ::
  "(string \<Rightarrow> string) \<Rightarrow> iteration \<Rightarrow> (instant \<Rightarrow> string) \<Rightarrow> fiber_ctx \<Rightarrow> PermissionCheckRequest option \<Rightarrow> PermissionCheckResult handler" where
  "handle_CheckPermission num_v ord show_time c body = (case body of
       None \<Rightarrow> invalid_json
     | Some q \<Rightarrow>
         if incomplete_check q then apiError 400 ''invalid_request'' ''PrincipalID, Resource, and Action are required''
         else bnd (local_string (c_organization_id c)) (\<lambda>orgID.
           on_error (Authorize num_v ord (pcq_PrincipalID q) (pcq_PrincipalType q) orgID (pcq_Action q) (pcq_Resource q)
               (eval_context show_time (pcq_Context q)))
             (\<lambda>e. bnd (LogAccessCheck orgID (pcq_PrincipalID q) (pcq_PrincipalType q) ''permission'' (pcq_Resource q) (pcq_Action q) False e)
                (\<lambda>_. server_error ''Failed to check permission''))
             (\<lambda>v. bnd (LogAccessCheck orgID (pcq_PrincipalID q) (pcq_PrincipalType q) ''permission'' (pcq_Resource q) (pcq_Action q)
                  (v = DecisionAllow) (decision_text v))
                (\<lambda>_. apiSuccess 200 [] (check_result q v)))))"

text \<open>The validation loop; reading a field of a nil request panics.\<close>

fun bulk_invalid :: "nat \<Rightarrow> PermissionCheckRequest option list \<Rightarrow> nat option res" where
  "bulk_invalid i [] = Ok None"
| "bulk_invalid i (q # qs) = (case q of None \<Rightarrow> Panic nil_pointer
     | Some r \<Rightarrow> if incomplete_check r then Ok (Some i) else bulk_invalid (Suc i) qs)"

definition handle_BulkCheckPermissions ::
  "fiber_ctx \<Rightarrow> PermissionCheckRequest option list option \<Rightarrow> PermissionCheckResult list handler" where
  "handle_BulkCheckPermissions c body = (case body of
       None \<Rightarrow> invalid_json
     | Some requests \<Rightarrow>
         if requests = [] then apiError 400 ''invalid_request'' ''At least one permission check request is required''
         else bnd (lift (bulk_invalid 0 requests)) (\<lambda>bad. case bad of
           Some i \<Rightarrow> apiError 400 ''invalid_request'' (''Request '' @ show_nat i @ '': PrincipalID, Resource, and Action are required'')
         | None \<Rightarrow> bnd (local_string (c_organization_id c)) (\<lambda>orgID.
             on_error (BulkCheckPermissions orgID (map the requests))
               (\<lambda>_. server_error ''Failed to check permissions'') (apiSuccess 200 []))))"

text \<open>The three query parameters; the organization of the query goes before the caller's.\<close>

definition handle_GetEffectivePermissions ::
  "(EffectivePermission list \<Rightarrow> EffectivePermission list) \<Rightarrow> fiber_ctx \<Rightarrow> string \<Rightarrow> string \<Rightarrow> string \<Rightarrow>
    EffectivePermissions handler" where
  "handle_GetEffectivePermissions ord c principal_q type_q org_q =
     (let principalID = or_default principal_q ''current_user_id''; principalType = or_default type_q ''user'';
          organizationID = or_default org_q (local (c_organization_id c))
      in if principalID = [] then apiError 400 ''invalid_request'' ''Principal ID is required''
         else on_error (GetEffectivePermissions ord principalID principalType organizationID)
           (\<lambda>_. server_error ''Failed to retrieve effective permissions'') (apiSuccess 200 []))"

definition handle_SimulateAccess ::
  "(string \<Rightarrow> string) \<Rightarrow> iteration \<Rightarrow> (instant \<Rightarrow> string) \<Rightarrow> fiber_ctx \<Rightarrow> PermissionCheckRequest option \<Rightarrow> PermissionCheckResult handler" where
  "handle_SimulateAccess num_v ord show_time c body = (case body of
       None \<Rightarrow> invalid_json
     | Some q \<Rightarrow>
         if incomplete_check q then apiError 400 ''invalid_request'' ''PrincipalID, Resource, and Action are required''
         else bnd (local_string (c_organization_id c)) (\<lambda>orgID.
           on_error (Authorize num_v ord (pcq_PrincipalID q) (pcq_PrincipalType q) orgID (pcq_Action q) (pcq_Resource q)
               (eval_context show_time (pcq_Context q)))
             (\<lambda>_. server_error ''Failed to simulate access'')
             (\<lambda>v. apiSuccess 200 [] ((check_result q v)\<lparr>pcr_Evaluation := Some (not_applicable\<lparr>per_Effect := decision_text v,
                  per_Decision := decision_text v, per_Metadata := [(''simulation'', ''true'')]\<rparr>)\<rparr>))))"

end
