(* ===== verification/TenantFlow.thy ===== *)
theory TenantFlow
  imports GrantFlow RoleHandler PolicyHandler
begin

text \<open>
  Tenant isolation of the endpoints on groups, roles, policies and resources: what a caller does changes
  rows of the caller's organization only. The exception, the creation of a role, comes last.
\<close>

section \<open>Rows outside an organization\<close>

text \<open>The rows outside \<open>Q\<close> are the same, in the same order.\<close>

definition others :: "('r \<Rightarrow> bool) \<Rightarrow> 'r list \<Rightarrow> 'r list \<Rightarrow> bool" where
  "others Q t t' \<longleftrightarrow> filter (Not \<circ> Q) t' = filter (Not \<circ> Q) t"

text \<open>
  A table whose rows have an id and an organization: no row vanishes, and the rows of other organizations
  stay. A table whose rows refer to a row of such a table: the rows that refer to nothing of the
  organization stay.
\<close>

definition own :: "('r \<Rightarrow> string \<times> string) \<Rightarrow> (db \<Rightarrow> 'r list) \<Rightarrow> string \<Rightarrow> db \<Rightarrow> db \<Rightarrow> bool" where
  "own key T org d d' \<longleftrightarrow> key ` set (T d) \<subseteq> key ` set (T d') \<and> others (\<lambda>r. snd (key r) = org) (T d) (T d')"

definition hung ::
  "('r \<Rightarrow> string \<times> string) \<Rightarrow> (db \<Rightarrow> 'r list) \<Rightarrow> ('x \<Rightarrow> string) \<Rightarrow> (db \<Rightarrow> 'x list) \<Rightarrow> string \<Rightarrow> db \<Rightarrow> db \<Rightarrow> bool" where
  "hung key T ref T' org d d' \<longleftrightarrow>
     key ` set (T d) \<subseteq> key ` set (T d') \<and> others (\<lambda>x. (ref x, org) \<in> key ` set (T d')) (T' d) (T' d')"

definition same :: "(db \<Rightarrow> 'x) \<Rightarrow> db \<Rightarrow> db \<Rightarrow> bool" where
  "same f d d' \<longleftrightarrow> f d' = f d"

abbreviation role_key :: "Role \<Rightarrow> string \<times> string" where "role_key r \<equiv> (rol_ID r, rol_OrganizationID r)"
abbreviation policy_key :: "Policy \<Rightarrow> string \<times> string" where "policy_key p \<equiv> (pol_ID p, pol_OrganizationID p)"
abbreviation group_key :: "Group \<Rightarrow> string \<times> string" where "group_key g \<equiv> (grp_ID g, grp_OrganizationID g)"
abbreviation resource_key :: "Resource \<Rightarrow> string \<times> string" where "resource_key r \<equiv> (rsc_ID r, rsc_OrganizationID r)"

definition tenant_rows :: "string \<Rightarrow> (db \<Rightarrow> db \<Rightarrow> bool) list" where
  "tenant_rows org =
     [own role_key t_roles org, own policy_key t_policies org, own group_key t_groups org, own resource_key t_resources org,
      hung role_key t_roles rlp_RoleID t_role_policies org, hung role_key t_roles ra_RoleID t_role_assignments org,
      hung policy_key t_policies pv_PolicyID t_policy_versions org, hung group_key t_groups gm_GroupID t_group_memberships org,
      hung resource_key t_resources rp_ResourceID t_resource_permissions org, hung resource_key t_resources rs_ResourceID t_resource_shares org,
      same t_organizations, same t_users, same t_sessions, same t_content_items, same t_content_collaborators, same t_oauth_clients,
      same t_oidc_codes, same t_service_accounts, same t_api_keys, same t_access_reviews, same t_audit_events,
      same t_resource_access_log]"

definition tenant_only :: "string \<Rightarrow> db \<Rightarrow> db \<Rightarrow> bool" where
  "tenant_only org d d' \<longleftrightarrow> list_all (\<lambda>R. R d d') (tenant_rows org)"

lemma others_refl [simp]: "others Q t t"
  by (simp add: others_def)

lemma others_mono: "others Q t t' \<Longrightarrow> (\<And>r. Q r \<Longrightarrow> Q' r) \<Longrightarrow> others Q' t t'"
proof -
  assume *: "others Q t t'" and imp: "\<And>r. Q r \<Longrightarrow> Q' r"
  have "filter (Not \<circ> Q') x = filter (Not \<circ> Q') (filter (Not \<circ> Q) x)" for x
    unfolding filter_filter by (rule filter_cong) (auto dest: imp)
  with * show ?thesis unfolding others_def by metis
qed

lemma others_trans: "others Q t u \<Longrightarrow> others Q u v \<Longrightarrow> others Q t v"
  by (simp add: others_def)

lemma others_map: "(\<And>r. P r \<Longrightarrow> Q r \<and> Q (f r)) \<Longrightarrow> others Q t (map (\<lambda>r. if P r then f r else r) t)"
  by (induction t) (auto simp: others_def)

lemma others_append: "Q r \<Longrightarrow> others Q t (t @ [r])"
  by (simp add: others_def)

lemma others_filter: "(\<And>r. \<not> P r \<Longrightarrow> Q r) \<Longrightarrow> others Q t (filter P t)"
  unfolding others_def filter_filter by (rule filter_cong) auto

lemma own_order: "reflp (own key T org)" "transp (own key T org)"
proof -
  show "reflp (own key T org)" by (simp add: reflp_def own_def)
  show "transp (own key T org)"
  proof (rule transpI)
    fix a b c assume ab: "own key T org a b" and bc: "own key T org b c"
    from ab bc have "key ` set (T a) \<subseteq> key ` set (T b)" "key ` set (T b) \<subseteq> key ` set (T c)"
      and "others (\<lambda>r. snd (key r) = org) (T a) (T b)" "others (\<lambda>r. snd (key r) = org) (T b) (T c)"
      unfolding own_def by simp_all
    from subset_trans [OF this(1,2)] others_trans [OF this(3,4)] show "own key T org a c" unfolding own_def by (rule conjI)
  qed
qed

lemma hung_order: "reflp (hung key T ref T' org)" "transp (hung key T ref T' org)"
proof -
  show "reflp (hung key T ref T' org)" by (simp add: reflp_def hung_def)
  show "transp (hung key T ref T' org)"
  proof (rule transpI)
    fix a b c assume ab: "hung key T ref T' org a b" and bc: "hung key T ref T' org b c"
    from ab bc have K: "key ` set (T a) \<subseteq> key ` set (T b)" "key ` set (T b) \<subseteq> key ` set (T c)"
      and O: "others (\<lambda>x. (ref x, org) \<in> key ` set (T b)) (T' a) (T' b)"
        "others (\<lambda>x. (ref x, org) \<in> key ` set (T c)) (T' b) (T' c)"
      unfolding hung_def by simp_all
    have "others (\<lambda>x. (ref x, org) \<in> key ` set (T c)) (T' a) (T' b)"
      by (rule others_mono [OF O(1)]) (rule subsetD [OF K(2)])
    from subset_trans [OF K] others_trans [OF this O(2)] show "hung key T ref T' org a c" unfolding hung_def by (rule conjI)
  qed
qed

lemma same_order: "reflp (same f)" "transp (same f)"
  by (auto simp: reflp_def transp_def same_def)

lemma all_reflp: "list_all reflp Rs \<Longrightarrow> list_all (\<lambda>R. R x x) Rs"
  by (induction Rs) (simp_all add: reflpD)

lemma all_transp: "list_all transp Rs \<Longrightarrow> list_all (\<lambda>R. R x y) Rs \<Longrightarrow> list_all (\<lambda>R. R y z) Rs \<Longrightarrow> list_all (\<lambda>R. R x z) Rs"
proof (induction Rs)
  case (Cons R Rs)
  then have "R x z" by (simp, elim conjE) (erule (2) transpD)
  with Cons show ?case by simp
qed simp

lemma tenant_only_order [keeps_intros]: "reflp (tenant_only org)" "transp (tenant_only org)"
proof -
  have "list_all reflp (tenant_rows org)" by (simp add: tenant_rows_def own_order hung_order same_order)
  then show "reflp (tenant_only org)" by (simp add: reflp_def tenant_only_def all_reflp)
  have "list_all transp (tenant_rows org)" by (simp add: tenant_rows_def own_order hung_order same_order)
  then show "transp (tenant_only org)" unfolding tenant_only_def by (intro transpI) (rule all_transp)
qed

section \<open>Statements\<close>

lemmas tenant_defs = tenant_only_def tenant_rows_def own_def hung_def same_def

lemma tenant_only_advance [keeps_intros]: "tenant_only org d (advance d)"
  by (simp add: tenant_defs)

lemma tenant_only_uuid [keeps_intros]: "tenant_only org d (d\<lparr>uuids := f\<rparr>)"
  by (simp add: tenant_defs)

named_theorems tenant_effects \<open>effects of statements that stay within an organization\<close>

lemma others_keyed:
  assumes "\<And>r. P r \<Longrightarrow> k (f r) = k r \<and> snd (k r) = org"
  shows "others (\<lambda>r. snd (k r) = org) t (map (\<lambda>r. if P r then f r else r) t)"
  by (rule others_map) (use assms in simp)

text \<open>Changes of the rows of the organization.\<close>

lemma tenant_put_roles:
  assumes "role_key ` set (t_roles d) \<subseteq> role_key ` set t" and "others (\<lambda>r. snd (role_key r) = org) (t_roles d) t"
  shows "tenant_only org d (put_roles t (advance d))"
  using assms by (simp add: tenant_defs)

lemma tenant_put_policies:
  assumes "policy_key ` set (t_policies d) \<subseteq> policy_key ` set t" and "others (\<lambda>r. snd (policy_key r) = org) (t_policies d) t"
  shows "tenant_only org d (put_policies t (advance d))"
  using assms by (simp add: tenant_defs)

lemma tenant_put_groups:
  assumes "group_key ` set (t_groups d) \<subseteq> group_key ` set t" and "others (\<lambda>r. snd (group_key r) = org) (t_groups d) t"
  shows "tenant_only org d (put_groups t (advance d))"
  using assms by (simp add: tenant_defs)

lemma tenant_put_resources:
  assumes "resource_key ` set (t_resources d) \<subseteq> resource_key ` set t" and "others (\<lambda>r. snd (resource_key r) = org) (t_resources d) t"
  shows "tenant_only org d (put_resources t (advance d))"
  using assms by (simp add: tenant_defs)

text \<open>Updates and insertions.\<close>

lemma tenant_maps [tenant_effects]:
  "(\<And>r. P1 r \<Longrightarrow> role_key (f1 r) = role_key r \<and> rol_OrganizationID r = org) \<Longrightarrow>
     tenant_only org d (put_roles (map (\<lambda>r. if P1 r then f1 r else r) (t_roles d)) (advance d))"
  "(\<And>p. P2 p \<Longrightarrow> policy_key (f2 p) = policy_key p \<and> pol_OrganizationID p = org) \<Longrightarrow>
     tenant_only org d (put_policies (map (\<lambda>r. if P2 r then f2 r else r) (t_policies d)) (advance d))"
  "(\<And>g. P3 g \<Longrightarrow> group_key (f3 g) = group_key g \<and> grp_OrganizationID g = org) \<Longrightarrow>
     tenant_only org d (put_groups (map (\<lambda>r. if P3 r then f3 r else r) (t_groups d)) (advance d))"
  "(\<And>s. P4 s \<Longrightarrow> resource_key (f4 s) = resource_key s \<and> rsc_OrganizationID s = org) \<Longrightarrow>
     tenant_only org d (put_resources (map (\<lambda>r. if P4 r then f4 r else r) (t_resources d)) (advance d))"
     apply (rule tenant_put_roles, subst keys_of_map, simp, simp, rule others_keyed, simp)
    apply (rule tenant_put_policies, subst keys_of_map, simp, simp, rule others_keyed, simp)
   apply (rule tenant_put_groups, subst keys_of_map, simp, simp, rule others_keyed, simp)
  apply (rule tenant_put_resources, subst keys_of_map, simp, simp, rule others_keyed, simp)
  done

lemma tenant_appends [tenant_effects]:
  "rol_OrganizationID r = org \<Longrightarrow> tenant_only org d (put_roles (t_roles d @ [r]) (advance d))"
  "pol_OrganizationID p = org \<Longrightarrow> tenant_only org d (put_policies (t_policies d @ [p]) (advance d))"
  "grp_OrganizationID g = org \<Longrightarrow> tenant_only org d (put_groups (t_groups d @ [g]) (advance d))"
  "rsc_OrganizationID s = org \<Longrightarrow> tenant_only org d (put_resources (t_resources d @ [s]) (advance d))"
  by (rule tenant_put_roles tenant_put_policies tenant_put_groups tenant_put_resources; force intro: others_append)+

text \<open>Changes of rows that hang on an owner of the organization.\<close>

lemma tenant_hung [tenant_effects]:
  "others (\<lambda>x. (rlp_RoleID x, org) \<in> role_key ` set (t_roles d)) (t_role_policies d) t1 \<Longrightarrow>
     tenant_only org d (put_role_policies t1 (advance d))"
  "others (\<lambda>x. (ra_RoleID x, org) \<in> role_key ` set (t_roles d)) (t_role_assignments d) t2 \<Longrightarrow>
     tenant_only org d (put_assignments t2 (advance d))"
  "others (\<lambda>x. (pv_PolicyID x, org) \<in> policy_key ` set (t_policies d)) (t_policy_versions d) t3 \<Longrightarrow>
     tenant_only org d (put_versions t3 (advance d))"
  "others (\<lambda>x. (gm_GroupID x, org) \<in> group_key ` set (t_groups d)) (t_group_memberships d) t4 \<Longrightarrow>
     tenant_only org d (put_members t4 (advance d))"
  "others (\<lambda>x. (rp_ResourceID x, org) \<in> resource_key ` set (t_resources d)) (t_resource_permissions d) t5 \<Longrightarrow>
     tenant_only org d (put_permissions t5 (advance d))"
  "others (\<lambda>x. (rs_ResourceID x, org) \<in> resource_key ` set (t_resources d)) (t_resource_shares d) t6 \<Longrightarrow>
     tenant_only org d (put_shares t6 (advance d))"
  by (simp_all add: tenant_defs put_role_policies_def put_assignments_def)

section \<open>Operations\<close>

text \<open>A first call that only returns when the owner is there, and a continuation that relies on it.\<close>

lemma tenant_keys:
  assumes "tenant_only org d d'"
  shows "role_key ` set (t_roles d) \<subseteq> role_key ` set (t_roles d')" "policy_key ` set (t_policies d) \<subseteq> policy_key ` set (t_policies d')"
    "group_key ` set (t_groups d) \<subseteq> group_key ` set (t_groups d')"
    "resource_key ` set (t_resources d) \<subseteq> resource_key ` set (t_resources d')"
  using assms by (simp_all add: tenant_defs)

definition whenever :: "(db \<Rightarrow> bool) \<Rightarrow> string \<Rightarrow> db \<Rightarrow> db \<Rightarrow> bool" where
  "whenever Q org d d' \<longleftrightarrow> (Q d \<longrightarrow> tenant_only org d d')"

lemma whenever_order:
  assumes "\<And>d d'. Q d \<Longrightarrow> tenant_only org d d' \<Longrightarrow> Q d'"
  shows "reflp (whenever Q org)" "transp (whenever Q org)"
  using assms tenant_only_order [of org] by (auto simp: reflp_def whenever_def intro!: transpI dest: transpD)

lemma whenever_owned [keeps_intros]:
  "reflp (whenever (\<lambda>d. (i, org) \<in> policy_key ` set (t_policies d)) org)" "transp (whenever (\<lambda>d. (i, org) \<in> policy_key ` set (t_policies d)) org)"
  "reflp (whenever (\<lambda>d. b \<longrightarrow> (i, org) \<in> group_key ` set (t_groups d)) org)"
  "transp (whenever (\<lambda>d. b \<longrightarrow> (i, org) \<in> group_key ` set (t_groups d)) org)"
  "reflp (whenever (\<lambda>d. b \<longrightarrow> (i, org) \<in> resource_key ` set (t_resources d)) org)"
  "transp (whenever (\<lambda>d. b \<longrightarrow> (i, org) \<in> resource_key ` set (t_resources d)) org)"
  by (rule whenever_order; (blast dest: tenant_keys subsetD))+

lemma whenever_effect: "(Q d \<Longrightarrow> tenant_only org d d') \<Longrightarrow> whenever Q org d d'"
  by (simp add: whenever_def)

lemma whenever_advance [keeps_intros]: "whenever Q org d (advance d)"
  by (simp add: whenever_def tenant_only_advance)

lemma keeps_guarded:
  assumes "keeps (tenant_only org) m" and "\<And>x d d'. m d = (Ok x, d') \<Longrightarrow> Q x d'" and "\<And>x. keeps (whenever (Q x) org) (k x)"
  shows "keeps (tenant_only org) (bnd m k)"
  unfolding keeps_def
proof
  fix d
  obtain r d1 where m: "m d = (r, d1)" by (cases "m d")
  have T: "tenant_only org d d1" using keepsD [OF assms(1) m] .
  show "tenant_only org d (snd (bnd m k d))"
  proof (cases r)
    case (Ok x)
    with m assms(2,3) have "tenant_only org d1 (snd (k x d1))" by (auto simp: keeps_def whenever_def)
    with T m Ok transpD [OF tenant_only_order(2)] show ?thesis by (simp add: bnd_Ok)
  qed (use m T in \<open>simp_all add: bnd_Err bnd_Panic\<close>)
qed

lemma keeps_name_conflict [keeps_intros]: "keeps R m \<Longrightarrow> keeps R (name_conflict m)"
  by (simp add: keeps_def name_conflict_def split: prod.splits res.splits) (metis snd_conv)

lemma owned_role: "role_of i org d \<longleftrightarrow> (i, org) \<in> role_key ` set (t_roles d)"
  by (auto simp: role_of_def list_ex_iff)

lemma role_of_advance [simp]: "role_of i org (advance d) = role_of i org d"
  by (simp add: role_of_def)

lemma owned_group: "group_exists i org d \<Longrightarrow> (i, org) \<in> group_key ` set (t_groups d)"
  by (auto simp: group_exists_def list_ex_iff live_group_def)

lemma owned_resource: "in_org i org d \<longleftrightarrow> (i, org) \<in> resource_key ` set (t_resources d)"
  by (auto simp: in_org_def list_ex_iff)

named_theorems tenant_ops \<open>operations that stay within an organization\<close>

lemma tenant_CreateGroup [tenant_ops]: "grp_OrganizationID g = org \<Longrightarrow> keeps (tenant_only org) (CreateGroup jsonb g)"
  unfolding CreateGroup_def Let_def
  by (intro keeps_intros keeps_stmt) (auto simp: tenant_effects split: option.splits if_splits)

lemma tenant_group_writes [tenant_ops]:
  "keeps (tenant_only org) (UpdateGroup jsonb g org)" "keeps (tenant_only org) (DeleteGroup i org)"
  unfolding UpdateGroup_def DeleteGroup_def
  by (intro keeps_intros; simp only: snd_update_where advance_tables; rule tenant_maps; simp add: live_group_def)+

lemma upsert_member_others:
  assumes "upsert_member m (advance d) = Inr (t, d')" and "(gm_GroupID m, org) \<in> group_key ` set (t_groups d)"
  shows "tenant_only org d d'"
proof (cases "find (same_member m) (t_group_memberships d)")
  case None
  with assms(1) have "d' = put_members (t_group_memberships d @ [m\<lparr>gm_JoinedAt := now d\<rparr>]) (advance d)"
    by (auto simp: upsert_member_def split: if_splits)
  with assms(2) show ?thesis by (auto intro!: tenant_hung others_append)
next
  case (Some old)
  with assms(1) have "d' = put_members (map (\<lambda>r. if same_member m r
       then r\<lparr>gm_RoleInGroup := gm_RoleInGroup m, gm_ExpiresAt := gm_ExpiresAt m\<rparr> else r) (t_group_memberships d)) (advance d)"
    by (auto simp: upsert_member_def split: if_splits)
  with assms(2) show ?thesis by (auto intro!: tenant_hung others_map simp: same_member_def)
qed

lemma tenant_AddGroupMember [tenant_ops]: "keeps (tenant_only org) (AddGroupMember m org)"
  unfolding AddGroupMember_def
proof (rule keeps_guarded [where Q = "\<lambda>b d. b \<longrightarrow> (gm_GroupID m, org) \<in> group_key ` set (t_groups d)"])
  show "keeps (tenant_only org) (wrap ''failed to verify group'' (select (group_exists (gm_GroupID m) org)))"
    by (intro keeps_intros)
  show "x \<longrightarrow> (gm_GroupID m, org) \<in> group_key ` set (t_groups d')"
    if "wrap ''failed to verify group'' (select (group_exists (gm_GroupID m) org)) d = (Ok x, d')" for x d d'
    using that by (auto dest!: select_Ok owned_group)
  show "keeps (whenever (\<lambda>d. x \<longrightarrow> (gm_GroupID m, org) \<in> group_key ` set (t_groups d)) org)
     (if \<not> x then fail ''group not found or not in organization'' else bnd (stmt (upsert_member m)) (\<lambda>t. ret (m\<lparr>gm_JoinedAt := t\<rparr>)))" for x
    by (intro keeps_intros keeps_stmt whenever_effect) (auto dest: upsert_member_others)
qed

lemma tenant_RemoveGroupMember [tenant_ops]: "keeps (tenant_only org) (RemoveGroupMember i org pid pty)"
  unfolding RemoveGroupMember_def
  by (intro keeps_intros) (auto simp: snd_delete_where group_exists_def intro!: tenant_hung others_filter dest: owned_group [unfolded group_exists_def])

lemma tenant_UpdateRole [tenant_ops]: "keeps (tenant_only org) (UpdateRole jsonb role org)"
  unfolding UpdateRole_def Let_def
  by (intro keeps_intros keeps_stmt) (auto intro!: tenant_maps simp: live_role_def split: option.splits)

lemma tenant_DeleteRole [tenant_ops]: "keeps (tenant_only org) (DeleteRole i org)"
  unfolding DeleteRole_def
  by (intro keeps_intros; simp only: snd_update_where advance_tables; rule tenant_maps; simp add: live_role_def)

lemma tenant_AttachPolicyToRole [tenant_ops]: "keeps (tenant_only org) (AttachPolicyToRole roleID policyID org by)"
  unfolding AttachPolicyToRole_def
proof (intro keeps_intros keeps_stmt)
  fix i d n d' assume *: "attach_rows i roleID policyID org by (advance d) = Inr (n, d')"
  show "tenant_only org d d'"
  proof (cases "role_of roleID org d")
    case True
    with * show ?thesis
      by (auto simp: attach_rows_def owned_role [symmetric] intro!: tenant_hung others_append tenant_only_advance split: if_splits)
  next
    case False
    with * have "d' = advance d" by (auto simp: attach_rows_def role_of_def split: if_splits)
    then show ?thesis by (simp add: tenant_only_advance)
  qed
qed

lemma tenant_DetachPolicyFromRole [tenant_ops]: "keeps (tenant_only org) (DetachPolicyFromRole roleID policyID org)"
  unfolding DetachPolicyFromRole_def
  by (intro keeps_intros) (auto simp: snd_delete_where owned_role intro!: tenant_hung others_filter)

lemma upsert_assignment_others:
  assumes "upsert_assignment jsonb a org (advance d) = Inr (t, d')"
  shows "tenant_only org d d'"
proof -
  from assms have owner: "(ra_RoleID a, org) \<in> role_key ` set (t_roles d)"
    by (auto simp: upsert_assignment_def Let_def owned_role [symmetric] split: if_splits)
  define f where "f r = (if same_assignment a r
      then r\<lparr>ra_AssignedBy := (case ra_AssignedBy a of Some u \<Rightarrow> if u = [] then None else Some u | None \<Rightarrow> None),
        ra_AssignedAt := now (advance d), ra_ExpiresAt := ra_ExpiresAt a, ra_Conditions := jsonb (ra_Conditions a)\<rparr> else r)" for r
  show ?thesis
  proof (cases "list_ex (same_assignment a) (t_role_assignments d)")
    case True
    with assms have "d' = put_assignments (map f (t_role_assignments d)) (advance d)"
      by (auto simp: upsert_assignment_def Let_def f_def [abs_def] split: if_splits)
    with owner show ?thesis unfolding f_def [abs_def] by (auto intro!: tenant_hung others_map simp: same_assignment_def)
  next
    case False
    with assms owner show ?thesis
      by (auto simp: upsert_assignment_def Let_def intro!: tenant_hung others_append split: if_splits)
  qed
qed

lemma tenant_AssignRole [tenant_ops]: "keeps (tenant_only org) (AssignRole jsonb a org)"
  unfolding AssignRole_def by (intro keeps_intros keeps_stmt) (rule upsert_assignment_others)

lemma tenant_UnassignRole [tenant_ops]: "keeps (tenant_only org) (UnassignRole roleID pid org)"
  unfolding UnassignRole_def
  by (intro keeps_intros) (auto simp: snd_delete_where owned_role intro!: tenant_hung others_filter)

text \<open>Policies.\<close>

lemma live_policy_key: "p \<in> set t \<Longrightarrow> live_policy i org p \<Longrightarrow> (i, org) \<in> policy_key ` set t"
  by (auto simp: live_policy_def)

lemma keys_put_policies:
  assumes "\<And>r. P r \<Longrightarrow> policy_key (f r) = policy_key r"
  shows "policy_key ` set (t_policies (put_policies (map (\<lambda>r. if P r then f r else r) t) d)) = policy_key ` set t"
  using keys_of_map [where k = policy_key, of P f t] assms by simp

lemma tenant_CreatePolicy [tenant_ops]:
  assumes "pol_OrganizationID p = org"
  shows "keeps (tenant_only org) (CreatePolicy jsonb vid p)"
  unfolding CreatePolicy_def Let_def
proof (rule keeps_bnd [OF tenant_only_order(2)])
  fix x
  show "keeps (tenant_only org) (gets now (\<lambda>t. bnd (wrap ''failed to create policy'' (insert_checked t_policies put_policies policies_violation
       (create_defaults t p\<lparr>pol_Document := jsonb (pol_Document (create_defaults t p)), pol_ApprovedBy := None, pol_ApprovedAt := None, pol_DeletedAt := None\<rparr>)))
       (\<lambda>_. bnd (wrap ''failed to create policy version'' (insert_checked t_policy_versions put_versions versions_violation
           (version_row vid (create_defaults t p) (jsonb (pol_Document (create_defaults t p))) (pol_CreatedAt (create_defaults t p)))))
         (\<lambda>_. ret (create_defaults t p)))))"
  proof (rule keeps_gets, rule keeps_guarded [where Q = "\<lambda>_ d. (pol_ID p, org) \<in> policy_key ` set (t_policies d)"], goal_cases)
    case (1 t)
    show ?case by (intro keeps_intros) (simp add: tenant_appends create_defaults_def assms)
  next
    case (2 t)
    then show ?case by (auto dest!: insert_checked_Ok simp: create_defaults_def assms)
  next
    case (3 t)
    show ?case
      by (intro keeps_intros whenever_effect tenant_hung) (auto simp: version_row_def create_defaults_def intro!: tenant_hung others_append)
  qed
qed (intro keeps_intros)

lemma tenant_UpdatePolicy [tenant_ops]: "keeps (tenant_only org) (UpdatePolicy jsonb vid p org)"
  unfolding UpdatePolicy_def Let_def
proof (rule keeps_bnd [OF tenant_only_order(2)], goal_cases)
  case (2 x)
  show ?case
  proof (rule keeps_guarded [where Q = "\<lambda>_ d. (pol_ID p, org) \<in> policy_key ` set (t_policies d)"], goal_cases)
    case 1
    show ?case unfolding GetPolicy_def by (intro keeps_intros)
  next
    case (2 x d d')
    then show ?case unfolding GetPolicy_def by (auto dest!: query_row_Ok find_SomeD intro: live_policy_key)
  next
    case (3 cur)
    show ?case
      by (intro keeps_intros; rule whenever_effect)
        (auto simp: version_row_def live_policy_def intro!: tenant_hung others_append tenant_maps)
  qed
qed (intro keeps_intros)

lemma tenant_policy_writes [tenant_ops]:
  "keeps (tenant_only org) (DeletePolicy i org)" "keeps (tenant_only org) (RollbackPolicy i org v)"
  unfolding DeletePolicy_def RollbackPolicy_def
  by (intro keeps_intros; simp only: snd_update_where advance_tables; rule tenant_maps; simp add: live_policy_def)+

lemma tenant_ApprovePolicy [tenant_ops]: "keeps (tenant_only org) (ApprovePolicy i org by)"
  unfolding ApprovePolicy_def
proof (rule keeps_guarded [where Q = "\<lambda>_ d. (i, org) \<in> policy_key ` set (t_policies d)"], goal_cases)
  case 1
  show ?case by (intro keeps_intros; simp only: snd_update_where advance_tables; rule tenant_maps; simp add: live_policy_def)
next
  case (2 x d d')
  then obtain n where "n > 0" and run: "exec_on t_policies put_policies (\<lambda>d. update_where (live_policy i org)
      (\<lambda>r. r\<lparr>pol_Status := ''active'', pol_ApprovedBy := Some by, pol_ApprovedAt := Some (now d), pol_UpdatedAt := now d\<rparr>)) d = (Ok n, d')"
    unfolding must_affect_Ok by blast
  note eff = exec_on_Ok [OF run]
  with \<open>n > 0\<close> have "\<exists>p \<in> set (t_policies d). live_policy i org p"
    using fst_update_where_0 by (metis advance_tables(11) less_numeral_extra(3))
  then have "(i, org) \<in> policy_key ` set (t_policies d)" using live_policy_key by blast
  moreover have "policy_key ` set (t_policies d') = policy_key ` set (t_policies d)"
    unfolding conjunct2 [OF eff] snd_update_where by (subst keys_put_policies) simp_all
  ultimately show ?case by simp
next
  case (3 x)
  show ?case by (intro keeps_intros whenever_effect) (auto simp: snd_update_where intro!: tenant_hung others_map)
qed

text \<open>Resources.\<close>

lemma tenant_CreateResource [tenant_ops]: "rsc_OrganizationID r = org \<Longrightarrow> keeps (tenant_only org) (CreateResource jsonb r)"
  unfolding CreateResource_def by (intro keeps_intros) (simp add: tenant_appends stored_resource_def)

lemma tenant_resource_writes [tenant_ops]:
  "keeps (tenant_only org) (UpdateResource jsonb r org)" "keeps (tenant_only org) (DeleteResource i org)"
  unfolding UpdateResource_def DeleteResource_def
  by (intro keeps_intros; (simp only: snd_update_where)?; simp only: advance_tables; rule tenant_maps; simp add: live_resource_def)+

lemma resource_checked: "select (in_org i org) d = (Ok x, d') \<Longrightarrow> x \<longrightarrow> (i, org) \<in> resource_key ` set (t_resources d')"
  by (auto dest!: select_Ok simp: owned_resource)

lemma tenant_SetResourcePermissions [tenant_ops]:
  assumes "\<And>p. p \<in> set ps \<Longrightarrow> rp_ResourceID p = i"
  shows "keeps (tenant_only org) (SetResourcePermissions i org ps)"
  unfolding SetResourcePermissions_def
proof (rule keeps_guarded [where Q = "\<lambda>b d. b \<longrightarrow> (i, org) \<in> resource_key ` set (t_resources d)"], goal_cases)
  case (3 x)
  let ?R = "whenever (\<lambda>d. x \<longrightarrow> (i, org) \<in> resource_key ` set (t_resources d)) org"
  have insert: "keeps ?R (insert_permission p)" if "x" "rp_ResourceID p = i" for p
    unfolding insert_permission_def using that by (intro keeps_intros whenever_effect) (auto intro!: tenant_hung others_append)
  have inserts: "keeps ?R (for_each insert_permission ps)" if "x"
    using assms by (induction ps) (auto intro!: keeps_intros insert that)
  show ?case
    by (intro keeps_intros inserts; (rule whenever_effect)?) (auto simp: snd_delete_where intro!: tenant_hung others_filter)
qed (intro keeps_intros, simp add: resource_checked)

lemma tenant_ShareResource [tenant_ops]: "keeps (tenant_only org) (ShareResource s org)"
  unfolding ShareResource_def
proof (rule keeps_guarded [where Q = "\<lambda>b d. b \<longrightarrow> (rs_ResourceID s, org) \<in> resource_key ` set (t_resources d)"], goal_cases)
  case (3 x)
  show ?case by (intro keeps_intros; (rule whenever_effect)?) (auto intro!: tenant_hung others_append)
qed (intro keeps_intros, simp add: resource_checked)

lemma tenant_UnshareResource [tenant_ops]: "keeps (tenant_only org) (UnshareResource i org pid pty)"
  unfolding UnshareResource_def
  by (intro keeps_intros) (auto simp: snd_delete_where owned_resource intro!: tenant_hung others_filter)

section \<open>Endpoints\<close>

text \<open>Reads.\<close>

lemma tenant_reads [tenant_ops]:
  "keeps (tenant_only org) (GetGroup i c)" "keeps (tenant_only org) (GetRole i c)" "keeps (tenant_only org) (GetPolicy i c)"
  "keeps (tenant_only org) (GetResource i c)"
  unfolding GetGroup_def GetRole_def GetPolicy_def GetResource_def by (intro keeps_intros)+

lemma tenant_permission_rows [tenant_ops]: "keeps (tenant_only org) (permission_rows i pid pty perms)"
  by (induction perms) (simp_all only: permission_rows.simps, (intro keeps_intros; assumption)+)

lemma permission_rows_resource: "permission_rows i pid pty perms d = (Ok rows, d') \<Longrightarrow> p \<in> set rows \<Longrightarrow> rp_ResourceID p = i"
  by (induction perms arbitrary: d rows) (auto elim!: bnd_OkE)

text \<open>The calls of one caller that write.\<close>

inductive tenant_call :: "(string \<Rightarrow> string) \<Rightarrow> fiber_ctx \<Rightarrow> db \<Rightarrow> db \<Rightarrow> bool" for jsonb c where
  create_group: "handle_CreateGroup jsonb (c\<lparr>c_Param_id := i\<rparr>) g d = (r, d') \<Longrightarrow> tenant_call jsonb c d d'"
| update_group: "handle_UpdateGroup jsonb (c\<lparr>c_Param_id := i\<rparr>) ub d = (r, d') \<Longrightarrow> tenant_call jsonb c d d'"
| delete_group: "handle_DeleteGroup (c\<lparr>c_Param_id := i\<rparr>) d = (rd, d') \<Longrightarrow> tenant_call jsonb c d d'"
| add_member: "handle_AddGroupMember (c\<lparr>c_Param_id := i\<rparr>) mb d = (rm, d') \<Longrightarrow> tenant_call jsonb c d d'"
| remove_member: "handle_RemoveGroupMember (c\<lparr>c_Param_id := i\<rparr>) pid pty d = (rr, d') \<Longrightarrow> tenant_call jsonb c d d'"
| update_role: "handle_UpdateRole jsonb (c\<lparr>c_Param_id := i\<rparr>) role d = (ru, d') \<Longrightarrow> tenant_call jsonb c d d'"
| delete_role: "handle_DeleteRole (c\<lparr>c_Param_id := i\<rparr>) d = (rd, d') \<Longrightarrow> tenant_call jsonb c d d'"
| attach_policy: "handle_AttachPolicyToRole (c\<lparr>c_Param_id := i\<rparr>) ab d = (ra, d') \<Longrightarrow> tenant_call jsonb c d d'"
| detach_policy: "handle_DetachPolicyFromRole (c\<lparr>c_Param_id := i\<rparr>) pid d = (rr, d') \<Longrightarrow> tenant_call jsonb c d d'"
| assign_role: "handle_AssignRole jsonb (c\<lparr>c_Param_id := i\<rparr>) sb d = (rs, d') \<Longrightarrow> tenant_call jsonb c d d'"
| unassign_role: "handle_UnassignRole (c\<lparr>c_Param_id := i\<rparr>) pid d = (rr, d') \<Longrightarrow> tenant_call jsonb c d d'"
| create_policy: "handle_CreatePolicy jsonb vid (c\<lparr>c_Param_id := i\<rparr>) pb d = (rp, d') \<Longrightarrow> tenant_call jsonb c d d'"
| update_policy: "handle_UpdatePolicy jsonb vid (c\<lparr>c_Param_id := i\<rparr>) pb d = (rp, d') \<Longrightarrow> tenant_call jsonb c d d'"
| delete_policy: "handle_DeletePolicy (c\<lparr>c_Param_id := i\<rparr>) d = (rn, d') \<Longrightarrow> tenant_call jsonb c d d'"
| approve_policy: "handle_ApprovePolicy (c\<lparr>c_Param_id := i\<rparr>) d = (rn, d') \<Longrightarrow> tenant_call jsonb c d d'"
| rollback_policy: "handle_RollbackPolicy (c\<lparr>c_Param_id := i\<rparr>) v d = (rn, d') \<Longrightarrow> tenant_call jsonb c d d'"
| create_resource: "handle_CreateResource jsonb (c\<lparr>c_Param_id := i\<rparr>) rb d = (rc, d') \<Longrightarrow> tenant_call jsonb c d d'"
| update_resource: "handle_UpdateResource jsonb (c\<lparr>c_Param_id := i\<rparr>) rb d = (rc, d') \<Longrightarrow> tenant_call jsonb c d d'"
| delete_resource: "handle_DeleteResource (c\<lparr>c_Param_id := i\<rparr>) d = (rn, d') \<Longrightarrow> tenant_call jsonb c d d'"
| set_permissions: "handle_SetResourcePermissions (c\<lparr>c_Param_id := i\<rparr>) gb d = (rn, d') \<Longrightarrow> tenant_call jsonb c d d'"
| share: "handle_ShareResource (c\<lparr>c_Param_id := i\<rparr>) hb d = (rh, d') \<Longrightarrow> tenant_call jsonb c d d'"
| unshare: "handle_UnshareResource (c\<lparr>c_Param_id := i\<rparr>) xb d = (rn, d') \<Longrightarrow> tenant_call jsonb c d d'"
| pass: "tenant_call jsonb c d (d\<lparr>now := t, faults := fs\<rparr>)"

lemma tenant_group_calls:
  assumes "c_organization_id c = Some org"
  shows "keeps (tenant_only org) (handle_CreateGroup jsonb c g)" "keeps (tenant_only org) (handle_UpdateGroup jsonb c ub)"
    "keeps (tenant_only org) (handle_DeleteGroup c)" "keeps (tenant_only org) (handle_AddGroupMember c mb)"
    "keeps (tenant_only org) (handle_RemoveGroupMember c pid pty)"
  unfolding handle_CreateGroup_def handle_UpdateGroup_def handle_DeleteGroup_def handle_AddGroupMember_def
    handle_RemoveGroupMember_def Let_def assms bnd_local_string
  by (intro keeps_intros tenant_ops; simp)+

lemma tenant_role_calls:
  assumes "c_organization_id c = Some org"
  shows "keeps (tenant_only org) (handle_UpdateRole jsonb c role)" "keeps (tenant_only org) (handle_DeleteRole c)"
    "keeps (tenant_only org) (handle_AttachPolicyToRole c ab)" "keeps (tenant_only org) (handle_DetachPolicyFromRole c pid)"
    "keeps (tenant_only org) (handle_AssignRole jsonb c sb)" "keeps (tenant_only org) (handle_UnassignRole c pid)"
  unfolding handle_UpdateRole_def handle_DeleteRole_def handle_AttachPolicyToRole_def handle_DetachPolicyFromRole_def
    handle_AssignRole_def handle_UnassignRole_def Let_def assms bnd_local_string case_prod_beta
  by (intro keeps_intros tenant_ops; simp)+

lemma tenant_policy_errors [tenant_ops]:
  "keeps (tenant_only org) invalid_json" "keeps (tenant_only org) (server_error m)" "keeps (tenant_only org) (name_taken n)"
  "keeps (tenant_only org) (resource_error m e)"
  unfolding invalid_json_def server_error_def name_taken_def resource_error_def by (intro keeps_intros)+

lemma tenant_policy_calls:
  assumes "c_organization_id c = Some org"
  shows "keeps (tenant_only org) (handle_CreatePolicy jsonb vid c pb)" "keeps (tenant_only org) (handle_UpdatePolicy jsonb vid c pb)"
    "keeps (tenant_only org) (handle_DeletePolicy c)" "keeps (tenant_only org) (handle_ApprovePolicy c)"
    "keeps (tenant_only org) (handle_RollbackPolicy c v)"
  unfolding handle_CreatePolicy_def handle_UpdatePolicy_def handle_DeletePolicy_def handle_ApprovePolicy_def handle_RollbackPolicy_def
    with_policy_id_def Let_def assms bnd_local_string
  by (intro keeps_intros tenant_ops; simp add: policy_of_body_def)+

lemma tenant_resource_calls:
  assumes "c_organization_id c = Some org"
  shows "keeps (tenant_only org) (handle_CreateResource jsonb c rb)" "keeps (tenant_only org) (handle_UpdateResource jsonb c rb)"
    "keeps (tenant_only org) (handle_DeleteResource c)" "keeps (tenant_only org) (handle_ShareResource c hb)"
    "keeps (tenant_only org) (handle_UnshareResource c xb)"
  unfolding handle_CreateResource_def handle_UpdateResource_def handle_DeleteResource_def handle_ShareResource_def
    handle_UnshareResource_def with_resource_id_def Let_def assms bnd_local_string case_prod_beta
  by (intro keeps_intros tenant_ops; simp add: with_resource_defaults_def)+

lemma tenant_set_permissions:
  assumes "c_organization_id c = Some org"
  shows "keeps (tenant_only org) (handle_SetResourcePermissions c gb)"
proof -
  have rows: "keeps (tenant_only org) (bnd (permission_rows i pid pty perms) (\<lambda>rows.
      on_error (SetResourcePermissions i org rows) (resource_error m) (apiSuccess st msg)))" for i pid pty perms m st msg
    unfolding keeps_def
  proof
    fix d
    obtain r d1 where run: "permission_rows i pid pty perms d = (r, d1)" by (cases "permission_rows i pid pty perms d")
    have first: "tenant_only org d d1" using keepsD [OF tenant_permission_rows run] .
    show "tenant_only org d (snd (bnd (permission_rows i pid pty perms) (\<lambda>rows.
        on_error (SetResourcePermissions i org rows) (resource_error m) (apiSuccess st msg)) d))"
    proof (cases r)
      case (Ok ps)
      with run have "keeps (tenant_only org) (on_error (SetResourcePermissions i org ps) (resource_error m) (apiSuccess st msg))"
        by (intro keeps_intros tenant_ops) (simp add: permission_rows_resource)
      with first run Ok transpD [OF tenant_only_order(2)] show ?thesis by (auto simp: keeps_def bnd_Ok)
    qed (use run first in \<open>simp_all add: bnd_Err bnd_Panic\<close>)
  qed
  show ?thesis
    unfolding handle_SetResourcePermissions_def with_resource_id_def assms bnd_local_string case_prod_beta
    by (intro keeps_intros rows)
qed

lemma tenant_call_only:
  assumes "tenant_call jsonb c d d'" and "c_organization_id c = Some org"
  shows "tenant_only org d d'"
proof -
  have c: "c_organization_id (c\<lparr>c_Param_id := i\<rparr>) = Some org" for i using assms(2) by simp
  note calls = tenant_group_calls [OF c] tenant_role_calls [OF c] tenant_policy_calls [OF c] tenant_resource_calls [OF c]
    tenant_set_permissions [OF c]
  show ?thesis
    using assms(1) by (cases rule: tenant_call.cases) (erule calls [THEN keepsD] | simp add: tenant_defs)+
qed

lemma CreateRole_appends:
  assumes "CreateRole jsonb x d = (Ok y, d')"
  shows "\<exists>row. t_roles d' = t_roles d @ [row] \<and> rol_OrganizationID row = rol_OrganizationID x \<and> rol_Name row = rol_Name x"
proof -
  from assms obtain u t where "stmt (\<lambda>d. let row = x\<lparr>rol_TrustPolicy := jsonb (rol_TrustPolicy x), rol_AssumeRolePolicy := jsonb (rol_AssumeRolePolicy x),
        rol_Tags := jsonb (rol_Tags x), rol_CreatedAt := t, rol_UpdatedAt := t, rol_DeletedAt := None\<rparr> in
          case role_row_violation d (t_roles d @ [row]) of Some e \<Rightarrow> Inl e
          | None \<Rightarrow> if rol_OrganizationID x \<notin> org_ID ` set (t_organizations d) then Inl (foreign_key ''roles_organization_id_fkey'')
              else Inr ((), put_roles (t_roles d @ [row]) d)) d = (Ok u, d')"
    unfolding CreateRole_def gets_run by (elim bnd_OkE, simp only: wrap_Ok_iff ret_run prod.inject) (drule json_stmt_Ok, blast)
  then show ?thesis
    by (rule stmt_OkE) (auto simp: Let_def split: option.splits if_splits)
qed

lemma tenant_CreateRole [tenant_ops]: "rol_OrganizationID r = org \<Longrightarrow> keeps (tenant_only org) (CreateRole jsonb r)"
  unfolding CreateRole_def Let_def
  by (intro keeps_intros keeps_json_stmt keeps_stmt) (auto intro!: tenant_appends split: option.splits if_splits)

text \<open>The reading of a role, and its deletion by another id.\<close>

lemma GetRole_answer:
  assumes "GetRole i org d = (m, d')"
  shows "t_roles d' = t_roles d \<and> (\<forall>x. m = Ok x \<longrightarrow> x \<in> set (t_roles d) \<and> rol_ID x = i)"
proof -
  have "snd (GetRole i org d) = advance d" by (simp only: GetRole_def query_row_state)
  with assms have "d' = advance d" by simp
  with assms show ?thesis by (auto simp: GetRole_def dest!: query_row_Ok find_SomeD)
qed

lemma DeleteRole_other:
  assumes "rol_ID r \<noteq> i"
  shows "keeps (\<lambda>a b. r \<in> set (t_roles a) \<longrightarrow> r \<in> set (t_roles b)) (DeleteRole i org)"
  unfolding DeleteRole_def
  by (intro keeps_intros) (use assms in \<open>auto simp: reflp_def transp_def snd_update_where live_role_def image_iff\<close>)

section \<open>Properties\<close>

text \<open>C11. Tenant isolation: whatever sequence of calls on the group, role, policy and resource endpoints a caller
  makes, with whatever ids, bodies and outcomes, no row of another organization changes, nor any row that
  hangs on another organization's role, policy, group or resource, and no row of the other tables, which are
  those of the organizations, users, service accounts, API keys, sessions, content and its collaborators,
  OAuth clients and codes, access reviews, audit events and resource accesses. Creating a role is not among
  these calls.\<close>

theorem tenant_isolation:
  assumes "(tenant_call jsonb c)\<^sup>*\<^sup>* d d'" and "c_organization_id c = Some org"
  shows "tenant_only org d d'"
  using assms(1) tenant_only_order
proof (rule related_by_steps)
  show "tenant_only org u v" if "tenant_call jsonb c u v" for u v by (rule tenant_call_only [OF that assms(2)])
qed

definition tenant_ctx :: fiber_ctx where
  "tenant_ctx = \<lparr>c_Authorization = [], c_Cookie = [], c_Param_id = ''r2'', c_Path = [], c_IP = [], c_UserAgent = [],
     c_user_id = Some ''u1'', c_organization_id = Some ''o1'', c_email = None, c_role = Some ''admin'', c_session_id = None,
     c_tenant = None\<rparr>"

definition other_role :: Role where
  "other_role = named_role [] ''auditor'' [] ''o2'' 0"

definition two_orgs :: db where
  "two_orgs = grant_db\<lparr>t_organizations := [new_org ''o1'' ''Org'' ''org'' 0, new_org ''o2'' ''Other'' ''other'' 0],
     t_roles := t_roles grant_db @ [named_role ''r9'' ''owner'' [] ''o2'' 0]\<rparr>"

theorem tenant_isolation_witness:
  "\<exists>d'. (tenant_call id tenant_ctx)\<^sup>*\<^sup>* two_orgs d' \<and> length (t_role_policies d') = 1 \<and> tenant_only ''o1'' two_orgs d'"
proof -
  let ?c = "tenant_ctx\<lparr>c_Param_id := ''r2''\<rparr>"
  obtain r d' where run: "handle_AttachPolicyToRole ?c (Some (''p1'', [])) two_orgs = (r, d')"
    by (cases "handle_AttachPolicyToRole ?c (Some (''p1'', [])) two_orgs")
  have "length (t_role_policies (snd (handle_AttachPolicyToRole ?c (Some (''p1'', [])) two_orgs))) = 1" by code_simp
  with run have "length (t_role_policies d') = 1" by simp
  moreover have steps: "(tenant_call id tenant_ctx)\<^sup>*\<^sup>* two_orgs d'"
    by (rule r_into_rtranclp, rule attach_policy [OF run])
  moreover have "c_organization_id tenant_ctx = Some ''o1''" by (simp add: tenant_ctx_def)
  ultimately show ?thesis using tenant_isolation by blast
qed

text \<open>C12. The endpoint that creates a role takes the organization from the body, whoever calls it: whenever it
  succeeds, one row is added to the roles, with the name and the organization of the body, and nothing else
  changes but that organization's rows; so for a caller of any other organization the call is not confined
  to the caller's rows.\<close>

theorem CreateRole_crosses_tenants:
  assumes "handle_CreateRole jsonb (Some role) d = (Ok (Success status message r), d')"
  shows "(\<exists>row. t_roles d' = t_roles d @ [row] \<and> rol_OrganizationID row = rol_OrganizationID role \<and> rol_Name row = rol_Name role)
    \<and> tenant_only (rol_OrganizationID role) d d' \<and> (\<forall>org. org \<noteq> rol_OrganizationID role \<longrightarrow> \<not> tenant_only org d d')"
proof -
  from assms obtain row where row: "t_roles d' = t_roles d @ [row]" "rol_OrganizationID row = rol_OrganizationID role"
      "rol_Name row = rol_Name role"
    unfolding handle_CreateRole_def
    by (auto simp: fresh_uuid_def elim!: bnd_OkE on_error_OkE dest!: CreateRole_appends split: if_splits)
  then have "\<not> others (\<lambda>r. snd (role_key r) = org) (t_roles d) (t_roles d')" if "org \<noteq> rol_OrganizationID role" for org
    using that by (simp add: others_def)
  moreover have "keeps (tenant_only (rol_OrganizationID role)) (handle_CreateRole jsonb (Some role))"
    unfolding handle_CreateRole_def by (simp, intro conjI impI keeps_intros tenant_ops) simp
  from keepsD [OF this assms] have "tenant_only (rol_OrganizationID role) d d'" .
  ultimately show ?thesis using row by (auto simp: tenant_only_def tenant_rows_def own_def)
qed

theorem CreateRole_crosses_tenants_witness:
  "\<exists>r d'. handle_CreateRole id (Some other_role) two_orgs = (Ok (Success 201 ''Role created successfully'' r), d') \<and>
     \<not> tenant_only ''o1'' two_orgs d'"
proof -
  let ?run = "handle_CreateRole id (Some other_role) two_orgs"
  have "(case fst ?run of Ok (Success s m r) \<Rightarrow> s = 201 \<and> m = ''Role created successfully'' | _ \<Rightarrow> False)" by code_simp
  then obtain r where "fst ?run = Ok (Success 201 ''Role created successfully'' r)" by (auto split: res.splits http.splits)
  then have run: "?run = (Ok (Success 201 ''Role created successfully'' r), snd ?run)" by (simp add: prod_eq_iff)
  have "''o1'' \<noteq> rol_OrganizationID other_role" by (simp add: other_role_def named_role_def)
  with CreateRole_crosses_tenants [OF run] run show ?thesis by blast
qed

text \<open>C24. The role admin cannot be deleted: whatever is sent to the endpoint that deletes a role, and whatever the
  database answers, every row of a role with this name is still there, unchanged.\<close>

theorem DeleteRole_spares_admin:
  assumes "handle_DeleteRole c d = (res, d')" and "distinct (map rol_ID (t_roles d))"
    and "r \<in> set (t_roles d)" and "rol_Name r = ''admin''"
  shows "r \<in> set (t_roles d')"
proof -
  let ?R = "\<lambda>a b. r \<in> set (t_roles a) \<and> distinct (map rol_ID (t_roles a)) \<longrightarrow> r \<in> set (t_roles b)"
  show ?thesis
  proof (cases "c_organization_id c")
    case (Some org)
    obtain m d1 where get: "GetRole (c_Param_id c) org d = (m, d1)" by (cases "GetRole (c_Param_id c) org d")
    note answer = GetRole_answer [OF this]
    show ?thesis
    proof (cases "\<exists>x. m = Ok x \<and> rol_Name x \<noteq> ''admin''")
      case True
      then obtain x where m: "m = Ok x" and x: "rol_Name x \<noteq> ''admin''" by blast
      with answer have "x \<in> set (t_roles d)" "rol_ID x = c_Param_id c" by simp_all
      with assms(2-4) x have "rol_ID r \<noteq> c_Param_id c" using distinct_key_unique by metis
      from DeleteRole_other [OF this] assms(3) answer have "r \<in> set (t_roles (snd (DeleteRole (c_Param_id c) org d1)))"
        unfolding keeps_def by auto
      with assms(1,3) get m x Some show ?thesis
        by (auto simp: handle_DeleteRole_def Let_def bnd_local_string on_error_def attempt_def bnd_def gets_def split: prod.splits res.splits sum.splits if_splits)
    next
      case False
      with assms(1,3) get answer Some show ?thesis
        by (cases m) (auto simp: handle_DeleteRole_def Let_def bnd_local_string on_error_def attempt_def bnd_def split: if_splits)
    qed
  qed (use assms(1,3) in \<open>auto simp: handle_DeleteRole_def Let_def local_string_def bnd_def split: if_splits\<close>)
qed

definition admin_db :: db where
  "admin_db = grant_db\<lparr>t_roles := [named_role ''r2'' ''admin'' [] ''o1'' 0]\<rparr>"

theorem DeleteRole_spares_admin_witness:
  "fst (handle_DeleteRole tenant_ctx admin_db) = Ok (Failure 403 ''cannot_delete_admin_role'' ''The admin role cannot be deleted'') \<and>
   named_role ''r2'' ''admin'' [] ''o1'' 0 \<in> set (t_roles (snd (handle_DeleteRole tenant_ctx admin_db)))"
proof
  show "fst (handle_DeleteRole tenant_ctx admin_db) = Ok (Failure 403 ''cannot_delete_admin_role'' ''The admin role cannot be deleted'')"
    by code_simp
  show "named_role ''r2'' ''admin'' [] ''o1'' 0 \<in> set (t_roles (snd (handle_DeleteRole tenant_ctx admin_db)))"
    by (rule DeleteRole_spares_admin [where c = tenant_ctx and d = admin_db and res = "fst (handle_DeleteRole tenant_ctx admin_db)"])
      (simp_all add: admin_db_def named_role_def)
qed

text \<open>The endpoint that updates a role does not protect the name, so two calls delete the role all the same.\<close>

lemma renamed_admin_deleted:
  "let d1 = snd (handle_UpdateRole id tenant_ctx (Some ((named_role [] ''x'' [] [] 0)\<lparr>rol_Description := None\<rparr>)) admin_db) in
   fst (handle_DeleteRole tenant_ctx d1) = Ok (Success 200 ''Role deleted successfully'' (''r2'', 100)) \<and>
   map rol_Status (t_roles (snd (handle_DeleteRole tenant_ctx d1))) = [''deleted'']"
  by code_simp

end
