(* ===== verification/OrgStore.thy ===== *)
theory OrgStore
  imports AuthStore
begin

text \<open>
  Organizations and the global settings: internal/queries/organization_queries.go and
  global_settings_queries.go. \<open>jsonb\<close> is PostgreSQL's normal form of a JSON document.
\<close>

section \<open>Organizations\<close>

definition live_org :: "string \<Rightarrow> Organization \<Rightarrow> bool" where
  "live_org i o1 \<longleftrightarrow> org_ID o1 = i \<and> org_Status o1 \<noteq> ''deleted''"

text \<open>The total is a column of the page's rows, so a page without rows has the total zero.\<close>

definition ListOrganizations :: "ListParams \<Rightarrow> string \<Rightarrow> Organization ListResult query" where
  "ListOrganizations params orgFilter =
     (let limit = (if lp_Limit params \<le> 0 \<or> lp_Limit params > 1000 then 50 else lp_Limit params);
          offset = max 0 (lp_Offset params);
          visible = (\<lambda>d. filter (\<lambda>o1. org_Status o1 \<noteq> ''deleted'' \<and> (orgFilter \<noteq> [] \<longrightarrow> org_ID o1 = orgFilter)) (t_organizations d))
      in bnd (select_page limit offset (\<lambda>d. map (\<lambda>o1. (o1, length (visible d))) (order_desc org_CreatedAt (visible d)))) (\<lambda>rows.
         let total = (if rows = [] then 0 else int (snd (last rows))) in
         ret \<lparr>lr_Items = map fst rows, lr_Total = total, lr_Limit = limit, lr_Offset = offset,
           lr_HasMore = (offset + int (length rows) < total), lr_TotalPages = 0\<rparr>))"

text \<open>The error of a parameter that is no value of its column's type, before any row is looked at.\<close>

definition org_params :: "Organization \<Rightarrow> 'a query \<Rightarrow> 'a query" where
  "org_params org m =
     (if org_Status org \<notin> set entity_status then stmt (\<lambda>_. Inl (bad_enum ''entity_status''))
      else if \<not> int4 (org_MaxUsers org) \<or> \<not> int4 (org_MaxResources org) then stmt (\<lambda>_. Inl int4_overflow)
      else json_stmt [org_Metadata org, org_Settings org] m)"

definition stored_org :: "(string \<Rightarrow> string) \<Rightarrow> instant \<Rightarrow> Organization \<Rightarrow> Organization" where
  "stored_org jsonb t org = org\<lparr>org_Metadata := jsonb (org_Metadata org), org_Settings := jsonb (org_Settings org),
     org_CreatedAt := t, org_UpdatedAt := t, org_DeletedAt := None\<rparr>"

definition CreateOrganization :: "(string \<Rightarrow> string) \<Rightarrow> Organization \<Rightarrow> Organization query" where
  "CreateOrganization jsonb org = gets now (\<lambda>t. bnd (org_params org
       (insert_checked t_organizations put_orgs orgs_violation (stored_org jsonb t org)))
     (\<lambda>_. ret (org\<lparr>org_CreatedAt := t, org_UpdatedAt := t\<rparr>)))"

definition GetOrganization :: "string \<Rightarrow> Organization query" where
  "GetOrganization i = bnd (select (\<lambda>d. find (live_org i) (t_organizations d)))
     (\<lambda>r. case r of None \<Rightarrow> fail ''organization not found'' | Some org \<Rightarrow> ret org)"

text \<open>The slug, the parent and the origins are not written.\<close>

definition written_org :: "(string \<Rightarrow> string) \<Rightarrow> instant \<Rightarrow> Organization \<Rightarrow> Organization \<Rightarrow> Organization" where
  "written_org jsonb t org r = r\<lparr>org_Name := org_Name org, org_Description := org_Description org,
     org_Metadata := jsonb (org_Metadata org), org_Settings := jsonb (org_Settings org), org_BillingTier := org_BillingTier org,
     org_MaxUsers := org_MaxUsers org, org_MaxResources := org_MaxResources org, org_Status := org_Status org, org_UpdatedAt := t\<rparr>"

definition UpdateOrganization :: "(string \<Rightarrow> string) \<Rightarrow> Organization \<Rightarrow> Organization query" where
  "UpdateOrganization jsonb org = gets now (\<lambda>t. bnd (org_params org
       (update_checked t_organizations put_orgs orgs_violation (live_org (org_ID org)) (written_org jsonb t org)))
     (\<lambda>n. if n = 0 then fail ''organization not found or deleted'' else ret (org\<lparr>org_UpdatedAt := t\<rparr>)))"

definition DeleteOrganization :: "string \<Rightarrow> unit query" where
  "DeleteOrganization i = bnd (exec_on t_organizations put_orgs (\<lambda>d. update_where (live_org i)
       (\<lambda>o1. o1\<lparr>org_Status := ''deleted'', org_DeletedAt := Some (now d), org_UpdatedAt := now d\<rparr>)))
     (\<lambda>n. if n = 0 then fail ''organization not found or deleted'' else ret ())"

section \<open>What belongs to an organization\<close>

text \<open>A text array is no JSON array, so the backup codes are dropped when they are decoded.\<close>

definition ListOrganizationUsers :: "string \<Rightarrow> User list query" where
  "ListOrganizationUsers orgID = select (\<lambda>d. map (\<lambda>u. u\<lparr>usr_MFABackupCodes := [], usr_TOTPSecret := [], usr_Role := []\<rparr>)
     (filter (\<lambda>u. usr_OrganizationID u = orgID \<and> usr_Status u \<noteq> ''deleted'') (t_users d)))"

definition ListOrganizationGroups :: "string \<Rightarrow> Group list query" where
  "ListOrganizationGroups orgID =
     select (\<lambda>d. filter (\<lambda>g. grp_OrganizationID g = orgID \<and> grp_Status g \<noteq> ''deleted'') (t_groups d))"

definition ListOrganizationResources :: "string \<Rightarrow> Resource list query" where
  "ListOrganizationResources orgID =
     select (\<lambda>d. filter (\<lambda>r. rsc_OrganizationID r = orgID \<and> rsc_Status r \<noteq> ''deleted'') (t_resources d))"

definition ListOrganizationPolicies :: "string \<Rightarrow> Policy list query" where
  "ListOrganizationPolicies orgID =
     select (\<lambda>d. filter (\<lambda>p. pol_OrganizationID p = orgID \<and> pol_Status p \<noteq> ''deleted'') (t_policies d))"

definition ListOrganizationRoles :: "string \<Rightarrow> Role list query" where
  "ListOrganizationRoles orgID =
     select (\<lambda>d. filter (\<lambda>r. rol_OrganizationID r = orgID \<and> rol_Status r \<noteq> ''deleted'') (t_roles d))"

section \<open>Settings\<close>

definition GetOrganizationSettings :: "string \<Rightarrow> string query" where
  "GetOrganizationSettings orgID = bnd (select (\<lambda>d. find (live_org orgID) (t_organizations d)))
     (\<lambda>r. case r of None \<Rightarrow> fail ''organization not found'' | Some org \<Rightarrow> ret (org_Settings org))"

definition UpdateOrganizationSettings :: "(string \<Rightarrow> string) \<Rightarrow> string \<Rightarrow> string \<Rightarrow> unit query" where
  "UpdateOrganizationSettings jsonb orgID settings = bnd (json_stmt [settings]
       (exec_on t_organizations put_orgs (\<lambda>d. update_where (live_org orgID)
          (\<lambda>o1. o1\<lparr>org_Settings := jsonb settings, org_UpdatedAt := now d\<rparr>))))
     (\<lambda>n. if n = 0 then fail ''organization not found or deleted'' else ret ())"

section \<open>Global settings\<close>

record GlobalSettings =
  gs_ID :: string
  gs_MaintenanceMode :: bool
  gs_MaintenanceMessage :: string
  gs_MaxUsersPerOrganization :: int
  gs_MaxSessionDuration :: int
  gs_PasswordMinLength :: int
  gs_RequireMFA :: bool
  gs_AllowRegistration :: bool
  gs_EmailVerificationReq :: bool
  gs_TokenExpirationMinutes :: int
  gs_AuditLogRetentionDays :: int
  gs_Settings :: string
  gs_CreatedAt :: instant
  gs_UpdatedAt :: instant

text \<open>
  No migration creates the table \<open>global_settings\<close>. Whether and with which rows it exists is the parameter
  \<open>settings_table\<close>: \<open>None\<close> is the migrated database, where PostgreSQL refuses every statement that names it.
\<close>

definition no_relation :: string where
  "no_relation = ''pq: relation global_settings does not exist''"

definition on_settings :: "GlobalSettings list option \<Rightarrow> (GlobalSettings list \<Rightarrow> db \<Rightarrow> string + 'a) \<Rightarrow> 'a query" where
  "on_settings settings_table f = stmt (\<lambda>d. case settings_table of None \<Rightarrow> Inl no_relation
     | Some t \<Rightarrow> (case f t d of Inl e \<Rightarrow> Inl e | Inr x \<Rightarrow> Inr (x, d)))"

definition default_settings :: GlobalSettings where
  "default_settings = \<lparr>gs_ID = ''default'', gs_MaintenanceMode = False, gs_MaintenanceMessage = [],
     gs_MaxUsersPerOrganization = 1000, gs_MaxSessionDuration = 480, gs_PasswordMinLength = 8, gs_RequireMFA = False,
     gs_AllowRegistration = True, gs_EmailVerificationReq = True, gs_TokenExpirationMinutes = 60, gs_AuditLogRetentionDays = 90,
     gs_Settings = ''{}'', gs_CreatedAt = 0, gs_UpdatedAt = 0\<rparr>"

text \<open>
  The insert does nothing on a conflict and then returns no row. The text the code compares the error with is
  not the one of \<open>sql.ErrNoRows\<close>, so the branch that fetches the row again is never taken. The result of a call
  is the settings with the table after it.
\<close>

definition CreateDefaultGlobalSettings :: "GlobalSettings list option \<Rightarrow> (GlobalSettings \<times> GlobalSettings list) query" where
  "CreateDefaultGlobalSettings settings_table = gets now (\<lambda>t.
     let row = default_settings\<lparr>gs_CreatedAt := t, gs_UpdatedAt := t\<rparr> in
     wrap ''failed to create default global settings'' (on_settings settings_table (\<lambda>rows _.
       if \<exists>r \<in> set rows. gs_ID r = gs_ID row then Inl no_rows else Inr (row, rows @ [row]))))"

definition GetGlobalSettings :: "GlobalSettings list option \<Rightarrow> (GlobalSettings \<times> GlobalSettings list) query" where
  "GetGlobalSettings settings_table =
     bnd (wrap ''failed to get global settings'' (on_settings settings_table (\<lambda>rows _. Inr (order_desc gs_CreatedAt rows, rows)))) (\<lambda>(found, rows).
       case found of [] \<Rightarrow> CreateDefaultGlobalSettings settings_table | r # _ \<Rightarrow> ret (r, rows))"

text \<open>The row of the current settings takes the fields of the argument.\<close>

definition UpdateGlobalSettings :: "GlobalSettings list option \<Rightarrow> GlobalSettings \<Rightarrow> (GlobalSettings \<times> GlobalSettings list) query" where
  "UpdateGlobalSettings settings_table settings =
     bnd (wrap ''failed to get current settings'' (GetGlobalSettings settings_table)) (\<lambda>(current, rows). gets now (\<lambda>t.
       let updated = settings\<lparr>gs_ID := gs_ID current, gs_CreatedAt := gs_CreatedAt current, gs_UpdatedAt := t\<rparr> in
       bnd (wrap ''failed to update global settings'' (on_settings (Some rows) (\<lambda>rows _.
         if \<forall>r \<in> set rows. gs_ID r \<noteq> gs_ID current then Inl no_rows
         else Inr (map (\<lambda>r. if gs_ID r = gs_ID current then updated\<lparr>gs_CreatedAt := gs_CreatedAt r\<rparr> else r) rows)))) (\<lambda>rows'.
       bnd (ignore (redis_del ''global_settings'')) (\<lambda>_. ret (updated, rows')))))"

end
