(* ===== verification/Cors.thy ===== *)
theory Cors
  imports Http
begin

text \<open>
  The origins that may read the responses of the service: internal/middleware/cors.go. The middleware keeps
  the configured origins, and a copy of the origins of all organizations in Redis and in memory; refreshes
  of the copies run beside the requests. A Go map with boolean values is the list of its keys.
\<close>

section \<open>The middleware and its state\<close>

definition corsOriginsKey :: string where
  "corsOriginsKey = ''cors:allowed_origins''"

definition corsCacheTTL :: int where
  "corsCacheTTL = 5 * 60 * second"

record DynamicCORS =
  staticOrigins :: "string list"
  allowAll :: bool
  memoryCache :: "string list"
  memoryCacheAt :: instant

text \<open>A refresh that has been started, and one that has read the database.\<close>

datatype refresh = Started | Loaded "string list"

record cors_state =
  cs_db :: db
  cs_mw :: DynamicCORS
  cs_refreshes :: "refresh list"

text \<open>A program over the database as a program over the whole state.\<close>

definition on_db :: "'a query \<Rightarrow> (cors_state, 'a) prog" where
  "on_db m s = (case m (cs_db s) of (r, d) \<Rightarrow> (r, s\<lparr>cs_db := d\<rparr>))"

text \<open>\<open>go d.refreshCache()\<close>.\<close>

definition InvalidateCache :: "(cors_state, unit) prog" where
  "InvalidateCache s = (Ok (), s\<lparr>cs_refreshes := cs_refreshes s @ [Started]\<rparr>)"

definition NewDynamicCORS :: "string \<Rightarrow> db \<Rightarrow> cors_state" where
  "NewDynamicCORS configured d = (let static = filter (\<lambda>o1. o1 \<noteq> []) (map trim_space (split_on CHR '','' configured)) in
     \<lparr>cs_db = d, cs_mw = \<lparr>staticOrigins = static, allowAll = (''*'' \<in> set static), memoryCache = [], memoryCacheAt = 0\<rparr>,
      cs_refreshes = [Started]\<rparr>)"

section \<open>Refreshing the copies\<close>

text \<open>\<open>SELECT DISTINCT unnest\<close>: the order of the result is not used.\<close>

definition loadOriginsFromDB :: "string list query" where
  "loadOriginsFromDB = select (\<lambda>d. remdups (concat (map org_AllowedOrigins
     (filter (\<lambda>o1. org_Status o1 \<noteq> ''deleted'') (t_organizations d)))))"

text \<open>The pipeline of \<open>DEL\<close>, \<open>SADD\<close> (left out when there is nothing to add) and \<open>EXPIRE\<close>.\<close>

definition cache_origins :: "string list \<Rightarrow> unit query" where
  "cache_origins origins = redis_cmd (\<lambda>d. ((), d\<lparr>redis := (redis d)(corsOriginsKey :=
     if origins = [] then None else Some (RSet origins, Some (now d + corsCacheTTL)))\<rparr>))"

text \<open>The second half: both copies are replaced; an error of Redis is only logged.\<close>

definition store_origins :: "DynamicCORS \<Rightarrow> string list \<Rightarrow> DynamicCORS query" where
  "store_origins mw origins = (let allOrigins = remdups (staticOrigins mw @ origins) in
     bnd (ignore (cache_origins allOrigins)) (\<lambda>_. gets now (\<lambda>t. ret (mw\<lparr>memoryCache := allOrigins, memoryCacheAt := t\<rparr>))))"

text \<open>A refresh that nothing interrupts; an error of the database leaves both copies.\<close>

definition refreshCache :: "DynamicCORS \<Rightarrow> DynamicCORS query" where
  "refreshCache mw = on_error loadOriginsFromDB (\<lambda>_. ret mw) (store_origins mw)"

section \<open>Requests\<close>

definition redis_sismember :: "string \<Rightarrow> string \<Rightarrow> bool query" where
  "redis_sismember k x = bnd (redis_cmd (\<lambda>d. (redis_lookup d k, d))) (\<lambda>v. case v of
     None \<Rightarrow> ret False | Some (RSet xs) \<Rightarrow> ret (x \<in> set xs) | Some _ \<Rightarrow> fail wrong_type)"

definition isAllowedDynamic :: "DynamicCORS \<Rightarrow> string \<Rightarrow> bool query" where
  "isAllowedDynamic mw origin = on_error (redis_sismember corsOriginsKey origin) (\<lambda>_. ret (origin \<in> set (memoryCache mw))) ret"

definition setHeaders :: "string \<Rightarrow> (string \<times> string) list" where
  "setHeaders origin = [(''Access-Control-Allow-Origin'', origin),
     (''Access-Control-Allow-Methods'', ''GET,POST,PUT,DELETE,OPTIONS,PATCH''),
     (''Access-Control-Allow-Headers'', ''Origin,Content-Type,Accept,Authorization,X-Request-ID''),
     (''Access-Control-Allow-Credentials'', ''true''), (''Vary'', ''Origin'')]"

text \<open>The headers that are set, and whether the request goes on to the next handler or is answered with 204.\<close>

definition cors_Handler :: "DynamicCORS \<Rightarrow> string \<Rightarrow> string \<Rightarrow> ((string \<times> string) list \<times> bool) query" where
  "cors_Handler mw origin verb = (let answer = (\<lambda>headers. ret (headers, verb \<noteq> ''OPTIONS'')) in
     if origin = [] then ret ([], True)
     else if allowAll mw then answer (setHeaders ''*'')
     else if origin \<in> set (staticOrigins mw) then answer (setHeaders origin)
     else bnd (isAllowedDynamic mw origin) (\<lambda>allowed. answer (if allowed then setHeaders origin else [])))"

section \<open>The origins of an organization\<close>

definition GetOrganizationOrigins :: "string \<Rightarrow> string list query" where
  "GetOrganizationOrigins orgID = bnd (select (\<lambda>d. find (\<lambda>o1. org_ID o1 = orgID \<and> org_Status o1 \<noteq> ''deleted'') (t_organizations d)))
     (\<lambda>r. case r of None \<Rightarrow> fail ''organization not found'' | Some o1 \<Rightarrow> ret (org_AllowedOrigins o1))"

definition set_origins :: "string \<Rightarrow> string list \<Rightarrow> nat query" where
  "set_origins orgID origins = exec_on t_organizations (\<lambda>t d. d\<lparr>t_organizations := t\<rparr>)
     (\<lambda>d. update_where (\<lambda>o1. org_ID o1 = orgID \<and> org_Status o1 \<noteq> ''deleted'')
        (\<lambda>o1. o1\<lparr>org_AllowedOrigins := origins, org_UpdatedAt := now d\<rparr>))"

definition UpdateOrganizationOrigins :: "string \<Rightarrow> string list \<Rightarrow> (cors_state, unit) prog" where
  "UpdateOrganizationOrigins orgID origins = bnd (on_db (set_origins orgID origins)) (\<lambda>n.
     if n = 0 then fail ''organization not found or deleted'' else InvalidateCache)"

section \<open>Everything that runs beside each other\<close>

text \<open>
  Requests, updates, and refreshes whose two halves are separate steps; \<open>elsewhere\<close> is whatever the rest of
  the service, the clock and Redis (which may drop a key, fail and come back) do.
\<close>

inductive cors_step :: "cors_state \<Rightarrow> cors_state \<Rightarrow> bool" where
  request: "cors_Handler (cs_mw s) origin verb (cs_db s) = (r, d) \<Longrightarrow> cors_step s (s\<lparr>cs_db := d\<rparr>)"
| update: "UpdateOrganizationOrigins orgID origins s = (r, s') \<Longrightarrow> cors_step s s'"
| load: "cs_refreshes s = before @ Started # after \<Longrightarrow> loadOriginsFromDB (cs_db s) = (Ok origins, d) \<Longrightarrow>
    cors_step s (s\<lparr>cs_db := d, cs_refreshes := before @ Loaded origins # after\<rparr>)"
| load_failed: "cs_refreshes s = before @ Started # after \<Longrightarrow> loadOriginsFromDB (cs_db s) = (Err e, d) \<Longrightarrow>
    cors_step s (s\<lparr>cs_db := d, cs_refreshes := before @ after\<rparr>)"
| store: "cs_refreshes s = before @ Loaded origins # after \<Longrightarrow> store_origins (cs_mw s) origins (cs_db s) = (Ok mw, d) \<Longrightarrow>
    cors_step s (s\<lparr>cs_db := d, cs_mw := mw, cs_refreshes := before @ after\<rparr>)"
| elsewhere: "now (cs_db s) \<le> now d \<Longrightarrow> redis d corsOriginsKey \<in> {redis (cs_db s) corsOriginsKey, None} \<Longrightarrow>
    cors_step s (s\<lparr>cs_db := d\<rparr>)"

text \<open>All refreshes one after the other, in the order in which they were started.\<close>

fun finish :: "refresh list \<Rightarrow> DynamicCORS \<Rightarrow> DynamicCORS query" where
  "finish [] mw = ret mw"
| "finish (Started # rs) mw = bnd (refreshCache mw) (finish rs)"
| "finish (Loaded origins # rs) mw = bnd (store_origins mw origins) (finish rs)"

text \<open>Requests only, while the rest of the service goes on: nobody updates origins.\<close>

inductive quiet_step :: "cors_state \<Rightarrow> cors_state \<Rightarrow> bool" where
  request: "cors_Handler (cs_mw s) origin verb (cs_db s) = (r, d) \<Longrightarrow> quiet_step s (s\<lparr>cs_db := d\<rparr>)"
| elsewhere: "now (cs_db s) \<le> now d \<Longrightarrow> redis d corsOriginsKey \<in> {redis (cs_db s) corsOriginsKey, None} \<Longrightarrow>
    quiet_step s (s\<lparr>cs_db := d\<rparr>)"

section \<open>How the parts run\<close>

text \<open>The origins that the organizations have at the moment.\<close>

definition configured :: "db \<Rightarrow> string set" where
  "configured d = (\<Union>o1 \<in> {o1 \<in> set (t_organizations d). org_Status o1 \<noteq> ''deleted''}. set (org_AllowedOrigins o1))"

lemma load_Ok: "loadOriginsFromDB d = (Ok origins, d') \<Longrightarrow> set origins = configured d \<and> d' = advance d"
  by (auto simp: loadOriginsFromDB_def configured_def dest!: select_Ok)

lemma load_healthy: "healthy d \<Longrightarrow> \<exists>origins. loadOriginsFromDB d = (Ok origins, d) \<and> set origins = configured d"
  by (auto simp: loadOriginsFromDB_def configured_def select_ok)

definition cached :: "string list \<Rightarrow> db \<Rightarrow> db" where
  "cached origins d = (if redis_up d then d\<lparr>redis := (redis d)(corsOriginsKey :=
     if origins = [] then None else Some (RSet origins, Some (now d + corsCacheTTL)))\<rparr> else d)"

lemma store_run: "store_origins mw origins d = (Ok (mw\<lparr>memoryCache := remdups (staticOrigins mw @ origins), memoryCacheAt := now d\<rparr>),
    cached (remdups (staticOrigins mw @ origins)) d)"
  by (simp add: store_origins_def Let_def bnd_def ignore_def attempt_def cache_origins_def redis_cmd_def cached_def)

lemma cached_simps [simp]: "now (cached origins d) = now d" "redis_up (cached origins d) = redis_up d"
  "faults (cached origins d) = faults d" "t_organizations (cached origins d) = t_organizations d"
  "configured (cached origins d) = configured d"
  by (simp_all add: cached_def configured_def)

text \<open>Which origins the copies hold: the one in Redis, while it lasts, and the one in memory.\<close>

definition redis_copy :: "db \<Rightarrow> string set" where
  "redis_copy d = (case redis_lookup d corsOriginsKey of Some (RSet xs) \<Rightarrow> set xs | _ \<Rightarrow> {})"

definition readable :: "db \<Rightarrow> bool" where
  "readable d \<longleftrightarrow> redis_up d \<and> (case redis_lookup d corsOriginsKey of None \<Rightarrow> True | Some (RSet _) \<Rightarrow> True | _ \<Rightarrow> False)"

lemma allowed_run: "isAllowedDynamic mw origin d
    = (Ok (origin \<in> (if readable d then redis_copy d else set (memoryCache mw))), d)"
  by (auto simp: isAllowedDynamic_def on_error_def attempt_def bnd_def redis_sismember_def redis_cmd_def readable_def redis_copy_def
      split: option.splits redis_value.splits)

lemma handler_run: "cors_Handler mw origin verb d = (Ok
    (if origin = [] then ([], True)
     else (if allowAll mw then setHeaders ''*''
           else if origin \<in> set (staticOrigins mw) \<or> origin \<in> (if readable d then redis_copy d else set (memoryCache mw))
           then setHeaders origin else [], verb \<noteq> ''OPTIONS'')), d)"
  by (simp add: cors_Handler_def Let_def bnd_def allowed_run)

lemma copy_cached: "redis_up d \<Longrightarrow> readable (cached origins d) \<and> redis_copy (cached origins d) = set origins"
  by (auto simp: cached_def readable_def redis_copy_def redis_lookup_def corsCacheTTL_def)

section \<open>Where an allowed origin comes from\<close>

text \<open>The origins in the copy in memory and in the refreshes under way, and those in Redis.\<close>

definition fresh_copies :: "cors_state \<Rightarrow> string set" where
  "fresh_copies s = set (memoryCache (cs_mw s)) \<union> (\<Union>rs \<in> set (cs_refreshes s). case rs of Started \<Rightarrow> {} | Loaded xs \<Rightarrow> set xs)"

definition redis_set_of :: "db \<Rightarrow> string set" where
  "redis_set_of d = (case redis d corsOriginsKey of Some (RSet xs, _) \<Rightarrow> set xs | _ \<Rightarrow> {})"

lemma redis_copyD: "x \<in> redis_copy d \<Longrightarrow>
    \<exists>xs expiry. redis d corsOriginsKey = Some (RSet xs, expiry) \<and> x \<in> set xs \<and> (\<forall>e. expiry = Some e \<longrightarrow> now d < e)"
  by (auto simp: redis_copy_def redis_lookup_def split: option.splits prod.splits redis_value.splits if_splits)

lemma update_run: "UpdateOrganizationOrigins orgID origins s = (r, s') \<Longrightarrow>
    cs_mw s' = cs_mw s \<and> redis (cs_db s') = redis (cs_db s) \<and> cs_refreshes s' \<in> {cs_refreshes s, cs_refreshes s @ [Started]}"
  unfolding UpdateOrganizationOrigins_def bnd_def on_db_def set_origins_def
  by (auto simp: InvalidateCache_def exec_on_no_Panic dest!: exec_on_Ok exec_on_Err split: prod.splits res.splits if_splits)

text \<open>A step adds to what the copies hold only what the static list or an organization has.\<close>

lemma step_copies: "cors_step s s' \<Longrightarrow> staticOrigins (cs_mw s') = staticOrigins (cs_mw s)
     \<and> fresh_copies s' \<subseteq> fresh_copies s \<union> set (staticOrigins (cs_mw s)) \<union> configured (cs_db s)
     \<and> (redis (cs_db s') corsOriginsKey \<in> {redis (cs_db s) corsOriginsKey, None}
        \<or> redis_set_of (cs_db s') \<subseteq> fresh_copies s \<union> set (staticOrigins (cs_mw s)))"
proof (induction rule: cors_step.induct)
  case (request s origin verb r d)
  then have "s\<lparr>cs_db := d\<rparr> = s" by (simp add: handler_run)
  then show ?case by (simp only:) blast
next
  case (update orgID origins s r s')
  from update_run [OF this] show ?case by (auto simp: fresh_copies_def)
next
  case (load s before after origins d)
  with load_Ok [OF load(2)] show ?case by (auto simp: fresh_copies_def)
next
  case (load_failed s before after e d)
  have "d = advance (cs_db s)"
    using load_failed(2) select_state [of _ "cs_db s"] unfolding loadOriginsFromDB_def by (metis snd_conv)
  with load_failed show ?case by (auto simp: fresh_copies_def)
next
  case (store s before origins after mw d)
  then show ?case
    by (cases "redis_up (cs_db s)") (auto simp: fresh_copies_def redis_set_of_def store_run cached_def split: if_splits)
next
  case (elsewhere s d)
  then show ?case by (auto simp: fresh_copies_def)
qed

lemma copies_traced:
  assumes "cors_step\<^sup>*\<^sup>* s0 s" and "fresh_copies s0 = {}"
  defines "T \<equiv> \<lambda>u x. x \<in> set (staticOrigins (cs_mw s0)) \<or>
     (\<exists>s1. cors_step\<^sup>*\<^sup>* s0 s1 \<and> cors_step\<^sup>*\<^sup>* s1 u \<and> x \<in> configured (cs_db s1))"
  shows "staticOrigins (cs_mw s) = staticOrigins (cs_mw s0) \<and> (\<forall>x \<in> fresh_copies s. T s x) \<and>
     (redis (cs_db s) corsOriginsKey \<in> {redis (cs_db s0) corsOriginsKey, None} \<or> (\<forall>x \<in> redis_set_of (cs_db s). T s x))"
  using assms(1)
proof (induction rule: rtranclp_induct)
  case base
  with assms(2) show ?case by simp
next
  case (step s s')
  have later: "T s x \<Longrightarrow> T s' x" for x
    unfolding T_def using step(2) by (meson rtranclp.rtrancl_into_rtrancl)
  have here: "x \<in> configured (cs_db s) \<Longrightarrow> T s' x" for x
    unfolding T_def using step(1,2) by (meson r_into_rtranclp)
  have static: "x \<in> set (staticOrigins (cs_mw s)) \<Longrightarrow> T s' x" for x
    unfolding T_def using step.IH by simp
  note copies = step_copies [OF step(2)]
  have "T s' x" if "x \<in> fresh_copies s'" for x
    using that copies step.IH later here static by blast
  moreover have "redis (cs_db s') corsOriginsKey \<in> {redis (cs_db s0) corsOriginsKey, None} \<or> (\<forall>x \<in> redis_set_of (cs_db s'). T s' x)"
  proof (cases "redis_set_of (cs_db s') \<subseteq> fresh_copies s \<union> set (staticOrigins (cs_mw s))")
    case True
    with step.IH later static show ?thesis by blast
  next
    case False
    with copies have "redis (cs_db s') corsOriginsKey \<in> {redis (cs_db s) corsOriginsKey, None}" by simp
    then consider (kept) "redis (cs_db s') corsOriginsKey = redis (cs_db s) corsOriginsKey"
      | (gone) "redis (cs_db s') corsOriginsKey = None" by auto
    then show ?thesis
    proof cases
      case kept
      then have "redis_set_of (cs_db s') = redis_set_of (cs_db s)" by (simp add: redis_set_of_def)
      with kept step.IH later show ?thesis by auto
    qed simp
  qed
  ultimately show ?case using copies step.IH by simp
qed

text \<open>C17. An origin is admitted only if it is configured: whatever the schedule of requests, updates, refreshes and
  failures since the start, when the middleware answers with the origin of the request (and not with a star),
  that origin is in the static list, or some organization had it among its origins at some moment since the
  start, or it is in the set that an earlier run of the service left in Redis, and that entry has not expired.\<close>

theorem admitted_origin_configured:
  assumes "cors_step\<^sup>*\<^sup>* (NewDynamicCORS static d0) s"
    and "cors_Handler (cs_mw s) origin verb (cs_db s) = (Ok (headers, further), d')"
    and "(''Access-Control-Allow-Origin'', origin) \<in> set headers" and "origin \<noteq> ''*''"
  shows "origin \<in> set (map trim_space (split_on CHR '','' static)) \<or>
    (\<exists>s1. cors_step\<^sup>*\<^sup>* (NewDynamicCORS static d0) s1 \<and> cors_step\<^sup>*\<^sup>* s1 s \<and>
      (\<exists>o1 \<in> set (t_organizations (cs_db s1)). org_Status o1 \<noteq> ''deleted'' \<and> origin \<in> set (org_AllowedOrigins o1))) \<or>
    (\<exists>xs expiry. redis d0 corsOriginsKey = Some (RSet xs, expiry) \<and> origin \<in> set xs \<and>
      (\<forall>e. expiry = Some e \<longrightarrow> now (cs_db s) < e))"
proof -
  let ?s0 = "NewDynamicCORS static d0"
  let ?T = "\<lambda>x. x \<in> set (staticOrigins (cs_mw ?s0)) \<or>
     (\<exists>s1. cors_step\<^sup>*\<^sup>* ?s0 s1 \<and> cors_step\<^sup>*\<^sup>* s1 s \<and> x \<in> configured (cs_db s1))"
  have s0: "fresh_copies ?s0 = {}" "redis (cs_db ?s0) = redis d0"
    by (simp_all add: fresh_copies_def NewDynamicCORS_def Let_def)
  from copies_traced [OF assms(1) s0(1)] have static: "staticOrigins (cs_mw s) = staticOrigins (cs_mw ?s0)"
    and fresh: "\<And>x. x \<in> fresh_copies s \<Longrightarrow> ?T x"
    and stored: "redis (cs_db s) corsOriginsKey \<in> {redis d0 corsOriginsKey, None} \<or> (\<forall>x \<in> redis_set_of (cs_db s). ?T x)"
    unfolding s0(2) by blast+
  from assms(2-4) consider "origin \<in> set (staticOrigins (cs_mw s))" | "origin \<in> fresh_copies s" | "origin \<in> redis_copy (cs_db s)"
    by (auto simp: handler_run setHeaders_def fresh_copies_def split: if_splits)
  then have "?T origin \<or> (\<exists>xs expiry. redis d0 corsOriginsKey = Some (RSet xs, expiry) \<and> origin \<in> set xs \<and>
      (\<forall>e. expiry = Some e \<longrightarrow> now (cs_db s) < e))"
  proof cases
    case 3
    from redis_copyD [OF this] obtain xs expiry where entry: "redis (cs_db s) corsOriginsKey = Some (RSet xs, expiry)"
      and x: "origin \<in> set xs" "\<forall>e. expiry = Some e \<longrightarrow> now (cs_db s) < e" by blast
    from entry x(1) have "origin \<in> redis_set_of (cs_db s)" by (simp add: redis_set_of_def)
    with stored entry x show ?thesis by (metis insertE option.distinct(1) singletonD)
  qed (use static fresh in auto)
  then show ?thesis by (fastforce simp: NewDynamicCORS_def Let_def configured_def)
qed

lemma refresh_healthy:
  assumes "healthy d"
  shows "\<exists>origins. set origins = set (staticOrigins mw) \<union> configured d \<and>
    refreshCache mw d = (Ok (mw\<lparr>memoryCache := origins, memoryCacheAt := now d\<rparr>), cached origins d)"
proof -
  from load_healthy [OF assms] obtain origins where "loadOriginsFromDB d = (Ok origins, d)" "set origins = configured d" by blast
  then show ?thesis by (intro exI [of _ "remdups (staticOrigins mw @ origins)"]) (simp add: refreshCache_def on_error_Ok store_run)
qed

text \<open>A service with one organization whose only origin is its application.\<close>

definition app_db :: db where
  "app_db = (empty_db 5)\<lparr>t_organizations := [\<lparr>org_ID = ''o1'', org_Name = ''Acme'', org_Slug = ''acme'', org_ParentID = None,
     org_Description = None, org_Metadata = ''{}'', org_Settings = ''{}'', org_AllowedOrigins = [''https://app''],
     org_BillingTier = ''free'', org_MaxUsers = 100, org_MaxResources = 1000, org_Status = ''active'', org_CreatedAt = 0,
     org_UpdatedAt = 0, org_DeletedAt = None\<rparr>]\<rparr>"

definition served :: cors_state where
  "served = (case refreshCache (cs_mw (NewDynamicCORS ''http://localhost:5173'' app_db)) app_db of
     (Ok mw, d) \<Rightarrow> \<lparr>cs_db = d, cs_mw = mw, cs_refreshes = []\<rparr>)"

lemma refresh_steps:
  assumes "cs_refreshes s = Started # rs" and "healthy (cs_db s)" and "refreshCache (cs_mw s) (cs_db s) = (Ok mw, d)"
  shows "cors_step\<^sup>*\<^sup>* s (s\<lparr>cs_db := d, cs_mw := mw, cs_refreshes := rs\<rparr>)"
proof -
  from load_healthy [OF assms(2)] obtain origins where load: "loadOriginsFromDB (cs_db s) = (Ok origins, cs_db s)" by blast
  let ?s1 = "s\<lparr>cs_refreshes := Loaded origins # rs\<rparr>"
  have s1: "s\<lparr>cs_db := cs_db s, cs_refreshes := [] @ Loaded origins # rs\<rparr> = ?s1" by simp
  have "cors_step s (s\<lparr>cs_db := cs_db s, cs_refreshes := [] @ Loaded origins # rs\<rparr>)"
    using assms(1) load by (intro cors_step.load) simp_all
  moreover have "store_origins (cs_mw ?s1) origins (cs_db ?s1) = (Ok mw, d)"
    using assms(3) load by (simp add: refreshCache_def on_error_Ok)
  then have "cors_step ?s1 (?s1\<lparr>cs_db := d, cs_mw := mw, cs_refreshes := [] @ rs\<rparr>)"
    by (intro cors_step.store) simp_all
  ultimately show ?thesis unfolding s1 by (simp add: converse_rtranclp_into_rtranclp r_into_rtranclp)
qed

lemma served_reachable: "cors_step\<^sup>*\<^sup>* (NewDynamicCORS ''http://localhost:5173'' app_db) served"
proof -
  let ?s0 = "NewDynamicCORS ''http://localhost:5173'' app_db"
  have s0: "cs_refreshes ?s0 = [Started]" "cs_db ?s0 = app_db" by (simp_all add: NewDynamicCORS_def Let_def)
  have "healthy app_db" by (simp add: app_db_def empty_db_def)
  with refresh_healthy obtain mw d where run: "refreshCache (cs_mw ?s0) app_db = (Ok mw, d)" by blast
  from refresh_steps [of ?s0 "[]" mw d] s0 run \<open>healthy app_db\<close>
  have "cors_step\<^sup>*\<^sup>* ?s0 (?s0\<lparr>cs_db := d, cs_mw := mw, cs_refreshes := []\<rparr>)" by simp
  moreover have "?s0\<lparr>cs_db := d, cs_mw := mw, cs_refreshes := []\<rparr> = served" by (simp add: served_def run)
  ultimately show ?thesis by (simp only:)
qed

theorem admitted_origin_configured_witness:
  "\<exists>s1. cors_step\<^sup>*\<^sup>* s1 served \<and> (\<exists>o1 \<in> set (t_organizations (cs_db s1)). ''https://app'' \<in> set (org_AllowedOrigins o1))"
proof -
  have "redis app_db corsOriginsKey = None" by (simp add: app_db_def empty_db_def)
  moreover have "fst (cors_Handler (cs_mw served) ''https://app'' ''GET'' (cs_db served)) = Ok (setHeaders ''https://app'', True)"
    by code_simp
  then have "cors_Handler (cs_mw served) ''https://app'' ''GET'' (cs_db served) = (Ok (setHeaders ''https://app'', True), cs_db served)"
    by (simp add: handler_run)
  moreover have "(''Access-Control-Allow-Origin'', ''https://app'') \<in> set (setHeaders ''https://app'')" by code_simp
  moreover have "''https://app'' \<notin> set (map trim_space (split_on CHR '','' ''http://localhost:5173''))" by code_simp
  ultimately show ?thesis
    using admitted_origin_configured [OF served_reachable, of "''https://app''" "''GET''" "setHeaders ''https://app''" True "cs_db served"]
    by auto
qed

section \<open>Updates take effect, and lapse\<close>

lemma finish_run:
  assumes "healthy d"
  shows "\<exists>mw' d'. finish rs mw d = (Ok mw', d') \<and> healthy d' \<and> configured d' = configured d \<and> redis_up d' = redis_up d
     \<and> staticOrigins mw' = staticOrigins mw \<and> allowAll mw' = allowAll mw"
  using assms
proof (induction rs arbitrary: mw d)
  case Nil
  then show ?case by simp
next
  case (Cons a rs)
  show ?case
  proof (cases a)
    case Started
    from refresh_healthy [OF Cons.prems] obtain origins where
      run: "refreshCache mw d = (Ok (mw\<lparr>memoryCache := origins, memoryCacheAt := now d\<rparr>), cached origins d)" by blast
    from Cons.IH [of "cached origins d" "mw\<lparr>memoryCache := origins, memoryCacheAt := now d\<rparr>"] Cons.prems Started run
    show ?thesis by (simp add: bnd_Ok)
  next
    case (Loaded xs)
    let ?all = "remdups (staticOrigins mw @ xs)"
    from Cons.IH [of "cached ?all d" "mw\<lparr>memoryCache := ?all, memoryCacheAt := now d\<rparr>"] Cons.prems Loaded
    show ?thesis by (simp add: bnd_Ok store_run)
  qed
qed

lemma finish_append: "finish (rs @ rs') mw = bnd (finish rs mw) (finish rs')"
proof (induction rs arbitrary: mw)
  case Nil
  show ?case by (rule ext) (simp add: bnd_def)
next
  case (Cons a rs)
  show ?case by (cases a; rule ext) (auto simp: bnd_def Cons.IH split: prod.split res.split)
qed

lemma update_Ok:
  assumes "UpdateOrganizationOrigins orgID origins s = (Ok u, s')"
  shows "cs_mw s' = cs_mw s \<and> cs_refreshes s' = cs_refreshes s @ [Started] \<and> faults (cs_db s') = tl (faults (cs_db s))
     \<and> now (cs_db s') = now (cs_db s) \<and> redis (cs_db s') = redis (cs_db s) \<and> redis_up (cs_db s') = redis_up (cs_db s)
     \<and> set origins \<subseteq> configured (cs_db s')"
proof -
  from assms obtain n d where set: "set_origins orgID origins (cs_db s) = (Ok n, d)" and "n \<noteq> 0"
    and s': "s' = s\<lparr>cs_db := d, cs_refreshes := cs_refreshes s @ [Started]\<rparr>"
    by (auto simp: UpdateOrganizationOrigins_def on_db_def InvalidateCache_def elim!: bnd_OkE split: prod.splits if_splits)
  let ?P = "\<lambda>o1. org_ID o1 = orgID \<and> org_Status o1 \<noteq> ''deleted''"
  from exec_on_Ok [OF set [unfolded set_origins_def]] \<open>n \<noteq> 0\<close> obtain o1 where "o1 \<in> set (t_organizations (cs_db s))" "?P o1"
    by (auto simp: update_where_def filter_empty_conv)
  with exec_on_Ok [OF set [unfolded set_origins_def]] s' show ?thesis
    by (auto simp: update_where_def configured_def advance_def intro!: rev_image_eqI [of o1])
qed

text \<open>When the last refresh under way has not read the database yet, the copies end up with what it holds now.\<close>

lemma last_refresh_admits:
  assumes "cs_refreshes s = rs @ [Started]" and "healthy (cs_db s)" and "origin \<in> configured (cs_db s)" and "origin \<noteq> []"
  shows "\<exists>mw d. finish (cs_refreshes s) (cs_mw s) (cs_db s) = (Ok mw, d) \<and>
    cors_Handler mw origin verb d = (Ok (setHeaders (if allowAll mw then ''*'' else origin), verb \<noteq> ''OPTIONS''), d)"
proof -
  from finish_run [OF assms(2), of rs "cs_mw s"] obtain mw d where
    before: "finish rs (cs_mw s) (cs_db s) = (Ok mw, d)" "healthy d" "configured d = configured (cs_db s)" by blast
  from refresh_healthy [OF before(2), of mw] obtain all where all: "set all = set (staticOrigins mw) \<union> configured d"
    "refreshCache mw d = (Ok (mw\<lparr>memoryCache := all, memoryCacheAt := now d\<rparr>), cached all d)" by blast
  then have "finish (cs_refreshes s) (cs_mw s) (cs_db s) = (Ok (mw\<lparr>memoryCache := all, memoryCacheAt := now d\<rparr>), cached all d)"
    using before(1) by (simp add: assms(1) finish_append bnd_Ok)
  moreover have "origin \<in> (if readable (cached all d) then redis_copy (cached all d) else set all)"
    using all(1) before(3) assms(3) copy_cached [of d all] by (auto simp: readable_def)
  ultimately show ?thesis using assms(4) by (auto simp: handler_run split: if_splits)
qed

text \<open>C16. Updated origins take effect: when an organization has set its origins, the database answers, and the
  refreshes under way have come to their end in the order in which they were started, each of the new origins
  is admitted, also when Redis is down.\<close>

theorem updated_origin_admitted:
  assumes "healthy (cs_db s)" and "UpdateOrganizationOrigins orgID origins s = (Ok u, s1)"
    and "origin \<in> set origins" and "origin \<noteq> []"
  shows "\<exists>mw d. finish (cs_refreshes s1) (cs_mw s1) (cs_db s1) = (Ok mw, d) \<and>
    cors_Handler mw origin verb d = (Ok (setHeaders (if allowAll mw then ''*'' else origin), verb \<noteq> ''OPTIONS''), d)"
proof -
  from update_Ok [OF assms(2)] assms(1,3) have "cs_refreshes s1 = cs_refreshes s @ [Started]" "healthy (cs_db s1)"
    "origin \<in> configured (cs_db s1)" by auto
  from last_refresh_admits [OF this assms(4)] show ?thesis .
qed

theorem updated_origin_admitted_witness:
  "\<exists>mw d. finish [Started] (cs_mw served) (cs_db (snd (UpdateOrganizationOrigins ''o1'' [''https://new''] served))) = (Ok mw, d) \<and>
    cors_Handler mw ''https://new'' ''GET'' d = (Ok (setHeaders ''https://new'', True), d)"
proof -
  let ?u = "UpdateOrganizationOrigins ''o1'' [''https://new''] served"
  have healthy: "healthy (cs_db served)" by code_simp
  have "fst ?u = Ok ()" "cs_refreshes served = []" by code_simp+
  then have u: "?u = (Ok (), snd ?u)" "cs_refreshes (snd ?u) = [Started]" "cs_mw (snd ?u) = cs_mw served"
    using update_Ok [of "''o1''" "[''https://new'']" served "()" "snd ?u"] by (simp_all add: prod_eq_iff)
  have "\<not> allowAll (cs_mw served)" by code_simp
  moreover obtain mw d where *: "finish [Started] (cs_mw served) (cs_db (snd ?u)) = (Ok mw, d)"
    "cors_Handler mw ''https://new'' ''GET'' d = (Ok (setHeaders (if allowAll mw then ''*'' else ''https://new''), True), d)"
    using updated_origin_admitted [OF healthy u(1), of "''https://new''" "''GET''"] u by auto
  moreover have "healthy (cs_db (snd ?u))" by code_simp
  from finish_run [OF this, of "[Started]" "cs_mw served"] * have "allowAll mw = allowAll (cs_mw served)" by auto
  ultimately show ?thesis by auto
qed

text \<open>The entry in Redis is not renewed by requests.\<close>

lemma quiet_run:
  assumes "quiet_step\<^sup>*\<^sup>* s s'"
  shows "cs_mw s' = cs_mw s \<and> redis (cs_db s') corsOriginsKey \<in> {redis (cs_db s) corsOriginsKey, None}"
  using assms
proof (induction rule: rtranclp_induct)
  case (step s1 s2)
  from step(2) have "cs_mw s2 = cs_mw s1 \<and> redis (cs_db s2) corsOriginsKey \<in> {redis (cs_db s1) corsOriginsKey, None}"
    by (cases rule: quiet_step.cases) (auto simp: handler_run)
  with step.IH show ?case by auto
qed simp

text \<open>The origins of the organizations lapse: from five minutes after a refresh, while Redis answers and no
  organization updates its origins, every origin that is not in the static list is refused, however many
  requests come. The comment on the cache says that the next request triggers a refresh.\<close>

lemma dynamic_origins_lapse:
  assumes "healthy (cs_db s)" and "redis_up (cs_db s)" and "refreshCache (cs_mw s) (cs_db s) = (Ok mw, d)"
    and "quiet_step\<^sup>*\<^sup>* (s\<lparr>cs_mw := mw, cs_db := d\<rparr>) s'" and "now d + corsCacheTTL \<le> now (cs_db s')" and "redis_up (cs_db s')"
    and "\<not> allowAll (cs_mw s)" and "origin \<notin> set (staticOrigins (cs_mw s))"
  shows "\<exists>further. cors_Handler (cs_mw s') origin verb (cs_db s') = (Ok ([], further), cs_db s')"
proof -
  from refresh_healthy [OF assms(1), of "cs_mw s"] assms(3) obtain all where
    mw: "mw = (cs_mw s)\<lparr>memoryCache := all, memoryCacheAt := now (cs_db s)\<rparr>" and d: "d = cached all (cs_db s)" by auto
  from quiet_run [OF assms(4)] have "cs_mw s' = mw" "redis (cs_db s') corsOriginsKey \<in> {redis d corsOriginsKey, None}" by simp_all
  moreover from this(2) d assms(2,5) have "redis_lookup (cs_db s') corsOriginsKey = None"
    by (auto simp: redis_lookup_def cached_def split: if_splits)
  then have "readable (cs_db s')" "redis_copy (cs_db s') = {}" using assms(6) by (simp_all add: readable_def redis_copy_def)
  ultimately show ?thesis using assms(7,8) mw by (auto simp: handler_run)
qed

text \<open>
  Two refreshes may end in the other order: one that read the database before an update, and writes after the
  refresh of the update, puts the old origins back.
\<close>

lemma stale_refresh_wins:
  assumes "healthy d" and "finish [Started, Loaded old] mw d = (Ok mw', d')"
    and "origin \<notin> set old" and "origin \<notin> set (staticOrigins mw)" and "\<not> allowAll mw"
  shows "\<exists>further. cors_Handler mw' origin verb d' = (Ok ([], further), d')"
proof -
  from refresh_healthy [OF assms(1)] obtain all where
    "refreshCache mw d = (Ok (mw\<lparr>memoryCache := all, memoryCacheAt := now d\<rparr>), cached all d)" by blast
  with assms(2) have "mw' = mw\<lparr>memoryCache := remdups (staticOrigins mw @ old), memoryCacheAt := now d\<rparr>"
    and d': "d' = cached (remdups (staticOrigins mw @ old)) (cached all d)"
    by (auto simp: bnd_Ok store_run)
  moreover have "readable d' \<Longrightarrow> redis_copy d' = set (staticOrigins mw @ old)"
    using d' copy_cached [of "cached all d"] by (auto simp: readable_def)
  ultimately show ?thesis using assms(3-5) by (auto simp: handler_run)
qed

end
