(* ===== verification/OrgHandler.thy ===== *)
theory OrgHandler
  imports OrgStore Cors ResourceHandler AuthHandler
begin

text \<open>
  The organization endpoints of internal/handlers/organization.go and the sign-up of an organization in
  internal/handlers/auth_org.go. Bodies arrive parsed (\<open>None\<close> when the parser refuses them), the numbers of a
  query string as \<open>QueryInt\<close> delivers them. The endpoints of the origins run over the state of the CORS
  middleware, the others over the database.
\<close>

section \<open>Organizations\<close>

definition with_org_id :: "fiber_ctx \<Rightarrow> (string \<Rightarrow> 'a handler) \<Rightarrow> 'a handler" where
  "with_org_id c k = (if c_Param_id c = [] then apiError 400 ''invalid_id'' ''Organization ID required'' else k (c_Param_id c))"

definition org_error :: "string \<Rightarrow> string \<Rightarrow> string \<Rightarrow> 'a handler" where
  "org_error missing what e = (if contains e ''not found'' then apiError 404 ''organization_not_found'' missing
     else apiError 500 ''internal_server_error'' what)"

definition handle_ListOrganizations :: "fiber_ctx \<Rightarrow> 64 word \<Rightarrow> 64 word \<Rightarrow> Organization ListResult handler" where
  "handle_ListOrganizations c limit offset =
     (if sint limit < 1 \<or> sint limit > 1000 then apiError 400 ''invalid_limit'' ''Limit must be between 1 and 1000''
      else if sint offset < 0 then apiError 400 ''invalid_offset'' ''Offset must be non-negative''
      else case c_tenant c of None \<Rightarrow> apiError 401 ''tenant_context_missing'' ''Tenant context not resolved''
      | Some tc \<Rightarrow> on_error (ListOrganizations \<lparr>lp_Limit = sint limit, lp_Offset = sint offset, lp_SortBy = [], lp_Order = []\<rparr> (OrgFilter tc))
          (\<lambda>_. apiError 500 ''internal_server_error'' ''Failed to list organizations'')
          (apiSuccess 200 ''Organizations retrieved''))"

text \<open>The id and the name of each.\<close>

definition handle_ListPublicOrganizations :: "(string \<times> string) list handler" where
  "handle_ListPublicOrganizations =
     on_error (ListOrganizations \<lparr>lp_Limit = 1000, lp_Offset = 0, lp_SortBy = [], lp_Order = []\<rparr> [])
       (\<lambda>_. apiError 500 ''internal_server_error'' ''Failed to list organizations'')
       (\<lambda>res. apiSuccess 200 ''Organizations retrieved''
          (map (\<lambda>o1. (org_ID o1, org_Name o1)) (filter (\<lambda>o1. \<not> IsInternalOrg (org_Slug o1)) (lr_Items res))))"

definition org_defaults :: "string \<Rightarrow> Organization \<Rightarrow> Organization" where
  "org_defaults i org = org\<lparr>org_ID := or_default (org_ID org) i,
     org_Slug := or_default (org_Slug org) (to_lower (map (\<lambda>c. if c = CHR '' '' then CHR ''-'' else c) (org_Name org))),
     org_Status := or_default (org_Status org) ''active'', org_Metadata := or_default (org_Metadata org) ''{}'',
     org_Settings := or_default (org_Settings org) ''{}'', org_BillingTier := or_default (org_BillingTier org) ''free'',
     org_MaxUsers := (if org_MaxUsers org = 0 then 100 else org_MaxUsers org),
     org_MaxResources := (if org_MaxResources org = 0 then 1000 else org_MaxResources org)\<rparr>"

text \<open>An identifier is drawn only when the body has none.\<close>

definition handle_CreateOrganization :: "(string \<Rightarrow> string) \<Rightarrow> Organization option \<Rightarrow> Organization handler" where
  "handle_CreateOrganization jsonb body = (case body of
       None \<Rightarrow> apiError 400 ''invalid_request_body'' ''Failed to parse request body''
     | Some org \<Rightarrow>
         if trim_space (org_Name org) = [] then apiError 400 ''validation_failed'' ''name is required''
         else bnd (if org_ID org = [] then fresh_uuid else ret []) (\<lambda>i.
           on_error (CreateOrganization jsonb (org_defaults i org))
             (\<lambda>e. if contains e ''unique'' then apiError 409 ''organization_exists'' ''Organization with this name or slug already exists''
                else apiError 500 ''internal_server_error'' ''Failed to create organization'')
             (apiSuccess 201 ''Organization created'')))"

definition handle_GetOrganization :: "fiber_ctx \<Rightarrow> Organization handler" where
  "handle_GetOrganization c = with_org_id c (\<lambda>i. on_error (GetOrganization i)
     (org_error ''Organization not found'' ''Failed to get organization'') (apiSuccess 200 ''Organization retrieved''))"

text \<open>The body alone decides what is written: the organization that was read is dropped.\<close>

definition update_org_defaults :: "string \<Rightarrow> Organization \<Rightarrow> Organization" where
  "update_org_defaults i upd = upd\<lparr>org_ID := i, org_Status := or_default (org_Status upd) ''active'',
     org_Metadata := or_default (org_Metadata upd) ''{}'', org_Settings := or_default (org_Settings upd) ''{}''\<rparr>"

definition handle_UpdateOrganization :: "(string \<Rightarrow> string) \<Rightarrow> fiber_ctx \<Rightarrow> Organization option \<Rightarrow> Organization handler" where
  "handle_UpdateOrganization jsonb c body = with_org_id c (\<lambda>i. on_error (GetOrganization i)
     (org_error ''Organization not found'' ''Failed to retrieve organization'')
     (\<lambda>_. case body of None \<Rightarrow> apiError 400 ''invalid_request_body'' ''Failed to parse request body''
        | Some upd \<Rightarrow> on_error (UpdateOrganization jsonb (update_org_defaults i upd))
            (org_error ''Organization not found or deleted'' ''Failed to update organization'')
            (apiSuccess 200 ''Organization updated'')))"

definition handle_DeleteOrganization :: "fiber_ctx \<Rightarrow> (string \<times> instant) handler" where
  "handle_DeleteOrganization c = with_org_id c (\<lambda>i. on_error (DeleteOrganization i)
     (org_error ''Organization not found'' ''Failed to delete organization'')
     (\<lambda>_. gets now (\<lambda>t. apiSuccess 200 ''Organization deleted'' (i, t))))"

section \<open>What belongs to an organization\<close>

text \<open>The organization, the rows and their number.\<close>

definition org_listing :: "fiber_ctx \<Rightarrow> (string \<Rightarrow> 'r list query) \<Rightarrow> string \<Rightarrow> string \<Rightarrow> (string \<times> 'r list \<times> nat) handler" where
  "org_listing c rows failed retrieved = with_org_id c (\<lambda>i. on_error (rows i)
     (\<lambda>_. apiError 500 ''internal_server_error'' failed) (\<lambda>xs. apiSuccess 200 retrieved (i, xs, length xs)))"

definition handle_GetOrganizationUsers :: "fiber_ctx \<Rightarrow> (string \<times> User list \<times> nat) handler" where
  "handle_GetOrganizationUsers c = org_listing c ListOrganizationUsers ''Failed to list users'' ''Users retrieved''"

definition handle_GetOrganizationGroups :: "fiber_ctx \<Rightarrow> (string \<times> Group list \<times> nat) handler" where
  "handle_GetOrganizationGroups c = org_listing c ListOrganizationGroups ''Failed to list groups'' ''Groups retrieved''"

definition handle_GetOrganizationResources :: "fiber_ctx \<Rightarrow> (string \<times> Resource list \<times> nat) handler" where
  "handle_GetOrganizationResources c = org_listing c ListOrganizationResources ''Failed to list resources'' ''Resources retrieved''"

definition handle_GetOrganizationPolicies :: "fiber_ctx \<Rightarrow> (string \<times> Policy list \<times> nat) handler" where
  "handle_GetOrganizationPolicies c = org_listing c ListOrganizationPolicies ''Failed to list policies'' ''Policies retrieved''"

definition handle_GetOrganizationRoles :: "fiber_ctx \<Rightarrow> (string \<times> Role list \<times> nat) handler" where
  "handle_GetOrganizationRoles c = org_listing c ListOrganizationRoles ''Failed to list roles'' ''Roles retrieved''"

section \<open>Settings\<close>

definition handle_GetOrganizationSettings :: "fiber_ctx \<Rightarrow> (string \<times> string) handler" where
  "handle_GetOrganizationSettings c = with_org_id c (\<lambda>i. on_error (GetOrganizationSettings i)
     (org_error ''Organization not found'' ''Failed to get settings'') (\<lambda>settings. apiSuccess 200 ''Settings retrieved'' (i, settings)))"

definition handle_UpdateOrganizationSettings :: "(string \<Rightarrow> string) \<Rightarrow> fiber_ctx \<Rightarrow> string option \<Rightarrow> string handler" where
  "handle_UpdateOrganizationSettings jsonb c body = with_org_id c (\<lambda>i. case body of
       None \<Rightarrow> apiError 400 ''invalid_request_body'' ''Failed to parse request body''
     | Some settings \<Rightarrow>
         if trim_space settings = [] then apiError 400 ''validation_failed'' ''settings is required''
         else on_error (UpdateOrganizationSettings jsonb i settings)
           (org_error ''Organization not found'' ''Failed to update settings'') (\<lambda>_. apiSuccess 200 ''Settings updated'' i))"

definition handle_GetGlobalSettings :: "GlobalSettings list option \<Rightarrow> (GlobalSettings \<times> GlobalSettings list) handler" where
  "handle_GetGlobalSettings settings_table = on_error (GetGlobalSettings settings_table)
     (\<lambda>_. apiError 500 ''internal_server_error'' ''Failed to retrieve global settings'')
     (apiSuccess 200 ''Global settings retrieved successfully'')"

definition handle_UpdateGlobalSettings ::
  "GlobalSettings list option \<Rightarrow> GlobalSettings option \<Rightarrow> (GlobalSettings \<times> GlobalSettings list) handler" where
  "handle_UpdateGlobalSettings settings_table body = (case body of
       None \<Rightarrow> apiError 400 ''invalid_request'' ''Invalid request body''
     | Some settings \<Rightarrow> on_error (UpdateGlobalSettings settings_table settings)
         (\<lambda>_. apiError 500 ''internal_server_error'' ''Failed to update global settings'')
         (apiSuccess 200 ''Global settings updated successfully''))"

section \<open>Origins\<close>

text \<open>A handler over the state of the CORS middleware; \<open>configured_cors\<close> is whether the handler has one.\<close>

type_synonym 'a cors_handler = "(cors_state, 'a http) prog"

definition with_cors :: "bool \<Rightarrow> fiber_ctx \<Rightarrow> (string \<Rightarrow> 'a cors_handler) \<Rightarrow> 'a cors_handler" where
  "with_cors configured_cors c k =
     (if c_Param_id c = [] then on_db (apiError 400 ''invalid_id'' ''Organization ID required'')
      else if \<not> configured_cors then on_db (apiError 500 ''internal_server_error'' ''CORS middleware not configured'')
      else k (c_Param_id c))"

definition handle_GetOrganizationOrigins :: "bool \<Rightarrow> fiber_ctx \<Rightarrow> (string \<times> string list) cors_handler" where
  "handle_GetOrganizationOrigins configured_cors c = with_cors configured_cors c (\<lambda>i. on_db (on_error (GetOrganizationOrigins i)
     (org_error ''Organization not found'' ''Failed to get origins'') (\<lambda>origins. apiSuccess 200 ''Origins retrieved'' (i, origins))))"

definition http_origin :: "string \<Rightarrow> bool" where
  "http_origin o1 \<longleftrightarrow> prefix ''http://'' o1 \<or> prefix ''https://'' o1"

text \<open>The complaint about the first origin that is refused.\<close>

fun bad_origin :: "string list \<Rightarrow> string option" where
  "bad_origin [] = None"
| "bad_origin (o1 # rest) = (let trimmed = trim_space o1 in
     if trimmed = [] then Some ''Empty origin is not allowed''
     else if \<not> http_origin trimmed then Some (''Origin must start with http:// or https://: '' @ trimmed)
     else bad_origin rest)"

definition origins_updated :: string where
  "origins_updated = ''Origins updated '' @ [CHR 0xE2, CHR 0x80, CHR 0x94] @ '' changes take effect immediately''"

text \<open>What is stored are the origins as they were sent, not trimmed.\<close>

definition handle_UpdateOrganizationOrigins :: "bool \<Rightarrow> fiber_ctx \<Rightarrow> string list option \<Rightarrow> (string \<times> string list) cors_handler" where
  "handle_UpdateOrganizationOrigins configured_cors c body = with_cors configured_cors c (\<lambda>i. case body of
       None \<Rightarrow> on_db (apiError 400 ''invalid_request_body'' ''Failed to parse request body'')
     | Some origins \<Rightarrow> (case bad_origin origins of
         Some complaint \<Rightarrow> on_db (apiError 400 ''validation_failed'' complaint)
       | None \<Rightarrow> on_error (UpdateOrganizationOrigins i origins)
           (\<lambda>e. on_db (org_error ''Organization not found'' ''Failed to update origins'' e))
           (\<lambda>_. on_db (apiSuccess 200 origins_updated (i, origins)))))"

section \<open>Sign-up\<close>

record RegisterOrganizationRequest =
  ro_OrganizationName :: string
  ro_Username :: string
  ro_Email :: string
  ro_Password :: string
  ro_DisplayName :: string
  ro_AllowedOrigins :: "string list"

definition org_admin :: "RegisterOrganizationRequest \<Rightarrow> string \<Rightarrow> string \<Rightarrow> string \<Rightarrow> instant \<Rightarrow> User" where
  "org_admin req orgID i hash t = registered_user \<lparr>rq_Username = ro_Username req, rq_Email = ro_Email req, rq_Password = [],
     rq_DisplayName = ro_DisplayName req, rq_OrganizationID = orgID\<rparr> i (ro_Email req) hash False t"

text \<open>The name is set with a second update whose errors are only logged; the slug it sets is not written.\<close>

definition name_org :: "(string \<Rightarrow> string) \<Rightarrow> string \<Rightarrow> string \<Rightarrow> unit query" where
  "name_org jsonb orgID name = bnd (attempt (GetOrganization orgID)) (\<lambda>found. case found of
       Inl _ \<Rightarrow> ret ()
     | Inr org \<Rightarrow> bnd (first8 orgID) (\<lambda>short.
         ignore (UpdateOrganization jsonb (org\<lparr>org_Name := name, org_Slug := ''org-'' @ short\<rparr>))))"

text \<open>The Origin header of the request is taken as it is, the origins of the body when they have a scheme.\<close>

definition signup_origins :: "string \<Rightarrow> string list \<Rightarrow> string list" where
  "signup_origins header origins = remdups ((if header = [] then [] else [header])
     @ filter (\<lambda>o1. o1 \<noteq> [] \<and> http_origin o1) (map trim_space origins))"

text \<open>The reply is the user, the organization, the name, the address and the role.\<close>

definition handle_RegisterOrganization ::
  "auth_env \<Rightarrow> bool \<Rightarrow> string \<Rightarrow> RegisterOrganizationRequest option
     \<Rightarrow> (string \<times> string \<times> string \<times> string \<times> string) cors_handler" where
  "handle_RegisterOrganization env configured_cors header body = (case body of
       None \<Rightarrow> on_db (apiError 400 ''invalid_request'' ''Invalid request format'')
     | Some req \<Rightarrow> (case bcrypt_hash env (ro_Password req) of
         None \<Rightarrow> on_db (apiError 500 ''server_error'' ''Failed to process password'')
       | Some hash \<Rightarrow> bnd (on_db fresh_uuid) (\<lambda>newOrgID. bnd (on_db fresh_uuid) (\<lambda>i. bnd (on_db (gets now ret)) (\<lambda>t.
           on_error (on_db (CreateAdminUser (jsonb_of env) (org_admin req newOrgID i hash t)))
             (\<lambda>_. on_db (apiError 500 ''server_error'' ''Failed to create organization. Please try again.''))
             (\<lambda>orgID. bnd (on_db (name_org (jsonb_of env) orgID (ro_OrganizationName req))) (\<lambda>_.
               let origins = signup_origins header (ro_AllowedOrigins req) in
               bnd (if configured_cors \<and> origins \<noteq> [] then ignore (UpdateOrganizationOrigins orgID origins) else ret ()) (\<lambda>_.
               bnd (on_db fresh_uuid) (\<lambda>verificationToken.
               bnd (on_db (ignore (SetEmailVerificationToken i verificationToken (24 * hour)))) (\<lambda>_.
               on_db (apiSuccess 201 ''Organization created successfully. Please check your email to verify your account.''
                 (i, orgID, ro_Username req, ro_Email req, ''admin''))))))))))))"

end
