(* ===== verification/UserStore.thy ===== *)
theory UserStore
  imports RoleStore SessionStore
begin

text \<open>
  Users as managed entities, service accounts and their API keys: internal/queries/user.go. What PostgreSQL
  does with the texts of its own types is the parameter \<open>pg_types\<close>: the normal form of a JSONB document, adding
  a key to one and removing it (which fails for a scalar), reading an INTERVAL and an INET.
\<close>

record pg_types =
  pg_jsonb :: "string \<Rightarrow> string"
  pg_with_key :: "string \<Rightarrow> string \<Rightarrow> string \<Rightarrow> string"
  pg_without_key :: "string \<Rightarrow> string \<Rightarrow> string option"
  pg_interval :: "string \<Rightarrow> string option"
  pg_inet :: "string \<Rightarrow> string option"

section \<open>Users\<close>

text \<open>The users table with its foreign key into the organizations.\<close>

definition store_users :: "'a \<Rightarrow> User list \<Rightarrow> db \<Rightarrow> string + 'a \<times> db" where
  "store_users x t d = (case users_violation t of Some e \<Rightarrow> Inl e
     | None \<Rightarrow> if \<exists>u \<in> set t. usr_OrganizationID u \<notin> org_ID ` set (t_organizations d)
         then Inl (foreign_key ''users_organization_id_fkey'') else Inr (x, put_users t d))"

text \<open>
  The role that is shown: of any organization, system roles first, whatever the status or the expiry.
\<close>

definition shown_role :: "string \<Rightarrow> db \<Rightarrow> string" where
  "shown_role userID d =
     (case sort_key (\<lambda>r. if rol_IsSystemRole r then 0 else 1 :: nat) [r. ra \<leftarrow> t_role_assignments d, r \<leftarrow> t_roles d,
         ra_RoleID ra = rol_ID r \<and> ra_PrincipalID ra = userID \<and> ra_PrincipalType ra = ''user''] of
       [] \<Rightarrow> ''user'' | r # _ \<Rightarrow> rol_Name r)"

text \<open>The columns that are selected: neither the password hash nor the TOTP secret, and the MFA lists are emptied.\<close>

definition listed_user :: "db \<Rightarrow> User \<Rightarrow> User" where
  "listed_user d u = u\<lparr>usr_PasswordHash := [], usr_TOTPSecret := [], usr_MFAMethods := [], usr_MFABackupCodes := [],
     usr_Attributes := (if usr_Attributes u = [] then ''{}'' else usr_Attributes u),
     usr_Preferences := (if usr_Preferences u = [] then ''{}'' else usr_Preferences u), usr_Role := shown_role (usr_ID u) d\<rparr>"

definition live_user :: "string \<Rightarrow> string \<Rightarrow> User \<Rightarrow> bool" where
  "live_user i organizationID u \<longleftrightarrow> usr_ID u = i \<and> usr_OrganizationID u = organizationID \<and> usr_DeletedAt u = None"

definition ListUsers ::
  "(string \<Rightarrow> bool \<Rightarrow> User list \<Rightarrow> User list) \<Rightarrow> ListParams \<Rightarrow> string \<Rightarrow> User ListResult query" where
  "ListUsers sorted_by params organizationID =
     (let column = (if lp_SortBy params \<in> set [''username'', ''email'', ''display_name'', ''created_at'', ''updated_at'']
            then lp_SortBy params else ''created_at'');
          members = (\<lambda>d. filter (\<lambda>u. usr_DeletedAt u = None \<and> usr_OrganizationID u = organizationID) (t_users d))
      in bnd (select_page (lp_Limit params) (lp_Offset params)
               (\<lambda>d. map (listed_user d) (sorted_by column (lp_Order params = ''asc'') (members d)))) (\<lambda>users.
         bnd (select (\<lambda>d. length (members d))) (\<lambda>total. lift (list_result params users (int total)))))"

definition GetUser :: "string \<Rightarrow> string \<Rightarrow> User query" where
  "GetUser i organizationID = bnd (select (\<lambda>d. map_option (listed_user d) (find (live_user i organizationID) (t_users d))))
     (\<lambda>r. case r of None \<Rightarrow> fail ''user not found'' | Some u \<Rightarrow> ret u)"

text \<open>
  The backup codes are joined with commas, which is no literal of a text array; none at all is NULL. The MFA
  methods, attributes and preferences of the struct are not stored.
\<close>

definition users_CreateUser :: "User \<Rightarrow> unit query" where
  "users_CreateUser user = stmt (\<lambda>d.
     if usr_MFABackupCodes user \<noteq> [] then Inl ''pq: malformed array literal''
     else store_users () (t_users d @ [user\<lparr>usr_MFAMethods := [], usr_TOTPSecret := [], usr_Attributes := ''{}'',
            usr_Preferences := ''{}'', usr_Role := []\<rparr>]) d)"

text \<open>Every column but the id and the TOTP secret is written, the MFA lists as empty; no row is no error.\<close>

definition users_UpdateUser :: "pg_types \<Rightarrow> User \<Rightarrow> string \<Rightarrow> unit query" where
  "users_UpdateUser pg user organizationID =
     (let attributes = (if usr_Attributes user = [] then ''{}'' else usr_Attributes user);
          preferences = (if usr_Preferences user = [] then ''{}'' else usr_Preferences user)
      in json_stmt [attributes, preferences] (stmt (\<lambda>d. store_users ()
        (map (\<lambda>u. if usr_ID u = usr_ID user \<and> usr_OrganizationID u = organizationID
           then user\<lparr>usr_MFAMethods := [], usr_MFABackupCodes := [], usr_Attributes := pg_jsonb pg attributes,
             usr_Preferences := pg_jsonb pg preferences, usr_TOTPSecret := usr_TOTPSecret u, usr_Role := [],
             usr_CreatedAt := usr_CreatedAt u\<rparr> else u) (t_users d)) d)))"

definition must_change :: "string \<Rightarrow> (db \<Rightarrow> string + nat \<times> db) \<Rightarrow> unit query" where
  "must_change missing f = bnd (stmt f) (\<lambda>n. if n = 0 then fail missing else ret ())"

definition change_users_checked :: "(User \<Rightarrow> bool) \<Rightarrow> (User \<Rightarrow> User) \<Rightarrow> db \<Rightarrow> string + nat \<times> db" where
  "change_users_checked P f d = store_users (length (filter P (t_users d))) (map (\<lambda>u. if P u then f u else u) (t_users d)) d"

definition DeleteUser :: "string \<Rightarrow> string \<Rightarrow> unit query" where
  "DeleteUser i organizationID = must_change ''user not found or already deleted'' (\<lambda>d. change_users_checked
     (\<lambda>u. usr_ID u = i \<and> usr_OrganizationID u = organizationID \<and> usr_Status u \<noteq> ''deleted'')
     (\<lambda>u. u\<lparr>usr_Status := ''deleted'', usr_DeletedAt := Some (now d), usr_UpdatedAt := now d\<rparr>) d)"

definition GetUserProfile :: "string \<Rightarrow> string \<Rightarrow> User query" where
  "GetUserProfile = GetUser"

text \<open>The columns of the map of updates; it is scoped by the id alone.\<close>

record profile_updates =
  pu_DisplayName :: "string option"
  pu_AvatarURL :: "string option"
  pu_Attributes :: "string option"
  pu_Preferences :: "string option"
  pu_UpdatedAt :: "instant option"

definition set_field :: "'v option \<Rightarrow> ('v \<Rightarrow> 'r \<Rightarrow> 'r) \<Rightarrow> 'r \<Rightarrow> 'r" where
  "set_field v f r = (case v of None \<Rightarrow> r | Some x \<Rightarrow> f x r)"

definition update_profile :: "pg_types \<Rightarrow> profile_updates \<Rightarrow> User \<Rightarrow> User" where
  "update_profile pg p u = set_field (pu_DisplayName p) (\<lambda>x. usr_DisplayName_update (\<lambda>_. x))
     (set_field (pu_AvatarURL p) (\<lambda>x. usr_AvatarURL_update (\<lambda>_. Some x))
     (set_field (pu_Attributes p) (\<lambda>x. usr_Attributes_update (\<lambda>_. pg_jsonb pg x))
     (set_field (pu_Preferences p) (\<lambda>x. usr_Preferences_update (\<lambda>_. pg_jsonb pg x))
     (set_field (pu_UpdatedAt p) (\<lambda>x. usr_UpdatedAt_update (\<lambda>_. x)) u))))"

definition UpdateUserProfile :: "pg_types \<Rightarrow> string \<Rightarrow> profile_updates \<Rightarrow> unit query" where
  "UpdateUserProfile pg userID updates =
     (if updates = \<lparr>pu_DisplayName = None, pu_AvatarURL = None, pu_Attributes = None, pu_Preferences = None, pu_UpdatedAt = None\<rparr>
      then ret ()
      else json_stmt [s. Some s \<leftarrow> [pu_Attributes updates, pu_Preferences updates]]
        (must_change ''user not found'' (change_users_checked (\<lambda>u. usr_ID u = userID \<and> usr_DeletedAt u = None)
          (update_profile pg updates))))"

definition SuspendUser :: "pg_types \<Rightarrow> string \<Rightarrow> string \<Rightarrow> string \<Rightarrow> unit query" where
  "SuspendUser pg userID organizationID reason = must_change ''user not found'' (\<lambda>d. change_users_checked
     (live_user userID organizationID) (\<lambda>u. u\<lparr>usr_Status := ''suspended'',
        usr_Attributes := pg_with_key pg (usr_Attributes u) ''suspension_reason'' reason, usr_UpdatedAt := now d\<rparr>) d)"

definition ActivateUser :: "pg_types \<Rightarrow> string \<Rightarrow> string \<Rightarrow> unit query" where
  "ActivateUser pg userID organizationID = must_change ''user not found'' (\<lambda>d.
     let without = (\<lambda>u. pg_without_key pg (usr_Attributes u) ''suspension_reason'') in
     if \<exists>u \<in> set (t_users d). live_user userID organizationID u \<and> without u = None then Inl ''pq: cannot delete from scalar''
     else change_users_checked (live_user userID organizationID)
       (\<lambda>u. u\<lparr>usr_Status := ''active'', usr_Attributes := the (without u), usr_UpdatedAt := now d\<rparr>) d)"

section \<open>Sessions of a user\<close>

text \<open>RevokeUserSessions, the other operation of internal/queries/user.go on sessions, is in \<open>SessionStore\<close>.\<close>

text \<open>The columns that are selected, the token among them.\<close>

definition listed_session :: "Session \<Rightarrow> Session" where
  "listed_session s = s\<lparr>ses_Permissions := [], ses_Context := [], ses_MFAMethodsUsed := [], ses_DeviceFingerprint := None,
     ses_Location := [], ses_LastUsedAt := 0\<rparr>"

definition GetUserSessions :: "string \<Rightarrow> string \<Rightarrow> Session list query" where
  "GetUserSessions userID organizationID =
     select (\<lambda>d. map listed_session (filter (active_of userID organizationID) (t_sessions d)))"

end
