(* ===== verification/AccountStore.thy ===== *)
theory AccountStore
  imports UserStore
begin

text \<open>
  Service accounts and their API keys: the second half of internal/queries/user.go. A key names its service
  account and its organization in two columns of their own.
\<close>

section \<open>The tables\<close>

definition put_accounts :: "ServiceAccount list \<Rightarrow> db \<Rightarrow> db" where
  "put_accounts t d = d\<lparr>t_service_accounts := t\<rparr>"

definition put_keys :: "APIKey list \<Rightarrow> db \<Rightarrow> db" where
  "put_keys t d = d\<lparr>t_api_keys := t\<rparr>"

definition accounts_violation :: "db \<Rightarrow> ServiceAccount list \<Rightarrow> string option" where
  "accounts_violation d t =
     (if \<exists>a \<in> set t. sa_Status a \<notin> set entity_status then Some (bad_enum ''entity_status'')
      else if \<exists>a \<in> set t. length (sa_Name a) > 255 then Some varchar_overflow
      else if \<exists>a \<in> set t. \<not> valid_username (sa_Name a) then Some (check_violation ''valid_sa_name'')
      else if \<not> distinct (map sa_ID t) then Some (duplicate_key ''service_accounts_pkey'')
      else if \<not> distinct (map (\<lambda>a. (sa_OrganizationID a, sa_Name a)) t) then Some (duplicate_key ''unique_sa_name_per_org'')
      else if \<exists>a \<in> set t. sa_OrganizationID a \<notin> org_ID ` set (t_organizations d)
        then Some (foreign_key ''service_accounts_organization_id_fkey'')
      else None)"

definition keys_violation :: "db \<Rightarrow> APIKey list \<Rightarrow> string option" where
  "keys_violation d t =
     (if \<exists>k \<in> set t. ak_Status k \<notin> set entity_status then Some (bad_enum ''entity_status'')
      else if \<exists>k \<in> set t. \<not> int4 (ak_RateLimitPerHour k) then Some int4_overflow
      else if \<exists>k \<in> set t. length (ak_Name k) > 255 \<or> length (ak_KeyID k) > 50 \<or> length (ak_KeyHash k) > 255 then Some varchar_overflow
      else if \<not> distinct (map ak_ID t) then Some (duplicate_key ''api_keys_pkey'')
      else if \<not> distinct (map ak_KeyID t) then Some (duplicate_key ''api_keys_key_id_key'')
      else if \<not> distinct (map (\<lambda>k. (ak_ServiceAccountID k, ak_Name k)) t) then Some (duplicate_key ''unique_key_name_per_sa'')
      else if \<exists>k \<in> set t. ak_ServiceAccountID k \<notin> sa_ID ` set (t_service_accounts d)
        then Some (foreign_key ''api_keys_service_account_id_fkey'')
      else if \<exists>k \<in> set t. ak_OrganizationID k \<notin> org_ID ` set (t_organizations d)
        then Some (foreign_key ''api_keys_organization_id_fkey'')
      else if \<exists>k \<in> set t. ak_CreatedBy k \<noteq> [] \<and> ak_CreatedBy k \<notin> usr_ID ` set (t_users d)
        then Some (foreign_key ''api_keys_created_by_fkey'')
      else None)"

text \<open>The texts of the columns of types INTERVAL and INET[], or the error of the first that does not parse.\<close>

definition typed_columns :: "pg_types \<Rightarrow> string \<Rightarrow> string list \<Rightarrow> string + string \<times> string list" where
  "typed_columns pg lifetime ranges = (case pg_interval pg lifetime of
       None \<Rightarrow> Inl ''pq: invalid input syntax for type interval''
     | Some i \<Rightarrow> if list_ex (\<lambda>r. pg_inet pg r = None) ranges then Inl ''pq: invalid input syntax for type inet''
         else Inr (i, map (\<lambda>r. the (pg_inet pg r)) ranges))"

definition inet_columns :: "pg_types \<Rightarrow> string list \<Rightarrow> string + string list" where
  "inet_columns pg ranges = (if list_ex (\<lambda>r. pg_inet pg r = None) ranges then Inl ''pq: invalid input syntax for type inet''
     else Inr (map (\<lambda>r. the (pg_inet pg r)) ranges))"

section \<open>Service accounts\<close>

definition live_account :: "string \<Rightarrow> string \<Rightarrow> ServiceAccount \<Rightarrow> bool" where
  "live_account i organizationID a \<longleftrightarrow> sa_ID a = i \<and> sa_OrganizationID a = organizationID \<and> sa_DeletedAt a = None"

definition ListServiceAccounts :: "ListParams \<Rightarrow> string \<Rightarrow> ServiceAccount ListResult query" where
  "ListServiceAccounts params organizationID =
     (let accounts = (\<lambda>d. filter (\<lambda>a. sa_OrganizationID a = organizationID \<and> sa_DeletedAt a = None) (t_service_accounts d))
      in bnd (select_page (lp_Limit params) (lp_Offset params) (\<lambda>d. order_desc sa_CreatedAt (accounts d))) (\<lambda>sas.
         bnd (select (\<lambda>d. int (length (accounts d)))) (\<lambda>total.
         ret \<lparr>lr_Items = sas, lr_Total = total, lr_Limit = lp_Limit params, lr_Offset = lp_Offset params,
           lr_HasMore = (lp_Offset params + int (length sas) < total), lr_TotalPages = 0\<rparr>)))"

text \<open>The row of an insert: the last key rotation takes its default.\<close>

definition CreateServiceAccount :: "pg_types \<Rightarrow> ServiceAccount \<Rightarrow> ServiceAccount query" where
  "CreateServiceAccount pg a = gets now (\<lambda>t. bnd (json_stmt [sa_KeyRotationPolicy a, sa_Attributes a] (stmt (\<lambda>d.
       case typed_columns pg (sa_MaxTokenLifetime a) (sa_AllowedIPRanges a) of Inl e \<Rightarrow> Inl e
       | Inr (lifetime, ranges) \<Rightarrow>
           let row = a\<lparr>sa_KeyRotationPolicy := pg_jsonb pg (sa_KeyRotationPolicy a), sa_Attributes := pg_jsonb pg (sa_Attributes a),
                 sa_AllowedIPRanges := ranges, sa_MaxTokenLifetime := lifetime, sa_LastKeyRotation := t, sa_CreatedAt := t,
                 sa_UpdatedAt := t, sa_DeletedAt := None\<rparr> in
           case accounts_violation d (t_service_accounts d @ [row]) of Some e \<Rightarrow> Inl e
           | None \<Rightarrow> Inr ((), put_accounts (t_service_accounts d @ [row]) d))))
     (\<lambda>_. ret (a\<lparr>sa_CreatedAt := t, sa_UpdatedAt := t\<rparr>)))"

definition GetServiceAccount :: "string \<Rightarrow> string \<Rightarrow> ServiceAccount query" where
  "GetServiceAccount i organizationID = bnd (select (\<lambda>d. find (live_account i organizationID) (t_service_accounts d)))
     (\<lambda>r. case r of None \<Rightarrow> fail ''service account not found'' | Some a \<Rightarrow> ret a)"

text \<open>The organization that scopes the statement is the one of the struct, not the argument.\<close>

definition UpdateServiceAccount :: "pg_types \<Rightarrow> ServiceAccount \<Rightarrow> string \<Rightarrow> unit query" where
  "UpdateServiceAccount pg a organizationID = json_stmt [sa_KeyRotationPolicy a, sa_Attributes a]
     (must_change ''service account not found'' (\<lambda>d.
       case typed_columns pg (sa_MaxTokenLifetime a) (sa_AllowedIPRanges a) of Inl e \<Rightarrow> Inl e
       | Inr (lifetime, ranges) \<Rightarrow>
           let P = live_account (sa_ID a) (sa_OrganizationID a);
               t = map (\<lambda>r. if P r then r\<lparr>sa_Name := sa_Name a, sa_Description := sa_Description a,
                 sa_KeyRotationPolicy := pg_jsonb pg (sa_KeyRotationPolicy a), sa_AllowedIPRanges := ranges,
                 sa_MaxTokenLifetime := lifetime, sa_Attributes := pg_jsonb pg (sa_Attributes a), sa_Status := sa_Status a,
                 sa_UpdatedAt := now d\<rparr> else r) (t_service_accounts d) in
           case accounts_violation d t of Some e \<Rightarrow> Inl e
           | None \<Rightarrow> Inr (length (filter P (t_service_accounts d)), put_accounts t d)))"

definition DeleteServiceAccount :: "string \<Rightarrow> string \<Rightarrow> unit query" where
  "DeleteServiceAccount i organizationID = bnd (exec_on t_service_accounts put_accounts (\<lambda>d.
       update_where (live_account i organizationID) (\<lambda>a. a\<lparr>sa_DeletedAt := Some (now d), sa_Status := ''deleted''\<rparr>)))
     (\<lambda>n. if n = 0 then fail ''service account not found'' else ret ())"

section \<open>API keys\<close>

text \<open>The account is any that exists: neither its organization nor its deletion is looked at.\<close>

definition GenerateAPIKey :: "pg_types \<Rightarrow> string \<Rightarrow> APIKey \<Rightarrow> string \<Rightarrow> APIKey query" where
  "GenerateAPIKey pg saID key organizationID = gets now (\<lambda>t. bnd (stmt (\<lambda>d.
       case inet_columns pg (ak_AllowedIPRanges key) of Inl e \<Rightarrow> Inl e
       | Inr ranges \<Rightarrow>
           let row = key\<lparr>ak_ServiceAccountID := saID, ak_OrganizationID := organizationID, ak_AllowedIPRanges := ranges,
                 ak_LastUsedAt := 0, ak_UsageCount := 0, ak_CreatedAt := t\<rparr> in
           case keys_violation d (t_api_keys d @ [row]) of Some e \<Rightarrow> Inl e
           | None \<Rightarrow> Inr ((), put_keys (t_api_keys d @ [row]) d)))
     (\<lambda>_. ret (key\<lparr>ak_CreatedAt := t\<rparr>)))"

definition ListAPIKeys :: "string \<Rightarrow> string \<Rightarrow> APIKey list query" where
  "ListAPIKeys saID organizationID = select (\<lambda>d. map (\<lambda>k. k\<lparr>ak_KeyHash := []\<rparr>)
     (filter (\<lambda>k. ak_ServiceAccountID k = saID \<and> ak_OrganizationID k = organizationID \<and> ak_Status k \<noteq> ''deleted'') (t_api_keys d)))"

text \<open>An assignment of a status: a text that is no label of the enumeration is refused before any row is looked at.\<close>

definition set_key_status :: "string \<Rightarrow> (APIKey \<Rightarrow> bool) \<Rightarrow> nat query" where
  "set_key_status status P = (if status \<notin> set entity_status then stmt (\<lambda>_. Inl (bad_enum ''entity_status''))
     else exec_on t_api_keys put_keys (\<lambda>d. update_where P (\<lambda>k. k\<lparr>ak_Status := status\<rparr>)))"

definition RevokeAPIKey :: "string \<Rightarrow> string \<Rightarrow> string \<Rightarrow> unit query" where
  "RevokeAPIKey saID keyID organizationID = bnd (set_key_status ''deleted''
     (\<lambda>k. ak_ServiceAccountID k = saID \<and> ak_ID k = keyID \<and> ak_OrganizationID k = organizationID)) (\<lambda>_. ret ())"

definition RotateServiceAccountKeys :: "string \<Rightarrow> string \<Rightarrow> unit query" where
  "RotateServiceAccountKeys saID organizationID = transaction
     (bnd (set_key_status ''revoked'' (\<lambda>k. ak_ServiceAccountID k = saID \<and> ak_OrganizationID k = organizationID)) (\<lambda>_.
      bnd (exec_on t_service_accounts put_accounts (\<lambda>d. update_where
        (\<lambda>a. sa_ID a = saID \<and> sa_OrganizationID a = organizationID) (\<lambda>a. a\<lparr>sa_LastKeyRotation := now d\<rparr>))) (\<lambda>_. ret ())))"

end
