(* ===== verification/UserHandler.thy ===== *)
theory UserHandler
  imports UserStore AuthHandler GroupHandler
begin

text \<open>
  The user endpoints of internal/handlers/user.go. Query parameters arrive as \<open>strconv.Atoi\<close> delivers them,
  bodies parsed (\<open>None\<close> when the parser refuses them); a body's missing text field is the empty text.
\<close>

text \<open>The check of the path parameter that most endpoints share.\<close>

definition with_user_id :: "fiber_ctx \<Rightarrow> (string \<Rightarrow> 'a handler) \<Rightarrow> 'a handler" where
  "with_user_id c k = (if c_Param_id c = [] then apiError 400 ''invalid_request'' ''User ID is required'' else k (c_Param_id c))"

text \<open>The answer to an error of the store: 404 for a missing row, 500 with \<open>what\<close> otherwise.\<close>

definition user_error :: "string \<Rightarrow> string \<Rightarrow> string \<Rightarrow> 'a handler" where
  "user_error missing what e = (if isNotFoundErr e then apiError 404 ''not_found'' missing else apiError 500 ''server_error'' what)"

section \<open>Creation\<close>

definition ensureAndAssignUserRole :: "(string \<Rightarrow> string) \<Rightarrow> string \<Rightarrow> string \<Rightarrow> string \<Rightarrow> unit query" where
  "ensureAndAssignUserRole jsonb userID orgID assignedBy =
     bnd (wrap ''failed to ensure user role'' (EnsureRoleByName ''user'' ''Standard user with basic access'' orgID)) (\<lambda>roleID.
     bnd fresh_uuid (\<lambda>i. bnd (AssignRole jsonb \<lparr>ra_ID = i, ra_RoleID = roleID, ra_PrincipalID = userID, ra_PrincipalType = ''user'',
         ra_AssignedBy = Some assignedBy, ra_AssignedAt = 0, ra_ExpiresAt = None, ra_Conditions = ''{}''\<rparr> orgID) (\<lambda>_. ret ())))"

record CreateUserRequest =
  cu_Username :: string
  cu_Email :: string
  cu_DisplayName :: string
  cu_Password :: string

definition created_user :: "CreateUserRequest \<Rightarrow> string \<Rightarrow> string \<Rightarrow> string \<Rightarrow> string \<Rightarrow> instant \<Rightarrow> User" where
  "created_user req i email organizationID hash t = \<lparr>usr_ID = i, usr_Username = cu_Username req, usr_Email = email,
     usr_EmailVerified = False, usr_DisplayName = cu_DisplayName req, usr_AvatarURL = None, usr_OrganizationID = organizationID,
     usr_PasswordHash = hash, usr_PasswordChangedAt = None, usr_MFAEnabled = False, usr_MFAMethods = [], usr_TOTPSecret = [],
     usr_MFABackupCodes = [], usr_Attributes = [], usr_Preferences = [], usr_Role = [], usr_LastLogin = None,
     usr_FailedLoginAttempts = 0, usr_LockedUntil = None, usr_Status = ''active'', usr_CreatedAt = t, usr_UpdatedAt = t,
     usr_DeletedAt = None\<rparr>"

definition user_event :: "string \<Rightarrow> string \<Rightarrow> string \<Rightarrow> string \<Rightarrow> string \<Rightarrow> unit query" where
  "user_event orgID actor action userID severity = LogEvent (no_event\<lparr>aev_OrganizationID := orgID,
     aev_PrincipalID := StringPtr actor, aev_PrincipalType := StringPtr ''user'', aev_Action := action,
     aev_ResourceType := StringPtr ''user'', aev_ResourceID := StringPtr userID, aev_Result := ''success'',
     aev_Severity := severity\<rparr>)"

definition create_user_error :: "string \<Rightarrow> 'a handler" where
  "create_user_error e =
     (if contains e ''unique_username_per_org''
      then apiError 409 ''conflict'' ''A user with this username already exists in your organization''
      else if contains e ''unique_email_per_org''
      then apiError 409 ''conflict'' ''A user with this email already exists in your organization''
      else apiError 500 ''server_error'' ''Failed to create user. Please try again.'')"

definition users_handle_CreateUser :: "auth_env \<Rightarrow> fiber_ctx \<Rightarrow> CreateUserRequest option \<Rightarrow> User handler" where
  "users_handle_CreateUser env c body = (case body of
       None \<Rightarrow> apiError 400 ''invalid_request'' ''Invalid request body''
     | Some req \<Rightarrow> let email = trim_space (to_lower (cu_Email req)) in
         if email = [] \<or> cu_Password req = [] then apiError 400 ''validation_error'' ''Email and password are required''
         else bnd (local_string (c_organization_id c)) (\<lambda>organizationID.
           bnd (attempt (GetUserByEmail email organizationID)) (\<lambda>existing. case existing of
             Inr _ \<Rightarrow> apiError 409 ''conflict'' ''A user with this email already exists in your organization''
           | Inl _ \<Rightarrow> (case bcrypt_hash env (cu_Password req) of
               None \<Rightarrow> apiError 500 ''server_error'' ''Failed to process user creation. Please try again.''
             | Some hash \<Rightarrow> bnd fresh_uuid (\<lambda>i. gets now (\<lambda>t.
                 let user = created_user req i email organizationID hash t in
                 on_error (users_CreateUser user) create_user_error (\<lambda>_.
                   bnd (local_string (c_user_id c)) (\<lambda>actor.
                   bnd (ignore (ensureAndAssignUserRole (jsonb_of env) i organizationID actor)) (\<lambda>_.
                   bnd (user_event organizationID actor ''create_user'' i ''MEDIUM'') (\<lambda>_.
                   apiSuccess 201 ''User created successfully'' (user\<lparr>usr_PasswordHash := []\<rparr>)))))))))))"

section \<open>Reads\<close>

text \<open>The items with the page, the limit, the total, the number of pages and whether there are more.\<close>

definition handle_ListUsers ::
  "(string \<Rightarrow> bool \<Rightarrow> User list \<Rightarrow> User list) \<Rightarrow> fiber_ctx \<Rightarrow> 64 word \<Rightarrow> 64 word \<Rightarrow> string \<Rightarrow> string
     \<Rightarrow> (User list \<times> int \<times> int \<times> int \<times> int \<times> bool) handler" where
  "handle_ListUsers sorted_by c given_page given_limit sortBy order =
     (let page = (if sint given_page < 1 then 1 else given_page);
          limit = (if sint given_limit < 1 \<or> sint given_limit > 100 then 10 else given_limit);
          params = \<lparr>lp_Limit = sint limit, lp_Offset = sint ((page - 1) * limit), lp_SortBy = sortBy, lp_Order = order\<rparr>
      in bnd (local_string (c_organization_id c)) (\<lambda>organizationID.
        on_error (ListUsers sorted_by params organizationID)
          (\<lambda>_. apiError 500 ''server_error'' ''Failed to retrieve users. Please try again later.'')
          (\<lambda>r. apiSuccess 200 [] (lr_Items r, sint page, lr_Limit r, lr_Total r, lr_TotalPages r, lr_HasMore r))))"

definition handle_GetUser :: "fiber_ctx \<Rightarrow> User handler" where
  "handle_GetUser c = with_user_id c (\<lambda>userID. bnd (local_string (c_organization_id c)) (\<lambda>organizationID.
     on_error (GetUser userID organizationID) (user_error ''User not found'' ''Failed to retrieve user'')
       (\<lambda>user. apiSuccess 200 ''User retrieved successfully'' (user\<lparr>usr_PasswordHash := []\<rparr>))))"

definition handle_GetUserProfile :: "fiber_ctx \<Rightarrow> User handler" where
  "handle_GetUserProfile c = with_user_id c (\<lambda>userID. bnd (local_string (c_organization_id c)) (\<lambda>organizationID.
     on_error (GetUserProfile userID organizationID) (user_error ''User profile not found'' ''Failed to retrieve user profile'')
       (\<lambda>user. apiSuccess 200 ''User profile retrieved successfully'' (user\<lparr>usr_PasswordHash := [], usr_MFABackupCodes := []\<rparr>))))"

section \<open>Changes\<close>

record update_user_body =
  uu_Username :: string
  uu_Email :: string
  uu_DisplayName :: string
  uu_OrganizationID :: string
  uu_Status :: string

text \<open>The user that was read, with the fields of the body that are not empty.\<close>

definition merged_user :: "update_user_body \<Rightarrow> instant \<Rightarrow> User \<Rightarrow> User" where
  "merged_user req t u = u\<lparr>usr_Username := or_default (uu_Username req) (usr_Username u),
     usr_Email := or_default (uu_Email req) (usr_Email u), usr_DisplayName := or_default (uu_DisplayName req) (usr_DisplayName u),
     usr_OrganizationID := or_default (uu_OrganizationID req) (usr_OrganizationID u),
     usr_Status := or_default (uu_Status req) (usr_Status u), usr_UpdatedAt := t\<rparr>"

definition users_handle_UpdateUser :: "pg_types \<Rightarrow> fiber_ctx \<Rightarrow> update_user_body option \<Rightarrow> User handler" where
  "users_handle_UpdateUser pg c body = with_user_id c (\<lambda>userID. case body of
       None \<Rightarrow> apiError 400 ''invalid_request'' ''Invalid request body''
     | Some req \<Rightarrow> bnd (local_string (c_organization_id c)) (\<lambda>organizationID.
         on_error (GetUser userID organizationID) (user_error ''User not found'' ''Failed to retrieve user'')
           (\<lambda>found. gets now (\<lambda>t. let user = merged_user req t found in
              on_error (users_UpdateUser pg user organizationID)
                (\<lambda>e. if isConflictErr e then apiError 409 ''conflict'' ''A user with that username or email already exists''
                   else apiError 500 ''server_error'' ''Failed to update user. Please try again.'')
                (\<lambda>_. apiSuccess 200 ''User updated successfully'' (user\<lparr>usr_PasswordHash := []\<rparr>))))))"

definition handle_DeleteUser :: "fiber_ctx \<Rightarrow> unit handler" where
  "handle_DeleteUser c = with_user_id c (\<lambda>userID. bnd (local_string (c_organization_id c)) (\<lambda>organizationID.
     on_error (GetUser userID organizationID) (user_error ''User not found'' ''Failed to delete user'')
       (\<lambda>_. on_error (DeleteUser userID organizationID)
          (\<lambda>_. apiError 500 ''server_error'' ''Failed to delete user. Please try again.'')
          (\<lambda>_. apiSuccess 200 ''User deleted successfully'' ()))))"

record update_profile_body =
  up_DisplayName :: string
  up_AvatarURL :: string
  up_Attributes :: string
  up_Preferences :: string

definition non_empty :: "string \<Rightarrow> string option" where
  "non_empty s = (if s = [] then None else Some s)"

text \<open>The path decides whose profile it is; the locals of the request are not read.\<close>

definition handle_UpdateUserProfile :: "pg_types \<Rightarrow> fiber_ctx \<Rightarrow> update_profile_body option \<Rightarrow> unit handler" where
  "handle_UpdateUserProfile pg c body = (let userID = c_Param_id c in
     if userID = [] then json_error 400 ''User ID is required''
     else case body of None \<Rightarrow> apiError 400 ''invalid_request'' ''Invalid request body''
     | Some req \<Rightarrow> gets now (\<lambda>t.
         if up_DisplayName req = [] \<and> up_AvatarURL req = [] \<and> up_Attributes req = [] \<and> up_Preferences req = []
         then apiError 400 ''validation_error'' ''No valid fields to update''
         else on_error (UpdateUserProfile pg userID \<lparr>pu_DisplayName = non_empty (up_DisplayName req),
               pu_AvatarURL = non_empty (up_AvatarURL req), pu_Attributes = non_empty (up_Attributes req),
               pu_Preferences = non_empty (up_Preferences req), pu_UpdatedAt = Some t\<rparr>)
           (\<lambda>_. apiError 500 ''server_error'' ''Failed to update user profile'')
           (\<lambda>_. apiSuccess 200 ''User profile updated successfully'' ())))"

text \<open>The body is the current password and the new one; its length is counted in bytes.\<close>

definition handle_ChangePassword :: "auth_env \<Rightarrow> pg_types \<Rightarrow> fiber_ctx \<Rightarrow> (string \<times> string) option \<Rightarrow> unit handler" where
  "handle_ChangePassword env pg c body = with_user_id c (\<lambda>userID. bnd (local_string (c_user_id c)) (\<lambda>authenticated.
     if userID \<noteq> authenticated then apiError 403 ''forbidden'' ''You can only change your own password''
     else case body of None \<Rightarrow> apiError 400 ''invalid_request'' ''Invalid request body''
     | Some (current, new) \<Rightarrow>
         if current = [] \<or> new = [] then apiError 400 ''validation_error'' ''Both current and new password are required''
         else if length new < 8 then apiError 400 ''validation_error'' ''New password must be at least 8 characters''
         else bnd (local_string (c_organization_id c)) (\<lambda>organizationID.
           on_error (GetUserByID userID organizationID) (user_error ''User not found'' ''Failed to retrieve user'')
             (\<lambda>user. if \<not> bcrypt_ok env (usr_PasswordHash user) current
                then apiError 401 ''invalid_credentials'' ''Current password is incorrect''
                else case bcrypt_hash env new of None \<Rightarrow> apiError 500 ''server_error'' ''Failed to process password change''
                | Some hash \<Rightarrow> gets now (\<lambda>t.
                    on_error (users_UpdateUser pg (user\<lparr>usr_PasswordHash := hash, usr_PasswordChangedAt := Some t,
                        usr_UpdatedAt := t\<rparr>) organizationID)
                      (\<lambda>_. apiError 500 ''server_error'' ''Failed to change password'')
                      (\<lambda>_. bnd (user_event organizationID userID ''change_password'' userID ''info'') (\<lambda>_.
                         apiSuccess 200 ''Password changed successfully'' ())))))))"

definition handle_SuspendUser :: "pg_types \<Rightarrow> fiber_ctx \<Rightarrow> string option \<Rightarrow> unit handler" where
  "handle_SuspendUser pg c body = with_user_id c (\<lambda>userID. case body of
       None \<Rightarrow> apiError 400 ''invalid_request'' ''Invalid request body''
     | Some reason \<Rightarrow>
         if reason = [] then apiError 400 ''validation_error'' ''Suspension reason is required''
         else bnd (local_string (c_organization_id c)) (\<lambda>organizationID.
           on_error (SuspendUser pg userID organizationID reason) (user_error ''User not found'' ''Failed to suspend user'')
             (\<lambda>_. apiSuccess 200 ''User suspended successfully'' ())))"

text \<open>A body that does not parse is only logged.\<close>

definition handle_ActivateUser :: "pg_types \<Rightarrow> fiber_ctx \<Rightarrow> unit handler" where
  "handle_ActivateUser pg c = (let userID = c_Param_id c in
     if userID = [] then json_error 400 ''User ID is required''
     else bnd (local_string (c_organization_id c)) (\<lambda>organizationID.
       on_error (ActivateUser pg userID organizationID) (user_error ''User not found'' ''Failed to activate user'')
         (\<lambda>_. apiSuccess 200 ''User activated successfully'' ())))"

section \<open>Sessions\<close>

definition handle_GetUserSessions :: "fiber_ctx \<Rightarrow> Session list handler" where
  "handle_GetUserSessions c = with_user_id c (\<lambda>userID. bnd (local_string (c_organization_id c)) (\<lambda>organizationID.
     on_error (GetUserSessions userID organizationID)
       (\<lambda>_. apiError 500 ''server_error'' ''Failed to retrieve user sessions'')
       (apiSuccess 200 ''User sessions retrieved'')))"

definition handle_RevokeUserSessions :: "fiber_ctx \<Rightarrow> unit handler" where
  "handle_RevokeUserSessions c = with_user_id c (\<lambda>userID. bnd (local_string (c_organization_id c)) (\<lambda>organizationID.
     on_error (RevokeUserSessions userID organizationID)
       (\<lambda>_. apiError 500 ''server_error'' ''Failed to revoke user sessions'')
       (\<lambda>_. apiSuccess 200 ''User sessions revoked successfully'' ())))"

end
