(* ===== verification/AccountHandler.thy ===== *)
theory AccountHandler
  imports AccountStore UserHandler
begin

text \<open>
  The service account endpoints of internal/handlers/user.go. \<open>rand_hex n\<close> is the hexadecimal text of \<open>n\<close>
  bytes of crypto/rand, \<open>None\<close> when the source fails; \<open>add_year\<close> is \<open>AddDate(1, 0, 0)\<close> in UTC.
\<close>

section \<open>A year later\<close>

text \<open>Days before the first of January of a year, counted from the first of January of year 1.\<close>

definition year_start :: "int \<Rightarrow> int" where
  "year_start y = 365 * (y - 1) + (y - 1) div 4 - (y - 1) div 100 + (y - 1) div 400"

definition leap_year :: "int \<Rightarrow> bool" where
  "leap_year y \<longleftrightarrow> y mod 4 = 0 \<and> (y mod 100 \<noteq> 0 \<or> y mod 400 = 0)"

text \<open>The estimate is at most one off.\<close>

definition year_of :: "int \<Rightarrow> int" where
  "year_of n = (let y = n * 400 div 146097 + 1 in
     if n < year_start y then y - 1 else if year_start (y + 1) \<le> n then y + 1 else y)"

text \<open>The 29th of February becomes the first of March; that day has the index 59 of a common year.\<close>

definition add_year :: "instant \<Rightarrow> instant" where
  "add_year t = (let day = 24 * 3600 * second; n = t div day; y = year_of n; k = n - year_start y;
       k' = (if leap_year y \<and> k > 59 then k - 1 else if leap_year (y + 1) \<and> k \<ge> 59 then k + 1 else k)
     in (year_start (y + 1) + k') * day + t mod day)"

section \<open>Service accounts\<close>

definition handle_ListServiceAccounts :: "fiber_ctx \<Rightarrow> 64 word \<Rightarrow> 64 word \<Rightarrow> string \<Rightarrow> string \<Rightarrow> ServiceAccount ListResult handler" where
  "handle_ListServiceAccounts c given_page given_limit sortBy order =
     (let limit = (if sint given_limit > 100 then 100 else given_limit);
          page = (if sint given_page < 1 then 1 else given_page)
      in bnd (local_string (c_organization_id c)) (\<lambda>organizationID.
        on_error (ListServiceAccounts \<lparr>lp_Limit = sint limit, lp_Offset = sint ((page - 1) * limit), lp_SortBy = sortBy,
            lp_Order = order\<rparr> organizationID)
          (\<lambda>_. apiError 500 ''internal_server_error'' ''Failed to retrieve service accounts'')
          (apiSuccess 200 ''Service accounts retrieved successfully'')))"

definition rotation_default :: string where
  "rotation_default = (let q = [CHR 0x22] in ''{'' @ q @ ''enabled'' @ q @ '': true, '' @ q @ ''rotation_days'' @ q @ '': 90}'')"

definition handle_CreateServiceAccount :: "pg_types \<Rightarrow> fiber_ctx \<Rightarrow> ServiceAccount option \<Rightarrow> ServiceAccount handler" where
  "handle_CreateServiceAccount pg c body = (case body of
       None \<Rightarrow> apiError 400 ''invalid_request'' ''Invalid request body''
     | Some sa \<Rightarrow>
         if sa_Name sa = [] then apiError 400 ''validation_error'' ''Service account name is required''
         else if \<not> list_all (alnum_or ''._-'') (sa_Name sa)
         then apiError 400 ''validation_error''
           ''Service account name may only contain letters, numbers, dots, underscores, and hyphens (no spaces)''
         else if length (sa_Name sa) < 3
         then apiError 400 ''validation_error'' ''Service account name must be at least 3 characters''
         else bnd fresh_uuid (\<lambda>i. bnd (local_string (c_organization_id c)) (\<lambda>organizationID. gets now (\<lambda>t.
           on_error (CreateServiceAccount pg (sa\<lparr>sa_ID := i, sa_OrganizationID := organizationID,
               sa_KeyRotationPolicy := or_default (sa_KeyRotationPolicy sa) rotation_default,
               sa_Attributes := or_default (sa_Attributes sa) ''{}'',
               sa_MaxTokenLifetime := or_default (sa_MaxTokenLifetime sa) ''24 hours'', sa_Status := ''active'',
               sa_CreatedAt := t, sa_UpdatedAt := t, sa_LastKeyRotation := t\<rparr>))
             (\<lambda>e. if contains e ''unique_sa_name_per_org''
                then apiError 409 ''conflict'' ''A service account with this name already exists in your organization''
                else apiError 500 ''internal_server_error'' ''Failed to create service account'')
             (apiSuccess 201 ''Service account created successfully'')))))"

definition account_error :: "string \<Rightarrow> string \<Rightarrow> string \<Rightarrow> string \<Rightarrow> 'a handler" where
  "account_error missing code what e = (if isNotFoundErr e then apiError 404 ''not_found'' missing else apiError 500 code what)"

definition handle_GetServiceAccount :: "fiber_ctx \<Rightarrow> ServiceAccount handler" where
  "handle_GetServiceAccount c = bnd (local_string (c_organization_id c)) (\<lambda>organizationID.
     on_error (GetServiceAccount (c_Param_id c) organizationID)
       (account_error ''Service account not found'' ''server_error'' ''Failed to retrieve service account'')
       (apiSuccess 200 ''Service account retrieved successfully''))"

text \<open>The fields of the body that are not empty; the address ranges of the body are not taken over.\<close>

definition merged_account :: "ServiceAccount \<Rightarrow> instant \<Rightarrow> ServiceAccount \<Rightarrow> ServiceAccount" where
  "merged_account req t a = a\<lparr>sa_Name := or_default (sa_Name req) (sa_Name a),
     sa_Description := or_default (sa_Description req) (sa_Description a),
     sa_Status := or_default (or_default (sa_Status req) (sa_Status a)) ''active'',
     sa_KeyRotationPolicy := or_default (or_default (sa_KeyRotationPolicy req) (sa_KeyRotationPolicy a)) rotation_default,
     sa_Attributes := or_default (or_default (sa_Attributes req) (sa_Attributes a)) ''{}'',
     sa_MaxTokenLifetime := or_default (or_default (sa_MaxTokenLifetime req) (sa_MaxTokenLifetime a)) ''24 hours'',
     sa_UpdatedAt := t\<rparr>"

definition handle_UpdateServiceAccount :: "pg_types \<Rightarrow> fiber_ctx \<Rightarrow> ServiceAccount option \<Rightarrow> ServiceAccount handler" where
  "handle_UpdateServiceAccount pg c body = (case body of
       None \<Rightarrow> apiError 400 ''invalid_request'' ''Invalid request body''
     | Some req \<Rightarrow> bnd (local_string (c_organization_id c)) (\<lambda>organizationID.
         on_error (GetServiceAccount (c_Param_id c) organizationID)
           (account_error ''Service account not found'' ''server_error'' ''Failed to retrieve service account'')
           (\<lambda>existing. gets now (\<lambda>t. let sa = merged_account req t existing in
              on_error (UpdateServiceAccount pg sa organizationID)
                (\<lambda>_. apiError 500 ''internal_server_error'' ''Failed to update service account'')
                (\<lambda>_. apiSuccess 200 ''Service account updated successfully'' sa)))))"

definition handle_DeleteServiceAccount :: "fiber_ctx \<Rightarrow> string handler" where
  "handle_DeleteServiceAccount c = bnd (local_string (c_organization_id c)) (\<lambda>organizationID.
     on_error (DeleteServiceAccount (c_Param_id c) organizationID)
       (account_error ''Service account not found'' ''internal_server_error'' ''Failed to delete service account'')
       (\<lambda>_. apiSuccess 200 ''Service account deleted successfully'' (c_Param_id c)))"

section \<open>API keys\<close>

text \<open>The reply is the key as it was sent to the store, and the secret. An error of the second read of random bytes is not seen.\<close>

definition handle_GenerateAPIKey ::
  "auth_env \<Rightarrow> pg_types \<Rightarrow> (nat \<Rightarrow> string option) \<Rightarrow> fiber_ctx \<Rightarrow> APIKey option \<Rightarrow> (APIKey \<times> string) handler" where
  "handle_GenerateAPIKey env pg rand_hex c body = (case body of
       None \<Rightarrow> apiError 400 ''invalid_request'' ''Invalid request body''
     | Some key \<Rightarrow> bnd (local_string (c_organization_id c)) (\<lambda>organizationID.
         (case rand_hex 32 of None \<Rightarrow> apiError 500 ''internal_server_error'' ''Failed to generate API key''
          | Some hex \<Rightarrow> let apiSecret = ''mk_'' @ hex;
                keyID = ''aki_'' @ (case rand_hex 16 of None \<Rightarrow> replicate 32 (CHR ''0'') | Some h \<Rightarrow> h) in
              (case bcrypt_hash env apiSecret of
                 None \<Rightarrow> apiError 500 ''internal_server_error'' ''Failed to process API key generation''
               | Some hash \<Rightarrow> bnd fresh_uuid (\<lambda>i. gets now (\<lambda>t.
                   on_error (GenerateAPIKey pg (c_Param_id c) (key\<lparr>ak_OrganizationID := organizationID,
                       ak_CreatedBy := given (c_user_id c) (ak_CreatedBy key), ak_KeyID := or_default (ak_KeyID key) keyID,
                       ak_ID := i, ak_ServiceAccountID := c_Param_id c, ak_KeyHash := hash, ak_Status := ''active'',
                       ak_CreatedAt := t, ak_ExpiresAt := (if ak_ExpiresAt key = 0 then add_year t else ak_ExpiresAt key)\<rparr>)
                       organizationID)
                     (account_error ''Service account not found'' ''internal_server_error'' ''Failed to generate API key'')
                     (\<lambda>k. apiSuccess 201 ''API key generated successfully'' (k, apiSecret))))))))"

definition handle_ListAPIKeys :: "fiber_ctx \<Rightarrow> APIKey list handler" where
  "handle_ListAPIKeys c = bnd (local_string (c_organization_id c)) (\<lambda>organizationID.
     on_error (ListAPIKeys (c_Param_id c) organizationID)
       (account_error ''Service account not found'' ''internal_server_error'' ''Failed to retrieve API keys'')
       (apiSuccess 200 ''API keys retrieved successfully''))"

definition handle_RevokeAPIKey :: "fiber_ctx \<Rightarrow> string \<Rightarrow> (string \<times> string) handler" where
  "handle_RevokeAPIKey c keyID = bnd (local_string (c_organization_id c)) (\<lambda>organizationID.
     on_error (RevokeAPIKey (c_Param_id c) keyID organizationID)
       (account_error ''API key not found'' ''internal_server_error'' ''Failed to revoke API key'')
       (\<lambda>_. apiSuccess 200 ''API key revoked successfully'' (c_Param_id c, keyID)))"

definition handle_RotateServiceAccountKeys :: "fiber_ctx \<Rightarrow> (string \<times> instant) handler" where
  "handle_RotateServiceAccountKeys c = bnd (local_string (c_organization_id c)) (\<lambda>organizationID.
     on_error (RotateServiceAccountKeys (c_Param_id c) organizationID)
       (account_error ''Service account not found'' ''internal_server_error'' ''Failed to rotate service account keys'')
       (\<lambda>_. gets now (\<lambda>t. apiSuccess 200 ''Service account keys rotated successfully'' (c_Param_id c, t))))"

section \<open>The calendar\<close>

text \<open>The year found contains the day.\<close>

lemma year_start_near:
  "146097 * m - 700 < 400 * year_start (m + 1) \<and> 400 * year_start (m + 1) < 146097 * m + 400"
proof -
  have "4 * (m div 4) \<le> m" "m < 4 * (m div 4) + 4" "100 * (m div 100) \<le> m" "m < 100 * (m div 100) + 100"
    "400 * (m div 400) \<le> m" "m < 400 * (m div 400) + 400"
    by linarith+
  then show ?thesis unfolding year_start_def by simp
qed

lemma year_of_bounds: "year_start (year_of n) \<le> n \<and> n < year_start (year_of n + 1)"
proof -
  define m where "m = n * 400 div 146097"
  have "146097 * m \<le> n * 400" "n * 400 < 146097 * m + 146097" unfolding m_def by linarith+
  then show ?thesis
    using year_start_near [of "m - 1"] year_start_near [of "m + 2"]
    by (simp add: year_of_def m_def [symmetric] Let_def add.commute)
qed

end
