(* ===== verification/UserFlow.thy ===== *)
theory UserFlow
  imports AccountHandler AuthFlow
begin

text \<open>
  What the user endpoints do together with login, password reset and the middlewares: edits erase the password
  of the account, and open the way to other accounts and to the system organization.
\<close>

section \<open>What an update stores\<close>

lemma find_map_same: "(\<And>x. P (f x) = P x) \<Longrightarrow> find P (map f xs) = map_option f (find P xs)"
  by (induction xs) simp_all

lemma store_users_Inr:
  "store_users x t d = Inr (y, d') \<Longrightarrow> y = x \<and> d' = put_users t d \<and> users_violation t = None
     \<and> (\<forall>u \<in> set t. usr_OrganizationID u \<in> org_ID ` set (t_organizations d))"
  by (auto simp: store_users_def split: option.splits if_splits)

lemma users_violation_distinct: "users_violation t = None \<Longrightarrow> distinct (map usr_ID t)"
  by (auto simp: users_violation_def Let_def split: if_splits)

text \<open>The row that an update writes for the user it read.\<close>

definition written_user :: "pg_types \<Rightarrow> User \<Rightarrow> User \<Rightarrow> User" where
  "written_user pg user u = user\<lparr>usr_MFAMethods := [], usr_MFABackupCodes := [],
     usr_Attributes := pg_jsonb pg (if usr_Attributes user = [] then ''{}'' else usr_Attributes user),
     usr_Preferences := pg_jsonb pg (if usr_Preferences user = [] then ''{}'' else usr_Preferences user),
     usr_TOTPSecret := usr_TOTPSecret u, usr_Role := [], usr_CreatedAt := usr_CreatedAt u\<rparr>"

lemma json_stmt_OkD: "json_stmt texts m d = (Ok x, d') \<Longrightarrow> m d = (Ok x, d')"
  by (auto simp: json_stmt_def elim!: stmt_OkE split: if_splits)

lemma users_UpdateUser_Ok:
  assumes "users_UpdateUser pg user organizationID d = (Ok x, d')"
  shows "d' = put_users (map (\<lambda>u. if usr_ID u = usr_ID user \<and> usr_OrganizationID u = organizationID
      then written_user pg user u else u) (t_users d)) (advance d) \<and> users_violation (t_users d') = None"
  using assms unfolding users_UpdateUser_def Let_def
  by (auto dest!: json_stmt_OkD store_users_Inr elim!: stmt_OkE simp: written_user_def cong: map_cong)

lemma GetUser_Ok:
  "GetUser i org d = (Ok u, d') \<Longrightarrow> d' = advance d \<and> (\<exists>row \<in> set (t_users d). live_user i org row \<and> u = listed_user d row)"
proof -
  have "listed_user (advance d) = listed_user d" by (rule ext) (simp add: listed_user_def shown_role_def)
  then show "GetUser i org d = (Ok u, d') \<Longrightarrow> ?thesis"
    unfolding GetUser_def
    by (auto elim!: bnd_OkE dest!: select_Ok find_SomeD split: option.splits)
qed

text \<open>A successful edit: the row of the user and the row it became.\<close>

lemma update_user_OkE:
  assumes "users_handle_UpdateUser pg c body d = (Ok (Success st msg u), d')"
  obtains req org row where "body = Some req" and "c_organization_id c = Some org" and "row \<in> set (t_users d)"
    and "live_user (c_Param_id c) org row"
    and "u = merged_user req (now d) (listed_user d row)"
    and "t_users d' = map (\<lambda>x. if usr_ID x = c_Param_id c \<and> usr_OrganizationID x = org then written_user pg u x else x) (t_users d)"
    and "distinct (map usr_ID (t_users d'))" and "d' = put_users (t_users d') (advance (advance d))"
proof -
  from assms obtain req org found d1 x where parts: "body = Some req" "c_organization_id c = Some org"
    and get: "GetUser (c_Param_id c) org d = (Ok found, d1)"
    and upd: "users_UpdateUser pg (merged_user req (now d1) found) org d1 = (Ok x, d')"
    and u: "u = (merged_user req (now d1) found)\<lparr>usr_PasswordHash := []\<rparr>"
    by (auto simp: users_handle_UpdateUser_def with_user_id_def user_error_def Let_def elim!: on_error_OkE bnd_OkE
        dest!: local_string_Ok split: option.splits if_splits)
  from GetUser_Ok [OF get] obtain row where row: "row \<in> set (t_users d)" "live_user (c_Param_id c) org row" "d1 = advance d"
    and found: "found = listed_user d row" by auto
  have m: "usr_ID (merged_user req t found) = c_Param_id c" "usr_PasswordHash (merged_user req t found) = []" for t
    using row(2) found by (simp_all add: merged_user_def listed_user_def live_user_def)
  then have ueq: "u = merged_user req (now d) found" using u row(3) by simp
  from users_UpdateUser_Ok [OF upd] m row(3) ueq found
  have written: "d' = put_users (map (\<lambda>x. if usr_ID x = c_Param_id c \<and> usr_OrganizationID x = org then written_user pg u x else x)
      (t_users d)) (advance (advance d))"
    by simp
  from users_UpdateUser_Ok [OF upd] have "users_violation (t_users d') = None" ..
  then have "distinct (map usr_ID (t_users d'))" by (intro users_violation_distinct)
  moreover have "t_users d' = map (\<lambda>x. if usr_ID x = c_Param_id c \<and> usr_OrganizationID x = org then written_user pg u x else x)
      (t_users d)" using written by simp
  moreover have "d' = put_users (t_users d') (advance (advance d))" using written by simp
  ultimately show ?thesis
    using parts row ueq found by (intro that [of req org row]) simp_all
qed

section \<open>Mail, reset, login\<close>

text \<open>
  Whoever reads the mail of an account signs in to it: after forgot-password and reset-password a login with
  the new password runs through, when the account is the first live row with its email.
\<close>

definition recover :: "auth_env \<Rightarrow> fiber_ctx \<Rightarrow> string \<Rightarrow> string \<Rightarrow> db \<Rightarrow> (login_reply http) res \<times> db" where
  "recover env c email password d = (case handle_ForgotPassword (Some email) d of
     (_, d1) \<Rightarrow> case handle_ResetPassword env (Some (uuids d 0, password)) d1 of
       (_, d2) \<Rightarrow> handle_Login env c (Some (email, password)) d2)"

lemma forgot_run:
  assumes "healthy d" and "redis_up d" and "find (\<lambda>u. usr_Email u = email \<and> in_scope [] u) (t_users d) = Some row"
  shows "handle_ForgotPassword (Some email) d = (Ok (Success 200
     ''If an account with that email exists, a password reset link has been sent'' ()),
     d\<lparr>uuids := (\<lambda>n. uuids d (Suc n)), redis := (redis d)(''password_reset:'' @ uuids d 0 \<mapsto> (RString (usr_ID row), Some (now d + hour)))\<rparr>)"
  using assms
  by (simp add: handle_ForgotPassword_def GetUserByEmail_def one_user_def on_error_def attempt_def bnd_def select_ok fresh_uuid_def
      SetPasswordResetToken_def redis_set_def redis_cmd_def reset_sent_def scanned_user_def hour_def)

lemma reset_password_run:
  assumes "healthy d" and "redis_up d" and "redis_lookup d (''password_reset:'' @ token) = Some (RString i)" and "i \<noteq> []"
    and "bcrypt_hash env password = Some hash"
  obtains d' where "handle_ResetPassword env (Some (token, password)) d = (Ok (Success 200 ''Password updated successfully'' ()), d')"
    and "t_users d' = map (\<lambda>x. if usr_ID x = i then x\<lparr>usr_PasswordHash := hash, usr_PasswordChangedAt := Some (now d),
      usr_UpdatedAt := now d\<rparr> else x) (t_users d)" and "healthy d'" and "now d' = now d" and "uuids d' = uuids d"
    and "t_roles d' = t_roles d" and "t_role_assignments d' = t_role_assignments d" and "redis d \<noteq> redis d' \<longrightarrow>
      (\<forall>j. redis d (''blacklist:'' @ j) = None \<longrightarrow> redis d' (''blacklist:'' @ j) = None)"
  using assms
  by (auto simp: handle_ResetPassword_def Let_def GetPasswordResetToken_def redis_result_def redis_get_run bnd_def attempt_def
      UpdatePassword_def change_users_def exec_on_ok update_where_def on_error_def ignore_def DeletePasswordResetToken_def redis_del_def
      InvalidateUserSessions_def redis_cmd_def intro!: that)

lemma login_token:
  assumes "signs_for env am" and "\<forall>m. sign env m \<noteq> None" and "healthy d" and "0 \<le> now d"
    and "redis d (''blacklist:'' @ uuids d 0) = None" and "password \<noteq> []" and "trim_space (to_lower email) \<noteq> []"
    and "find (\<lambda>u. usr_Email u = trim_space (to_lower email) \<and> in_scope [] u) (t_users d) = Some row"
    and "bcrypt_ok env (usr_PasswordHash row) password" and "usr_Status row = ''active''" and "\<not> usr_MFAEnabled row"
  shows "\<exists>resp d'. handle_Login env c (Some (email, password)) d = (Ok (Success 200 ''Login successful'' (LoggedIn resp)), d') \<and>
    (\<forall>request. c_Authorization request = ''Bearer '' @ lr_AccessToken resp \<longrightarrow>
      (\<exists>claims. authenticated (jwt env) am request d' = Some claims \<and> cl_UserID claims = usr_ID row \<and>
        cl_OrganizationID claims = usr_OrganizationID row \<and>
        cl_Role claims = token_role (usr_ID row) (usr_OrganizationID row) d))"
proof -
  from login_runs [OF assms(3,8,7,6,9-11,2), of c] obtain resp d' where
    run: "handle_Login env c (Some (email, password)) d = (Ok (Success 200 ''Login successful'' (LoggedIn resp)), d')"
    and role: "lr_Role resp = token_role (usr_ID row) (usr_OrganizationID row) d"
    and sig: "sign env (access_claims env (scanned_user row) (uuids d 0) (lr_Role resp) (now d)) = Some (lr_AccessToken resp)"
    by blast
  have "same_key (''blacklist:'' @ uuids d 0) d d'" by (rule keepsD [OF same_key_login run]) simp
  then have d': "redis_lookup d' (''blacklist:'' @ uuids d 0) = None" "now d' = now d"
    using assms(5) by (simp_all add: same_key_def redis_lookup_def)
  have "authenticated (jwt env) am request d'
      = Some (to_claims (access_claims env (scanned_user row) (uuids d 0) (lr_Role resp) (now d')))"
    if "c_Authorization request = ''Bearer '' @ lr_AccessToken resp" for request
    using access_token_authenticates [OF assms(1) _ _ d'(1) that] sig assms(4) d'(2) by simp
  with run role show ?thesis by (intro exI [of _ resp] exI [of _ d']) (simp add: scanned_user_def)
qed

lemma recover_runs:
  assumes "signs_for env am" and "\<forall>m. sign env m \<noteq> None" and "bcrypt_hash env password = Some hash"
    and "bcrypt_ok env hash password" and "password \<noteq> []" and "healthy d" and "redis_up d" and "0 \<le> now d"
    and "\<forall>n. redis d (''blacklist:'' @ uuids d n) = None" and "trim_space (to_lower email) = email" and "email \<noteq> []"
    and "find (\<lambda>u. usr_Email u = email \<and> in_scope [] u) (t_users d) = Some row" and "usr_ID row \<noteq> []"
    and "usr_Status row = ''active''" and "\<not> usr_MFAEnabled row"
  shows "\<exists>resp d'. recover env c email password d = (Ok (Success 200 ''Login successful'' (LoggedIn resp)), d') \<and>
    (\<forall>request. c_Authorization request = ''Bearer '' @ lr_AccessToken resp \<longrightarrow>
      (\<exists>claims. authenticated (jwt env) am request d' = Some claims \<and> cl_UserID claims = usr_ID row \<and>
        cl_OrganizationID claims = usr_OrganizationID row \<and>
        cl_Role claims = token_role (usr_ID row) (usr_OrganizationID row) d))"
proof -
  let ?key = "''password_reset:'' @ uuids d 0"
  define d1 where "d1 = d\<lparr>uuids := (\<lambda>n. uuids d (Suc n)), redis := (redis d)(?key \<mapsto> (RString (usr_ID row), Some (now d + hour)))\<rparr>"
  have forgot: "\<exists>r. handle_ForgotPassword (Some email) d = (r, d1)"
    using forgot_run [OF assms(6,7,12)] by (simp add: d1_def)
  have d1: "healthy d1" "redis_up d1" "redis_lookup d1 ?key = Some (RString (usr_ID row))" "now d1 = now d" "t_users d1 = t_users d"
    using assms(6,7) by (simp_all add: d1_def redis_lookup_def hour_def)
  from reset_password_run [OF d1(1-3) assms(13,3)] obtain d2 where
    reset: "handle_ResetPassword env (Some (uuids d 0, password)) d1 = (Ok (Success 200 ''Password updated successfully'' ()), d2)"
    and users: "t_users d2 = map (\<lambda>x. if usr_ID x = usr_ID row then x\<lparr>usr_PasswordHash := hash, usr_PasswordChangedAt := Some (now d1),
      usr_UpdatedAt := now d1\<rparr> else x) (t_users d1)" and d2: "healthy d2" "now d2 = now d1" "uuids d2 = uuids d1"
      "t_roles d2 = t_roles d1" "t_role_assignments d2 = t_role_assignments d1"
    and black: "redis d1 \<noteq> redis d2 \<longrightarrow> (\<forall>j. redis d1 (''blacklist:'' @ j) = None \<longrightarrow> redis d2 (''blacklist:'' @ j) = None)"
    by blast
  define row2 where "row2 = row\<lparr>usr_PasswordHash := hash, usr_PasswordChangedAt := Some (now d1), usr_UpdatedAt := now d1\<rparr>"
  have found: "find (\<lambda>u. usr_Email u = trim_space (to_lower email) \<and> in_scope [] u) (t_users d2) = Some row2"
    unfolding users d1(5) using assms(10,12) by (subst find_map_same) (simp_all add: in_scope_def row2_def)
  have row2: "usr_PasswordHash row2 = hash" "usr_Status row2 = ''active''" "\<not> usr_MFAEnabled row2" "usr_ID row2 = usr_ID row"
    "usr_OrganizationID row2 = usr_OrganizationID row"
    using assms(14,15) by (simp_all add: row2_def)
  have role: "token_role i org d2 = token_role i org d" for i org
    using d2(4,5) by (simp add: token_role_def primary_role_def d1_def)
  have "trim_space (to_lower email) \<noteq> []" "bcrypt_ok env (usr_PasswordHash row2) password"
    using assms(4,10,11) row2(1) by simp_all
  moreover have "redis d2 (''blacklist:'' @ uuids d2 0) = None"
    using assms(9) black d2(3) by (cases "redis d1 = redis d2") (auto simp: d1_def dest: sym)
  moreover have "0 \<le> now d2" using d2(2) d1(4) assms(8) by simp
  ultimately obtain resp d3 where
    login: "handle_Login env c (Some (email, password)) d2 = (Ok (Success 200 ''Login successful'' (LoggedIn resp)), d3)"
    and token: "\<And>request. c_Authorization request = ''Bearer '' @ lr_AccessToken resp \<Longrightarrow>
      \<exists>claims. authenticated (jwt env) am request d3 = Some claims \<and> cl_UserID claims = usr_ID row2 \<and>
        cl_OrganizationID claims = usr_OrganizationID row2 \<and> cl_Role claims = token_role (usr_ID row2) (usr_OrganizationID row2) d2"
    using login_token [OF assms(1,2) d2(1) _ _ assms(5) _ found _ row2(2,3), of c] by blast
  have "recover env c email password d = (Ok (Success 200 ''Login successful'' (LoggedIn resp)), d3)"
    using forgot reset login by (auto simp: recover_def)
  with token row2(4,5) role show ?thesis by auto
qed

section \<open>An edited account\<close>

text \<open>After an edit the account is the live row with its email, when no other account has it.\<close>

lemma edited_row:
  assumes "users_handle_UpdateUser pg c body d = (Ok (Success st msg u), d')"
    and "\<forall>x \<in> set (t_users d). usr_Email x = usr_Email u \<longrightarrow> usr_ID x = c_Param_id c"
  obtains row where "find (\<lambda>x. usr_Email x = usr_Email u \<and> in_scope [] x) (t_users d') = Some (written_user pg u row)"
    and "usr_ID u = c_Param_id c" and "usr_PasswordHash u = []" and "d' = put_users (t_users d') (advance (advance d))"
    and "\<forall>x \<in> set (t_users d'). usr_ID x = c_Param_id c \<longrightarrow> x = written_user pg u row"
proof (rule update_user_OkE [OF assms(1)])
  fix req org row
  assume row: "row \<in> set (t_users d)" "live_user (c_Param_id c) org row"
    and u: "u = merged_user req (now d) (listed_user d row)"
    and users: "t_users d' = map (\<lambda>x. if usr_ID x = c_Param_id c \<and> usr_OrganizationID x = org then written_user pg u x else x) (t_users d)"
    and dist: "distinct (map usr_ID (t_users d'))" and d': "d' = put_users (t_users d') (advance (advance d))"
  have U: "usr_ID u = c_Param_id c" "usr_PasswordHash u = []" "usr_DeletedAt u = None"
    using row(2) u by (simp_all add: merged_user_def listed_user_def live_user_def)
  let ?w = "written_user pg u row"
  have w: "?w \<in> set (t_users d')" "usr_ID ?w = c_Param_id c"
    using row U(1) unfolding users by (auto simp: live_user_def written_user_def intro: rev_image_eqI)
  have only: "x = ?w" if "x \<in> set (t_users d')" "usr_ID x = c_Param_id c" for x
    using distinct_key_unique [OF dist that(1) w(1)] that(2) w(2) by simp
  have "find (\<lambda>x. usr_Email x = usr_Email u \<and> in_scope [] x) (t_users d') = Some ?w"
  proof (rule find_unique [OF w(1)])
    show "usr_Email ?w = usr_Email u \<and> in_scope [] ?w" using U(3) by (simp add: written_user_def in_scope_def)
    fix x assume "x \<in> set (t_users d')" "usr_Email x = usr_Email u \<and> in_scope [] x"
    then show "x = ?w" using assms(2) U(1) by (intro only) (auto simp: users written_user_def split: if_splits)
  qed
  with U only d' show thesis by (intro that [of row]) auto
qed

section \<open>A sample service\<close>

text \<open>A signer whose tokens spell out the claims: it signs every claim set.\<close>

definition hex_digits :: "char \<Rightarrow> string" where
  "hex_digits c = (let n = of_char c :: nat in [char_of (97 + n div 16), char_of (97 + n mod 16)])"

fun unhex :: "string \<Rightarrow> string" where
  "unhex (a # b # xs) = char_of ((of_char a - 97) * 16 + (of_char b - 97 :: nat)) # unhex xs"
| "unhex _ = []"

fun fields_text :: "string list \<Rightarrow> string" where
  "fields_text [] = []"
| "fields_text (f # fs) = concat (map hex_digits f) @ CHR ''.'' # fields_text fs"

lemma high_half: "(of_char c :: nat) div 16 < 16"
proof (rule less_mult_imp_div_less)
  have "(of_char c :: nat) mod 256 < 256" by (rule mod_less_divisor) simp
  then show "(of_char c :: nat) < 16 * 16" by simp
qed

lemma of_hex_digit: "n < 16 \<Longrightarrow> (of_char (char_of (97 + n :: nat) :: char) :: nat) = 97 + n"
  by simp

lemma unhex_digits: "unhex (concat (map hex_digits s)) = s"
proof (induction s)
  case (Cons c s)
  have "unhex (hex_digits c @ xs) = c # unhex xs" for xs
    using high_half [of c] by (simp add: hex_digits_def Let_def of_hex_digit)
  with Cons show ?case by simp
qed simp

lemma hex_char: "x \<in> set (hex_digits c) \<Longrightarrow> (97 :: nat) \<le> of_char x"
  using high_half [of c] by (auto simp: hex_digits_def Let_def of_hex_digit)

lemma hex_text: "x \<in> set (concat (map hex_digits s)) \<Longrightarrow> (97 :: nat) \<le> of_char x"
  using hex_char by auto

lemma split_fields: "split_on CHR ''.'' (fields_text fs) = map (\<lambda>f. concat (map hex_digits f)) fs @ [[]]"
proof (induction fs)
  case (Cons f fs)
  have "CHR ''.'' \<notin> set (concat (map hex_digits f))" using hex_text by fastforce
  from split_on_join [OF this] Cons show ?case by simp
qed simp

lemma no_space: "CHR '' '' \<notin> set (fields_text fs)"
  by (induction fs) (auto dest: hex_char)

definition claim_fields :: "Claims \<Rightarrow> string list" where
  "claim_fields cl = [cl_UserID cl, cl_OrganizationID cl, cl_Email cl, cl_Role cl, cl_JTI cl, cl_Subject cl,
     (case cl_ExpiresAt cl of None \<Rightarrow> [] | Some e \<Rightarrow> show_int e)]"

definition read_fields :: "string list \<Rightarrow> Claims option" where
  "read_fields fs = (case fs of
     [user, org, email, role, jti, sub, expiry] \<Rightarrow> Some \<lparr>cl_UserID = user, cl_OrganizationID = org, cl_Email = email,
        cl_Role = role, cl_JTI = jti, cl_Subject = sub, cl_ExpiresAt = (if expiry = [] then None else Some (int_of_digits expiry))\<rparr>
   | _ \<Rightarrow> None)"

lemma read_claim_fields: "(case cl_ExpiresAt cl of None \<Rightarrow> True | Some e \<Rightarrow> 0 \<le> e) \<Longrightarrow> read_fields (claim_fields cl) = Some cl"
  by (cases cl) (simp add: read_fields_def claim_fields_def show_int_def split: option.splits)

definition spelled_env :: auth_env where
  "spelled_env = sample_env\<lparr>sign := (\<lambda>m. Some (fields_text (claim_fields (to_claims m)))),
     jwt := \<lparr>decode = (\<lambda>t. map_option (Pair RSA) (read_fields (map unhex (butlast (split_on CHR ''.'' t))))),
       sig_ok = (\<lambda>t k. k = PublicKey ''pk''), claims_ok = (\<lambda>t cl. \<forall>e \<in> set_option (cl_ExpiresAt cl). t < e)\<rparr>\<rparr>"

lemma to_claims_expiry: "case cl_ExpiresAt (to_claims m) of None \<Rightarrow> True | Some e \<Rightarrow> 0 \<le> e"
  by (auto simp: to_claims_def time_claim_def int_of_digits_nat split: option.split json.split)

lemma spelled_signs: "signs_for spelled_env signer_am"
proof -
  have "map unhex (butlast (split_on CHR ''.'' (fields_text fs))) = fs" for fs
    by (simp add: split_fields unhex_digits butlast_append comp_def)
  then have "decode (jwt spelled_env) (fields_text (claim_fields (to_claims m))) = Some (RSA, to_claims m)" for m
    using read_claim_fields [OF to_claims_expiry [of m]] by (simp add: spelled_env_def)
  moreover have "fields_text (claim_fields cl) \<noteq> []" for cl by (simp add: claim_fields_def)
  ultimately show ?thesis
    unfolding signs_for_def
    by (intro conjI exI [of _ "''pk''"]) (auto simp: spelled_env_def signer_am_def no_space)
qed

text \<open>Two organizations; ann is a member of the first, bob its administrator.\<close>

definition members_db :: db where
  "members_db = audit_db\<lparr>t_organizations := t_organizations audit_db @ [new_org ''sys'' ''System'' ''system'' 0],
     t_users := [sample_user, sample_user\<lparr>usr_ID := ''u2'', usr_Username := ''bob'', usr_Email := ''bob@example.org''\<rparr>],
     t_roles := [admin_role ''r1'' ''o1'' 0],
     t_role_assignments := [\<lparr>ra_ID = ''a1'', ra_RoleID = ''r1'', ra_PrincipalID = ''u2'', ra_PrincipalType = ''user'',
        ra_AssignedBy = None, ra_AssignedAt = 0, ra_ExpiresAt = None, ra_Conditions = ''{}''\<rparr>]\<rparr>"

definition plain_pg :: pg_types where
  "plain_pg = \<lparr>pg_jsonb = id, pg_with_key = (\<lambda>s _ _. s), pg_without_key = (\<lambda>s _. Some s), pg_interval = Some, pg_inet = Some\<rparr>"

definition no_edit :: update_user_body where
  "no_edit = \<lparr>uu_Username = [], uu_Email = [], uu_DisplayName = [], uu_OrganizationID = [], uu_Status = []\<rparr>"

text \<open>A request of ann about the user \<open>i\<close>.\<close>

definition ann_ctx :: "string \<Rightarrow> fiber_ctx" where
  "ann_ctx i = session_ctx\<lparr>c_Param_id := i\<rparr>"

lemma run_fst: "fst (m d) = r \<Longrightarrow> m d = (r, snd (m d))"
  by (simp add: prod_eq_iff)

section \<open>Properties\<close>

text \<open>The JWT library and bcrypt as they are documented, and a password that hashes.\<close>

definition auth_works :: "auth_env \<Rightarrow> AuthMiddleware \<Rightarrow> string \<Rightarrow> bool" where
  "auth_works env am password \<longleftrightarrow> signs_for env am \<and> (\<forall>m. sign env m \<noteq> None) \<and> password \<noteq> []
     \<and> (\<exists>hash. bcrypt_hash env password = Some hash \<and> bcrypt_ok env hash password)"

lemma spelled_works: "auth_works spelled_env signer_am ''new-secret''"
  using spelled_signs by (simp add: auth_works_def spelled_env_def sample_env_def)

text \<open>A server whose statements succeed, and whose next identifiers are not blacklisted.\<close>

definition running :: "db \<Rightarrow> bool" where
  "running d \<longleftrightarrow> healthy d \<and> redis_up d \<and> 0 \<le> now d \<and> (\<forall>n. redis d (''blacklist:'' @ uuids d n) = None)"

lemma running_members: "running members_db"
  by (simp add: running_def members_db_def audit_db_def empty_db_def)

lemma edited_account_recovered:
  assumes "auth_works env am password" and "running d"
    and "users_handle_UpdateUser pg c body d = (Ok (Success st msg u), d')"
    and "usr_Email u \<noteq> []" and "trim_space (to_lower (usr_Email u)) = usr_Email u"
    and "\<forall>x \<in> set (t_users d). usr_Email x = usr_Email u \<longrightarrow> usr_ID x = c_Param_id c"
    and "usr_Status u = ''active''" and "\<not> usr_MFAEnabled u"
  shows "\<exists>resp d''. recover env anyone (usr_Email u) password d' = (Ok (Success 200 ''Login successful'' (LoggedIn resp)), d'') \<and>
    (\<forall>request. c_Authorization request = ''Bearer '' @ lr_AccessToken resp \<longrightarrow>
      (\<exists>claims. authenticated (jwt env) am request d'' = Some claims \<and> cl_UserID claims = c_Param_id c \<and>
        cl_OrganizationID claims = usr_OrganizationID u \<and>
        cl_Role claims = token_role (c_Param_id c) (usr_OrganizationID u) d))"
proof -
  from edited_row [OF assms(3,6)] obtain row where
    found: "find (\<lambda>x. usr_Email x = usr_Email u \<and> in_scope [] x) (t_users d') = Some (written_user pg u row)"
    and i: "usr_ID u = c_Param_id c" and d': "d' = put_users (t_users d') (advance (advance d))"
    by blast
  have "c_Param_id c \<noteq> []" using assms(3) by (auto simp: users_handle_UpdateUser_def with_user_id_def)
  have w: "usr_ID (written_user pg u row) = c_Param_id c" "usr_OrganizationID (written_user pg u row) = usr_OrganizationID u"
    "usr_Status (written_user pg u row) = ''active''" "\<not> usr_MFAEnabled (written_user pg u row)"
    using i assms(7,8) by (simp_all add: written_user_def)
  have "advance (advance d) = d" using assms(2) by (simp add: running_def advance_healthy)
  with d' have run: "d' = put_users (t_users d') d" by simp
  have "running (put_users (t_users d') d)" using assms(2) by (simp add: running_def)
  then have "running d'" by (simp only: run [symmetric])
  then have R: "healthy d'" "redis_up d'" "0 \<le> now d'" "\<forall>n. redis d' (''blacklist:'' @ uuids d' n) = None"
    unfolding running_def by blast+
  have "token_role i org (put_users t d) = token_role i org d" for i org t
    by (simp add: token_role_def primary_role_def)
  then have role: "token_role i org d' = token_role i org d" for i org by (metis run)
  from assms(1) obtain hash where W: "signs_for env am" "\<forall>m. sign env m \<noteq> None" "bcrypt_hash env password = Some hash"
    "bcrypt_ok env hash password" "password \<noteq> []"
    unfolding auth_works_def by blast
  have "usr_ID (written_user pg u row) \<noteq> []" using w(1) \<open>c_Param_id c \<noteq> []\<close> by simp
  from recover_runs [OF W R assms(5,4) found this w(3,4), of anyone] show ?thesis by (simp only: w(1,2) role)
qed

text \<open>C23. Any member can take over any account of its organization that has no second factor. The route
  PUT /users/:id has no guard beyond authentication: on a running server (its statements succeed, its fresh identifiers
  are not blacklisted, its libraries hash passwords, and sign and verify tokens), after a successful edit by whatever
  caller that gives the account the status active and an email (in small letters, without spaces around it)
  that no account has, the recovery of the password through that mail, with any new password that is not empty, ends in a token that the middleware
  accepts for the account, with the role of the account.\<close>

theorem member_takes_over_account:
  assumes "auth_works env am password" and "running d"
    and "users_handle_UpdateUser pg c (Some (edit\<lparr>uu_Email := email, uu_Status := ''active''\<rparr>)) d = (Ok (Success st msg u), d')"
    and "email \<noteq> []" and "trim_space (to_lower email) = email" and "\<forall>x \<in> set (t_users d). usr_Email x \<noteq> email"
    and "\<not> usr_MFAEnabled u"
  shows "\<exists>resp d''. recover env anyone email password d' = (Ok (Success 200 ''Login successful'' (LoggedIn resp)), d'') \<and>
    (\<forall>request. c_Authorization request = ''Bearer '' @ lr_AccessToken resp \<longrightarrow>
      (\<exists>claims. authenticated (jwt env) am request d'' = Some claims \<and> cl_UserID claims = c_Param_id c \<and>
        cl_Role claims = token_role (c_Param_id c) (usr_OrganizationID u) d))"
proof -
  have "usr_Email u = email" "usr_Status u = ''active''"
    using assms(4) by (rule_tac [!] update_user_OkE [OF assms(3)]) (auto simp: merged_user_def or_default_def)
  moreover from this assms(4-6) have "usr_Email u \<noteq> []" "trim_space (to_lower (usr_Email u)) = usr_Email u"
    "\<forall>x \<in> set (t_users d). usr_Email x = usr_Email u \<longrightarrow> usr_ID x = c_Param_id c" by simp_all
  note recovered = edited_account_recovered [OF assms(1-3) this calculation(2) assms(7), of anyone]
  ultimately show ?thesis using recovered by (simp only:) blast
qed

definition takeover_edit :: "(User http) res \<times> db" where
  "takeover_edit = users_handle_UpdateUser plain_pg (ann_ctx ''u2'')
     (Some (no_edit\<lparr>uu_Email := ''ann+2@example.org'', uu_Status := ''active''\<rparr>)) members_db"

definition edited_bob :: User where
  "edited_bob = sample_user\<lparr>usr_ID := ''u2'', usr_Username := ''bob'', usr_Email := ''ann+2@example.org'', usr_PasswordHash := [],
     usr_Attributes := ''{}'', usr_Preferences := ''{}'', usr_Role := ''admin'', usr_UpdatedAt := 5\<rparr>"

theorem member_takes_over_account_witness:
  "\<exists>resp d'' claims. recover spelled_env (bearer_ctx []) ''ann+2@example.org'' ''new-secret'' (snd takeover_edit)
       = (Ok (Success 200 ''Login successful'' (LoggedIn resp)), d'') \<and>
     authenticated (jwt spelled_env) signer_am (bearer_ctx (lr_AccessToken resp)) d'' = Some claims \<and>
     cl_UserID claims = ''u2'' \<and> cl_Role claims = ''admin''"
proof -
  have "fst takeover_edit = Ok (Success 200 ''User updated successfully'' edited_bob)" by code_simp
  then have edit: "users_handle_UpdateUser plain_pg (ann_ctx ''u2'')
     (Some (no_edit\<lparr>uu_Email := ''ann+2@example.org'', uu_Status := ''active''\<rparr>)) members_db
       = (Ok (Success 200 ''User updated successfully'' edited_bob), snd takeover_edit)"
    by (simp add: takeover_edit_def prod_eq_iff)
  have "trim_space (to_lower ''ann+2@example.org'') = ''ann+2@example.org''"
    "\<forall>x \<in> set (t_users members_db). usr_Email x \<noteq> ''ann+2@example.org''" "token_role ''u2'' ''o1'' members_db = ''admin''"
    by code_simp+
  moreover have "\<not> usr_MFAEnabled edited_bob" "usr_OrganizationID edited_bob = ''o1''" "c_Param_id (ann_ctx i) = i" for i
    by (simp_all add: edited_bob_def sample_user_def ann_ctx_def)
  moreover have "c_Authorization (bearer_ctx tok) = ''Bearer '' @ tok" for tok by (simp add: bearer_ctx_def)
  ultimately show ?thesis
    using member_takes_over_account [OF spelled_works running_members edit, of "bearer_ctx []"] by fastforce
qed

text \<open>A caller of the system organization passes the guards of the organization routes, whatever its role.\<close>

lemma root_route:
  assumes "authenticated lib am request d = Some claims" and "cl_OrganizationID claims = sys" and "sys \<noteq> []"
    and "cl_UserID claims \<noteq> []" and "c_Param_id request \<noteq> []"
  shows "\<exists>request'. protect [RequireAuth lib am, ResolveTenant sys, RequireOrgAdmin] h request d = h request' d \<and> same_request request request'"
proof -
  let ?c1 = "(set_locals claims request)\<lparr>c_session_id := Some (cl_JTI claims)\<rparr>"
  obtain tc where tc: "ResolveTenant sys ?c1 d = (Ok (Next (?c1\<lparr>c_tenant := Some tc\<rparr>)), d)" "tc_IsRoot tc"
    using assms(2-4) by (auto simp: ResolveTenant_run set_locals_def local_def)
  then have "RequireOrgAdmin (?c1\<lparr>c_tenant := Some tc\<rparr>) d = (Ok (Next (?c1\<lparr>c_tenant := Some tc\<rparr>)), d)"
    using assms(5) by (intro org_admin_guard.passes) (simp add: CanAdminOrg_def set_locals_def)
  with tc(1) RequireAuth_accepts [OF assms(1)] show ?thesis
    by (intro exI [of _ "?c1\<lparr>c_tenant := Some tc\<rparr>"]) (simp add: bnd_Ok same_request_def set_locals_def)
qed

text \<open>Any member can administer every organization. PUT /users/:id writes the organization of the body: after
  a successful edit that moves an account into the system organization, recovery through the mail of the
  account ends in a token with which the routes behind RequireAuth, ResolveTenant and RequireOrgAdmin run
  their handler for every organization.\<close>

lemma member_becomes_root:
  assumes "auth_works env am password" and "running d"
    and "users_handle_UpdateUser pg c (Some (no_edit\<lparr>uu_OrganizationID := sys, uu_Status := ''active''\<rparr>)) d = (Ok (Success st msg u), d')"
    and "sys \<noteq> []" and "usr_Email u \<noteq> []" and "trim_space (to_lower (usr_Email u)) = usr_Email u"
    and "\<forall>x \<in> set (t_users d). usr_Email x = usr_Email u \<longrightarrow> usr_ID x = c_Param_id c" and "\<not> usr_MFAEnabled u"
  shows "\<exists>resp d''. recover env anyone (usr_Email u) password d' = (Ok (Success 200 ''Login successful'' (LoggedIn resp)), d'') \<and>
    (\<forall>h request. c_Authorization request = ''Bearer '' @ lr_AccessToken resp \<and> c_Param_id request \<noteq> [] \<longrightarrow>
      (\<exists>request'. protect [RequireAuth (jwt env) am, ResolveTenant sys, RequireOrgAdmin] h request d'' = h request' d''
        \<and> same_request request request'))"
proof -
  have u: "usr_OrganizationID u = sys" "usr_Status u = ''active''"
    using assms(4) by (rule_tac [!] update_user_OkE [OF assms(3)]) (auto simp: merged_user_def no_edit_def or_default_def)
  have "c_Param_id c \<noteq> []" using assms(3) by (auto simp: users_handle_UpdateUser_def with_user_id_def)
  from edited_account_recovered [OF assms(1-3,5-7) u(2) assms(8), of anyone] obtain resp d'' where
    run: "recover env anyone (usr_Email u) password d' = (Ok (Success 200 ''Login successful'' (LoggedIn resp)), d'')"
    and token: "\<And>request. c_Authorization request = ''Bearer '' @ lr_AccessToken resp \<Longrightarrow>
      \<exists>claims. authenticated (jwt env) am request d'' = Some claims \<and> cl_UserID claims = c_Param_id c \<and> cl_OrganizationID claims = sys"
    unfolding u(1) by blast
  have "\<exists>request'. protect [RequireAuth (jwt env) am, ResolveTenant sys, RequireOrgAdmin] h request d'' = h request' d'' \<and> same_request request request'"
    if "c_Authorization request = ''Bearer '' @ lr_AccessToken resp" "c_Param_id request \<noteq> []" for h request
  proof -
    from token [OF that(1)] obtain claims where "authenticated (jwt env) am request d'' = Some claims"
      "cl_OrganizationID claims = sys" "cl_UserID claims \<noteq> []" using \<open>c_Param_id c \<noteq> []\<close> by auto
    from root_route [OF this(1,2) assms(4) this(3) that(2)] show ?thesis .
  qed
  with run show ?thesis by blast
qed

definition moved_ann :: User where
  "moved_ann = sample_user\<lparr>usr_OrganizationID := ''sys'', usr_PasswordHash := [], usr_Attributes := ''{}'', usr_Preferences := ''{}'',
     usr_Role := ''user'', usr_UpdatedAt := 5\<rparr>"

end
