(* ===== verification/OrgFlow.thy ===== *)
theory OrgFlow
  imports OrgHandler UserFlow AdminBootstrap
begin

text \<open>
  What registration, sign-up and the organization endpoints do together with login, the tenant middleware and
  the CORS middleware.
\<close>

section \<open>Registration\<close>

lemma valid_email_not_empty: "valid_email e \<Longrightarrow> e \<noteq> []"
  by (auto simp: valid_email_def)

lemma users_violation_email: "users_violation t = None \<Longrightarrow> u \<in> set t \<Longrightarrow> valid_email (usr_Email u)"
  by (auto simp: users_violation_def Let_def split: if_splits)

lemma insert_user_healthy:
  assumes "insert_user u d = (Ok x, d')" and "healthy d"
  shows "d' = put_users (t_users d @ [u]) d \<and> users_violation (t_users d') = None"
  using assms by (auto simp: insert_user_def stmt_ok split: if_splits option.splits)

text \<open>A successful registration: the row of the new account.\<close>

lemma register_OkE:
  assumes "handle_Register env (Some req) d = (Ok (Success st msg i), d')" and "healthy d"
  obtains hash row where "bcrypt_hash env (rq_Password req) = Some hash"
    and "row = new_user (now d) (registered_user req i (trim_space (to_lower (rq_Email req))) hash False (now d))"
    and "t_users d' = t_users d @ [row]" and "users_violation (t_users d') = None" and "i = uuids d 0"
    and "healthy d'" and "now d' = now d" and "uuids d' = (\<lambda>n. uuids d (Suc (Suc n)))"
    and "\<forall>j. redis d (''blacklist:'' @ j) = None \<longrightarrow> redis d' (''blacklist:'' @ j) = None"
proof -
  let ?email = "trim_space (to_lower (rq_Email req))"
  have "GetUserByEmail ?email (rq_OrganizationID req) d
      = (case find (\<lambda>u. usr_Email u = ?email \<and> in_scope (rq_OrganizationID req) u) (t_users d) of None \<Rightarrow> Err no_rows
         | Some u \<Rightarrow> Ok (scanned_user u), d)"
    using assms(2) by (simp add: GetUserByEmail_def one_user_def bnd_def select_ok split: option.split)
  with assms obtain hash where hash: "bcrypt_hash env (rq_Password req) = Some hash"
    and rest: "bnd fresh_uuid (\<lambda>i. gets now (\<lambda>t.
         on_error (CreateUser (registered_user req i ?email hash False t))
           (\<lambda>e. if isConflictErr e then json_error 409 ''A user with this email or username already exists''
              else json_error 500 ''Failed to create user account'')
           (\<lambda>_. bnd fresh_uuid (\<lambda>verificationToken.
              bnd (ignore (SetEmailVerificationToken i verificationToken (24 * hour))) (\<lambda>_.
              apiSuccess 201 ''User account created successfully. Please check your email to verify your account.'' i))))) d
       = (Ok (Success st msg i), d')"
    by (auto simp: handle_Register_def Let_def bnd_def attempt_def already_registered_def json_error_def
        split: option.splits)
  define row where "row = new_user (now d) (registered_user req (uuids d 0) ?email hash False (now d))"
  let ?d1 = "d\<lparr>uuids := (\<lambda>n. uuids d (Suc n))\<rparr>"
  from rest obtain x d2 where ins: "insert_user row ?d1 = (Ok x, d2)"
    and tail: "bnd fresh_uuid (\<lambda>verificationToken.
              bnd (ignore (SetEmailVerificationToken (uuids d 0) verificationToken (24 * hour))) (\<lambda>_.
              apiSuccess 201 ''User account created successfully. Please check your email to verify your account.'' (uuids d 0))) d2
       = (Ok (Success st msg i), d')"
    by (auto simp: bnd_def [of fresh_uuid] fresh_uuid_def CreateUser_def row_def json_error_def elim!: on_error_OkE split: if_splits)
  from insert_user_healthy [OF ins] assms(2) have d2: "d2 = put_users (t_users d @ [row]) ?d1" "users_violation (t_users d @ [row]) = None"
    by auto
  from tail have "i = uuids d 0" "t_users d' = t_users d2" "healthy d2 \<longrightarrow> healthy d'" "now d' = now d2" "uuids d' = (\<lambda>n. uuids d2 (Suc n))"
    "\<forall>j. redis d2 (''blacklist:'' @ j) = None \<longrightarrow> redis d' (''blacklist:'' @ j) = None"
    by (auto simp: bnd_def fresh_uuid_def ignore_def attempt_def SetEmailVerificationToken_def redis_set_def redis_cmd_def
        split: if_splits prod.splits)
  with hash d2 assms(2) show thesis by (intro that [of hash row]) (simp_all add: row_def)
qed

lemma registered_token:
  assumes "auth_works env am (rq_Password req)" and "running d"
    and "handle_Register env (Some req) d = (Ok (Success st msg i), d')"
    and "\<forall>u \<in> set (t_users d). usr_Email u \<noteq> trim_space (to_lower (rq_Email req))"
  shows "\<exists>resp d''. handle_Login env c (Some (rq_Email req, rq_Password req)) d' = (Ok (Success 200 ''Login successful'' (LoggedIn resp)), d'') \<and>
    (\<forall>request. c_Authorization request = ''Bearer '' @ lr_AccessToken resp \<longrightarrow>
      (\<exists>claims. authenticated (jwt env) am request d'' = Some claims \<and> cl_UserID claims = i \<and>
        cl_OrganizationID claims = rq_OrganizationID req))"
proof -
  let ?email = "trim_space (to_lower (rq_Email req))"
  from assms(2) have d: "healthy d" "0 \<le> now d" "\<And>n. redis d (''blacklist:'' @ uuids d n) = None"
    by (simp_all add: running_def)
  from register_OkE [OF assms(3) d(1)] obtain hash row where hash: "bcrypt_hash env (rq_Password req) = Some hash"
    and row: "row = new_user (now d) (registered_user req i ?email hash False (now d))" and users: "t_users d' = t_users d @ [row]"
    and valid: "users_violation (t_users d') = None" and d': "healthy d'" "now d' = now d" "uuids d' = (\<lambda>n. uuids d (Suc (Suc n)))"
    "\<forall>j. redis d (''blacklist:'' @ j) = None \<longrightarrow> redis d' (''blacklist:'' @ j) = None" by blast
  have R: "usr_Email row = ?email" "in_scope [] row" "usr_PasswordHash row = hash" "usr_Status row = ''active''" "\<not> usr_MFAEnabled row"
    "usr_ID row = i" "usr_OrganizationID row = rq_OrganizationID req"
    by (simp_all add: row new_user_def registered_user_def in_scope_def)
  then have "?email \<noteq> []" using users_violation_email [OF valid, of row] valid_email_not_empty users by auto
  have find: "find (\<lambda>u. usr_Email u = ?email \<and> in_scope [] u) (t_users d') = Some row"
    using assms(4) R(1,2) unfolding users by (intro find_unique) auto
  from assms(1) hash have W: "signs_for env am" "\<forall>m. sign env m \<noteq> None" "rq_Password req \<noteq> []" "bcrypt_ok env (usr_PasswordHash row) (rq_Password req)"
    by (auto simp: auth_works_def R(3))
  have "0 \<le> now d'" "redis d' (''blacklist:'' @ uuids d' 0) = None" using d d' by simp_all
  from login_token [OF W(1,2) d'(1) this W(3) \<open>?email \<noteq> []\<close> find W(4) R(4,5), of c] show ?thesis
    unfolding R(6,7) by blast
qed

text \<open>The JWT library and bcrypt as they are documented; the password may be empty.\<close>

definition libraries_work :: "auth_env \<Rightarrow> AuthMiddleware \<Rightarrow> string \<Rightarrow> bool" where
  "libraries_work env am password \<longleftrightarrow> signs_for env am \<and> (\<forall>m. sign env m \<noteq> None)
     \<and> (\<exists>hash. bcrypt_hash env password = Some hash \<and> bcrypt_ok env hash password)"

text \<open>C14. Whoever registers with a password can sign in: after a successful registration on a running server (its
  statements succeed, its fresh identifiers are not blacklisted, and its libraries hash the password, and sign and
  verify tokens), when no other account has the email, a
  login with the same email and password runs through (without the email being verified), and the token of
  the reply is accepted by the middleware for the new account and the organization named in the registration.
  Registration also accepts an empty password; the login with it is answered with 400.\<close>

theorem registered_user_signs_in:
  assumes "libraries_work env am (rq_Password req)" and "running d"
    and "handle_Register env (Some req) d = (Ok (Success st msg i), d')"
    and "\<forall>u \<in> set (t_users d). usr_Email u \<noteq> trim_space (to_lower (rq_Email req))"
  shows "if rq_Password req = []
    then handle_Login env c (Some (rq_Email req, rq_Password req)) d'
      = (Ok (Failure 400 ''validation_error'' ''Email and password are required''), d')
    else \<exists>resp d''. handle_Login env c (Some (rq_Email req, rq_Password req)) d' = (Ok (Success 200 ''Login successful'' (LoggedIn resp)), d'') \<and>
      (\<forall>request. c_Authorization request = ''Bearer '' @ lr_AccessToken resp \<longrightarrow>
        (\<exists>claims. authenticated (jwt env) am request d'' = Some claims \<and> cl_UserID claims = i \<and>
          cl_OrganizationID claims = rq_OrganizationID req))"
proof (cases "rq_Password req = []")
  case True
  then show ?thesis by (simp add: handle_Login_def)
next
  case False
  with assms(1) have "auth_works env am (rq_Password req)" by (simp add: auth_works_def libraries_work_def)
  with registered_token [OF this assms(2-4)] False show ?thesis by simp
qed

definition eve :: RegisterRequest where
  "eve = \<lparr>rq_Username = ''eve'', rq_Email = ''eve@example.org'', rq_Password = ''new-secret'', rq_DisplayName = ''Eve'',
     rq_OrganizationID = ''sys''\<rparr>"

lemma eve_registers:
  "handle_Register spelled_env (Some eve) members_db = (Ok (Success 201
     ''User account created successfully. Please check your email to verify your account.'' ''uuid-v4-0''),
     snd (handle_Register spelled_env (Some eve) members_db))"
  by (rule run_fst) code_simp

lemma eve_is_new: "\<forall>u \<in> set (t_users members_db). usr_Email u \<noteq> trim_space (to_lower (rq_Email eve))"
  by code_simp

lemma eve_password: "auth_works spelled_env signer_am (rq_Password eve)"
  using spelled_works by (simp add: eve_def)

lemma eve_libraries: "libraries_work spelled_env signer_am (rq_Password eve)"
  using eve_password by (simp add: auth_works_def libraries_work_def)

theorem registered_user_signs_in_witness:
  "\<exists>resp d'' claims. handle_Login spelled_env (bearer_ctx []) (Some (''eve@example.org'', ''new-secret''))
       (snd (handle_Register spelled_env (Some eve) members_db)) = (Ok (Success 200 ''Login successful'' (LoggedIn resp)), d'') \<and>
     authenticated (jwt spelled_env) signer_am (bearer_ctx (lr_AccessToken resp)) d'' = Some claims \<and>
     cl_UserID claims = ''uuid-v4-0'' \<and> cl_OrganizationID claims = ''sys''"
proof -
  have "c_Authorization (bearer_ctx tok) = ''Bearer '' @ tok" for tok by (simp add: bearer_ctx_def)
  moreover have "rq_Email eve = ''eve@example.org''" "rq_Password eve = ''new-secret''" "rq_OrganizationID eve = ''sys''"
    by (simp_all add: eve_def)
  ultimately show ?thesis
    using registered_user_signs_in [OF eve_libraries running_members eve_registers eve_is_new, of "bearer_ctx []"] by fastforce
qed

text \<open>C13. Anyone can administer every organization. Registration is public and takes the organization from the
  body: on a running server, a visitor who registers with the id of the system organization, a password and an
  email that no account has, and signs in, gets a token with which
  the routes behind RequireAuth, ResolveTenant and RequireOrgAdmin run their handler for every organization.\<close>

theorem anyone_becomes_root:
  assumes "auth_works env am (rq_Password req)" and "running d"
    and "handle_Register env (Some (req\<lparr>rq_OrganizationID := sys\<rparr>)) d = (Ok (Success st msg i), d')"
    and "\<forall>u \<in> set (t_users d). usr_Email u \<noteq> trim_space (to_lower (rq_Email req))" and "sys \<noteq> []" and "uuids d 0 \<noteq> []"
  shows "\<exists>resp d''. handle_Login env c (Some (rq_Email req, rq_Password req)) d' = (Ok (Success 200 ''Login successful'' (LoggedIn resp)), d'') \<and>
    (\<forall>h request. c_Authorization request = ''Bearer '' @ lr_AccessToken resp \<and> c_Param_id request \<noteq> [] \<longrightarrow>
      (\<exists>request'. protect [RequireAuth (jwt env) am, ResolveTenant sys, RequireOrgAdmin] h request d'' = h request' d''
        \<and> same_request request request'))"
proof -
  have "rq_OrganizationID (req\<lparr>rq_OrganizationID := sys\<rparr>) = sys" "rq_Email (req\<lparr>rq_OrganizationID := sys\<rparr>) = rq_Email req"
    "rq_Password (req\<lparr>rq_OrganizationID := sys\<rparr>) = rq_Password req" by simp_all
  with registered_token [of env am "req\<lparr>rq_OrganizationID := sys\<rparr>", OF _ assms(2,3), of c] assms(1,4) obtain resp d'' where
    run: "handle_Login env c (Some (rq_Email req, rq_Password req)) d' = (Ok (Success 200 ''Login successful'' (LoggedIn resp)), d'')"
    and token: "\<And>request. c_Authorization request = ''Bearer '' @ lr_AccessToken resp \<Longrightarrow>
      \<exists>claims. authenticated (jwt env) am request d'' = Some claims \<and> cl_UserID claims = i \<and> cl_OrganizationID claims = sys" by auto
  have "healthy d" using assms(2) by (simp add: running_def)
  from register_OkE [OF assms(3) this] assms(6) have "i \<noteq> []" by metis
  have "\<exists>request'. protect [RequireAuth (jwt env) am, ResolveTenant sys, RequireOrgAdmin] h request d'' = h request' d'' \<and> same_request request request'"
    if "c_Authorization request = ''Bearer '' @ lr_AccessToken resp" "c_Param_id request \<noteq> []" for h request
  proof -
    from token [OF that(1)] obtain claims where "authenticated (jwt env) am request d'' = Some claims"
      "cl_OrganizationID claims = sys" "cl_UserID claims \<noteq> []" using \<open>i \<noteq> []\<close> by auto
    from root_route [OF this(1,2) assms(5) this(3) that(2)] show ?thesis .
  qed
  with run show ?thesis by blast
qed

theorem anyone_becomes_root_witness:
  "\<exists>resp d''. handle_Login spelled_env (bearer_ctx []) (Some (''eve@example.org'', ''new-secret''))
       (snd (handle_Register spelled_env (Some eve) members_db)) = (Ok (Success 200 ''Login successful'' (LoggedIn resp)), d'') \<and>
     protect [RequireAuth (jwt spelled_env) signer_am, ResolveTenant ''sys'', RequireOrgAdmin] (\<lambda>c. ret (200, c_Param_id c))
       ((bearer_ctx (lr_AccessToken resp))\<lparr>c_Param_id := ''o1''\<rparr>) d'' = (Ok (200, ''o1''), d'')"
proof -
  have eve: "eve\<lparr>rq_OrganizationID := ''sys''\<rparr> = eve" "rq_Email eve = ''eve@example.org''" "rq_Password eve = ''new-secret''"
    by (simp_all add: eve_def)
  have "uuids members_db 0 \<noteq> []" by (simp add: members_db_def audit_db_def empty_db_def)
  from anyone_becomes_root [of spelled_env signer_am eve members_db "''sys''", unfolded eve(1),
      OF eve_password running_members eve_registers eve_is_new _ this, of "bearer_ctx []"]
  obtain resp d'' where
    run: "handle_Login spelled_env (bearer_ctx []) (Some (rq_Email eve, rq_Password eve))
       (snd (handle_Register spelled_env (Some eve) members_db)) = (Ok (Success 200 ''Login successful'' (LoggedIn resp)), d'')"
    and route: "\<And>h request. c_Authorization request = ''Bearer '' @ lr_AccessToken resp \<Longrightarrow> c_Param_id request \<noteq> [] \<Longrightarrow>
      \<exists>request'. protect [RequireAuth (jwt spelled_env) signer_am, ResolveTenant ''sys'', RequireOrgAdmin] h request d'' = h request' d''
        \<and> same_request request request'" by blast
  let ?request = "(bearer_ctx (lr_AccessToken resp))\<lparr>c_Param_id := ''o1''\<rparr>"
  have "c_Authorization ?request = ''Bearer '' @ lr_AccessToken resp" "c_Param_id ?request = ''o1''"
    by (simp_all add: bearer_ctx_def)
  with route [of ?request "\<lambda>c. ret (200, c_Param_id c)"]
  have "protect [RequireAuth (jwt spelled_env) signer_am, ResolveTenant ''sys'', RequireOrgAdmin] (\<lambda>c. ret (200, c_Param_id c)) ?request d''
      = (Ok (200, ''o1''), d'')"
    by (auto simp: same_request_def)
  with run show ?thesis unfolding eve(2,3) by blast
qed

section \<open>Sign-up\<close>

text \<open>Programs that leave the organizations alone, and the server healthy.\<close>

definition same_orgs :: "db \<Rightarrow> db \<Rightarrow> bool" where
  "same_orgs d d' \<longleftrightarrow> t_organizations d' = t_organizations d \<and> (healthy d \<longrightarrow> healthy d')"

lemma same_orgs_order [keeps_intros]: "reflp same_orgs" "transp same_orgs"
  by (auto simp: reflp_def transp_def same_orgs_def)

lemma same_orgs_advance [keeps_intros]: "same_orgs d (advance d)"
  by (simp add: same_orgs_def advance_def)

lemma same_orgs_bootstrap: "keeps same_orgs (insert_user u)" "keeps same_orgs (ensure_admin_role i t)" "keeps same_orgs (admin_role_id i)"
  "keeps same_orgs (ensureAdminPolicy jsonb i t)" "keeps same_orgs (ensureRoleHasPolicy r p a t)" "keeps same_orgs (assign_role_to r a t)"
  unfolding insert_user_def ensure_admin_role_def admin_role_id_def ensureAdminPolicy_def ensureRoleHasPolicy_def assign_role_to_def
  by (intro keeps_intros keeps_stmt; auto simp: same_orgs_def advance_def upsert_full_access_def Let_def split: if_splits option.splits)+

lemma signup_org:
  assumes "CreateAdminUser jsonb user d = (Ok org, d')" and "usr_OrganizationID user \<noteq> []" and "healthy d"
    and "\<forall>o1 \<in> set (t_organizations d). org_ID o1 \<noteq> usr_OrganizationID user"
  shows "org = usr_OrganizationID user \<and> healthy d' \<and> (\<exists>o1 \<in> set (t_organizations d'). live_org org o1)"
proof -
  let ?i = "usr_OrganizationID user" and ?t = "now d"
  from assms(1) obtain dn where d': "d' = advance dn" and run: "(bnd (ensure_org ?i ?t) (\<lambda>orgID.
      bnd (insert_user (new_user ?t (user\<lparr>usr_OrganizationID := orgID\<rparr>))) (\<lambda>_.
      bnd (ensure_admin_role orgID ?t) (\<lambda>_.
      bnd (admin_role_id orgID) (\<lambda>roleID.
      bnd (ensureAdminPolicy jsonb orgID ?t) (\<lambda>policyID.
      bnd (ensureRoleHasPolicy roleID policyID (usr_ID user) ?t) (\<lambda>_.
      bnd (assign_role_to roleID (usr_ID user) ?t) (\<lambda>_. ret orgID)))))))) (advance d) = (Ok org, dn)"
    unfolding CreateAdminUser_def gets_run by (rule transaction_Ok)
  then obtain org' d1 where ensure: "ensure_org ?i ?t (advance d) = (Ok org', d1)" and rest: "same_orgs d1 dn" "org = org'"
    by (elim bnd_OkE; simp) (blast dest: keepsD [OF same_orgs_bootstrap(1)] keepsD [OF same_orgs_bootstrap(2)]
        keepsD [OF same_orgs_bootstrap(3)] keepsD [OF same_orgs_bootstrap(4)] keepsD [OF same_orgs_bootstrap(5)]
        keepsD [OF same_orgs_bootstrap(6)] transpD [OF same_orgs_order(2)])
  have "organizationExists ?i (advance d) = (Ok False, d)"
    using assms(3,4) by (auto simp: organizationExists_def select_ok advance_healthy)
  with ensure assms(2,3) have "org' = ?i" "healthy d1" "\<exists>o1 \<in> set (t_organizations d1). live_org ?i o1"
    by (auto simp: ensure_org_def bnd_def first8_def insert_checked_ok new_org_def live_org_def split: if_splits option.splits)
  with rest d' show ?thesis by (auto simp: same_orgs_def advance_def)
qed

lemma name_org_Ok:
  assumes "name_org jsonb orgID name d = (Ok u, d')" and "healthy d" and "\<exists>o1 \<in> set (t_organizations d). live_org orgID o1"
  shows "healthy d' \<and> (\<exists>o1 \<in> set (t_organizations d'). live_org orgID o1)"
proof -
  from assms(3) obtain org where found: "find (live_org orgID) (t_organizations d) = Some org" "live_org orgID org"
    by (metis find_None find_SomeD not_Some_eq)
  with assms(1,2) obtain short r where upd: "ignore (UpdateOrganization jsonb (org\<lparr>org_Name := name, org_Slug := short\<rparr>)) d = (Ok u, d')"
    by (auto simp: name_org_def GetOrganization_def attempt_def bnd_def select_ok first8_def split: if_splits)
  let ?new = "org\<lparr>org_Name := name, org_Slug := short\<rparr>"
  have "d' = d \<or> d' = put_orgs (map (\<lambda>r. if live_org orgID r then written_org jsonb (now d) ?new r else r) (t_organizations d)) d"
    using ignore_Ok [OF upd] found(2) assms(2)
    by (auto simp: UpdateOrganization_def org_params_def json_stmt_def bnd_def stmt_ok update_checked_ok live_org_def
        split: option.splits if_splits)
  moreover have "live_org orgID (written_org jsonb t ?new r)" if "live_org orgID r" for r t
    using found(2) that by (simp add: live_org_def written_org_def)
  ultimately show ?thesis using assms(2,3) by auto blast
qed

lemma on_db_OkE:
  assumes "on_db m s = (Ok x, s')"
  obtains d' where "m (cs_db s) = (Ok x, d')" and "s' = s\<lparr>cs_db := d'\<rparr>"
  using assms by (auto simp: on_db_def split: prod.splits)

lemma on_db_runs: "on_db fresh_uuid s = (Ok (uuids (cs_db s) 0), s\<lparr>cs_db := (cs_db s)\<lparr>uuids := (\<lambda>n. uuids (cs_db s) (Suc n))\<rparr>\<rparr>)"
  "on_db (gets now ret) s = (Ok (now (cs_db s)), s)" "on_db (apiError st code msg) s = (Ok (Failure st code msg), s)"
  "on_db (apiSuccess st msg y) s = (Ok (Success st msg y), s)"
  by (simp_all add: on_db_def fresh_uuid_def)

text \<open>With a healthy server and a live organization, the update of its origins succeeds.\<close>

lemma update_origins_runs:
  assumes "healthy (cs_db s)" and "\<exists>o1 \<in> set (t_organizations (cs_db s)). live_org orgID o1"
  shows "\<exists>s'. UpdateOrganizationOrigins orgID origins s = (Ok (), s')"
proof -
  have "\<exists>n d. set_origins orgID origins (cs_db s) = (Ok n, d) \<and> n \<noteq> 0"
    using assms by (auto simp: set_origins_def exec_on_ok update_where_def filter_empty_conv live_org_def)
  then show ?thesis by (auto simp: UpdateOrganizationOrigins_def bnd_def on_db_def InvalidateCache_def)
qed

text \<open>C18. Anyone can let any site read the service: sign-up is public, and stores the Origin header of the request
  among the origins, without looking at it. After a successful sign-up, and the refreshes under way, the
  middleware admits that origin on every endpoint, with credentials, for all organizations alike.\<close>

theorem signup_admits_any_origin:
  assumes "handle_RegisterOrganization env True origin (Some req) s = (Ok (Success st msg x), s1)" and "origin \<noteq> []"
    and "healthy (cs_db s)" and "uuids (cs_db s) 0 \<noteq> []" and "\<forall>o1 \<in> set (t_organizations (cs_db s)). org_ID o1 \<noteq> uuids (cs_db s) 0"
  shows "\<exists>mw d. finish (cs_refreshes s1) (cs_mw s1) (cs_db s1) = (Ok mw, d) \<and>
    cors_Handler mw origin verb d = (Ok (setHeaders (if allowAll mw then ''*'' else origin), verb \<noteq> ''OPTIONS''), d)"
proof -
  let ?d = "cs_db s" and ?origins = "signup_origins origin (ro_AllowedOrigins req)"
  let ?d1 = "?d\<lparr>uuids := (\<lambda>n. uuids ?d (Suc (Suc n)))\<rparr>"
  from assms(1) obtain hash orgID s2 where
    admin: "on_db (CreateAdminUser (jsonb_of env) (org_admin req (uuids ?d 0) (uuids ?d 1) hash (now ?d))) (s\<lparr>cs_db := ?d1\<rparr>) = (Ok orgID, s2)"
    and rest: "bnd (on_db (name_org (jsonb_of env) orgID (ro_OrganizationName req))) (\<lambda>_.
               bnd (if ?origins \<noteq> [] then ignore (UpdateOrganizationOrigins orgID ?origins) else ret ()) (\<lambda>_.
               bnd (on_db fresh_uuid) (\<lambda>verificationToken.
               bnd (on_db (ignore (SetEmailVerificationToken (uuids ?d 1) verificationToken (24 * hour)))) (\<lambda>_.
               on_db (apiSuccess 201 ''Organization created successfully. Please check your email to verify your account.''
                 (uuids ?d 1, orgID, ro_Username req, ro_Email req, ''admin'')))))) s2 = (Ok (Success st msg x), s1)"
    by (auto simp: handle_RegisterOrganization_def Let_def bnd_def on_db_runs numeral_2_eq_2 split: option.splits elim!: on_error_OkE)
  let ?user = "org_admin req (uuids ?d 0) (uuids ?d 1) hash (now ?d)"
  have "usr_OrganizationID ?user = uuids ?d 0" by (simp add: org_admin_def registered_user_def)
  with admin assms(3-5) signup_org [of "jsonb_of env" ?user ?d1]
  have "healthy (cs_db s2) \<and> (\<exists>o1 \<in> set (t_organizations (cs_db s2)). live_org orgID o1)"
    by (elim on_db_OkE) auto
  then have s2: "healthy (cs_db s2)" "\<exists>o1 \<in> set (t_organizations (cs_db s2)). live_org orgID o1" by blast+
  from rest obtain u s3 where named: "on_db (name_org (jsonb_of env) orgID (ro_OrganizationName req)) s2 = (Ok u, s3)"
    and more: "bnd (if ?origins \<noteq> [] then ignore (UpdateOrganizationOrigins orgID ?origins) else ret ()) (\<lambda>_.
               bnd (on_db fresh_uuid) (\<lambda>verificationToken.
               bnd (on_db (ignore (SetEmailVerificationToken (uuids ?d 1) verificationToken (24 * hour)))) (\<lambda>_.
               on_db (apiSuccess 201 ''Organization created successfully. Please check your email to verify your account.''
                 (uuids ?d 1, orgID, ro_Username req, ro_Email req, ''admin''))))) s3 = (Ok (Success st msg x), s1)"
    by (rule bnd_OkE)
  from named name_org_Ok [OF _ s2] have s3: "healthy (cs_db s3)" "\<exists>o1 \<in> set (t_organizations (cs_db s3)). live_org orgID o1"
    by (elim on_db_OkE; simp)+
  have origins: "origin \<in> set ?origins" using assms(2) by (simp add: signup_origins_def)
  then have "?origins \<noteq> []" by auto
  from update_origins_runs [OF s3] obtain s4 where upd: "UpdateOrganizationOrigins orgID ?origins s3 = (Ok (), s4)" by blast
  have "ignore (UpdateOrganizationOrigins orgID ?origins) s3 = (Ok (), s4)" using upd by (simp add: ignore_run)
  with more \<open>?origins \<noteq> []\<close> have "bnd (on_db fresh_uuid) (\<lambda>verificationToken.
      bnd (on_db (ignore (SetEmailVerificationToken (uuids ?d 1) verificationToken (24 * hour)))) (\<lambda>_.
      on_db (apiSuccess 201 ''Organization created successfully. Please check your email to verify your account.''
        (uuids ?d 1, orgID, ro_Username req, ro_Email req, ''admin'')))) s4 = (Ok (Success st msg x), s1)"
    by (simp add: bnd_Ok)
  then have "cs_refreshes s1 = cs_refreshes s4 \<and> t_organizations (cs_db s1) = t_organizations (cs_db s4)
      \<and> faults (cs_db s1) = faults (cs_db s4)"
    by (elim bnd_OkE on_db_OkE) (auto dest!: fresh_uuid_Ok ignore_Ok simp: SetEmailVerificationToken_def redis_set_def redis_cmd_def)
  with update_Ok [OF upd] s3(1) origins have "cs_refreshes s1 = cs_refreshes s3 @ [Started]" "healthy (cs_db s1)" "origin \<in> configured (cs_db s1)"
    by (auto simp: configured_def)
  from last_refresh_admits [OF this assms(2)] show ?thesis .
qed

definition mallory :: RegisterOrganizationRequest where
  "mallory = \<lparr>ro_OrganizationName = ''Any'', ro_Username = ''mallory'', ro_Email = ''m@example.org'', ro_Password = ''new-secret'',
     ro_DisplayName = ''M'', ro_AllowedOrigins = []\<rparr>"

definition evil_signup :: cors_state where
  "evil_signup = snd (handle_RegisterOrganization spelled_env True ''https://evil'' (Some mallory) served)"

theorem signup_admits_any_origin_witness:
  "\<exists>mw d. finish (cs_refreshes evil_signup) (cs_mw evil_signup) (cs_db evil_signup) = (Ok mw, d) \<and>
     cors_Handler mw ''https://evil'' ''GET'' d = (Ok (setHeaders (if allowAll mw then ''*'' else ''https://evil''), True), d)"
proof -
  have "handle_RegisterOrganization spelled_env True ''https://evil'' (Some mallory) served = (Ok (Success 201
       ''Organization created successfully. Please check your email to verify your account.''
       (''uuid-v4-1'', ''uuid-v4-0'', ''mallory'', ''m@example.org'', ''admin'')), evil_signup)"
    unfolding evil_signup_def by (rule run_fst) code_simp
  moreover have "healthy (cs_db served)" "uuids (cs_db served) 0 \<noteq> []"
    "\<forall>o1 \<in> set (t_organizations (cs_db served)). org_ID o1 \<noteq> uuids (cs_db served) 0" "''https://evil'' \<noteq> []"
    by code_simp+
  ultimately show ?thesis using signup_admits_any_origin [of spelled_env "''https://evil''" mallory served _ _ _ evil_signup "''GET''"] by simp
qed

section \<open>Updates of an organization\<close>

lemma find_map_live:
  assumes "find P t = Some old" and "\<And>r. P r \<Longrightarrow> P (f r)"
  shows "find P (map (\<lambda>r. if P r then f r else r) t) = Some (f old)"
  using assms by (induction t) (auto split: if_splits)

text \<open>C22. What an update of an organization leaves: on a server that does not fail, after a successful PUT the
  organization reads as the body says, field by field, unless the body gives it the status deleted: then it is
  gone, and reading it is answered with 404. A field that the body lacks is emptied, and a missing status becomes active, whatever the
  organization was before (so an update without a status reactivates a suspended organization); the slug, the
  parent, the origins and the time of creation are those of before.\<close>

theorem UpdateOrganization_GetOrganization:
  assumes "handle_UpdateOrganization jsonb c (Some upd) d = (Ok (Success st msg x), d')" and "healthy d"
  shows "if org_Status upd = ''deleted''
    then handle_GetOrganization c d' = (Ok (Failure 404 ''organization_not_found'' ''Organization not found''), d')
    else \<exists>old \<in> set (t_organizations d). live_org (c_Param_id c) old \<and>
    handle_GetOrganization c d' = (Ok (Success 200 ''Organization retrieved''
      (old\<lparr>org_Name := org_Name upd, org_Description := org_Description upd,
        org_Metadata := jsonb (or_default (org_Metadata upd) ''{}''), org_Settings := jsonb (or_default (org_Settings upd) ''{}''),
        org_BillingTier := org_BillingTier upd, org_MaxUsers := org_MaxUsers upd, org_MaxResources := org_MaxResources upd,
        org_Status := or_default (org_Status upd) ''active'', org_UpdatedAt := now d\<rparr>)), d')"
proof -
  let ?i = "c_Param_id c" and ?new = "update_org_defaults (c_Param_id c) upd"
  from assms(1,2) obtain old y where i: "?i \<noteq> []" and found: "find (live_org ?i) (t_organizations d) = Some old"
    and upd: "UpdateOrganization jsonb ?new d = (Ok y, d')"
    by (auto simp: handle_UpdateOrganization_def with_org_id_def org_error_def GetOrganization_def on_error_def attempt_def bnd_def select_ok
        split: if_splits option.splits prod.splits res.splits)
  have "org_ID ?new = ?i" by (simp add: update_org_defaults_def)
  with upd assms(2)
  have d': "d' = put_orgs (map (\<lambda>r. if live_org ?i r then written_org jsonb (now d) ?new r else r) (t_organizations d)) d"
    by (auto simp: UpdateOrganization_def org_params_def json_stmt_def bnd_def stmt_ok update_checked_ok
        split: if_splits option.splits)
  show ?thesis
  proof (cases "org_Status upd = ''deleted''")
    case True
    then have "\<not> live_org ?i (written_org jsonb t ?new r)" for t r
      by (simp add: written_org_def live_org_def update_org_defaults_def or_default_def)
    then have "find (live_org ?i) (t_organizations d') = None" by (auto simp: d' find_None_iff)
    moreover have "contains ''organization not found'' ''not found''" by code_simp
    ultimately have "handle_GetOrganization c d' = (Ok (Failure 404 ''organization_not_found'' ''Organization not found''), d')"
      using i assms(2) d' by (simp add: handle_GetOrganization_def with_org_id_def GetOrganization_def on_error_def attempt_def
          bnd_def select_ok org_error_def)
    with True show ?thesis by simp
  next
    case False
    then have live: "live_org ?i (written_org jsonb t ?new r)" if "live_org ?i r" for t r
      using that by (simp add: written_org_def live_org_def update_org_defaults_def or_default_def)
    have "find (live_org ?i) (t_organizations d') = Some (written_org jsonb (now d) ?new old)"
      using find_map_live [OF found live] d' by simp
    then have "handle_GetOrganization c d' = (Ok (Success 200 ''Organization retrieved'' (written_org jsonb (now d) ?new old)), d')"
      using i assms(2) d' by (simp add: handle_GetOrganization_def with_org_id_def GetOrganization_def on_error_def attempt_def bnd_def select_ok)
    moreover have "old \<in> set (t_organizations d) \<and> live_org ?i old" using found by (rule find_SomeD)
    ultimately show ?thesis using False by (auto simp: written_org_def update_org_defaults_def)
  qed
qed

definition suspended_db :: db where
  "suspended_db = members_db\<lparr>t_organizations := map (\<lambda>o1. o1\<lparr>org_Status := ''suspended''\<rparr>) (t_organizations members_db)\<rparr>"

definition rename_only :: Organization where
  "rename_only = (new_org [] ''Acme'' [] 0)\<lparr>org_Metadata := [], org_Settings := [], org_BillingTier := [], org_MaxUsers := 0,
     org_MaxResources := 0, org_Status := []\<rparr>"

theorem UpdateOrganization_GetOrganization_witness:
  "\<exists>d' found. handle_GetOrganization (ann_ctx ''o1'') d' = (Ok (Success 200 ''Organization retrieved'' found), d') \<and>
     org_Name found = ''Acme'' \<and> org_Status found = ''active'' \<and> org_MaxUsers found = 0 \<and> org_Slug found = ''org''"
proof -
  let ?run = "handle_UpdateOrganization id (ann_ctx ''o1'') (Some rename_only) suspended_db"
  have "(case fst ?run of Ok (Success _ _ _) \<Rightarrow> True | _ \<Rightarrow> False)" by code_simp
  then obtain st msg x where run: "?run = (Ok (Success st msg x), snd ?run)" by (auto simp: prod_eq_iff split: res.splits http.splits)
  have "healthy suspended_db" "org_Status rename_only \<noteq> ''deleted''"
    "\<forall>old \<in> set (t_organizations suspended_db). live_org ''o1'' old \<longrightarrow> org_Slug old = ''org''" by code_simp+
  moreover have "c_Param_id (ann_ctx ''o1'') = ''o1''" "org_Name rename_only = ''Acme''" "org_MaxUsers rename_only = 0"
    "or_default (org_Status rename_only) ''active'' = ''active''"
    by (simp_all add: ann_ctx_def rename_only_def new_org_def or_default_def)
  ultimately show ?thesis using UpdateOrganization_GetOrganization [OF run] by fastforce
qed

text \<open>The deletion of an organization does not reach its accounts: they sign in as before.\<close>

lemma DeleteOrganization_state:
  "healthy d \<Longrightarrow> \<exists>t. snd (handle_DeleteOrganization c d) = put_orgs t d"
  by (auto simp: handle_DeleteOrganization_def with_org_id_def org_error_def DeleteOrganization_def on_error_def attempt_def bnd_def
      exec_on_ok update_where_def intro: exI [of _ "t_organizations d"])

lemma deleted_org_signs_in:
  assumes "auth_works env am password" and "running d" and "handle_DeleteOrganization c d = (r, d')"
    and "find (\<lambda>u. usr_Email u = trim_space (to_lower email) \<and> in_scope [] u) (t_users d) = Some row"
    and "trim_space (to_lower email) \<noteq> []" and "bcrypt_ok env (usr_PasswordHash row) password"
    and "usr_Status row = ''active''" and "\<not> usr_MFAEnabled row"
  shows "\<exists>resp d''. handle_Login env anyone (Some (email, password)) d' = (Ok (Success 200 ''Login successful'' (LoggedIn resp)), d'') \<and>
    (\<forall>request. c_Authorization request = ''Bearer '' @ lr_AccessToken resp \<longrightarrow>
      (\<exists>claims. authenticated (jwt env) am request d'' = Some claims \<and> cl_OrganizationID claims = usr_OrganizationID row))"
proof -
  from DeleteOrganization_state [of d c] assms(2,3) obtain t where "d' = put_orgs t d" by (auto simp: running_def)
  with assms(2,4) have "healthy d'" "0 \<le> now d'" "redis d' (''blacklist:'' @ uuids d' 0) = None"
    "find (\<lambda>u. usr_Email u = trim_space (to_lower email) \<and> in_scope [] u) (t_users d') = Some row"
    by (simp_all add: running_def)
  moreover from assms(1) have "signs_for env am" "\<forall>m. sign env m \<noteq> None" "password \<noteq> []" by (simp_all add: auth_works_def)
  ultimately show ?thesis using login_token [OF _ _ _ _ _ _ assms(5) _ assms(6-8), of am d' anyone] by blast
qed

section \<open>Global settings\<close>

text \<open>On the migrated database the table of the global settings is missing: both endpoints always fail.\<close>

lemma global_settings_fail:
  "\<exists>d'. handle_GetGlobalSettings None d = (Ok (Failure 500 ''internal_server_error'' ''Failed to retrieve global settings''), d')"
  "\<exists>d'. handle_UpdateGlobalSettings None (Some settings) d = (Ok (Failure 500 ''internal_server_error'' ''Failed to update global settings''), d')"
proof -
  have "\<exists>e d'. GetGlobalSettings None d = (Err e, d')"
    by (cases "faults d")
      (auto simp: GetGlobalSettings_def on_settings_def bnd_def wrap_def stmt_def split: option.split)
  then show "\<exists>d'. handle_GetGlobalSettings None d = (Ok (Failure 500 ''internal_server_error'' ''Failed to retrieve global settings''), d')"
    "\<exists>d'. handle_UpdateGlobalSettings None (Some settings) d = (Ok (Failure 500 ''internal_server_error'' ''Failed to update global settings''), d')"
    by (auto simp: handle_GetGlobalSettings_def handle_UpdateGlobalSettings_def UpdateGlobalSettings_def on_error_def attempt_def
        bnd_def wrap_def)
qed

end
