(* ===== verification/Directory.thy ===== *)
theory Directory
  imports TenantFlow AccountHandler UserFlow
begin

text \<open>
  Tenant isolation of the directory: what the callers of one organization do through the endpoints on users,
  service accounts and API keys leaves the accounts of every other organization alone. The profile endpoint
  is the exception, and the theorem says how far it reaches.
\<close>

section \<open>What the endpoints may change\<close>

text \<open>A user without the fields of the profile.\<close>

definition account_core :: "User \<Rightarrow> User" where
  "account_core u = u\<lparr>usr_DisplayName := [], usr_AvatarURL := None, usr_Attributes := [], usr_Preferences := [],
     usr_UpdatedAt := 0\<rparr>"

text \<open>The users of the other organizations are still there, in order, but for their profiles.\<close>

definition foreign_users :: "string \<Rightarrow> db \<Rightarrow> db \<Rightarrow> bool" where
  "foreign_users org d d' \<longleftrightarrow> subseq (map account_core (filter (\<lambda>u. usr_OrganizationID u \<noteq> org) (t_users d)))
     (map account_core (filter (\<lambda>u. usr_OrganizationID u \<noteq> org) (t_users d')))"

text \<open>The rows of the other organizations are the same in a table without profiles.\<close>

definition foreign_rows :: "('r \<Rightarrow> string) \<Rightarrow> (db \<Rightarrow> 'r list) \<Rightarrow> string \<Rightarrow> db \<Rightarrow> db \<Rightarrow> bool" where
  "foreign_rows org_of T org d d' \<longleftrightarrow> others (\<lambda>r. org_of r = org) (T d) (T d')"

definition directory_rows :: "string \<Rightarrow> (db \<Rightarrow> db \<Rightarrow> bool) list" where
  "directory_rows org =
     [foreign_users org, foreign_rows sa_OrganizationID t_service_accounts org, foreign_rows ak_OrganizationID t_api_keys org,
      foreign_rows ses_OrganizationID t_sessions org, own role_key t_roles org, own policy_key t_policies org,
      own group_key t_groups org, own resource_key t_resources org, hung role_key t_roles rlp_RoleID t_role_policies org,
      hung role_key t_roles ra_RoleID t_role_assignments org, hung policy_key t_policies pv_PolicyID t_policy_versions org,
      hung group_key t_groups gm_GroupID t_group_memberships org,
      hung resource_key t_resources rp_ResourceID t_resource_permissions org,
      hung resource_key t_resources rs_ResourceID t_resource_shares org,
      same t_organizations, same t_content_items, same t_content_collaborators, same t_oauth_clients, same t_oidc_codes,
      same t_access_reviews, same t_audit_events, same t_resource_access_log]"

definition directory_only :: "string \<Rightarrow> db \<Rightarrow> db \<Rightarrow> bool" where
  "directory_only org d d' \<longleftrightarrow> list_all (\<lambda>R. R d d') (directory_rows org)"

lemma foreign_users_order: "reflp (foreign_users org)" "transp (foreign_users org)"
  by (auto simp: foreign_users_def reflp_def intro!: transpI intro: subseq_order.trans)

lemma foreign_rows_order: "reflp (foreign_rows org_of T org)" "transp (foreign_rows org_of T org)"
  by (auto simp: foreign_rows_def reflp_def intro!: transpI dest: others_trans)

lemma directory_order [keeps_intros]: "reflp (directory_only org)" "transp (directory_only org)"
proof -
  note orders = foreign_users_order foreign_rows_order own_order hung_order same_order
  have "list_all reflp (directory_rows org)" by (simp add: directory_rows_def orders)
  then show "reflp (directory_only org)" by (simp add: reflp_def directory_only_def all_reflp)
  have "list_all transp (directory_rows org)" by (simp add: directory_rows_def orders)
  then show "transp (directory_only org)" unfolding directory_only_def by (intro transpI) (rule all_transp)
qed

lemmas directory_defs = directory_only_def directory_rows_def own_def hung_def same_def foreign_users_def foreign_rows_def

text \<open>What stays within the organization's roles and policies stays within its directory.\<close>

lemma directory_of_tenant: "tenant_only org d d' \<Longrightarrow> directory_only org d d'"
  by (simp add: tenant_defs directory_defs)

lemma keeps_directory_tenant: "keeps (tenant_only org) m \<Longrightarrow> keeps (directory_only org) m"
  by (simp add: keeps_def directory_of_tenant)

lemma directory_advance [keeps_intros]: "directory_only org d (advance d)"
  by (rule directory_of_tenant) (rule tenant_only_advance)

lemma directory_advanceD: "directory_only org (advance d) d' \<Longrightarrow> directory_only org d d'"
  using directory_advance transpD [OF directory_order(2)] by blast

text \<open>The tables the endpoints write.\<close>

lemma directory_put_users:
  "subseq (map account_core (filter (\<lambda>u. usr_OrganizationID u \<noteq> org) (t_users d)))
     (map account_core (filter (\<lambda>u. usr_OrganizationID u \<noteq> org) t)) \<Longrightarrow> directory_only org d (put_users t d)"
  by (simp add: directory_defs)

lemma directory_puts:
  "others (\<lambda>a. sa_OrganizationID a = org) (t_service_accounts d) t1 \<Longrightarrow> directory_only org d (put_accounts t1 d)"
  "others (\<lambda>k. ak_OrganizationID k = org) (t_api_keys d) t2 \<Longrightarrow> directory_only org d (put_keys t2 d)"
  "others (\<lambda>s. ses_OrganizationID s = org) (t_sessions d) t3 \<Longrightarrow> directory_only org d (d\<lparr>t_sessions := t3\<rparr>)"
  by (simp_all add: directory_defs put_accounts_def put_keys_def)

lemma foreign_users_map:
  assumes "\<And>u. u \<in> set t \<Longrightarrow> P u \<Longrightarrow> usr_OrganizationID u = org \<or> account_core (f u) = account_core u"
  shows "subseq (map account_core (filter (\<lambda>u. usr_OrganizationID u \<noteq> org) t))
    (map account_core (filter (\<lambda>u. usr_OrganizationID u \<noteq> org) (map (\<lambda>u. if P u then f u else u) t)))"
  using assms
proof (induction t)
  case (Cons u t)
  have "usr_OrganizationID (account_core v) = usr_OrganizationID v" for v by (simp add: account_core_def)
  then have core: "usr_OrganizationID v = usr_OrganizationID w" if "account_core v = account_core w" for v w
    using that by metis
  from Cons.IH Cons.prems have "subseq (map account_core (filter (\<lambda>u. usr_OrganizationID u \<noteq> org) t))
    (map account_core (filter (\<lambda>u. usr_OrganizationID u \<noteq> org) (map (\<lambda>u. if P u then f u else u) t)))" by simp
  moreover from Cons.prems [of u] have "P u \<Longrightarrow> usr_OrganizationID u = org \<or> account_core (f u) = account_core u" by simp
  ultimately show ?case using core [of "f u" u] by auto
qed simp

section \<open>The stores\<close>

lemma keeps_directory_stmt: "(\<And>d x d'. f d = Inr (x, d') \<Longrightarrow> directory_only org d d') \<Longrightarrow> keeps (directory_only org) (stmt f)"
  by (rule keeps_stmt) (auto intro: directory_advance directory_advanceD)

lemma keeps_directory_exec: "(\<And>d. directory_only org d (put (snd (f d (get d))) d)) \<Longrightarrow> keeps (directory_only org) (exec_on get put f)"
  by (intro keeps_exec_on directory_advance) (blast intro: directory_advanceD)

lemma directory_store_users:
  assumes "store_users x t d = Inr (y, d')" and "subseq (map account_core (filter (\<lambda>u. usr_OrganizationID u \<noteq> org) (t_users d)))
     (map account_core (filter (\<lambda>u. usr_OrganizationID u \<noteq> org) t))"
  shows "directory_only org d d'"
  using assms by (auto simp: store_users_def intro: directory_put_users split: option.splits if_splits)

lemma directory_change_users:
  assumes "change_users_checked P f d = Inr (n, d')"
    and "\<And>u. P u \<Longrightarrow> usr_OrganizationID u = org \<or> account_core (f u) = account_core u"
  shows "directory_only org d d'"
  using assms(1) unfolding change_users_checked_def
  by (rule directory_store_users) (intro foreign_users_map assms(2))

lemma keeps_directory_users [keeps_intros]: "keeps (directory_only org) (users_CreateUser u)"
  "keeps (directory_only org) (users_UpdateUser pg u org)" "keeps (directory_only org) (DeleteUser i org)"
  "keeps (directory_only org) (SuspendUser pg i org reason)" "keeps (directory_only org) (ActivateUser pg i org)"
  "keeps (directory_only org) (UpdateUserProfile pg i updates)"
proof -
  show "keeps (directory_only org) (users_CreateUser u)"
    unfolding users_CreateUser_def by (rule keeps_directory_stmt) (auto split: if_splits elim!: directory_store_users)
  show "keeps (directory_only org) (users_UpdateUser pg u org)"
    unfolding users_UpdateUser_def Let_def
    by (intro keeps_json_stmt directory_advance keeps_directory_stmt, erule directory_store_users, intro foreign_users_map) simp
  show "keeps (directory_only org) (DeleteUser i org)" "keeps (directory_only org) (SuspendUser pg i org reason)"
    unfolding DeleteUser_def SuspendUser_def must_change_def
    by (intro keeps_intros keeps_directory_stmt, erule directory_change_users, simp add: live_user_def)+
  show "keeps (directory_only org) (ActivateUser pg i org)"
    unfolding ActivateUser_def must_change_def Let_def
    by (intro keeps_intros keeps_directory_stmt) (auto split: if_splits elim!: directory_change_users simp: live_user_def)
  have core: "account_core (update_profile pg updates u) = account_core u" for u
    by (simp add: update_profile_def set_field_def account_core_def split: option.split)
  show "keeps (directory_only org) (UpdateUserProfile pg i updates)"
    unfolding UpdateUserProfile_def must_change_def
    by (intro keeps_intros keeps_directory_stmt, erule directory_change_users) (simp add: core)
qed

lemma keeps_directory_accounts [keeps_intros]:
  "sa_OrganizationID a = org \<Longrightarrow> keeps (directory_only org) (CreateServiceAccount pg a)"
  "sa_OrganizationID a = org \<Longrightarrow> keeps (directory_only org) (UpdateServiceAccount pg a c)"
  "keeps (directory_only org) (DeleteServiceAccount i org)"
proof -
  assume a: "sa_OrganizationID a = org"
  then show "keeps (directory_only org) (CreateServiceAccount pg a)"
    unfolding CreateServiceAccount_def Let_def
    by (intro keeps_intros keeps_directory_stmt) (auto split: sum.splits option.splits intro!: directory_puts others_append)
  from a show "keeps (directory_only org) (UpdateServiceAccount pg a c)"
    unfolding UpdateServiceAccount_def must_change_def Let_def
    by (intro keeps_intros keeps_directory_stmt)
      (auto simp: live_account_def split: sum.splits option.splits intro!: directory_puts others_map)
next
  show "keeps (directory_only org) (DeleteServiceAccount i org)"
    unfolding DeleteServiceAccount_def
    by (intro keeps_intros keeps_directory_exec, simp only: snd_update_where, intro directory_puts others_map)
      (simp add: live_account_def)
qed

lemma keeps_directory_status:
  "(\<And>k. P k \<Longrightarrow> ak_OrganizationID k = org) \<Longrightarrow> keeps (directory_only org) (set_key_status status P)"
  unfolding set_key_status_def
  by (intro keeps_intros keeps_directory_stmt keeps_directory_exec, simp, simp only: snd_update_where, intro directory_puts others_map) simp

lemma keeps_directory_transaction:
  assumes m: "keeps (directory_only org) m"
  shows "keeps (directory_only org) (transaction m)"
proof -
  have "keeps (directory_only org) (bnd (select (\<lambda>_. ())) (\<lambda>_. bnd m (\<lambda>x. bnd (select (\<lambda>_. ())) (\<lambda>_. ret x))))"
    by (intro keeps_intros m)
  moreover have "directory_only org d (rolled_back d d')" for d d'
    by (simp add: rolled_back_def directory_defs)
  ultimately show ?thesis
    by (auto simp: keeps_def transaction_def split: prod.split res.split dest: spec) (metis snd_conv)
qed

lemma keeps_directory_keys [keeps_intros]: "keeps (directory_only org) (GenerateAPIKey pg i key org)"
  "keeps (directory_only org) (RevokeAPIKey i keyID org)" "keeps (directory_only org) (RotateServiceAccountKeys i org)"
proof -
  show "keeps (directory_only org) (GenerateAPIKey pg i key org)"
    unfolding GenerateAPIKey_def Let_def
    by (intro keeps_intros keeps_directory_stmt) (auto split: sum.splits option.splits intro!: directory_puts others_append)
  show "keeps (directory_only org) (RevokeAPIKey i keyID org)"
    unfolding RevokeAPIKey_def by (intro keeps_intros keeps_directory_status) simp
  show "keeps (directory_only org) (RotateServiceAccountKeys i org)"
    unfolding RotateServiceAccountKeys_def
    by (intro keeps_intros keeps_directory_transaction keeps_directory_status keeps_directory_exec, simp,
        simp only: snd_update_where, intro directory_puts others_map) simp
qed

text \<open>The default role, the events, the sessions and the reads.\<close>

lemma tenant_EnsureRoleByName: "keeps (tenant_only org) (EnsureRoleByName name description org)"
  unfolding EnsureRoleByName_def upsert_role_def Let_def
  by (intro keeps_intros keeps_stmt) (auto intro!: tenant_maps tenant_appends simp: named_role_def split: option.splits if_splits)

lemma keeps_directory_elsewhere [keeps_intros]: "keeps (directory_only org) (EnsureRoleByName name description org)"
  "keeps (directory_only org) (AssignRole jsonb a org)" "keeps (directory_only org) fresh_uuid"
  "keeps (directory_only org) (LogEvent event)" "keeps (directory_only org) (RevokeUserSessions i org)"
proof -
  show "keeps (directory_only org) (EnsureRoleByName name description org)" "keeps (directory_only org) (AssignRole jsonb a org)"
    by (rule keeps_directory_tenant, rule tenant_EnsureRoleByName tenant_AssignRole)+
  show uuid: "keeps (directory_only org) fresh_uuid"
    by (intro keeps_intros directory_of_tenant tenant_only_uuid)
  have "keeps (directory_only org) (\<lambda>d. (Ok (), offer filled d))" for filled
    by (simp add: keeps_def offer_def directory_defs)
  then show "keeps (directory_only org) (LogEvent event)" unfolding LogEvent_def Let_def by (intro keeps_intros uuid)
  show "keeps (directory_only org) (RevokeUserSessions i org)"
    unfolding RevokeUserSessions_def
    by (intro keeps_intros keeps_directory_exec, simp only: snd_update_where, intro directory_puts others_map)
      (simp add: active_of_def)
qed

lemma keeps_directory_reads [keeps_intros]: "keeps (directory_only org) (GetUserByEmail e c)" "keeps (directory_only org) (GetUserByID i c)"
  "keeps (directory_only org) (GetUser i c)" "keeps (directory_only org) (GetServiceAccount i c)"
  unfolding GetUserByEmail_def GetUserByID_def one_user_def GetUser_def GetServiceAccount_def by (intro keeps_intros)+

section \<open>The endpoints\<close>

lemmas directory_endpoints = with_user_id_def user_error_def account_error_def Let_def

lemma keeps_directory_pair [keeps_intros]: "(\<And>a b. keeps R (k a b)) \<Longrightarrow> keeps R (case p of (a, b) \<Rightarrow> k a b)"
  by (cases p) simp

lemma directory_user_calls:
  assumes "c_organization_id c = Some org"
  shows "keeps (directory_only org) (users_handle_CreateUser env c body1)" "keeps (directory_only org) (users_handle_UpdateUser pg c body2)"
    "keeps (directory_only org) (handle_DeleteUser c)" "keeps (directory_only org) (handle_UpdateUserProfile pg c body3)"
    "keeps (directory_only org) (handle_ChangePassword env pg c body4)" "keeps (directory_only org) (handle_SuspendUser pg c body5)"
    "keeps (directory_only org) (handle_ActivateUser pg c)" "keeps (directory_only org) (handle_RevokeUserSessions c)"
  unfolding users_handle_CreateUser_def users_handle_UpdateUser_def handle_DeleteUser_def handle_UpdateUserProfile_def
    handle_ChangePassword_def handle_SuspendUser_def handle_ActivateUser_def handle_RevokeUserSessions_def
    create_user_error_def ensureAndAssignUserRole_def user_event_def json_error_def directory_endpoints assms bnd_local_string
  by (intro keeps_intros)+

text \<open>The account that an update reads belongs to the caller's organization.\<close>

lemma keeps_on_error_result:
  assumes "transp R" and "keeps R m" and "\<And>x d d'. m d = (Ok x, d') \<Longrightarrow> Q x" and "\<And>x. Q x \<Longrightarrow> keeps R (k x)"
    and "\<And>e. keeps R (h e)"
  shows "keeps R (on_error m h k)"
  unfolding keeps_def
proof
  fix d
  obtain r d1 where m: "m d = (r, d1)" by (cases "m d")
  have R: "R d d1" using keepsD [OF assms(2) m] .
  show "R d (snd (on_error m h k d))"
  proof (cases r)
    case (Ok x)
    with m assms(3,4) have "R d1 (snd (k x d1))" by (auto simp: keeps_def)
    with R m Ok transpD [OF assms(1)] show ?thesis by (simp add: on_error_def attempt_def bnd_def)
  next
    case (Err e)
    from assms(5) [of e] have "R d1 (snd (h e d1))" by (simp add: keeps_def)
    with R m Err transpD [OF assms(1)] show ?thesis by (simp add: on_error_def attempt_def bnd_def)
  next
    case (Panic e)
    with R m show ?thesis by (simp add: on_error_def attempt_def bnd_def)
  qed
qed

lemma account_read: "GetServiceAccount i org d = (Ok a, d') \<Longrightarrow> sa_OrganizationID a = org"
  by (auto simp: GetServiceAccount_def live_account_def elim!: bnd_OkE dest!: select_Ok find_SomeD split: option.splits)

lemma directory_account_update:
  assumes "c_organization_id c = Some org"
  shows "keeps (directory_only org) (handle_UpdateServiceAccount pg c body)"
proof (cases body)
  case (Some req)
  show ?thesis
    unfolding handle_UpdateServiceAccount_def Some option.case assms bnd_local_string Let_def
    by (rule keeps_on_error_result [where Q = "\<lambda>a. sa_OrganizationID a = org"])
      (auto intro!: keeps_intros dest: account_read simp: merged_account_def account_error_def)
qed (simp add: handle_UpdateServiceAccount_def, intro keeps_intros)

lemma directory_account_calls:
  assumes "c_organization_id c = Some org"
  shows "keeps (directory_only org) (handle_CreateServiceAccount pg c body1)" "keeps (directory_only org) (handle_DeleteServiceAccount c)"
    "keeps (directory_only org) (handle_GenerateAPIKey env pg rand_hex c body3)" "keeps (directory_only org) (handle_RevokeAPIKey c keyID)"
    "keeps (directory_only org) (handle_RotateServiceAccountKeys c)"
  unfolding handle_CreateServiceAccount_def handle_DeleteServiceAccount_def handle_GenerateAPIKey_def
    handle_RevokeAPIKey_def handle_RotateServiceAccountKeys_def directory_endpoints assms bnd_local_string
  by (intro keeps_intros; simp)+

text \<open>The calls of one caller that write, with whatever id in the path.\<close>

inductive directory_call :: "auth_env \<Rightarrow> pg_types \<Rightarrow> fiber_ctx \<Rightarrow> db \<Rightarrow> db \<Rightarrow> bool" for env pg c where
  create_user: "users_handle_CreateUser env (c\<lparr>c_Param_id := i\<rparr>) new_body d = (r1, d') \<Longrightarrow> directory_call env pg c d d'"
| update_user: "users_handle_UpdateUser pg (c\<lparr>c_Param_id := i\<rparr>) user_body d = (r1, d') \<Longrightarrow> directory_call env pg c d d'"
| delete_user: "handle_DeleteUser (c\<lparr>c_Param_id := i\<rparr>) d = (r2, d') \<Longrightarrow> directory_call env pg c d d'"
| update_profile: "handle_UpdateUserProfile pg (c\<lparr>c_Param_id := i\<rparr>) profile_body d = (r2, d') \<Longrightarrow> directory_call env pg c d d'"
| change_password: "handle_ChangePassword env pg (c\<lparr>c_Param_id := i\<rparr>) passwords d = (r2, d') \<Longrightarrow> directory_call env pg c d d'"
| suspend_user: "handle_SuspendUser pg (c\<lparr>c_Param_id := i\<rparr>) reason d = (r2, d') \<Longrightarrow> directory_call env pg c d d'"
| activate_user: "handle_ActivateUser pg (c\<lparr>c_Param_id := i\<rparr>) d = (r2, d') \<Longrightarrow> directory_call env pg c d d'"
| revoke_sessions: "handle_RevokeUserSessions (c\<lparr>c_Param_id := i\<rparr>) d = (r2, d') \<Longrightarrow> directory_call env pg c d d'"
| create_account: "handle_CreateServiceAccount pg (c\<lparr>c_Param_id := i\<rparr>) account_body d = (r4, d') \<Longrightarrow> directory_call env pg c d d'"
| update_account: "handle_UpdateServiceAccount pg (c\<lparr>c_Param_id := i\<rparr>) account_body d = (r4, d') \<Longrightarrow> directory_call env pg c d d'"
| delete_account: "handle_DeleteServiceAccount (c\<lparr>c_Param_id := i\<rparr>) d = (r3, d') \<Longrightarrow> directory_call env pg c d d'"
| generate_key: "handle_GenerateAPIKey env pg rand_hex (c\<lparr>c_Param_id := i\<rparr>) key_body d = (r5, d') \<Longrightarrow> directory_call env pg c d d'"
| revoke_key: "handle_RevokeAPIKey (c\<lparr>c_Param_id := i\<rparr>) keyID d = (r6, d') \<Longrightarrow> directory_call env pg c d d'"
| rotate_keys: "handle_RotateServiceAccountKeys (c\<lparr>c_Param_id := i\<rparr>) d = (r7, d') \<Longrightarrow> directory_call env pg c d d'"
| pass: "directory_call env pg c d (d\<lparr>now := t, faults := fs\<rparr>)"

lemma directory_call_only:
  assumes "directory_call env pg c d d'" and "c_organization_id c = Some org"
  shows "directory_only org d d'"
proof -
  have c: "c_organization_id (c\<lparr>c_Param_id := i\<rparr>) = Some org" for i using assms(2) by simp
  note calls = directory_user_calls [OF c] directory_account_update [OF c] directory_account_calls [OF c]
  show ?thesis
    using assms(1) by (cases rule: directory_call.cases) (erule calls [THEN keepsD] | simp add: directory_defs)+
qed

section \<open>Properties\<close>

text \<open>C15. Tenant isolation of the directory: whatever sequence of calls on the user, service account and API key
  endpoints that write a caller makes, with whatever ids, bodies and outcomes, every user of another
  organization is still there, in order, with the same identity, email, password hash, second factor, status and
  organization (only the profile endpoint, which takes any id, can change the profile fields, and an update may
  move an account of the caller's organization to another one); no service
  account, API key or session of another organization changes, no role, policy, group or resource of one nor
  a row that hangs on it, and no organization, content, OAuth client or code, access review or audit event.\<close>

theorem directory_isolation:
  assumes "(directory_call env pg c)\<^sup>*\<^sup>* d d'" and "c_organization_id c = Some org"
  shows "directory_only org d d'"
  using assms(1) directory_order
proof (rule related_by_steps)
  show "directory_only org u v" if "directory_call env pg c u v" for u v by (rule directory_call_only [OF that assms(2)])
qed

text \<open>Two organizations with a key each; the first revokes its own key and asks for the other one as well.\<close>

definition plain_key :: "string \<Rightarrow> string \<Rightarrow> APIKey" where
  "plain_key i org = \<lparr>ak_ID = i, ak_Name = i, ak_KeyID = i, ak_KeyHash = ''hash'', ak_ServiceAccountID = ''a1'',
     ak_OrganizationID = org, ak_Scopes = [], ak_AllowedIPRanges = [], ak_RateLimitPerHour = 100, ak_LastUsedAt = 0,
     ak_UsageCount = 0, ak_ExpiresAt = 1000, ak_Status = ''active'', ak_CreatedAt = 0, ak_CreatedBy = ''u1''\<rparr>"

definition two_keys :: db where
  "two_keys = (empty_db 100)\<lparr>t_api_keys := [plain_key ''k1'' ''o1'', plain_key ''k2'' ''o2'']\<rparr>"

definition two_revokes :: db where
  "two_revokes = snd (handle_RevokeAPIKey (tenant_ctx\<lparr>c_Param_id := ''a1''\<rparr>) ''k2''
     (snd (handle_RevokeAPIKey (tenant_ctx\<lparr>c_Param_id := ''a1''\<rparr>) ''k1'' two_keys)))"

theorem directory_isolation_witness:
  "(directory_call spelled_env plain_pg tenant_ctx)\<^sup>*\<^sup>* two_keys two_revokes \<and> directory_only ''o1'' two_keys two_revokes \<and>
   map ak_Status (t_api_keys two_revokes) = [''deleted'', ''active'']"
proof -
  have steps: "(directory_call spelled_env plain_pg tenant_ctx)\<^sup>*\<^sup>* two_keys two_revokes"
    unfolding two_revokes_def
    by (rule rtranclp.rtrancl_into_rtrancl [OF r_into_rtranclp]) (rule revoke_key, rule prod.collapse [symmetric])+
  moreover have "c_organization_id tenant_ctx = Some ''o1''" by (simp add: tenant_ctx_def)
  moreover have "map ak_Status (t_api_keys two_revokes) = [''deleted'', ''active'']" by code_simp
  ultimately show ?thesis using directory_isolation [OF steps] by blast
qed

end
