(* ===== verification/ReviewStore.thy ===== *)
theory ReviewStore
  imports AuditQueue
begin

text \<open>
  Access reviews and the upkeep of the audit trail: the last part of internal/queries/audit_queries.go. A row is
  read into a struct whose times are no pointers, so a row with a NULL time cannot be read. \<open>jsonb\<close> is
  PostgreSQL's normal form of a JSON document.
\<close>

section \<open>Reviews\<close>

definition reviews_violation :: "db \<Rightarrow> AccessReview list \<Rightarrow> string option" where
  "reviews_violation d t =
     (if \<exists>r \<in> set t. length (rev_Name r) > 255 \<or> length (rev_Status r) > 50 then Some varchar_overflow
      else if \<not> distinct (map rev_ID t) then Some (duplicate_key ''access_reviews_pkey'')
      else if \<exists>r \<in> set t. rev_OrganizationID r \<notin> org_ID ` set (t_organizations d)
        then Some (foreign_key ''access_reviews_organization_id_fkey'')
      else if \<exists>r \<in> set t. rev_ReviewerID r \<notin> usr_ID ` set (t_users d) then Some (foreign_key ''access_reviews_reviewer_id_fkey'')
      else None)"

abbreviation put_reviews :: "AccessReview list \<Rightarrow> db \<Rightarrow> db" where
  "put_reviews t d \<equiv> d\<lparr>t_access_reviews := t\<rparr>"

text \<open>\<open>Scan\<close> into the struct, in the order of its columns.\<close>

definition null_time :: "string \<Rightarrow> string" where
  "null_time column = ''sql: Scan error on column '' @ column @ '': unsupported Scan, storing driver.Value type <nil> into type *time.Time''"

definition scan_review :: "AccessReview \<Rightarrow> AccessReview query" where
  "scan_review r = (if rev_DueDate r = None then fail (null_time ''due_date'')
     else if rev_CompletedAt r = None then fail (null_time ''completed_at'') else ret r)"

text \<open>The loop over the rows of a result: the first row that cannot be read ends it.\<close>

fun scan_rows :: "('r \<Rightarrow> 'a query) \<Rightarrow> 'r list \<Rightarrow> 'a list query" where
  "scan_rows f [] = ret []"
| "scan_rows f (r # rs) = bnd (f r) (\<lambda>x. bnd (scan_rows f rs) (\<lambda>xs. ret (x # xs)))"

record ListAccessReviewsParams =
  lv_OrganizationID :: string
  lv_ReviewerID :: string
  lv_Status :: string
  lv_StartTime :: "instant option"
  lv_EndTime :: "instant option"
  lv_Limit :: int
  lv_Offset :: int

definition review_matches :: "ListAccessReviewsParams \<Rightarrow> AccessReview \<Rightarrow> bool" where
  "review_matches p r \<longleftrightarrow> filter_opt (lv_OrganizationID p) (Some (rev_OrganizationID r))
     \<and> filter_opt (lv_ReviewerID p) (Some (rev_ReviewerID r)) \<and> filter_opt (lv_Status p) (Some (rev_Status r))
     \<and> (case lv_StartTime p of None \<Rightarrow> True | Some t \<Rightarrow> t \<le> rev_CreatedAt r)
     \<and> (case lv_EndTime p of None \<Rightarrow> True | Some t \<Rightarrow> rev_CreatedAt r \<le> t)"

definition ListAccessReviews :: "ListAccessReviewsParams \<Rightarrow> (AccessReview list \<times> nat) query" where
  "ListAccessReviews params =
     bnd (select (\<lambda>d. length (filter (review_matches params) (t_access_reviews d)))) (\<lambda>totalCount.
     bnd (select_page (if lv_Limit params \<le> 0 then 50 else lv_Limit params) (max 0 (lv_Offset params))
            (\<lambda>d. order_desc rev_CreatedAt (filter (review_matches params) (t_access_reviews d)))) (\<lambda>rows.
     bnd (scan_rows scan_review rows) (\<lambda>reviews. ret (reviews, totalCount))))"

definition new_review :: "(string \<Rightarrow> string) \<Rightarrow> instant \<Rightarrow> AccessReview \<Rightarrow> AccessReview" where
  "new_review jsonb t r = r\<lparr>rev_Scope := jsonb (rev_Scope r), rev_Findings := jsonb (rev_Findings r),
     rev_Recommendations := jsonb (rev_Recommendations r), rev_Status := (if rev_Status r = [] then ''pending'' else rev_Status r),
     rev_CompletedAt := None, rev_CreatedAt := (if rev_CreatedAt r = 0 then t else rev_CreatedAt r),
     rev_UpdatedAt := (if rev_UpdatedAt r = 0 then t else rev_UpdatedAt r)\<rparr>"

text \<open>The row is stored before what the statement returns is read.\<close>

definition CreateAccessReview :: "(string \<Rightarrow> string) \<Rightarrow> AccessReview \<Rightarrow> AccessReview query" where
  "CreateAccessReview jsonb review = gets now (\<lambda>t. let row = new_review jsonb t review in
     bnd (json_stmt [rev_Scope review, rev_Findings review, rev_Recommendations review] (stmt (\<lambda>d.
       case reviews_violation d (t_access_reviews d @ [row]) of Some e \<Rightarrow> Inl e
       | None \<Rightarrow> Inr ((), put_reviews (t_access_reviews d @ [row]) d)))) (\<lambda>_. scan_review row))"

definition review_of :: "string \<Rightarrow> string \<Rightarrow> AccessReview \<Rightarrow> bool" where
  "review_of reviewID organizationID r \<longleftrightarrow> rev_ID r = reviewID \<and> rev_OrganizationID r = organizationID"

definition no_review :: string where
  "no_review = ''access review not found''"

definition GetAccessReview :: "string \<Rightarrow> string \<Rightarrow> AccessReview query" where
  "GetAccessReview reviewID organizationID = bnd (select (\<lambda>d. find (review_of reviewID organizationID) (t_access_reviews d)))
     (\<lambda>r. case r of None \<Rightarrow> fail no_review | Some row \<Rightarrow> scan_review row)"

definition changed_review :: "(string \<Rightarrow> string) \<Rightarrow> instant \<Rightarrow> AccessReview \<Rightarrow> AccessReview \<Rightarrow> AccessReview" where
  "changed_review jsonb t review r = r\<lparr>rev_Name := rev_Name review, rev_Description := rev_Description review,
     rev_ReviewerID := rev_ReviewerID review, rev_Scope := jsonb (rev_Scope review), rev_Status := rev_Status review,
     rev_DueDate := rev_DueDate review, rev_Findings := jsonb (rev_Findings review),
     rev_Recommendations := jsonb (rev_Recommendations review), rev_UpdatedAt := t\<rparr>"

definition UpdateAccessReview :: "(string \<Rightarrow> string) \<Rightarrow> string \<Rightarrow> string \<Rightarrow> AccessReview \<Rightarrow> AccessReview query" where
  "UpdateAccessReview jsonb reviewID organizationID review = gets now (\<lambda>t.
     bnd (json_stmt [rev_Scope review, rev_Findings review, rev_Recommendations review] (stmt (\<lambda>d.
       let rows = map (\<lambda>r. if review_of reviewID organizationID r then changed_review jsonb t review r else r) (t_access_reviews d) in
       case reviews_violation d rows of Some e \<Rightarrow> Inl e
       | None \<Rightarrow> Inr (find (review_of reviewID organizationID) rows, put_reviews rows d))))
     (\<lambda>r. case r of None \<Rightarrow> fail no_review | Some row \<Rightarrow> scan_review row))"

definition CompleteAccessReview :: "(string \<Rightarrow> string) \<Rightarrow> string \<Rightarrow> string \<Rightarrow> string \<Rightarrow> string \<Rightarrow> unit query" where
  "CompleteAccessReview jsonb reviewID organizationID findings recommendations = gets now (\<lambda>t.
     bnd (json_stmt [findings, recommendations] (exec_on t_access_reviews put_reviews (\<lambda>_.
       update_where (\<lambda>r. review_of reviewID organizationID r \<and> rev_Status r \<noteq> ''completed'')
         (\<lambda>r. r\<lparr>rev_Status := ''completed'', rev_CompletedAt := Some t, rev_Findings := jsonb findings,
            rev_Recommendations := jsonb recommendations, rev_UpdatedAt := t\<rparr>))))
     (\<lambda>n. if n = 0 then fail ''access review not found or already completed'' else ret ()))"

definition DeleteAccessReview :: "string \<Rightarrow> string \<Rightarrow> unit query" where
  "DeleteAccessReview reviewID organizationID = bnd (exec_on t_access_reviews put_reviews
       (\<lambda>_. delete_where (review_of reviewID organizationID)))
     (\<lambda>n. if n = 0 then fail no_review else ret ())"

section \<open>Upkeep of the audit trail\<close>

definition GetAuditEventsByUser :: "string \<Rightarrow> string \<Rightarrow> int \<Rightarrow> AuditEvent list query" where
  "GetAuditEventsByUser userID organizationID limit =
     select_page (if limit \<le> 0 then 50 else limit) 0 (\<lambda>d. order_desc time_of (filter (\<lambda>e. aev_PrincipalID e = Some userID
       \<and> aev_OrganizationID e = organizationID) (t_audit_events d)))"

definition DeleteOldAuditEvents :: "int \<Rightarrow> string \<Rightarrow> nat query" where
  "DeleteOldAuditEvents olderThan organizationID = gets now (\<lambda>t. exec_on t_audit_events (\<lambda>rows d. d\<lparr>t_audit_events := rows\<rparr>)
     (\<lambda>_. delete_where (\<lambda>e. time_of e < t - olderThan \<and> aev_OrganizationID e = organizationID)))"

end
