(* ===== verification/AuditReports.thy ===== *)
theory AuditReports
  imports Complex_Main ReviewStore PolicyStore
begin

text \<open>
  The three reports of internal/queries/audit_queries.go. Rows of equal rank come in an order the server leaves
  open, here that of the table; the order of text in the database is the parameter \<open>collate\<close>, a percentage in
  floats the parameter \<open>percent\<close>. The list of policy checks is never filled.
\<close>

section \<open>Periods, groups and counts\<close>

text \<open>Thirty days before the end when no start is given; \<open>BETWEEN\<close> includes both ends.\<close>

definition report_period :: "instant \<Rightarrow> instant option \<Rightarrow> instant option \<Rightarrow> instant \<times> instant" where
  "report_period t start end_time = (let e = (case end_time of None \<Rightarrow> t | Some x \<Rightarrow> x) in
     (case start of None \<Rightarrow> e - 2592000 * second | Some x \<Rightarrow> x, e))"

definition report_rows :: "string \<Rightarrow> instant \<times> instant \<Rightarrow> db \<Rightarrow> AuditEvent list" where
  "report_rows organizationID period d = filter (\<lambda>e. fst period \<le> time_of e \<and> time_of e \<le> snd period
     \<and> filter_opt organizationID (Some (aev_OrganizationID e))) (t_audit_events d)"

text \<open>\<open>COUNT(DISTINCT column)\<close> leaves NULL out; \<open>GROUP BY\<close> keeps it.\<close>

definition count_distinct :: "('r \<Rightarrow> 'v option) \<Rightarrow> 'r list \<Rightarrow> nat" where
  "count_distinct f rows = length (remdups (List.map_filter f rows))"

definition count_when :: "('r \<Rightarrow> bool) \<Rightarrow> 'r list \<Rightarrow> nat" where
  "count_when P rows = length (filter P rows)"

definition group_by :: "('r \<Rightarrow> 'k) \<Rightarrow> 'r list \<Rightarrow> ('k \<times> 'r list) list" where
  "group_by f rows = map (\<lambda>k. (k, filter (\<lambda>r. f r = k) rows)) (remdups (map f rows))"

definition most_rows :: "('k \<times> 'r list) list \<Rightarrow> ('k \<times> 'r list) list" where
  "most_rows gs = sort_key (\<lambda>g. - int (length (snd g))) gs"

definition latest :: "AuditEvent list \<Rightarrow> instant" where
  "latest rows = Max (set (map time_of rows))"

definition null_string :: "string \<Rightarrow> string" where
  "null_string column = ''sql: Scan error on column '' @ column @ '': converting NULL to string is unsupported''"

section \<open>Access\<close>

record AccessReportParams =
  arp_OrganizationID :: string
  arp_StartTime :: "instant option"
  arp_EndTime :: "instant option"
  arp_UserID :: string
  arp_IncludeDetails :: bool

record UserActivitySummary =
  uas_UserID :: string
  uas_UserEmail :: string
  uas_LastActivity :: instant
  uas_ActionCount :: nat
  uas_SessionCount :: nat
  uas_TopActions :: "string list"

record AccessSummary =
  acs_TotalUsers :: nat
  acs_ActiveUsers :: nat
  acs_TotalSessions :: nat
  acs_SuccessfulLogins :: nat
  acs_FailedLogins :: nat
  acs_TotalActions :: nat
  acs_TopActions :: "(string \<times> nat) list"
  acs_TopResources :: "(string \<times> nat) list"

record AccessReportData =
  ard_Summary :: AccessSummary
  ard_UserActivity :: "UserActivitySummary list"
  ard_GeneratedAt :: instant
  ard_Period :: "instant \<times> instant"

definition access_summary :: "instant \<Rightarrow> AuditEvent list \<Rightarrow> AccessSummary" where
  "access_summary start rows = \<lparr>acs_TotalUsers = count_distinct aev_PrincipalID rows,
     acs_ActiveUsers = count_distinct (\<lambda>e. if start \<le> time_of e then aev_PrincipalID e else None) rows,
     acs_TotalSessions = count_distinct aev_SessionID rows,
     acs_SuccessfulLogins = count_when (\<lambda>e. aev_Action e = ''login'' \<and> aev_Result e = ''success'') rows,
     acs_FailedLogins = count_when (\<lambda>e. aev_Action e = ''login'' \<and> aev_Result e = ''failure'') rows,
     acs_TotalActions = length rows, acs_TopActions = [], acs_TopResources = []\<rparr>"

definition top_actions :: "AuditEvent list \<Rightarrow> (string \<times> nat) list" where
  "top_actions rows = map (\<lambda>(k, es). (k, length es)) (take 10 (most_rows (group_by aev_Action rows)))"

definition top_resources :: "AuditEvent list \<Rightarrow> (string \<times> nat) list" where
  "top_resources rows = map (\<lambda>(k, es). (k, length es)) (take 10 (most_rows (group_by (the \<circ> aev_ResourceType)
     (filter (\<lambda>e. aev_ResourceType e \<noteq> None \<and> aev_ResourceType e \<noteq> Some []) rows))))"

text \<open>The text of an array, as the server writes it, and the code's way of taking it apart.\<close>

definition array_element :: "string \<Rightarrow> string" where
  "array_element s = (if s = [] \<or> equal_fold s ''NULL'' \<or> list_ex (\<lambda>c. is_space c \<or> c \<in> set [CHR ''{'', CHR ''}'', CHR '','', CHR 0x22, CHR 0x5C]) s
     then [CHR 0x22] @ concat (map (\<lambda>c. if c = CHR 0x22 \<or> c = CHR 0x5C then [CHR 0x5C, c] else [c]) s) @ [CHR 0x22] else s)"

fun comma_list :: "string list \<Rightarrow> string" where
  "comma_list [] = []"
| "comma_list [x] = x"
| "comma_list (x # xs) = x @ CHR '','' # comma_list xs"

definition array_text :: "string list \<Rightarrow> string" where
  "array_text xs = ''{'' @ comma_list (map array_element xs) @ ''}''"

definition trim_set :: "char list \<Rightarrow> string \<Rightarrow> string" where
  "trim_set cs s = rev (dropWhile (\<lambda>c. c \<in> set cs) (rev (dropWhile (\<lambda>c. c \<in> set cs) s)))"

definition split_array :: "string \<Rightarrow> string list" where
  "split_array s = (let t = trim_set [CHR ''{'', CHR ''}''] s in if t = [] then [] else split_on (CHR '','') t)"

definition user_activity ::
  "(string list \<Rightarrow> string list) \<Rightarrow> db \<Rightarrow> string option \<times> AuditEvent list \<Rightarrow> string option \<times> UserActivitySummary" where
  "user_activity collate d g = (fst g, \<lparr>uas_UserID = (case fst g of None \<Rightarrow> [] | Some i \<Rightarrow> i),
     uas_UserEmail = (case find (\<lambda>u. fst g = Some (usr_ID u)) (t_users d) of None \<Rightarrow> [] | Some u \<Rightarrow> usr_Email u),
     uas_LastActivity = latest (snd g), uas_ActionCount = length (snd g), uas_SessionCount = count_distinct aev_SessionID (snd g),
     uas_TopActions = split_array (array_text (collate (remdups (map aev_Action (snd g)))))\<rparr>)"

definition scan_activity :: "string option \<times> UserActivitySummary \<Rightarrow> UserActivitySummary query" where
  "scan_activity r = (case fst r of None \<Rightarrow> fail (null_string ''principal_id'') | Some _ \<Rightarrow> ret (snd r))"

text \<open>The user of the parameters is not used.\<close>

definition GenerateAccessReport :: "(string list \<Rightarrow> string list) \<Rightarrow> AccessReportParams \<Rightarrow> AccessReportData query" where
  "GenerateAccessReport collate params = gets now (\<lambda>t.
     let period = report_period t (arp_StartTime params) (arp_EndTime params);
         rows = report_rows (arp_OrganizationID params) period in
     bnd (select (\<lambda>d. access_summary (fst period) (rows d))) (\<lambda>summary.
     bnd (select (\<lambda>d. top_actions (rows d))) (\<lambda>actions.
     bnd (select (\<lambda>d. top_resources (rows d))) (\<lambda>resources.
     bnd (if arp_IncludeDetails params
            then bnd (select (\<lambda>d. map (user_activity collate d)
                    (take 100 (order_desc (latest \<circ> snd) (group_by aev_PrincipalID (rows d))))))
                  (scan_rows scan_activity)
            else ret []) (\<lambda>activity.
     ret \<lparr>ard_Summary = summary\<lparr>acs_TopActions := actions, acs_TopResources := resources\<rparr>,
          ard_UserActivity = activity, ard_GeneratedAt = t, ard_Period = period\<rparr>)))))"

section \<open>Compliance\<close>

record ComplianceReportParams =
  crp_OrganizationID :: string
  crp_StartTime :: "instant option"
  crp_EndTime :: "instant option"
  crp_Standards :: "string list"

record SecurityEventSummary =
  sev_Type :: string
  sev_Count :: nat
  sev_Severity :: string
  sev_LastOccured :: instant

record ComplianceSummary =
  cps_ComplianceScore :: rat
  cps_TotalChecks :: int
  cps_PassedChecks :: int
  cps_FailedChecks :: int
  cps_CriticalViolations :: int
  cps_HighRiskEvents :: int
  cps_PolicyViolations :: int
  cps_AccessViolations :: int
  cps_ViolationsByCategory :: "string \<Rightarrow> int option"

record ComplianceReportData =
  cpd_Summary :: ComplianceSummary
  cpd_SecurityEvents :: "SecurityEventSummary list"
  cpd_Recommendations :: "string list"
  cpd_GeneratedAt :: instant
  cpd_Period :: "instant \<times> instant"

definition suspicious :: "AuditEvent \<Rightarrow> bool" where
  "suspicious e \<longleftrightarrow> aev_Result e = ''failure'' \<or> aev_Severity e \<in> {''HIGH'', ''CRITICAL''}
     \<or> aev_Action e \<in> {''failed_login'', ''unauthorized_access'', ''privilege_escalation''}"

definition security_events :: "AuditEvent list \<Rightarrow> SecurityEventSummary list" where
  "security_events rows = map (\<lambda>((res, sev), es). \<lparr>sev_Type = res, sev_Count = length es, sev_Severity = sev,
     sev_LastOccured = latest es\<rparr>) (most_rows (group_by (\<lambda>e. (aev_Result e, aev_Severity e)) (filter suspicious rows)))"

text \<open>One round of the loop: the counters and the category of a row.\<close>

definition violation_category :: "SecurityEventSummary \<Rightarrow> string" where
  "violation_category ev = (if sev_Type ev = ''failure'' then ''policy'' else if sev_Severity ev = ''CRITICAL'' then ''critical''
     else if sev_Severity ev = ''HIGH'' then ''high_risk'' else ''general'')"

definition bump :: "string \<Rightarrow> int \<Rightarrow> (string \<Rightarrow> int option) \<Rightarrow> string \<Rightarrow> int option" where
  "bump k n m = m(k \<mapsto> (case m k of None \<Rightarrow> 0 | Some x \<Rightarrow> x) + n)"

definition categorize :: "ComplianceSummary \<Rightarrow> SecurityEventSummary \<Rightarrow> ComplianceSummary" where
  "categorize s ev = (let n = int (sev_Count ev) in s\<lparr>
     cps_CriticalViolations := (if sev_Severity ev = ''CRITICAL'' then cps_CriticalViolations s + n else cps_CriticalViolations s),
     cps_HighRiskEvents := (if sev_Severity ev = ''HIGH'' then cps_HighRiskEvents s + n else cps_HighRiskEvents s),
     cps_PolicyViolations := (if sev_Type ev = ''failure'' then cps_PolicyViolations s + n else cps_PolicyViolations s),
     cps_ViolationsByCategory := bump (violation_category ev) n (cps_ViolationsByCategory s)\<rparr>)"

definition no_summary :: ComplianceSummary where
  "no_summary = \<lparr>cps_ComplianceScore = 0, cps_TotalChecks = 0, cps_PassedChecks = 0, cps_FailedChecks = 0,
     cps_CriticalViolations = 0, cps_HighRiskEvents = 0, cps_PolicyViolations = 0, cps_AccessViolations = 0,
     cps_ViolationsByCategory = (\<lambda>_. None)\<rparr>"

definition compliance_summary :: "(int \<Rightarrow> int \<Rightarrow> rat) \<Rightarrow> SecurityEventSummary list \<Rightarrow> nat \<Rightarrow> ComplianceSummary" where
  "compliance_summary percent evs totalEvents =
     (let s = foldl categorize no_summary evs; n = int totalEvents; v = int (sum_list (map sev_Count evs)) in
      s\<lparr>cps_TotalChecks := n, cps_FailedChecks := v, cps_PassedChecks := n - v,
        cps_ComplianceScore := (if totalEvents > 0 then percent (n - v) n else 0)\<rparr>)"

definition compliance_advice :: "ComplianceSummary \<Rightarrow> string list" where
  "compliance_advice s =
     (if cps_CriticalViolations s > 0 then [''Immediate attention required: Critical security violations detected''] else [])
     @ (if cps_PolicyViolations s > cps_TotalChecks s div 10 then [''Review and strengthen access control policies''] else [])
     @ (if cps_ComplianceScore s < 95 then [''Implement additional security monitoring and controls''] else [])"

definition GenerateComplianceReport :: "(int \<Rightarrow> int \<Rightarrow> rat) \<Rightarrow> ComplianceReportParams \<Rightarrow> ComplianceReportData query" where
  "GenerateComplianceReport percent params = gets now (\<lambda>t.
     let period = report_period t (crp_StartTime params) (crp_EndTime params);
         rows = report_rows (crp_OrganizationID params) period in
     bnd (select (\<lambda>d. security_events (rows d))) (\<lambda>evs.
     bnd (select (\<lambda>d. length (rows d))) (\<lambda>totalEvents.
     let summary = compliance_summary percent evs totalEvents in
     ret \<lparr>cpd_Summary = summary, cpd_SecurityEvents = evs, cpd_Recommendations = compliance_advice summary,
          cpd_GeneratedAt = t, cpd_Period = period\<rparr>)))"

section \<open>Policy usage\<close>

record PolicyUsageReportParams =
  pup_OrganizationID :: string
  pup_StartTime :: "instant option"
  pup_EndTime :: "instant option"
  pup_PolicyID :: string

record PolicyUsageItem =
  pui_PolicyID :: string
  pui_PolicyName :: string
  pui_UsageCount :: nat
  pui_AllowCount :: nat
  pui_DenyCount :: nat
  pui_EffectivRate :: rat

record PolicyDetailedUsage =
  pdu_PolicyID :: string
  pdu_PolicyName :: string
  pdu_Version :: string
  pdu_Status :: string
  pdu_Evaluations :: nat
  pdu_Allows :: nat
  pdu_Denies :: nat
  pdu_LastUsed :: instant
  pdu_AvgResponseMs :: nat

record PolicyUsageReportData =
  pur_TotalPolicies :: nat
  pur_ActivePolicies :: nat
  pur_PolicyEvaluations :: nat
  pur_AllowDecisions :: nat
  pur_DenyDecisions :: nat
  pur_TopPolicies :: "PolicyUsageItem list"
  pur_PolicyDetails :: "PolicyDetailedUsage list"
  pur_GeneratedAt :: instant
  pur_Period :: "instant \<times> instant"

definition usage_rows :: "PolicyUsageReportParams \<Rightarrow> instant \<times> instant \<Rightarrow> db \<Rightarrow> AuditEvent list" where
  "usage_rows params period d = filter (\<lambda>e. aev_Action e \<in> {''policy_evaluation'', ''access_decision'', ''authorization''}
     \<and> filter_opt (pup_PolicyID params) (aev_ResourceID e)) (report_rows (pup_OrganizationID params) period d)"

text \<open>A literal that is compared with an enum column has to be one of its labels, or the server refuses the statement.\<close>

definition with_labels :: "string \<Rightarrow> string list \<Rightarrow> string list \<Rightarrow> 'a query \<Rightarrow> 'a query" where
  "with_labels ty labels literals m = (if set literals \<subseteq> set labels then m else stmt (\<lambda>_. Inl (bad_enum ty)))"

definition policy_named :: "db \<Rightarrow> string option \<Rightarrow> (Policy \<Rightarrow> string) \<Rightarrow> string \<Rightarrow> string" where
  "policy_named d i f unknown = (case find (\<lambda>p. i = Some (pol_ID p)) (t_policies d) of None \<Rightarrow> unknown | Some p \<Rightarrow> f p)"

definition usage_item :: "(int \<Rightarrow> int \<Rightarrow> rat) \<Rightarrow> db \<Rightarrow> string option \<times> AuditEvent list \<Rightarrow> string option \<times> PolicyUsageItem" where
  "usage_item percent d g = (let n = length (snd g); a = count_when (\<lambda>e. aev_Result e = ''allow'') (snd g) in
     (fst g, \<lparr>pui_PolicyID = (case fst g of None \<Rightarrow> [] | Some i \<Rightarrow> i), pui_PolicyName = policy_named d (fst g) pol_Name ''Unknown Policy'',
       pui_UsageCount = n, pui_AllowCount = a, pui_DenyCount = count_when (\<lambda>e. aev_Result e = ''deny'') (snd g),
       pui_EffectivRate = (if n > 0 then percent (int a) (int n) else 0)\<rparr>))"

definition detailed_usage :: "db \<Rightarrow> string option \<times> AuditEvent list \<Rightarrow> string option \<times> PolicyDetailedUsage" where
  "detailed_usage d g = (fst g, \<lparr>pdu_PolicyID = (case fst g of None \<Rightarrow> [] | Some i \<Rightarrow> i),
     pdu_PolicyName = policy_named d (fst g) pol_Name ''Unknown Policy'', pdu_Version = policy_named d (fst g) pol_Version ''Unknown'',
     pdu_Status = policy_named d (fst g) pol_Status ''Unknown'', pdu_Evaluations = length (snd g),
     pdu_Allows = count_when (\<lambda>e. aev_Result e = ''allow'') (snd g), pdu_Denies = count_when (\<lambda>e. aev_Result e = ''deny'') (snd g),
     pdu_LastUsed = latest (snd g), pdu_AvgResponseMs = 50\<rparr>)"

definition scan_usage :: "string option \<times> 'u \<Rightarrow> 'u query" where
  "scan_usage r = (case fst r of None \<Rightarrow> fail (null_string ''policy_id'') | Some _ \<Rightarrow> ret (snd r))"

definition usage_summary :: "AuditEvent list \<Rightarrow> nat \<times> nat \<times> nat \<times> nat" where
  "usage_summary rows = (count_distinct aev_ResourceID rows, length rows, count_when (\<lambda>e. aev_Result e = ''allow'') rows,
     count_when (\<lambda>e. aev_Result e = ''deny'') rows)"

text \<open>When the policies cannot be counted, the active ones are reported.\<close>

definition GeneratePolicyUsageReport :: "(int \<Rightarrow> int \<Rightarrow> rat) \<Rightarrow> PolicyUsageReportParams \<Rightarrow> PolicyUsageReportData query" where
  "GeneratePolicyUsageReport percent params = gets now (\<lambda>t.
     let period = report_period t (pup_StartTime params) (pup_EndTime params);
         rows = usage_rows params period in
     bnd (with_labels ''audit_result'' audit_results [''allow'', ''deny''] (select (\<lambda>d. usage_summary (rows d)))) (\<lambda>(active, evaluations, allows, denies).
     bnd (attempt (select (\<lambda>d. length (filter (\<lambda>p. filter_opt (pup_OrganizationID params) (Some (pol_OrganizationID p))) (t_policies d))))) (\<lambda>total.
     bnd (bnd (with_labels ''audit_result'' audit_results [''allow'', ''deny'']
            (select (\<lambda>d. map (usage_item percent d) (take 10 (most_rows (group_by aev_ResourceID (rows d)))))))
          (scan_rows scan_usage)) (\<lambda>tops.
     bnd (bnd (with_labels ''entity_status'' entity_status [''Unknown''] (with_labels ''audit_result'' audit_results [''allow'', ''deny'']
            (select (\<lambda>d. map (detailed_usage d) (most_rows (group_by aev_ResourceID (rows d)))))))
          (scan_rows scan_usage)) (\<lambda>details.
     ret \<lparr>pur_TotalPolicies = (case total of Inl _ \<Rightarrow> active | Inr n \<Rightarrow> n), pur_ActivePolicies = active,
          pur_PolicyEvaluations = evaluations, pur_AllowDecisions = allows, pur_DenyDecisions = denies,
          pur_TopPolicies = tops, pur_PolicyDetails = details, pur_GeneratedAt = t, pur_Period = period\<rparr>)))))"

end
