(* ===== verification/AuditHandler.thy ===== *)
theory AuditHandler
  imports AuditReports Http
begin

text \<open>
  The audit, access review and administration endpoints: the last part of internal/handlers/handlers.go. The
  query string is a record; its numbers are as \<open>QueryInt\<close> delivers them, and \<open>rfc3339\<close> reads a time.
\<close>

section \<open>Audit events\<close>

record audit_query =
  q_organization_id :: string
  q_principal_id :: string
  q_action :: string
  q_resource_type :: string
  q_result :: string
  q_severity :: string
  q_start_time :: string
  q_end_time :: string
  q_limit :: "64 word"
  q_offset :: "64 word"

definition optional_time ::
  "(string \<Rightarrow> instant option) \<Rightarrow> string \<Rightarrow> string \<Rightarrow> string \<Rightarrow> (instant option \<Rightarrow> 'a handler) \<Rightarrow> 'a handler" where
  "optional_time rfc3339 text code message k = (if text = [] then k None else case rfc3339 text of
       None \<Rightarrow> apiError 400 code message | Some t \<Rightarrow> k (Some t))"

definition with_period ::
  "(string \<Rightarrow> instant option) \<Rightarrow> string \<Rightarrow> string \<Rightarrow> (instant option \<Rightarrow> instant option \<Rightarrow> 'a handler) \<Rightarrow> 'a handler" where
  "with_period rfc3339 start_time end_time k =
     optional_time rfc3339 start_time ''invalid_start_time'' ''Invalid start_time format. Use RFC3339 format.'' (\<lambda>s.
     optional_time rfc3339 end_time ''invalid_end_time'' ''Invalid end_time format. Use RFC3339 format.'' (k s))"

text \<open>The organization of the query string comes before the caller's.\<close>

definition query_org :: "fiber_ctx \<Rightarrow> string \<Rightarrow> string query" where
  "query_org c i = (if i = [] then local_string (c_organization_id c) else ret i)"

definition page_limit :: "64 word \<Rightarrow> int" where
  "page_limit limit = (if sint limit > 0 then min 100 (sint limit) else 0)"

definition handle_ListAuditEvents ::
  "(string \<Rightarrow> instant option) \<Rightarrow> fiber_ctx \<Rightarrow> audit_query \<Rightarrow> (AuditEvent list \<times> nat \<times> int \<times> int) handler" where
  "handle_ListAuditEvents rfc3339 c q = bnd (query_org c (q_organization_id q)) (\<lambda>org.
     with_period rfc3339 (q_start_time q) (q_end_time q) (\<lambda>start_time end_time.
       let params = \<lparr>la_OrganizationID = org, la_PrincipalID = q_principal_id q, la_Action = q_action q,
         la_ResourceType = q_resource_type q, la_Result = q_result q, la_Severity = q_severity q,
         la_StartTime = start_time, la_EndTime = end_time, la_Limit = page_limit (q_limit q), la_Offset = sint (q_offset q)\<rparr> in
       on_error (ListAuditEvents params) (\<lambda>_. apiError 500 ''internal_server_error'' ''Failed to retrieve audit events'')
         (\<lambda>(events, totalCount). apiSuccess 200 ''Audit events retrieved successfully''
            (events, totalCount, la_Limit params, la_Offset params))))"

definition handle_GetAuditEvent :: "fiber_ctx \<Rightarrow> AuditEvent handler" where
  "handle_GetAuditEvent c = (if c_Param_id c = [] then apiError 400 ''invalid_event_id'' ''Event ID is required''
     else bnd (local_string (c_organization_id c)) (\<lambda>orgID. on_error (GetAuditEvent (c_Param_id c) orgID)
       (\<lambda>e. if e = ''audit event not found'' then apiError 404 ''audit_event_not_found'' ''Audit event not found''
          else apiError 500 ''internal_server_error'' ''Failed to retrieve audit event'')
       (apiSuccess 200 ''Audit event retrieved successfully'')))"

section \<open>Reports\<close>

text \<open>The organization is that of the query string; without one the report is about all of them.\<close>

definition handle_GenerateAccessReport ::
  "(string list \<Rightarrow> string list) \<Rightarrow> (string \<Rightarrow> instant option) \<Rightarrow> string \<Rightarrow> string \<Rightarrow> bool \<Rightarrow> string \<Rightarrow> string \<Rightarrow> AccessReportData handler" where
  "handle_GenerateAccessReport collate rfc3339 organization_id user_id include_details start_time end_time =
     with_period rfc3339 start_time end_time (\<lambda>s e. on_error (GenerateAccessReport collate \<lparr>arp_OrganizationID = organization_id,
         arp_StartTime = s, arp_EndTime = e, arp_UserID = user_id, arp_IncludeDetails = include_details\<rparr>)
       (\<lambda>_. apiError 500 ''internal_server_error'' ''Failed to generate access report'')
       (apiSuccess 200 ''Access report generated successfully''))"

definition handle_GenerateComplianceReport ::
  "(int \<Rightarrow> int \<Rightarrow> rat) \<Rightarrow> (string \<Rightarrow> instant option) \<Rightarrow> string \<Rightarrow> string \<Rightarrow> string \<Rightarrow> string \<Rightarrow> ComplianceReportData handler" where
  "handle_GenerateComplianceReport percent rfc3339 organization_id standards start_time end_time =
     with_period rfc3339 start_time end_time (\<lambda>s e. on_error (GenerateComplianceReport percent \<lparr>crp_OrganizationID = organization_id,
         crp_StartTime = s, crp_EndTime = e, crp_Standards = (if standards = [] then [] else map trim_space (split_on (CHR '','') standards))\<rparr>)
       (\<lambda>_. apiError 500 ''internal_server_error'' ''Failed to generate compliance report'')
       (apiSuccess 200 ''Compliance report generated successfully''))"

definition handle_GeneratePolicyUsageReport ::
  "(int \<Rightarrow> int \<Rightarrow> rat) \<Rightarrow> (string \<Rightarrow> instant option) \<Rightarrow> string \<Rightarrow> string \<Rightarrow> string \<Rightarrow> string \<Rightarrow> PolicyUsageReportData handler" where
  "handle_GeneratePolicyUsageReport percent rfc3339 organization_id policy_id start_time end_time =
     with_period rfc3339 start_time end_time (\<lambda>s e. on_error (GeneratePolicyUsageReport percent \<lparr>pup_OrganizationID = organization_id,
         pup_StartTime = s, pup_EndTime = e, pup_PolicyID = policy_id\<rparr>)
       (\<lambda>_. apiError 500 ''internal_server_error'' ''Failed to generate policy usage report'')
       (apiSuccess 200 ''Policy usage report generated successfully''))"

section \<open>Access reviews\<close>

record review_query =
  r_organization_id :: string
  r_reviewer_id :: string
  r_status :: string
  r_start_time :: string
  r_end_time :: string
  r_limit :: "64 word"
  r_offset :: "64 word"

definition handle_ListAccessReviews ::
  "(string \<Rightarrow> instant option) \<Rightarrow> fiber_ctx \<Rightarrow> review_query \<Rightarrow> (AccessReview list \<times> nat \<times> int \<times> int) handler" where
  "handle_ListAccessReviews rfc3339 c q = bnd (query_org c (r_organization_id q)) (\<lambda>org.
     with_period rfc3339 (r_start_time q) (r_end_time q) (\<lambda>start_time end_time.
       let params = \<lparr>lv_OrganizationID = org, lv_ReviewerID = r_reviewer_id q, lv_Status = r_status q,
         lv_StartTime = start_time, lv_EndTime = end_time, lv_Limit = page_limit (r_limit q), lv_Offset = sint (r_offset q)\<rparr> in
       on_error (ListAccessReviews params) (\<lambda>_. apiError 500 ''internal_server_error'' ''Failed to retrieve access reviews'')
         (\<lambda>(reviews, totalCount). apiSuccess 200 ''Access reviews retrieved successfully''
            (reviews, totalCount, lv_Limit params, lv_Offset params))))"

text \<open>The times of a parsed body are no pointers: one that is not given is the zero instant.\<close>

definition parsed_review :: "AccessReview \<Rightarrow> AccessReview" where
  "parsed_review r = r\<lparr>rev_DueDate := Some (case rev_DueDate r of None \<Rightarrow> 0 | Some t \<Rightarrow> t)\<rparr>"

definition handle_CreateAccessReview :: "(string \<Rightarrow> string) \<Rightarrow> fiber_ctx \<Rightarrow> AccessReview option \<Rightarrow> AccessReview handler" where
  "handle_CreateAccessReview jsonb c body = (case body of
       None \<Rightarrow> apiError 400 ''invalid_request'' ''Invalid request body''
     | Some request \<Rightarrow>
         if rev_Name request = [] then apiError 400 ''validation_error'' ''Name is required''
         else bnd (query_org c (rev_OrganizationID request)) (\<lambda>org.
           if rev_ReviewerID request = [] then apiError 400 ''validation_error'' ''Reviewer ID is required''
           else bnd (if rev_ID request = [] then fresh_uuid else ret (rev_ID request)) (\<lambda>i.
             on_error (CreateAccessReview jsonb ((parsed_review request)\<lparr>rev_ID := i, rev_OrganizationID := org\<rparr>))
               (\<lambda>_. apiError 500 ''internal_server_error'' ''Failed to create access review'')
               (apiSuccess 201 ''Access review created successfully''))))"

definition with_review_id :: "fiber_ctx \<Rightarrow> (string \<Rightarrow> 'a handler) \<Rightarrow> 'a handler" where
  "with_review_id c k = (if c_Param_id c = [] then apiError 400 ''invalid_review_id'' ''Review ID is required'' else k (c_Param_id c))"

definition review_error :: "string \<Rightarrow> string \<Rightarrow> 'a handler" where
  "review_error what e = (if e = no_review then apiError 404 ''access_review_not_found'' ''Access review not found''
     else apiError 500 ''internal_server_error'' what)"

definition handle_GetAccessReview :: "fiber_ctx \<Rightarrow> AccessReview handler" where
  "handle_GetAccessReview c = with_review_id c (\<lambda>reviewID. bnd (local_string (c_organization_id c)) (\<lambda>orgID.
     on_error (GetAccessReview reviewID orgID) (review_error ''Failed to retrieve access review'')
       (apiSuccess 200 ''Access review retrieved successfully'')))"

definition handle_UpdateAccessReview :: "(string \<Rightarrow> string) \<Rightarrow> fiber_ctx \<Rightarrow> AccessReview option \<Rightarrow> AccessReview handler" where
  "handle_UpdateAccessReview jsonb c body = with_review_id c (\<lambda>reviewID. case body of
       None \<Rightarrow> apiError 400 ''invalid_request'' ''Invalid request body''
     | Some request \<Rightarrow> bnd (local_string (c_organization_id c)) (\<lambda>orgID.
         on_error (UpdateAccessReview jsonb reviewID orgID (parsed_review request)) (review_error ''Failed to update access review'')
           (apiSuccess 200 ''Access review updated successfully'')))"

text \<open>The body is the findings and the recommendations.\<close>

definition handle_CompleteAccessReview :: "(string \<Rightarrow> string) \<Rightarrow> fiber_ctx \<Rightarrow> (string \<times> string) option \<Rightarrow> unit handler" where
  "handle_CompleteAccessReview jsonb c body = with_review_id c (\<lambda>reviewID. case body of
       None \<Rightarrow> apiError 400 ''invalid_request'' ''Invalid request body''
     | Some (findings, recommendations) \<Rightarrow> bnd (local_string (c_organization_id c)) (\<lambda>orgID.
         on_error (CompleteAccessReview jsonb reviewID orgID findings recommendations)
           (\<lambda>e. if contains e ''not found'' then apiError 404 ''access_review_not_found'' ''Access review not found or already completed''
              else apiError 500 ''internal_server_error'' ''Failed to complete access review'')
           (apiSuccess 200 ''Access review completed successfully'')))"

section \<open>Administration\<close>

text \<open>The statistics are constants; \<open>uptime\<close> is the text of a duration of one day.\<close>

definition system_stats :: "string \<Rightarrow> json" where
  "system_stats uptime = JObj [
     (''system'', JObj [(''uptime'', JStr uptime), (''version'', JStr ''1.0.0''), (''build'', JStr ''development''),
        (''timezone'', JStr ''UTC'')]),
     (''users'', JObj [(''total_users'', JNum ''1000''), (''active_users'', JNum ''850''),
        (''suspended_users'', JNum ''50''), (''new_users_today'', JNum ''25'')]),
     (''audit'', JObj [(''total_events'', JNum ''50000''), (''events_today'', JNum ''1250''),
        (''failed_logins'', JNum ''125''), (''security_alerts'', JNum ''5'')]),
     (''performance'', JObj [(''avg_response_time'', JStr ''45ms''), (''error_rate'', JStr ''0.02%''),
        (''throughput'', JStr ''1250 req/min'')]),
     (''storage'', JObj [(''database_size'', JStr ''2.5GB''), (''cache_hit_rate'', JStr ''94.5%''),
        (''disk_usage'', JStr ''68%'')])]"

definition handle_GetSystemStats :: "string \<Rightarrow> json handler" where
  "handle_GetSystemStats uptime = apiSuccess 200 ''System statistics retrieved successfully'' (system_stats uptime)"

text \<open>The health check looks at nothing; \<open>show_time\<close> writes an instant.\<close>

definition health_check :: "string \<Rightarrow> string \<Rightarrow> string \<Rightarrow> string \<Rightarrow> json" where
  "health_check name status what v = JObj [(''name'', JStr name), (''status'', JStr status), (what, JStr v)]"

definition health_status :: "(instant \<Rightarrow> string) \<Rightarrow> instant \<Rightarrow> json" where
  "health_status show_time t = JObj [(''overall'', JStr ''healthy''), (''timestamp'', JStr (show_time t)),
     (''components'', JObj [
        (''database'', JObj [(''status'', JStr ''healthy''), (''response_time'', JStr ''12ms''), (''connections'', JNum ''45'')]),
        (''redis'', JObj [(''status'', JStr ''healthy''), (''response_time'', JStr ''2ms''), (''memory_usage'', JStr ''245MB'')]),
        (''auth_service'', JObj [(''status'', JStr ''healthy''), (''last_check'', JStr (show_time (t - 30 * second)))]),
        (''audit_service'', JObj [(''status'', JStr ''healthy''), (''events_processed'', JNum ''1250'')])]),
     (''checks'', JArr [health_check ''Database connectivity'' ''pass'' ''time'' ''12ms'',
        health_check ''Redis connectivity'' ''pass'' ''time'' ''2ms'', health_check ''Disk space'' ''pass'' ''usage'' ''68%'',
        health_check ''Memory usage'' ''pass'' ''usage'' ''72%''])]"

definition handle_SystemHealthCheck :: "(instant \<Rightarrow> string) \<Rightarrow> json handler" where
  "handle_SystemHealthCheck show_time = gets now (\<lambda>t.
     apiSuccess 200 ''Health check completed successfully'' (health_status show_time t))"

text \<open>The two switches of the maintenance mode only answer.\<close>

definition handle_EnableMaintenanceMode :: "(bool \<times> instant \<times> string) handler" where
  "handle_EnableMaintenanceMode = gets now (\<lambda>t.
     apiSuccess 200 ''Maintenance mode enabled successfully'' (True, t, ''System is now in maintenance mode''))"

definition handle_DisableMaintenanceMode :: "(bool \<times> instant \<times> string) handler" where
  "handle_DisableMaintenanceMode = gets now (\<lambda>t.
     apiSuccess 200 ''Maintenance mode disabled successfully'' (False, t, ''System is now in normal operation mode''))"

end
