(* ===== verification/ReviewFlow.thy ===== *)
theory ReviewFlow
  imports AuditHandler AuthFlow
begin

text \<open>
  What the endpoints of the audit trail and of the access reviews deliver: which reviews can be read, which reports
  can be made, what they count.
\<close>

section \<open>Access reviews\<close>

lemma scan_review_done [prog_simps]:
  "rev_DueDate r \<noteq> None \<Longrightarrow> rev_CompletedAt r \<noteq> None \<Longrightarrow> scan_review r d = (Ok r, d)"
  by (simp add: scan_review_def)

lemma scan_review_pending [prog_simps]:
  "rev_CompletedAt r = None \<Longrightarrow> scan_review r d = (Err (null_time (if rev_DueDate r = None then ''due_date'' else ''completed_at'')), d)"
  by (simp add: scan_review_def)

lemma null_time_no_review [simp]: "null_time column \<noteq> no_review"
  by (simp add: null_time_def no_review_def)

lemma GetAccessReview_run [prog_simps]:
  "healthy d \<Longrightarrow> GetAccessReview i org d = (case find (review_of i org) (t_access_reviews d) of
     None \<Rightarrow> (Err no_review, d) | Some r \<Rightarrow> scan_review r d)"
  by (simp add: GetAccessReview_def prog_simps split: option.split)

text \<open>A stored review without a completion time cannot be read, by its id or in a list.\<close>

lemma pending_review_unreadable:
  assumes "healthy d" and "c_Param_id c \<noteq> []" and "c_organization_id c = Some org"
    and found: "find (review_of (c_Param_id c) org) (t_access_reviews d) = Some r" and pending: "rev_CompletedAt r = None"
  shows "handle_GetAccessReview c d = (Ok (Failure 500 ''internal_server_error'' ''Failed to retrieve access review''), d)"
  using assms by (simp add: handle_GetAccessReview_def with_review_id_def review_error_def prog_simps)

lemma completed_review_readable:
  assumes "healthy d" and "c_Param_id c \<noteq> []" and "c_organization_id c = Some org"
    and found: "find (review_of (c_Param_id c) org) (t_access_reviews d) = Some r"
    and "rev_CompletedAt r \<noteq> None" and "rev_DueDate r \<noteq> None"
  shows "handle_GetAccessReview c d = (Ok (Success 200 ''Access review retrieved successfully'' r), d)"
  using assms by (simp add: handle_GetAccessReview_def with_review_id_def prog_simps)

lemma scan_rows_fails:
  assumes "r \<in> set rows" and "rev_CompletedAt r = None"
  shows "\<exists>e. scan_rows scan_review rows d = (Err e, d)"
  using assms
proof (induction rows)
  case (Cons x rows)
  show ?case
  proof (cases "rev_CompletedAt x = None \<or> rev_DueDate x = None")
    case True
    then show ?thesis
      by (auto simp: scan_review_def bnd_def)
  next
    case False
    with Cons show ?thesis
      by (auto simp: scan_review_def bnd_def)
  qed
qed simp

text \<open>The reply to a review that is stored.\<close>

abbreviation create_failed :: "'a http" where
  "create_failed \<equiv> Failure 500 ''internal_server_error'' ''Failed to create access review''"

lemma CreateAccessReview_store:
  assumes "healthy d" and "list_all (\<lambda>s. parse_json s \<noteq> None) [rev_Scope r, rev_Findings r, rev_Recommendations r]"
    and "reviews_violation d (t_access_reviews d @ [new_review jsonb (now d) r]) = None" and "rev_DueDate r \<noteq> None"
  shows "CreateAccessReview jsonb r d = (Err (null_time ''completed_at''),
    put_reviews (t_access_reviews d @ [new_review jsonb (now d) r]) d)"
proof -
  have "scan_review (new_review jsonb (now d) r) x = (Err (null_time ''completed_at''), x)" for x
    using assms(4) by (auto simp: new_review_def scan_review_pending)
  then show ?thesis
    using assms(1-3) by (simp add: CreateAccessReview_def json_stmt_def Let_def prog_simps)
qed

text \<open>The row of a request: a missing id is generated, a missing organization is the caller's.\<close>

definition stored_review :: "(string \<Rightarrow> string) \<Rightarrow> fiber_ctx \<Rightarrow> db \<Rightarrow> AccessReview \<Rightarrow> AccessReview" where
  "stored_review jsonb c d r = new_review jsonb (now d) ((parsed_review r)
     \<lparr>rev_ID := (if rev_ID r = [] then uuids d 0 else rev_ID r),
      rev_OrganizationID := (if rev_OrganizationID r = [] then local (c_organization_id c) else rev_OrganizationID r)\<rparr>)"

text \<open>The store never returns a review: the row it has inserted has no completion time.\<close>

lemma CreateAccessReview_never_Ok: "CreateAccessReview jsonb r d \<noteq> (Ok x, d')"
  by (auto simp: CreateAccessReview_def Let_def scan_review_def new_review_def elim!: bnd_OkE split: if_splits)

lemma CreateAccessReview_no_success:
  assumes "handle_CreateAccessReview jsonb c body d = (Ok (Success st msg x), d')"
  shows False
proof (cases body)
  case (Some r)
  with assms show ?thesis
    by (auto simp: handle_CreateAccessReview_def CreateAccessReview_never_Ok elim!: bnd_OkE on_error_OkE split: if_splits)
qed (use assms in \<open>simp add: handle_CreateAccessReview_def\<close>)

lemma find_map_keep:
  "(\<And>x. P (f x) = P x) \<Longrightarrow> find P (map f xs) = map_option f (find P xs)"
  by (induction xs) auto

definition completed_review :: "(string \<Rightarrow> string) \<Rightarrow> instant \<Rightarrow> string \<Rightarrow> string \<Rightarrow> AccessReview \<Rightarrow> AccessReview" where
  "completed_review jsonb t findings advice r = r\<lparr>rev_Status := ''completed'', rev_CompletedAt := Some t,
     rev_Findings := jsonb findings, rev_Recommendations := jsonb advice, rev_UpdatedAt := t\<rparr>"

lemma CompleteAccessReview_run:
  assumes "healthy d" and "parse_json findings \<noteq> None" and "parse_json advice \<noteq> None"
    and found: "find (review_of i org) (t_access_reviews d) = Some r" and "rev_Status r \<noteq> ''completed''"
  shows "CompleteAccessReview jsonb i org findings advice d = (Ok (), put_reviews (map (\<lambda>r.
    if review_of i org r \<and> rev_Status r \<noteq> ''completed'' then completed_review jsonb (now d) findings advice r else r)
    (t_access_reviews d)) d)"
proof -
  have "r \<in> set (t_access_reviews d)" and "review_of i org r"
    using found by (auto simp: find_Some_iff)
  then have "filter (\<lambda>r. review_of i org r \<and> rev_Status r \<noteq> ''completed'') (t_access_reviews d) \<noteq> []"
    using assms(5) by (auto simp: filter_empty_conv)
  then show ?thesis
    using assms(1-3) by (simp add: CompleteAccessReview_def json_stmt_def exec_on_def update_where_def completed_review_def prog_simps)
qed

text \<open>The endpoint on a server that does not fail.\<close>

lemma create_review_run:
  assumes "healthy d" and "rev_Name r \<noteq> []" and "rev_ReviewerID r \<noteq> []"
    and "list_all (\<lambda>s. parse_json s \<noteq> None) [rev_Scope r, rev_Findings r, rev_Recommendations r]"
    and "rev_OrganizationID r \<noteq> [] \<or> c_organization_id c \<noteq> None"
    and "reviews_violation d (t_access_reviews d @ [stored_review jsonb c d r]) = None"
  shows "\<exists>f. handle_CreateAccessReview jsonb c (Some r) d =
    (Ok create_failed, put_reviews (t_access_reviews d @ [stored_review jsonb c d r]) (d\<lparr>uuids := f\<rparr>))"
proof -
  define i where "i = (if rev_ID r = [] then uuids d 0 else rev_ID r)"
  define org where "org = (if rev_OrganizationID r = [] then local (c_organization_id c) else rev_OrganizationID r)"
  define f where "f = (if rev_ID r = [] then (\<lambda>n. uuids d (Suc n)) else uuids d)"
  let ?r = "(parsed_review r)\<lparr>rev_ID := i, rev_OrganizationID := org\<rparr>"
  let ?d = "d\<lparr>uuids := f\<rparr>"
  have row: "new_review jsonb (now ?d) ?r = stored_review jsonb c d r" by (simp add: stored_review_def i_def org_def)
  have same: "reviews_violation ?d t = reviews_violation d t" for t by (simp add: reviews_violation_def)
  have "CreateAccessReview jsonb ?r ?d = (Err (null_time ''completed_at''),
      put_reviews (t_access_reviews ?d @ [new_review jsonb (now ?d) ?r]) ?d)"
    by (rule CreateAccessReview_store) (use assms row same in \<open>simp_all add: parsed_review_def\<close>)
  then have create: "CreateAccessReview jsonb ?r ?d = (Err (null_time ''completed_at''),
      put_reviews (t_access_reviews d @ [stored_review jsonb c d r]) ?d)" unfolding row by simp
  have "query_org c (rev_OrganizationID r) d = (Ok org, d)"
    using assms(5) by (auto simp: query_org_def org_def local_string_def local_def)
  moreover have "(if rev_ID r = [] then fresh_uuid else ret (rev_ID r)) d = (Ok i, ?d)"
    by (simp add: fresh_uuid_def i_def f_def)
  ultimately have "handle_CreateAccessReview jsonb c (Some r) d =
      (Ok create_failed, put_reviews (t_access_reviews d @ [stored_review jsonb c d r]) ?d)"
    using assms(2,3) create by (simp add: handle_CreateAccessReview_def bnd_Ok on_error_Err)
  then show ?thesis by blast
qed

section \<open>Reports\<close>

text \<open>Every event of a period is after its start, so the active users of an access report are all its users.\<close>

lemma map_filter_same: "(\<And>x. x \<in> set xs \<Longrightarrow> f x = g x) \<Longrightarrow> List.map_filter f xs = List.map_filter g xs"
  by (induction xs) (auto simp: List.map_filter_simps split: option.split)

lemma active_users_all:
  "acs_ActiveUsers (access_summary (fst period) (report_rows org period d)) =
   acs_TotalUsers (access_summary (fst period) (report_rows org period d))"
proof -
  have "List.map_filter (\<lambda>e. if fst period \<le> time_of e then aev_PrincipalID e else None) (report_rows org period d)
      = List.map_filter aev_PrincipalID (report_rows org period d)"
    by (rule map_filter_same) (auto simp: report_rows_def)
  then show ?thesis
    by (simp add: access_summary_def count_distinct_def)
qed

text \<open>The severities of the table are written in small letters, those the compliance report looks for in capitals.\<close>

lemma compliance_report_never_critical:
  assumes "\<forall>ev \<in> set evs. sev_Severity ev \<in> set audit_severities"
  shows "cps_CriticalViolations (compliance_summary percent evs n) = 0 \<and> cps_HighRiskEvents (compliance_summary percent evs n) = 0"
proof -
  have "cps_CriticalViolations (foldl categorize s evs) = cps_CriticalViolations s
      \<and> cps_HighRiskEvents (foldl categorize s evs) = cps_HighRiskEvents s" for s
    using assms
  proof (induction evs arbitrary: s)
    case (Cons ev evs)
    then have "sev_Severity ev \<in> set audit_severities"
      by simp
    then have "sev_Severity ev \<noteq> ''CRITICAL''" and "sev_Severity ev \<noteq> ''HIGH''"
      by (auto simp: audit_severities_def)
    then show ?case
      using Cons by (simp add: categorize_def Let_def)
  qed simp
  then show ?thesis
    by (simp add: compliance_summary_def no_summary_def Let_def)
qed

lemma security_events_severities:
  assumes "\<forall>e \<in> set rows. aev_Severity e \<in> set audit_severities"
  shows "\<forall>ev \<in> set (security_events rows). sev_Severity ev \<in> set audit_severities"
  using assms by (auto simp: security_events_def most_rows_def group_by_def)

text \<open>The labels of the results are no decisions, so the server refuses the first statement of the policy usage report.\<close>

lemma decisions_refused: "\<exists>e. fst (with_labels ''audit_result'' audit_results [''allow'', ''deny''] m d) = Err e"
  by (auto simp: with_labels_def audit_results_def stmt_def split: list.split option.split)

lemma GeneratePolicyUsageReport_fails: "\<exists>e d'. GeneratePolicyUsageReport percent params d = (Err e, d')"
proof -
  show ?thesis
    unfolding GeneratePolicyUsageReport_def gets_run Let_def
    using decisions_refused [of "select (\<lambda>d'. usage_summary (usage_rows params (report_period (now d) (pup_StartTime params) (pup_EndTime params)) d'))" d]
    by (auto simp: bnd_def split: prod.splits)
qed

lemma optional_time_fails:
  "(\<And>t d. \<exists>st code msg d'. k t d = (Ok (Failure st code msg), d')) \<Longrightarrow>
    \<exists>st code msg d'. optional_time rfc3339 text bad_code bad_msg k d = (Ok (Failure st code msg), d')"
  by (simp add: optional_time_def split: option.split)

lemma policy_usage_report_never_succeeds:
  "\<exists>st code msg d'. handle_GeneratePolicyUsageReport percent rfc3339 org policy start_time end_time d = (Ok (Failure st code msg), d')"
  unfolding handle_GeneratePolicyUsageReport_def with_period_def
proof (intro optional_time_fails)
  fix s e :: "instant option" and d
  let ?params = "\<lparr>pup_OrganizationID = org, pup_StartTime = s, pup_EndTime = e, pup_PolicyID = policy\<rparr>"
  obtain err d' where "GeneratePolicyUsageReport percent ?params d = (Err err, d')"
    using GeneratePolicyUsageReport_fails by blast
  then have "on_error (GeneratePolicyUsageReport percent ?params)
      (\<lambda>_. apiError 500 ''internal_server_error'' ''Failed to generate policy usage report'') k d =
      (Ok (Failure 500 ''internal_server_error'' ''Failed to generate policy usage report''), d')" for k
    by (simp add: on_error_Err)
  then show "\<exists>st code msg d'. on_error (GeneratePolicyUsageReport percent ?params)
      (\<lambda>_. apiError 500 ''internal_server_error'' ''Failed to generate policy usage report'')
      (apiSuccess 200 ''Policy usage report generated successfully'') d = (Ok (Failure st code msg), d')"
    by blast
qed

text \<open>The maintenance mode changes nothing that a request could see.\<close>

lemma maintenance_changes_nothing: "snd (handle_EnableMaintenanceMode d) = d"
  by (simp add: handle_EnableMaintenanceMode_def)

text \<open>The organization of the query string decides: the caller's own is used only when it is empty.\<close>

lemma query_org_overrides: "i \<noteq> [] \<Longrightarrow> query_org c i d = (Ok i, d)"
  by (simp add: query_org_def)

section \<open>A sample review\<close>

definition sample_review :: AccessReview where
  "sample_review = \<lparr>rev_ID = ''v1'', rev_Name = ''Q3'', rev_Description = [], rev_OrganizationID = [], rev_ReviewerID = ''u1'',
     rev_Scope = ''{}'', rev_Status = [], rev_DueDate = Some 9, rev_CompletedAt = None, rev_Findings = ''{}'',
     rev_Recommendations = ''{}'', rev_CreatedAt = 0, rev_UpdatedAt = 0\<rparr>"

definition review_ctx :: fiber_ctx where
  "review_ctx = (sample_ctx ''v1'')\<lparr>c_organization_id := Some ''o1''\<rparr>"

definition review_db :: db where
  "review_db = login_db\<lparr>t_access_reviews := [stored_review (\<lambda>s. s) review_ctx login_db sample_review]\<rparr>"

section \<open>Properties\<close>

text \<open>C21. Creating an access review never reports success, whatever the request, the caller and the failures. And
  it stores the review all the same: when the server does not fail, the body has a name and a reviewer and
  JSON documents, it or the caller has an organization, and the row (with a generated id when the body has
  none) satisfies the constraints of its table, the row is added with no completion time, the statement's
  result cannot be read into the struct for that reason, and the caller is told that the review could not be
  created.\<close>

theorem CreateAccessReview_stores_and_fails:
  assumes "handle_CreateAccessReview jsonb c body d = (res, d')"
  shows "(\<forall>st msg x. res \<noteq> Ok (Success st msg x)) \<and>
    (\<forall>r. healthy d \<and> body = Some r \<and> rev_Name r \<noteq> [] \<and> rev_ReviewerID r \<noteq> []
       \<and> list_all (\<lambda>s. parse_json s \<noteq> None) [rev_Scope r, rev_Findings r, rev_Recommendations r]
       \<and> (rev_OrganizationID r \<noteq> [] \<or> c_organization_id c \<noteq> None)
       \<and> reviews_violation d (t_access_reviews d @ [stored_review jsonb c d r]) = None
     \<longrightarrow> res = Ok create_failed \<and> t_access_reviews d' = t_access_reviews d @ [stored_review jsonb c d r]
       \<and> rev_CompletedAt (stored_review jsonb c d r) = None)"
proof (intro conjI allI impI notI)
  fix st msg x assume "res = Ok (Success st msg x)"
  with assms CreateAccessReview_no_success show False by blast
next
  fix r
  assume H: "healthy d \<and> body = Some r \<and> rev_Name r \<noteq> [] \<and> rev_ReviewerID r \<noteq> []
     \<and> list_all (\<lambda>s. parse_json s \<noteq> None) [rev_Scope r, rev_Findings r, rev_Recommendations r]
     \<and> (rev_OrganizationID r \<noteq> [] \<or> c_organization_id c \<noteq> None)
     \<and> reviews_violation d (t_access_reviews d @ [stored_review jsonb c d r]) = None"
  then have "\<exists>f. handle_CreateAccessReview jsonb c (Some r) d =
      (Ok create_failed, put_reviews (t_access_reviews d @ [stored_review jsonb c d r]) (d\<lparr>uuids := f\<rparr>))"
    by (intro create_review_run) simp_all
  with assms H show "res = Ok create_failed" "t_access_reviews d' = t_access_reviews d @ [stored_review jsonb c d r]" by auto
  show "rev_CompletedAt (stored_review jsonb c d r) = None" by (simp add: stored_review_def new_review_def)
qed

theorem CreateAccessReview_stores_and_fails_witness:
  "\<exists>d'. handle_CreateAccessReview (\<lambda>s. s) review_ctx (Some (sample_review\<lparr>rev_ID := []\<rparr>)) login_db = (Ok create_failed, d') \<and>
    map rev_ID (t_access_reviews d') = [''uuid-v4-0'']"
proof -
  let ?r = "sample_review\<lparr>rev_ID := []\<rparr>"
  obtain res d' where run: "handle_CreateAccessReview (\<lambda>s. s) review_ctx (Some ?r) login_db = (res, d')"
    by (cases "handle_CreateAccessReview (\<lambda>s. s) review_ctx (Some ?r) login_db")
  have "healthy login_db \<and> rev_Name ?r \<noteq> [] \<and> rev_ReviewerID ?r \<noteq> []
     \<and> list_all (\<lambda>s. parse_json s \<noteq> None) [rev_Scope ?r, rev_Findings ?r, rev_Recommendations ?r]
     \<and> (rev_OrganizationID ?r \<noteq> [] \<or> c_organization_id review_ctx \<noteq> None)
     \<and> reviews_violation login_db (t_access_reviews login_db @ [stored_review (\<lambda>s. s) review_ctx login_db ?r]) = None"
    by code_simp
  with CreateAccessReview_stores_and_fails [OF run] have "res = Ok create_failed"
    "t_access_reviews d' = t_access_reviews login_db @ [stored_review (\<lambda>s. s) review_ctx login_db ?r]" by blast+
  moreover have "map rev_ID (t_access_reviews login_db @ [stored_review (\<lambda>s. s) review_ctx login_db ?r]) = [''uuid-v4-0'']"
    by code_simp
  ultimately show ?thesis using run by (intro exI [of _ d']) simp
qed

text \<open>Completing a review makes it readable: after a review that is not completed has been completed, its endpoint
  delivers it as stored, completed now, with the findings and the recommendations of the request.\<close>

lemma CompleteAccessReview_GetAccessReview:
  assumes "healthy d" and "c_Param_id c \<noteq> []" and "c_organization_id c = Some org"
    and found: "find (review_of (c_Param_id c) org) (t_access_reviews d) = Some r"
    and open_review: "rev_Status r \<noteq> ''completed''" and "rev_DueDate r \<noteq> None"
    and "parse_json findings \<noteq> None" and "parse_json advice \<noteq> None"
  shows "fst (bnd (handle_CompleteAccessReview jsonb c (Some (findings, advice))) (\<lambda>_. handle_GetAccessReview c) d) =
    Ok (Success 200 ''Access review retrieved successfully'' (completed_review jsonb (now d) findings advice r))"
proof -
  define f where "f = (\<lambda>r. if review_of (c_Param_id c) org r \<and> rev_Status r \<noteq> ''completed''
    then completed_review jsonb (now d) findings advice r else r)"
  define d' where "d' = put_reviews (map f (t_access_reviews d)) d"
  have run: "CompleteAccessReview jsonb (c_Param_id c) org findings advice d = (Ok (), d')"
    unfolding d'_def f_def by (rule CompleteAccessReview_run) (use assms in simp_all)
  have complete: "handle_CompleteAccessReview jsonb c (Some (findings, advice)) d =
      (Ok (Success 200 ''Access review completed successfully'' ()), d')"
    using assms(2,3) run by (simp add: handle_CompleteAccessReview_def with_review_id_def prog_simps)
  have keep: "review_of (c_Param_id c) org (f x) = review_of (c_Param_id c) org x" for x
    by (simp add: f_def review_of_def completed_review_def)
  have "review_of (c_Param_id c) org r"
    using found by (auto simp: find_Some_iff)
  then have "f r = completed_review jsonb (now d) findings advice r"
    using open_review by (simp add: f_def)
  then have "find (review_of (c_Param_id c) org) (t_access_reviews d') = Some (completed_review jsonb (now d) findings advice r)"
    using found keep by (simp add: d'_def find_map_keep)
  moreover have "healthy d'"
    using assms(1) by (simp add: d'_def)
  ultimately have "handle_GetAccessReview c d' =
      (Ok (Success 200 ''Access review retrieved successfully'' (completed_review jsonb (now d) findings advice r)), d')"
    using assms(2,3,6) by (intro completed_review_readable) (simp_all add: completed_review_def)
  then show ?thesis
    using complete by (simp add: bnd_Ok)
qed

end
