(* ===== verification/Routes.thy ===== *)
theory Routes
  imports Middleware
begin

text \<open>
  The routes of internal/routes/routes.go: what \<open>SetupRoutes\<close> registers, in its order, and which middlewares a
  request passes before its handler. The web framework is a parameter: whether the prefix of a \<open>Use\<close> covers a
  path, how a pattern matches a path, what is answered when nothing matches, and the counters of its limiter. A
  handler is the name it is registered under. The framework serves HEAD with the routes of GET.
\<close>

section \<open>Layers\<close>

datatype check = NeedAuth | MayAuth | NeedTenant | NeedRole string | NeedPermission string | NeedOrgAccess | NeedOrgAdmin
  | NeedAdmin | RateLimit nat

datatype verb = GET | POST | PUT | DELETE | PATCH

datatype layer = Use string "check list" | Route verb string "check list" string

text \<open>The path of a route in a group.\<close>

definition group_path :: "string \<Rightarrow> string \<Rightarrow> string" where
  "group_path base path = (if path = [] then base
     else rev (dropWhile (\<lambda>c. c = CHR ''/'') (rev base)) @ (if hd path = CHR ''/'' then path else CHR ''/'' # path))"

fun in_group :: "string \<Rightarrow> layer \<Rightarrow> layer" where
  "in_group base (Use path gs) = Use (group_path base path) gs"
| "in_group base (Route v path gs name) = Route v (group_path base path) gs name"

definition grouped :: "string \<Rightarrow> layer list \<Rightarrow> layer list" where
  "grouped base ls = map (in_group base) ls"

section \<open>The table\<close>

definition public_routes :: "layer list" where
  "public_routes = grouped ''/public'' [
     Route GET ''/health'' [] ''health'',
     Route GET ''/organizations'' [] ''organizationHandler.ListPublicOrganizations'']"

definition auth_routes :: "bool \<Rightarrow> layer list" where
  "auth_routes limiting = grouped ''/auth'' ((if limiting then [Use [] [RateLimit 100]] else []) @ [
     Route POST ''/login'' [] ''authHandler.Login'',
     Route POST ''/login/mfa-verify'' [] ''authHandler.LoginMFAVerify'',
     Route POST ''/register'' [] ''authHandler.Register'',
     Route POST ''/register-org'' [] ''authHandler.RegisterOrganization'',
     Route POST ''/refresh'' [] ''authHandler.RefreshToken'',
     Route POST ''/logout'' [NeedAuth] ''authHandler.Logout'',
     Route POST ''/forgot-password'' [] ''authHandler.ForgotPassword'',
     Route POST ''/reset-password'' [] ''authHandler.ResetPassword'',
     Route POST ''/verify-email'' [] ''authHandler.VerifyEmail'',
     Route POST ''/resend-verification'' [] ''authHandler.ResendVerification'',
     Route POST ''/create-admin'' [] ''authHandler.CreateAdminUser''])"

definition federation_routes :: "layer list" where
  "federation_routes = grouped ''/'' [
     Route GET ''/.well-known/openid-configuration'' [] ''oidcHandler.GetDiscovery'',
     Route GET ''/.well-known/jwks.json'' [] ''oidcHandler.GetJWKS'']"

definition oauth2_routes :: "layer list" where
  "oauth2_routes = grouped ''/oauth2'' [
     Route GET ''/authorize'' [MayAuth] ''oidcHandler.Authorize'',
     Route POST ''/token'' [] ''oidcHandler.Token'',
     Route GET ''/userinfo'' [NeedAuth] ''oidcHandler.UserInfo'',
     Route GET ''/client-info'' [] ''oidcHandler.GetPublicClientInfo'',
     Route POST ''/consent'' [NeedAuth] ''oidcHandler.HandleConsent'']"

definition client_routes :: "layer list" where
  "client_routes = grouped ''/oauth2/clients'' [
     Use [] [NeedAuth],
     Route POST ''/'' [NeedRole ''admin''] ''oidcHandler.RegisterClient'',
     Route GET ''/'' [] ''oidcHandler.ListClients'',
     Route PUT ''/:id'' [NeedRole ''admin''] ''oidcHandler.UpdateClient'',
     Route DELETE ''/:id'' [NeedRole ''admin''] ''oidcHandler.DeleteClient'']"

definition mfa_routes :: "layer list" where
  "mfa_routes = grouped ''/auth/mfa'' [
     Route POST ''/setup'' [NeedAuth] ''authHandler.SetupMFA'',
     Route POST ''/verify'' [NeedAuth] ''authHandler.VerifyMFA'',
     Route POST ''/backup-codes'' [NeedAuth] ''authHandler.GenerateBackupCodes'',
     Route DELETE ''/disable'' [NeedAuth] ''authHandler.DisableMFA'']"

definition user_routes :: "layer list" where
  "user_routes = grouped ''/users'' [
     Route GET ''/'' [] ''userHandler.ListUsers'',
     Route POST ''/'' [NeedRole ''admin''] ''userHandler.CreateUser'',
     Route GET ''/:id'' [] ''userHandler.GetUser'',
     Route PUT ''/:id'' [] ''userHandler.UpdateUser'',
     Route DELETE ''/:id'' [NeedRole ''admin''] ''userHandler.DeleteUser'',
     Route GET ''/:id/profile'' [] ''userHandler.GetUserProfile'',
     Route PUT ''/:id/profile'' [] ''userHandler.UpdateUserProfile'',
     Route POST ''/:id/suspend'' [NeedRole ''admin''] ''userHandler.SuspendUser'',
     Route POST ''/:id/activate'' [NeedRole ''admin''] ''userHandler.ActivateUser'',
     Route GET ''/:id/sessions'' [] ''userHandler.GetUserSessions'',
     Route DELETE ''/:id/sessions'' [] ''userHandler.RevokeUserSessions'',
     Route POST ''/:id/change-password'' [] ''userHandler.ChangePassword'']"

definition organization_routes :: "layer list" where
  "organization_routes = grouped ''/organizations'' [
     Route GET ''/'' [NeedAdmin] ''organizationHandler.ListOrganizations'',
     Route GET ''/:id'' [NeedOrgAccess] ''organizationHandler.GetOrganization'',
     Route PUT ''/:id'' [NeedOrgAdmin] ''organizationHandler.UpdateOrganization'',
     Route DELETE ''/:id'' [NeedOrgAdmin] ''organizationHandler.DeleteOrganization'',
     Route GET ''/:id/users'' [NeedOrgAccess] ''organizationHandler.GetOrganizationUsers'',
     Route GET ''/:id/groups'' [NeedOrgAccess] ''organizationHandler.GetOrganizationGroups'',
     Route GET ''/:id/resources'' [NeedOrgAccess] ''organizationHandler.GetOrganizationResources'',
     Route GET ''/:id/policies'' [NeedOrgAccess] ''organizationHandler.GetOrganizationPolicies'',
     Route GET ''/:id/roles'' [NeedOrgAccess] ''organizationHandler.GetOrganizationRoles'',
     Route GET ''/:id/settings'' [NeedOrgAccess] ''organizationHandler.GetOrganizationSettings'',
     Route PUT ''/:id/settings'' [NeedOrgAdmin] ''organizationHandler.UpdateOrganizationSettings'',
     Route GET ''/:id/origins'' [NeedOrgAccess] ''organizationHandler.GetOrganizationOrigins'',
     Route PUT ''/:id/origins'' [NeedOrgAdmin] ''organizationHandler.UpdateOrganizationOrigins'']"

definition group_routes :: "layer list" where
  "group_routes = grouped ''/groups'' [
     Route GET ''/'' [] ''groupHandler.ListGroups'',
     Route POST ''/'' [NeedRole ''admin''] ''groupHandler.CreateGroup'',
     Route GET ''/:id'' [] ''groupHandler.GetGroup'',
     Route PUT ''/:id'' [NeedRole ''admin''] ''groupHandler.UpdateGroup'',
     Route DELETE ''/:id'' [NeedPermission ''monkeys:iam:delete_group''] ''groupHandler.DeleteGroup'',
     Route GET ''/:id/members'' [] ''groupHandler.GetGroupMembers'',
     Route POST ''/:id/members'' [NeedPermission ''monkeys:iam:manage_group_membership''] ''groupHandler.AddGroupMember'',
     Route DELETE ''/:id/members/:user_id'' [NeedPermission ''monkeys:iam:manage_group_membership''] ''groupHandler.RemoveGroupMember'',
     Route GET ''/:id/permissions'' [NeedPermission ''monkeys:iam:view_group_permissions''] ''groupHandler.GetGroupPermissions'']"

definition resource_routes :: "layer list" where
  "resource_routes = grouped ''/resources'' [
     Route GET ''/'' [] ''resourceHandler.ListResources'',
     Route POST ''/'' [] ''resourceHandler.CreateResource'',
     Route GET ''/:id'' [] ''resourceHandler.GetResource'',
     Route PUT ''/:id'' [NeedPermission ''monkeys:resource:update''] ''resourceHandler.UpdateResource'',
     Route DELETE ''/:id'' [NeedPermission ''monkeys:resource:delete''] ''resourceHandler.DeleteResource'',
     Route GET ''/:id/permissions'' [NeedPermission ''monkeys:resource:view_permissions''] ''resourceHandler.GetResourcePermissions'',
     Route POST ''/:id/permissions'' [NeedPermission ''monkeys:resource:manage_permissions''] ''resourceHandler.SetResourcePermissions'',
     Route GET ''/:id/access-log'' [NeedPermission ''monkeys:resource:view_audit''] ''resourceHandler.GetResourceAccessLog'',
     Route POST ''/:id/share'' [NeedPermission ''monkeys:resource:share''] ''resourceHandler.ShareResource'',
     Route DELETE ''/:id/share'' [NeedPermission ''monkeys:resource:unshare''] ''resourceHandler.UnshareResource'']"

definition policy_routes :: "layer list" where
  "policy_routes = grouped ''/policies'' [
     Route GET ''/'' [] ''policyHandler.ListPolicies'',
     Route POST ''/'' [NeedRole ''admin''] ''policyHandler.CreatePolicy'',
     Route GET ''/:id'' [] ''policyHandler.GetPolicy'',
     Route PUT ''/:id'' [NeedRole ''admin''] ''policyHandler.UpdatePolicy'',
     Route DELETE ''/:id'' [NeedRole ''admin''] ''policyHandler.DeletePolicy'',
     Route POST ''/:id/simulate'' [] ''policyHandler.SimulatePolicy'',
     Route GET ''/:id/versions'' [] ''policyHandler.GetPolicyVersions'',
     Route POST ''/:id/approve'' [NeedRole ''admin''] ''policyHandler.ApprovePolicy'',
     Route POST ''/:id/rollback'' [NeedRole ''admin''] ''policyHandler.RollbackPolicy'']"

definition role_routes :: "layer list" where
  "role_routes = grouped ''/roles'' [
     Route GET ''/'' [] ''roleHandler.ListRoles'',
     Route POST ''/'' [NeedRole ''admin''] ''roleHandler.CreateRole'',
     Route GET ''/:id'' [] ''roleHandler.GetRole'',
     Route PUT ''/:id'' [NeedRole ''admin''] ''roleHandler.UpdateRole'',
     Route DELETE ''/:id'' [NeedRole ''admin''] ''roleHandler.DeleteRole'',
     Route GET ''/:id/policies'' [] ''roleHandler.GetRolePolicies'',
     Route POST ''/:id/policies'' [NeedRole ''admin''] ''roleHandler.AttachPolicyToRole'',
     Route DELETE ''/:id/policies/:policy_id'' [NeedRole ''admin''] ''roleHandler.DetachPolicyFromRole'',
     Route GET ''/:id/assignments'' [] ''roleHandler.GetRoleAssignments'',
     Route POST ''/:id/assign'' [NeedRole ''admin''] ''roleHandler.AssignRole'',
     Route DELETE ''/:id/assign/:user_id'' [NeedRole ''admin''] ''roleHandler.UnassignRole'']"

definition session_routes :: "layer list" where
  "session_routes = grouped ''/sessions'' [
     Route GET ''/'' [] ''sessionHandler.ListSessions'',
     Route GET ''/current'' [] ''sessionHandler.GetCurrentSession'',
     Route DELETE ''/current'' [] ''sessionHandler.RevokeCurrentSession'',
     Route GET ''/:id'' [] ''sessionHandler.GetSession'',
     Route DELETE ''/:id'' [NeedRole ''admin''] ''sessionHandler.RevokeSession'',
     Route POST ''/:id/extend'' [] ''sessionHandler.ExtendSession'']"

definition account_routes :: "layer list" where
  "account_routes = grouped ''/service-accounts'' [
     Route GET ''/'' [NeedRole ''admin''] ''userHandler.ListServiceAccounts'',
     Route POST ''/'' [NeedRole ''admin''] ''userHandler.CreateServiceAccount'',
     Route GET ''/:id'' [NeedRole ''admin''] ''userHandler.GetServiceAccount'',
     Route PUT ''/:id'' [NeedRole ''admin''] ''userHandler.UpdateServiceAccount'',
     Route DELETE ''/:id'' [NeedRole ''admin''] ''userHandler.DeleteServiceAccount'',
     Route POST ''/:id/keys'' [NeedRole ''admin''] ''userHandler.GenerateAPIKey'',
     Route GET ''/:id/keys'' [NeedRole ''admin''] ''userHandler.ListAPIKeys'',
     Route DELETE ''/:id/keys/:key_id'' [NeedRole ''admin''] ''userHandler.RevokeAPIKey'',
     Route POST ''/:id/rotate-keys'' [NeedRole ''admin''] ''userHandler.RotateServiceAccountKeys'']"

definition authz_routes :: "layer list" where
  "authz_routes = grouped ''/authz'' [
     Route POST ''/check'' [] ''policyHandler.CheckPermission'',
     Route POST ''/bulk-check'' [] ''policyHandler.BulkCheckPermissions'',
     Route GET ''/effective-permissions'' [] ''policyHandler.GetEffectivePermissions'',
     Route POST ''/simulate-access'' [] ''policyHandler.SimulateAccess'']"

definition audit_routes :: "layer list" where
  "audit_routes = grouped ''/audit'' [
     Route GET ''/events'' [NeedRole ''admin''] ''auditHandler.ListAuditEvents'',
     Route GET ''/events/:id'' [NeedRole ''admin''] ''auditHandler.GetAuditEvent'',
     Route GET ''/reports/access'' [NeedRole ''admin''] ''auditHandler.GenerateAccessReport'',
     Route GET ''/reports/compliance'' [NeedRole ''admin''] ''auditHandler.GenerateComplianceReport'',
     Route GET ''/reports/policy-usage'' [NeedRole ''admin''] ''auditHandler.GeneratePolicyUsageReport'']"

definition review_routes :: "layer list" where
  "review_routes = grouped ''/access-reviews'' [
     Route GET ''/'' [NeedRole ''admin''] ''auditHandler.ListAccessReviews'',
     Route POST ''/'' [NeedRole ''admin''] ''auditHandler.CreateAccessReview'',
     Route GET ''/:id'' [NeedRole ''admin''] ''auditHandler.GetAccessReview'',
     Route PUT ''/:id'' [NeedRole ''admin''] ''auditHandler.UpdateAccessReview'',
     Route POST ''/:id/complete'' [NeedRole ''admin''] ''auditHandler.CompleteAccessReview'']"

definition admin_routes :: "layer list" where
  "admin_routes = grouped ''/admin'' [
     Use [] [NeedRole ''admin''],
     Route GET ''/stats'' [] ''auditHandler.GetSystemStats'',
     Route GET ''/health-check'' [] ''auditHandler.SystemHealthCheck'',
     Route POST ''/maintenance-mode'' [] ''auditHandler.EnableMaintenanceMode'',
     Route DELETE ''/maintenance-mode'' [] ''auditHandler.DisableMaintenanceMode'',
     Route GET ''/settings'' [] ''organizationHandler.GetGlobalSettings'',
     Route PUT ''/settings'' [] ''organizationHandler.UpdateGlobalSettings'']"

definition content_routes :: "layer list" where
  "content_routes = grouped ''/content'' [
     Route POST ''/'' [] ''contentHandler.CreateContent'',
     Route GET ''/'' [] ''contentHandler.ListContent'',
     Route GET ''/:id'' [] ''contentHandler.GetContent'',
     Route PUT ''/:id'' [] ''contentHandler.UpdateContent'',
     Route DELETE ''/:id'' [] ''contentHandler.DeleteContent'',
     Route PATCH ''/:id/status'' [] ''contentHandler.UpdateContentStatus'',
     Route POST ''/:id/collaborators'' [] ''contentHandler.InviteCollaborator'',
     Route GET ''/:id/collaborators'' [] ''contentHandler.ListCollaborators'',
     Route DELETE ''/:id/collaborators/:user_id'' [] ''contentHandler.RemoveCollaborator'']"

text \<open>What every request below the group passes first.\<close>

definition protected_routes :: "layer list" where
  "protected_routes = grouped ''/'' (Use [] [NeedAuth, NeedTenant] # user_routes @ organization_routes @ group_routes
     @ resource_routes @ policy_routes @ role_routes @ session_routes @ account_routes @ authz_routes @ audit_routes
     @ review_routes @ admin_routes @ content_routes)"

definition SetupRoutes :: "bool \<Rightarrow> layer list" where
  "SetupRoutes limiting = grouped ''/api/v1'' ((if limiting then [Use [] [RateLimit 1000]] else []) @ public_routes @ auth_routes limiting)
     @ federation_routes @ grouped ''/api/v1'' (oauth2_routes @ client_routes @ mfa_routes @ protected_routes)"

section \<open>Serving\<close>

record server =
  sv_lib :: jwt_library
  sv_am :: AuthMiddleware
  sv_system_org :: string
  sv_num_v :: "string \<Rightarrow> string"
  sv_ord :: iteration
  sv_limited :: "nat \<Rightarrow> string \<Rightarrow> bool"
  sv_covers :: "string \<Rightarrow> string \<Rightarrow> bool"
  sv_match :: "string \<Rightarrow> string \<Rightarrow> (string \<times> string) list option"
  sv_unmatched :: "verb \<Rightarrow> string \<Rightarrow> nat \<times> string"

text \<open>The limiter counts by the address of the client.\<close>

definition RateLimiter :: "(nat \<Rightarrow> string \<Rightarrow> bool) \<Rightarrow> nat \<Rightarrow> middleware" where
  "RateLimiter limited n c = (if limited n (c_IP c) then ret (Reply 429 ''rate_limit_exceeded'') else ret (Next c))"

fun run_check :: "server \<Rightarrow> check \<Rightarrow> middleware" where
  "run_check sv NeedAuth = RequireAuth (sv_lib sv) (sv_am sv)"
| "run_check sv MayAuth = OptionalAuth (sv_lib sv) (sv_am sv)"
| "run_check sv NeedTenant = ResolveTenant (sv_system_org sv)"
| "run_check sv (NeedRole role) = RequireRole [role]"
| "run_check sv (NeedPermission action) = RequirePermission (sv_num_v sv) (sv_ord sv) action"
| "run_check sv NeedOrgAccess = RequireOrgAccess"
| "run_check sv NeedOrgAdmin = RequireOrgAdmin"
| "run_check sv NeedAdmin = RequireAdmin"
| "run_check sv (RateLimit n) = RateLimiter (sv_limited sv) n"

type_synonym endpoints = "string \<Rightarrow> (string \<times> string) list \<Rightarrow> fiber_ctx \<Rightarrow> (nat \<times> string) query"

text \<open>
  The layers in the order of their registration: a \<open>Use\<close> that covers the path runs its checks and goes on, the
  first route of the method that matches runs its checks and its handler.
\<close>

fun serve :: "server \<Rightarrow> endpoints \<Rightarrow> verb \<Rightarrow> layer list \<Rightarrow> fiber_ctx \<Rightarrow> (nat \<times> string) query" where
  "serve sv h v [] c = ret (sv_unmatched sv v (c_Path c))"
| "serve sv h v (Use base gs # ls) c =
     (if sv_covers sv base (c_Path c) then protect (map (run_check sv) gs) (serve sv h v ls) c else serve sv h v ls c)"
| "serve sv h v (Route v' pattern gs name # ls) c =
     (case if v' = v then sv_match sv pattern (c_Path c) else None of
        None \<Rightarrow> serve sv h v ls c
      | Some params \<Rightarrow> protect (map (run_check sv) gs) (h name params)
          (c\<lparr>c_Param_id := (case map_of params ''id'' of None \<Rightarrow> [] | Some i \<Rightarrow> i)\<rparr>))"

section \<open>What a request has passed\<close>

text \<open>A request on its way: its token and its path are those it came with, its role that of its token.\<close>

definition on_its_way :: "server \<Rightarrow> fiber_ctx \<Rightarrow> db \<Rightarrow> fiber_ctx \<Rightarrow> bool" where
  "on_its_way sv c d c1 \<longleftrightarrow> c_Authorization c1 = c_Authorization c \<and> c_Cookie c1 = c_Cookie c \<and> c_Path c1 = c_Path c
     \<and> (c_role c1 = None \<or> (\<exists>claims. authenticated (sv_lib sv) (sv_am sv) c d = Some claims \<and> c_role c1 = Some (cl_Role claims)))"

text \<open>The checks that read no table and accept no token that is revoked.\<close>

fun plain_check :: "check \<Rightarrow> bool" where
  "plain_check MayAuth = False"
| "plain_check (NeedPermission action) = False"
| "plain_check _ = True"

lemma authenticated_on_its_way:
  assumes "on_its_way sv c d c1"
  shows "authenticated (sv_lib sv) (sv_am sv) c1 d = authenticated (sv_lib sv) (sv_am sv) c d"
proof -
  have "c_Authorization c1 = c_Authorization c" and "c_Cookie c1 = c_Cookie c"
    using assms by (simp_all add: on_its_way_def)
  then have "token_string c1 = token_string c"
    by (simp only: token_string_def)
  then show ?thesis
    by (simp add: authenticated_def)
qed

lemma RequireAuth_on_its_way:
  assumes way: "on_its_way sv c d c1" and run: "RequireAuth (sv_lib sv) (sv_am sv) c1 d = (Ok (Next c2), d2)"
  shows "on_its_way sv c d c2 \<and> d2 = d \<and> authenticated (sv_lib sv) (sv_am sv) c d \<noteq> None"
proof (cases "authenticated (sv_lib sv) (sv_am sv) c1 d")
  case None
  with RequireAuth_refuses [OF None] run show ?thesis by auto
next
  case (Some claims)
  then have "authenticated (sv_lib sv) (sv_am sv) c d = Some claims"
    using authenticated_on_its_way [OF way] by simp
  moreover have "c2 = (set_locals claims c1)\<lparr>c_session_id := Some (cl_JTI claims)\<rparr>" and "d2 = d"
    using RequireAuth_accepts [OF Some] run by simp_all
  ultimately show ?thesis
    using way by (simp add: on_its_way_def set_locals_def)
qed

lemma run_check_on_its_way:
  assumes "plain_check g" and way: "on_its_way sv c d c1" and run: "run_check sv g c1 d = (Ok (Next c2), d2)"
  shows "on_its_way sv c d c2 \<and> d2 = d"
proof (cases g)
  case NeedAuth
  with RequireAuth_on_its_way [OF way] run show ?thesis by simp
next
  case NeedTenant
  with run way show ?thesis
    by (auto simp: ResolveTenant_run on_its_way_def split: if_splits)
qed (use assms in \<open>auto simp: RequireRole_def RequireOrgAccess_def RequireOrgAdmin_def RequireAdmin_def with_tenant_def
    RateLimiter_def split: option.splits if_splits\<close>)

text \<open>What a check that was passed says of the request.\<close>

fun vouched :: "server \<Rightarrow> check \<Rightarrow> fiber_ctx \<Rightarrow> db \<Rightarrow> bool" where
  "vouched sv NeedAuth c d = (authenticated (sv_lib sv) (sv_am sv) c d \<noteq> None)"
| "vouched sv (NeedRole role) c d =
     (\<exists>claims. authenticated (sv_lib sv) (sv_am sv) c d = Some claims \<and> cl_Role claims = role)"
| "vouched sv _ c d = True"

lemma run_check_vouches:
  assumes way: "on_its_way sv c d c1" and run: "run_check sv g c1 d = (Ok (Next c2), d2)"
  shows "vouched sv g c d"
proof (cases g)
  case NeedAuth
  with RequireAuth_on_its_way [OF way] run show ?thesis by simp
next
  case (NeedRole role)
  with run have "c_role c1 = Some role"
    by (auto simp: RequireRole_def split: option.splits if_splits)
  with way NeedRole show ?thesis
    by (auto simp: on_its_way_def)
qed simp_all

lemma protect_step:
  assumes "protect (m # ms) k c d \<noteq> protect (m # ms) k' c d"
  obtains c2 d2 where "m c d = (Ok (Next c2), d2)" and "protect ms k c2 d2 \<noteq> protect ms k' c2 d2"
proof (cases "m c d")
  case (Pair r d2)
  with assms that show ?thesis
    by (cases r) (auto simp: bnd_def split: gate.splits)
qed

lemma protect_on_its_way:
  assumes "list_all plain_check gs" and "on_its_way sv c d c1"
    and "protect (map (run_check sv) gs) k c1 d \<noteq> protect (map (run_check sv) gs) k' c1 d"
  shows "(\<exists>c2. on_its_way sv c d c2 \<and> k c2 d \<noteq> k' c2 d) \<and> (\<forall>g \<in> set gs. vouched sv g c d)"
  using assms
proof (induction gs arbitrary: c1)
  case (Cons g gs)
  from Cons.prems(3) obtain c2 d2 where run: "run_check sv g c1 d = (Ok (Next c2), d2)"
    and differ: "protect (map (run_check sv) gs) k c2 d2 \<noteq> protect (map (run_check sv) gs) k' c2 d2"
    unfolding list.map by (rule protect_step)
  have "plain_check g" and gs: "list_all plain_check gs"
    using Cons.prems(1) by simp_all
  then have way: "on_its_way sv c d c2" and "d2 = d"
    using run_check_on_its_way [OF _ Cons.prems(2) run] by blast+
  then have "(\<exists>c2. on_its_way sv c d c2 \<and> k c2 d \<noteq> k' c2 d) \<and> (\<forall>g \<in> set gs. vouched sv g c d)"
    using Cons.IH [OF gs way] differ by blast
  moreover have "vouched sv g c d"
    using run_check_vouches [OF Cons.prems(2) run] .
  ultimately show ?case
    by simp
qed auto

section \<open>Tables that shield their endpoints\<close>

text \<open>
  \<open>shielded g P bases ls\<close>: every endpoint with \<open>P\<close> is registered behind the check \<open>g\<close>, which its own route makes or
  a \<open>Use\<close> before it, whose prefix begins its pattern. The prefixes of such layers are collected in \<open>bases\<close>.
\<close>

fun shielded :: "check \<Rightarrow> (string \<Rightarrow> bool) \<Rightarrow> string list \<Rightarrow> layer list \<Rightarrow> bool" where
  "shielded g P bases [] = True"
| "shielded g P bases (Use base gs # ls) =
     (list_all plain_check gs \<and> shielded g P (if g \<in> set gs then base # bases else bases) ls)"
| "shielded g P bases (Route v pattern gs name # ls) =
     ((if P name then (if g \<in> set gs then list_all plain_check gs else list_ex (\<lambda>base. prefix base pattern) bases) else True)
      \<and> shielded g P bases ls)"

text \<open>What the code relies on: a \<open>Use\<close> covers the paths of the patterns that extend its prefix.\<close>

definition covering :: "server \<Rightarrow> bool" where
  "covering sv \<longleftrightarrow> (\<forall>base pattern path. prefix base pattern \<and> sv_match sv pattern path \<noteq> None \<longrightarrow> sv_covers sv base path)"

text \<open>Handlers that differ in the endpoints with \<open>P\<close> alone.\<close>

definition agree_off :: "(string \<Rightarrow> bool) \<Rightarrow> endpoints \<Rightarrow> endpoints \<Rightarrow> bool" where
  "agree_off P h h' \<longleftrightarrow> (\<forall>name. P name \<or> h name = h' name)"

lemma shielded_serve:
  assumes "covering sv" and agree: "agree_off P h h'" and "shielded g P bases ls" and "on_its_way sv c d c1"
    and "\<forall>base \<in> set bases. sv_covers sv base (c_Path c) \<longrightarrow> vouched sv g c d"
    and "serve sv h v ls c1 d \<noteq> serve sv h' v ls c1 d"
  shows "vouched sv g c d"
  using assms(3-6)
proof (induction ls arbitrary: bases c1)
  case (Cons l ls)
  have path: "c_Path c1 = c_Path c"
    using Cons.prems(2) by (simp add: on_its_way_def)
  show ?case
  proof (cases l)
    case (Use base gs)
    define bases' where "bases' = (if g \<in> set gs then base # bases else bases)"
    have plain: "list_all plain_check gs" and tail: "shielded g P bases' ls"
      using Cons.prems(1) Use by (simp_all add: bases'_def)
    show ?thesis
    proof (cases "sv_covers sv base (c_Path c)")
      case True
      then have "protect (map (run_check sv) gs) (serve sv h v ls) c1 d \<noteq> protect (map (run_check sv) gs) (serve sv h' v ls) c1 d"
        using Cons.prems(4) Use path by simp
      from protect_on_its_way [OF plain Cons.prems(2) this] obtain c2 where way: "on_its_way sv c d c2"
        and differ: "serve sv h v ls c2 d \<noteq> serve sv h' v ls c2 d" and "\<forall>g \<in> set gs. vouched sv g c d"
        by blast
      then have "\<forall>base \<in> set bases'. sv_covers sv base (c_Path c) \<longrightarrow> vouched sv g c d"
        using Cons.prems(3) by (simp add: bases'_def)
      from Cons.IH [OF tail way this differ] show ?thesis .
    next
      case False
      then have differ: "serve sv h v ls c1 d \<noteq> serve sv h' v ls c1 d"
        using Cons.prems(4) Use path by simp
      have "\<forall>base \<in> set bases'. sv_covers sv base (c_Path c) \<longrightarrow> vouched sv g c d"
        using Cons.prems(3) False by (simp add: bases'_def)
      from Cons.IH [OF tail Cons.prems(2) this differ] show ?thesis .
    qed
  next
    case (Route v' pattern gs name)
    have tail: "shielded g P bases ls"
      using Cons.prems(1) Route by simp
    show ?thesis
    proof (cases "if v' = v then sv_match sv pattern (c_Path c1) else None")
      case None
      then have "serve sv h v ls c1 d \<noteq> serve sv h' v ls c1 d"
        using Cons.prems(4) Route by simp
      from Cons.IH [OF tail Cons.prems(2,3) this] show ?thesis .
    next
      case (Some params)
      define c2 where "c2 = c1\<lparr>c_Param_id := (case map_of params ''id'' of None \<Rightarrow> [] | Some i \<Rightarrow> i)\<rparr>"
      have differ: "protect (map (run_check sv) gs) (h name params) c2 d \<noteq> protect (map (run_check sv) gs) (h' name params) c2 d"
        using Cons.prems(4) Route Some by (simp add: c2_def)
      then have P: "P name"
        using agree by (auto simp: agree_off_def)
      show ?thesis
      proof (cases "g \<in> set gs")
        case True
        then have plain: "list_all plain_check gs"
          using Cons.prems(1) Route P by simp
        have way: "on_its_way sv c d c2"
          using Cons.prems(2) by (simp add: on_its_way_def c2_def)
        from protect_on_its_way [OF plain way differ] True show ?thesis
          by blast
      next
        case False
        then obtain base where "base \<in> set bases" and "prefix base pattern"
          using Cons.prems(1) Route P by (auto simp: list_ex_iff)
        moreover have "sv_match sv pattern (c_Path c) \<noteq> None"
          using Some path by (auto split: if_splits)
        ultimately have "sv_covers sv base (c_Path c)"
          using assms(1) unfolding covering_def by blast
        then show ?thesis
          using \<open>base \<in> set bases\<close> Cons.prems(3) by blast
      qed
    qed
  qed
qed simp

section \<open>Public and administrative endpoints\<close>

definition public_endpoints :: "string list" where
  "public_endpoints = [''health'', ''organizationHandler.ListPublicOrganizations'', ''authHandler.Login'',
     ''authHandler.LoginMFAVerify'', ''authHandler.Register'', ''authHandler.RegisterOrganization'',
     ''authHandler.RefreshToken'', ''authHandler.ForgotPassword'', ''authHandler.ResetPassword'',
     ''authHandler.VerifyEmail'', ''authHandler.ResendVerification'', ''authHandler.CreateAdminUser'',
     ''oidcHandler.GetDiscovery'', ''oidcHandler.GetJWKS'', ''oidcHandler.Authorize'', ''oidcHandler.Token'',
     ''oidcHandler.GetPublicClientInfo'']"

definition admin_endpoints :: "string list" where
  "admin_endpoints = [''oidcHandler.RegisterClient'', ''oidcHandler.UpdateClient'', ''oidcHandler.DeleteClient'',
     ''userHandler.CreateUser'', ''userHandler.DeleteUser'', ''userHandler.SuspendUser'',
     ''userHandler.ActivateUser'', ''groupHandler.CreateGroup'', ''groupHandler.UpdateGroup'',
     ''policyHandler.CreatePolicy'', ''policyHandler.UpdatePolicy'', ''policyHandler.DeletePolicy'',
     ''policyHandler.ApprovePolicy'', ''policyHandler.RollbackPolicy'', ''roleHandler.CreateRole'',
     ''roleHandler.UpdateRole'', ''roleHandler.DeleteRole'', ''roleHandler.AttachPolicyToRole'',
     ''roleHandler.DetachPolicyFromRole'', ''roleHandler.AssignRole'', ''roleHandler.UnassignRole'',
     ''sessionHandler.RevokeSession'', ''userHandler.ListServiceAccounts'', ''userHandler.CreateServiceAccount'',
     ''userHandler.GetServiceAccount'', ''userHandler.UpdateServiceAccount'', ''userHandler.DeleteServiceAccount'',
     ''userHandler.GenerateAPIKey'', ''userHandler.ListAPIKeys'', ''userHandler.RevokeAPIKey'',
     ''userHandler.RotateServiceAccountKeys'', ''auditHandler.ListAuditEvents'', ''auditHandler.GetAuditEvent'',
     ''auditHandler.GenerateAccessReport'', ''auditHandler.GenerateComplianceReport'',
     ''auditHandler.GeneratePolicyUsageReport'', ''auditHandler.ListAccessReviews'',
     ''auditHandler.CreateAccessReview'', ''auditHandler.GetAccessReview'', ''auditHandler.UpdateAccessReview'',
     ''auditHandler.CompleteAccessReview'', ''auditHandler.GetSystemStats'', ''auditHandler.SystemHealthCheck'',
     ''auditHandler.EnableMaintenanceMode'', ''auditHandler.DisableMaintenanceMode'',
     ''organizationHandler.GetGlobalSettings'', ''organizationHandler.UpdateGlobalSettings'']"

text \<open>The limiters protect nothing, so the table is checked without them.\<close>

fun unlimited :: "layer \<Rightarrow> bool" where
  "unlimited (Use base [RateLimit n]) = False"
| "unlimited l = True"

lemma shielded_unlimited:
  assumes "\<And>n. g \<noteq> RateLimit n"
  shows "shielded g P bases (filter unlimited ls) = shielded g P bases ls"
proof (induction ls arbitrary: bases)
  case (Cons l ls)
  then show ?case
    using assms by (cases l rule: unlimited.cases) simp_all
qed simp

lemma SetupRoutes_unlimited: "filter unlimited (SetupRoutes True) = SetupRoutes False"
  by code_simp

lemma SetupRoutes_shield:
  assumes "\<And>n. g \<noteq> RateLimit n" and "shielded g P [] (SetupRoutes False)"
  shows "shielded g P [] (SetupRoutes limiting)"
  using assms shielded_unlimited [OF assms(1), of P "[]" "SetupRoutes True"]
  by (cases limiting) (simp_all add: SetupRoutes_unlimited)

lemma SetupRoutes_shields_public: "shielded NeedAuth (\<lambda>name. name \<notin> set public_endpoints) [] (SetupRoutes limiting)"
proof (rule SetupRoutes_shield)
  show "shielded NeedAuth (\<lambda>name. name \<notin> set public_endpoints) [] (SetupRoutes False)"
    by code_simp
qed simp

lemma SetupRoutes_shields_admin: "shielded (NeedRole ''admin'') (\<lambda>name. name \<in> set admin_endpoints) [] (SetupRoutes limiting)"
proof (rule SetupRoutes_shield)
  show "shielded (NeedRole ''admin'') (\<lambda>name. name \<in> set admin_endpoints) [] (SetupRoutes False)"
    by code_simp
qed simp

lemma shielded_route:
  assumes "covering sv" and "agree_off P h h'" and "c_role c = None"
    and "\<And>limiting. shielded g P [] (SetupRoutes limiting)"
    and "serve sv h v (SetupRoutes limiting) c d \<noteq> serve sv h' v (SetupRoutes limiting) c d"
  shows "vouched sv g c d"
  using assms by (intro shielded_serve [OF assms(1,2,4) _ _ assms(5)]) (simp_all add: on_its_way_def)

text \<open>The routes that write and ask for nothing beyond a token and a tenant.\<close>

fun unguarded_write :: "layer \<Rightarrow> string option" where
  "unguarded_write (Route v pattern [] name) = (if v = GET then None else Some name)"
| "unguarded_write _ = None"

lemma member_writes:
  "List.map_filter unguarded_write (user_routes @ organization_routes @ group_routes @ resource_routes @ policy_routes
     @ role_routes @ session_routes @ account_routes @ audit_routes @ review_routes) =
   [''userHandler.UpdateUser'', ''userHandler.UpdateUserProfile'', ''userHandler.RevokeUserSessions'',
    ''userHandler.ChangePassword'', ''resourceHandler.CreateResource'', ''policyHandler.SimulatePolicy'',
    ''sessionHandler.RevokeCurrentSession'', ''sessionHandler.ExtendSession'']"
  by code_simp

section \<open>Properties\<close>

text \<open>C19. No endpoint but the seventeen public ones runs for a request without a valid token: when two families of
  handlers agree on the public endpoints and yet a request is answered differently, the request carries a token
  that RequireAuth accepts. This is about the table as a whole, whose groups register their middlewares after the
  public routes, with and without the rate limiter.\<close>

theorem other_endpoints_authenticated:
  assumes "covering sv" and "\<forall>name \<in> set public_endpoints. h name = h' name" and "c_role c = None"
    and "serve sv h' v (SetupRoutes limiting) c d \<noteq> serve sv h v (SetupRoutes limiting) c d"
  shows "authenticated (sv_lib sv) (sv_am sv) c d \<noteq> None"
proof -
  have "agree_off (\<lambda>name. name \<notin> set public_endpoints) h' h"
    using assms(2) by (auto simp: agree_off_def)
  then have "vouched sv NeedAuth c d"
    using assms(1,3,4) SetupRoutes_shields_public by (intro shielded_route [where g = NeedAuth])
  then show ?thesis
    by simp
qed

text \<open>A framework that knows plain paths, and two requests with the token of the sample library.\<close>

definition plain_server :: server where
  "plain_server = \<lparr>sv_lib = sample_lib, sv_am = sample_am, sv_system_org = ''sys'', sv_num_v = (\<lambda>s. s), sv_ord = (\<lambda>xs. xs),
     sv_limited = (\<lambda>_ _. False), sv_covers = (\<lambda>base path. prefix base path),
     sv_match = (\<lambda>pattern path. if path = pattern then Some [] else None), sv_unmatched = (\<lambda>_ _. (404, []))\<rparr>"

lemma plain_covering: "covering plain_server"
  by (simp add: covering_def plain_server_def)

definition users_request :: fiber_ctx where
  "users_request = (sample_ctx [])\<lparr>c_Path := ''/api/v1/users/''\<rparr>"

definition stats_request :: fiber_ctx where
  "stats_request = (sample_ctx [])\<lparr>c_Path := ''/api/v1/admin/stats''\<rparr>"

definition naming :: endpoints where
  "naming name params c = ret (200, name)"

definition closing :: endpoints where
  "closing name params c = (if name \<in> set public_endpoints then naming name params c else ret (410, name))"

lemma users_request_served:
  "fst (serve plain_server naming GET (SetupRoutes False) users_request (empty_db 100)) = Ok (200, ''userHandler.ListUsers'')"
  by code_simp

lemma users_request_closed:
  "fst (serve plain_server closing GET (SetupRoutes False) users_request (empty_db 100)) = Ok (410, ''userHandler.ListUsers'')"
  by code_simp

theorem other_endpoints_authenticated_witness:
  "authenticated sample_lib sample_am users_request (empty_db 100) \<noteq> None"
proof -
  have "\<forall>name \<in> set public_endpoints. closing name = naming name"
    by (auto simp: closing_def fun_eq_iff)
  moreover have "serve plain_server naming GET (SetupRoutes False) users_request (empty_db 100)
      \<noteq> serve plain_server closing GET (SetupRoutes False) users_request (empty_db 100)"
    using users_request_served users_request_closed by force
  moreover have "c_role users_request = None"
    by (simp add: users_request_def sample_ctx_def)
  ultimately have "authenticated (sv_lib plain_server) (sv_am plain_server) users_request (empty_db 100) \<noteq> None"
    using plain_covering by (intro other_endpoints_authenticated)
  then show ?thesis
    by (simp add: plain_server_def)
qed

text \<open>C20. The endpoints of the administrators run only for a token with the role admin: when two families of handlers
  agree on all other endpoints and yet a request is answered differently, the request carries a valid token whose
  role is admin. The role is that of the token, not one read from the database.\<close>

theorem admin_endpoints_need_role:
  assumes "covering sv" and "\<forall>name. name \<notin> set admin_endpoints \<longrightarrow> h name = h' name" and "c_role c = None"
    and "serve sv h v (SetupRoutes limiting) c d \<noteq> serve sv h' v (SetupRoutes limiting) c d"
  shows "\<exists>claims. authenticated (sv_lib sv) (sv_am sv) c d = Some claims \<and> cl_Role claims = ''admin''"
proof -
  have "agree_off (\<lambda>name. name \<in> set admin_endpoints) h h'"
    using assms(2) by (auto simp: agree_off_def)
  then have "vouched sv (NeedRole ''admin'') c d"
    using assms(1,3,4) SetupRoutes_shields_admin by (intro shielded_route [where g = "NeedRole ''admin''"])
  then show ?thesis
    by simp
qed

text \<open>The sample library with a token of an administrator.\<close>

definition admin_server :: server where
  "admin_server = plain_server\<lparr>sv_lib := sample_lib\<lparr>decode := (\<lambda>t. if t = ''tok''
     then Some (HMAC, sample_claims\<lparr>cl_Role := ''admin''\<rparr>) else None)\<rparr>\<rparr>"

definition closing_admin :: endpoints where
  "closing_admin name params c = (if name \<in> set admin_endpoints then ret (410, name) else naming name params c)"

theorem admin_endpoints_need_role_witness:
  "\<exists>claims. authenticated (sv_lib admin_server) sample_am stats_request (empty_db 100) = Some claims \<and> cl_Role claims = ''admin''"
proof -
  have "covering admin_server"
    using plain_covering by (simp add: covering_def admin_server_def)
  moreover have "\<forall>name. name \<notin> set admin_endpoints \<longrightarrow> naming name = closing_admin name"
    by (auto simp: closing_admin_def fun_eq_iff)
  moreover have "fst (serve admin_server naming GET (SetupRoutes False) stats_request (empty_db 100))
      \<noteq> fst (serve admin_server closing_admin GET (SetupRoutes False) stats_request (empty_db 100))"
    by code_simp
  moreover from this have "serve admin_server naming GET (SetupRoutes False) stats_request (empty_db 100)
      \<noteq> serve admin_server closing_admin GET (SetupRoutes False) stats_request (empty_db 100)"
    by metis
  moreover have "c_role stats_request = None"
    by (simp add: stats_request_def sample_ctx_def)
  ultimately have "\<exists>claims. authenticated (sv_lib admin_server) (sv_am admin_server) stats_request (empty_db 100) = Some claims
      \<and> cl_Role claims = ''admin''"
    by (intro admin_endpoints_need_role)
  then show ?thesis
    by (simp add: admin_server_def plain_server_def)
qed

end
