(* ===== verification/Startup.thy ===== *)
theory Startup
  imports PolicyStore Middleware
begin

text \<open>
  What the process sets up before it serves: the configuration of internal/config/config.go, the choice of the
  signing key in SetupRoutes and its public half in NewAuthMiddleware, the error handler of the application and
  the scanner of text arrays in internal/database/database.go. The environment is a function that gives the empty
  text for an unset variable; files, PEM and RSA are parameters.
\<close>

section \<open>Configuration\<close>

record Config =
  cfg_Port :: string
  cfg_Environment :: string
  cfg_AllowedOrigins :: string
  cfg_FrontendURL :: string
  cfg_DatabaseURL :: string
  cfg_RedisURL :: string
  cfg_JWTSecret :: string
  cfg_JWTExpiration :: string
  cfg_LogLevel :: string
  cfg_RateLimitEnabled :: bool
  cfg_RateLimitRPS :: "64 word"
  cfg_MFAIssuer :: string
  cfg_SMTPHost :: string
  cfg_SMTPPort :: "64 word"
  cfg_SMTPUsername :: string
  cfg_SMTPPassword :: string
  cfg_SMTPFrom :: string
  cfg_AuditRetentionDays :: "64 word"
  cfg_OIDCIssuer :: string
  cfg_JWTPrivateKey :: string
  cfg_CookieDomain :: string

definition requireEnv :: "(string \<Rightarrow> string) \<Rightarrow> string \<Rightarrow> string res" where
  "requireEnv env k = (if env k \<noteq> [] then Ok (env k)
     else Panic (''FATAL: required environment variable '' @ k @ '' is not set''))"

definition getEnv :: "(string \<Rightarrow> string) \<Rightarrow> string \<Rightarrow> string \<Rightarrow> string" where
  "getEnv env k defaultValue = (if env k \<noteq> [] then env k else defaultValue)"

definition getEnvAsInt :: "(string \<Rightarrow> string) \<Rightarrow> string \<Rightarrow> 64 word \<Rightarrow> 64 word" where
  "getEnvAsInt env k defaultValue = (if env k \<noteq> [] then (case Atoi (env k) of None \<Rightarrow> defaultValue | Some n \<Rightarrow> n) else defaultValue)"

text \<open>A backslash followed by the letter n becomes a line feed, from the left.\<close>

fun unescape_newlines :: "string \<Rightarrow> string" where
  "unescape_newlines (a # b # s) = (if a = CHR 0x5C \<and> b = CHR ''n'' then CHR 0x0A # unescape_newlines s
     else a # unescape_newlines (b # s))"
| "unescape_newlines s = s"

definition private_key_text :: "(string \<Rightarrow> string) \<Rightarrow> (string \<Rightarrow> string option) \<Rightarrow> string" where
  "private_key_text env read_file = (let k = getEnv env ''JWT_PRIVATE_KEY'' []; keyFile = getEnv env ''JWT_PRIVATE_KEY_FILE'' [] in
     unescape_newlines (if k = [] \<and> keyFile \<noteq> [] then (case read_file keyFile of None \<Rightarrow> k | Some text \<Rightarrow> text) else k))"

definition config_of :: "(string \<Rightarrow> string) \<Rightarrow> (string \<Rightarrow> string option) \<Rightarrow> string \<Rightarrow> string \<Rightarrow> string \<Rightarrow> Config" where
  "config_of env read_file databaseURL redisURL secret = \<lparr>cfg_Port = getEnv env ''PORT'' ''8080'', cfg_Environment = getEnv env ''ENVIRONMENT'' ''development'',
       cfg_AllowedOrigins = getEnv env ''ALLOWED_ORIGINS'' ''*'', cfg_FrontendURL = getEnv env ''FRONTEND_URL'' ''http://localhost:5173'',
       cfg_DatabaseURL = databaseURL, cfg_RedisURL = redisURL, cfg_JWTSecret = secret,
       cfg_JWTExpiration = getEnv env ''JWT_EXPIRATION'' ''24h'', cfg_LogLevel = getEnv env ''LOG_LEVEL'' ''info'',
       cfg_RateLimitEnabled = (getEnv env ''RATE_LIMIT_ENABLED'' ''true'' = ''true''),
       cfg_RateLimitRPS = getEnvAsInt env ''RATE_LIMIT_RPS'' 100, cfg_MFAIssuer = getEnv env ''MFA_ISSUER'' ''MonkeysIdentity'',
       cfg_SMTPHost = getEnv env ''SMTP_HOST'' ''mailpit'', cfg_SMTPPort = getEnvAsInt env ''SMTP_PORT'' 587,
       cfg_SMTPUsername = getEnv env ''SMTP_USERNAME'' [], cfg_SMTPPassword = getEnv env ''SMTP_PASSWORD'' [],
       cfg_SMTPFrom = getEnv env ''SMTP_FROM'' ''no-reply@monkeys.com'',
       cfg_AuditRetentionDays = getEnvAsInt env ''AUDIT_RETENTION_DAYS'' 90,
       cfg_OIDCIssuer = getEnv env ''OIDC_ISSUER'' ''http://localhost:8080'',
       cfg_JWTPrivateKey = private_key_text env read_file, cfg_CookieDomain = getEnv env ''COOKIE_DOMAIN'' ''localhost''\<rparr>"

definition Load :: "(string \<Rightarrow> string) \<Rightarrow> (string \<Rightarrow> string option) \<Rightarrow> ('s, Config) prog" where
  "Load env read_file =
     bnd (lift (requireEnv env ''DATABASE_URL'')) (\<lambda>databaseURL.
     bnd (lift (requireEnv env ''REDIS_URL'')) (\<lambda>redisURL.
     bnd (lift (requireEnv env ''JWT_SECRET'')) (\<lambda>secret.
     ret (config_of env read_file databaseURL redisURL secret))))"

text \<open>The configuration loads exactly when the three mandatory variables are set.\<close>

lemma Load_succeeds_iff:
  "(\<exists>cfg. Load env read_file s = (Ok cfg, s)) \<longleftrightarrow>
     env ''DATABASE_URL'' \<noteq> [] \<and> env ''REDIS_URL'' \<noteq> [] \<and> env ''JWT_SECRET'' \<noteq> []"
  by (auto simp: Load_def requireEnv_def bnd_def lift_def)

lemma Load_limits_by_default: "env ''RATE_LIMIT_ENABLED'' = [] \<Longrightarrow> cfg_RateLimitEnabled (config_of env read_file db_url redis_url secret)"
  by (simp add: config_of_def getEnv_def)

section \<open>The signing key\<close>

record 'k rsa_library =
  pem_decode :: "string \<Rightarrow> string option"
  pkcs1 :: "string \<Rightarrow> 'k option"
  pkcs8 :: "string \<Rightarrow> string + 'k option"
  public_half :: "'k \<Rightarrow> string"
  pem_of :: "'k \<Rightarrow> string"

text \<open>A PKCS8 block may hold a key of another kind.\<close>

definition LoadRSAPrivateKey :: "'k rsa_library \<Rightarrow> string \<Rightarrow> string + 'k" where
  "LoadRSAPrivateKey lib pemStr = (if pemStr = [] then Inl ''empty PEM string''
     else case pem_decode lib pemStr of None \<Rightarrow> Inl ''failed to parse PEM block''
     | Some block \<Rightarrow> (case pkcs1 lib block of Some k \<Rightarrow> Inr k
         | None \<Rightarrow> (case pkcs8 lib block of Inl e \<Rightarrow> Inl e | Inr None \<Rightarrow> Inl ''not an RSA private key'' | Inr (Some k) \<Rightarrow> Inr k)))"

definition NewAuthMiddleware :: "'k rsa_library \<Rightarrow> string \<Rightarrow> string \<Rightarrow> AuthMiddleware" where
  "NewAuthMiddleware lib secret privKeyPEM = \<lparr>jwtSecret = secret, publicKey = (if privKeyPEM = [] then None
     else case LoadRSAPrivateKey lib privKeyPEM of Inl _ \<Rightarrow> None | Inr k \<Rightarrow> Some (public_half lib k))\<rparr>"

text \<open>Without a usable key a new one is generated, \<open>None\<close> when that fails; the configuration keeps its text.\<close>

definition ensure_key :: "'k rsa_library \<Rightarrow> 'k option \<Rightarrow> Config \<Rightarrow> Config \<times> 'k option" where
  "ensure_key lib generated cfg = (case (if cfg_JWTPrivateKey cfg = [] then Inl [] else LoadRSAPrivateKey lib (cfg_JWTPrivateKey cfg)) of
       Inr k \<Rightarrow> (cfg, Some k)
     | Inl _ \<Rightarrow> (case generated of None \<Rightarrow> (cfg, None) | Some k \<Rightarrow> (cfg\<lparr>cfg_JWTPrivateKey := pem_of lib k\<rparr>, Some k)))"

text \<open>The middleware verifies with the public half of the key that the configuration hands to the handlers.\<close>

lemma key_agreement:
  assumes "\<And>k. LoadRSAPrivateKey lib (pem_of lib k) = Inr k" and "ensure_key lib generated cfg = (cfg', Some k)"
  shows "LoadRSAPrivateKey lib (cfg_JWTPrivateKey cfg') = Inr k
    \<and> publicKey (NewAuthMiddleware lib secret (cfg_JWTPrivateKey cfg')) = Some (public_half lib k)"
proof -
  have loads: "LoadRSAPrivateKey lib (cfg_JWTPrivateKey cfg') = Inr k"
    using assms by (auto simp: ensure_key_def split: sum.splits option.splits if_splits)
  then have "cfg_JWTPrivateKey cfg' \<noteq> []"
    by (auto simp: LoadRSAPrivateKey_def)
  with loads show ?thesis
    by (simp add: NewAuthMiddleware_def)
qed

text \<open>Two processes started without a key sign with keys of their own.\<close>

lemma generated_key_used: "cfg_JWTPrivateKey cfg = [] \<Longrightarrow> snd (ensure_key lib (Some k) cfg) = Some k"
  by (simp add: ensure_key_def)

section \<open>The error handler\<close>

text \<open>\<open>fiber\<close> is the framework's error in the chain, with its code and message, \<open>text\<close> what the error says.\<close>

definition ErrorHandler :: "(nat \<times> string) option \<Rightarrow> string \<Rightarrow> nat \<times> string" where
  "ErrorHandler fiber text =
     (if text = ''unauthorized'' then (401, ''Unauthorized access'')
      else if text = ''forbidden'' then (403, ''Access forbidden'')
      else if text = ''not_found'' then (404, ''Resource not found'')
      else if text = ''validation_error'' then (400, ''Validation failed'')
      else case fiber of None \<Rightarrow> (500, ''Internal Server Error'') | Some e \<Rightarrow> e)"

text \<open>A recovered panic tells the client nothing about itself.\<close>

lemma ErrorHandler_opaque:
  "fst (ErrorHandler None text) = 500 \<Longrightarrow> ErrorHandler None text = (500, ''Internal Server Error'')"
  by (auto simp: ErrorHandler_def split: if_splits)

section \<open>Text arrays\<close>

text \<open>A nil slice is \<open>None\<close>; what is no array leaves the destination as it was.\<close>

definition StringArray_Scan :: "string list option \<Rightarrow> string option \<Rightarrow> string list option" where
  "StringArray_Scan old src = (case src of None \<Rightarrow> None
     | Some s \<Rightarrow> if length s < 2 \<or> hd s \<noteq> CHR ''{'' \<or> last s \<noteq> CHR ''}'' then old
         else let inner = butlast (tl s) in if inner = [] then Some [] else Some (split_on (CHR '','') inner))"

fun join_commas :: "string list \<Rightarrow> string" where
  "join_commas [] = []"
| "join_commas [x] = x"
| "join_commas (x # xs) = x @ CHR '','' # join_commas xs"

definition StringArray_Value :: "string list option \<Rightarrow> string option" where
  "StringArray_Value a = (case a of None \<Rightarrow> None | Some xs \<Rightarrow> Some (if xs = [] then ''{}'' else ''{'' @ join_commas xs @ ''}''))"

lemma split_on_join_commas:
  "xs \<noteq> [] \<Longrightarrow> list_all (\<lambda>x. CHR '','' \<notin> set x) xs \<Longrightarrow> split_on (CHR '','') (join_commas xs) = xs"
  by (induction xs rule: join_commas.induct) (simp_all add: split_on_no_sep split_on_join)

lemma join_commas_empty: "join_commas xs = [] \<Longrightarrow> xs = [] \<or> xs = [[]]"
  by (cases xs rule: join_commas.cases) auto

lemma StringArray_Scan_Value:
  assumes "list_all (\<lambda>x. CHR '','' \<notin> set x) xs" and "xs \<noteq> [[]]"
  shows "StringArray_Scan old (StringArray_Value (Some xs)) = Some xs"
proof (cases "xs = []")
  case True
  then show ?thesis by (simp add: StringArray_Scan_def StringArray_Value_def)
next
  case False
  then have "join_commas xs \<noteq> []"
    using join_commas_empty assms(2) by blast
  with False assms(1) show ?thesis
    by (simp add: StringArray_Scan_def StringArray_Value_def split_on_join_commas)
qed

text \<open>An element with a comma comes back as two.\<close>

lemma StringArray_comma: "StringArray_Scan None (StringArray_Value (Some [''a,b''])) = Some [''a'', ''b'']"
  by code_simp

end
