(* ===== verification/Services.thy ===== *)
theory Services
  imports Startup "HOL-Library.Sublist"
begin

text \<open>
  The backup codes of internal/services/mfa_service.go and the mails of internal/services/email_service.go. Random
  bytes, the clock and the mail server are parameters: a server answers a command, after the ones before it, with an
  error or without. Secrets and passcodes are the business of the TOTP library.
\<close>

section \<open>Backup codes\<close>

definition base32_alphabet :: string where
  "base32_alphabet = ''ABCDEFGHIJKLMNOPQRSTUVWXYZ234567''"

definition bits_of :: "8 word \<Rightarrow> bool list" where
  "bits_of w = map (\<lambda>i. bit w (7 - i)) [0, 1, 2, 3, 4, 5, 6, 7 :: nat]"

definition digit32 :: "bool list \<Rightarrow> char" where
  "digit32 bs = base32_alphabet ! (foldl (\<lambda>n b. 2 * n + (if b then 1 else 0)) 0 bs mod 32)"

text \<open>Five bits a digit, the last group filled with zeros, no padding.\<close>

fun base32_bits :: "bool list \<Rightarrow> string" where
  "base32_bits [] = []"
| "base32_bits (a # b # c # d # e # bs) = digit32 [a, b, c, d, e] # base32_bits bs"
| "base32_bits bs = [digit32 (take 5 (bs @ replicate 4 False))]"

definition base32 :: "8 word list \<Rightarrow> string" where
  "base32 bytes = base32_bits (concat (map bits_of bytes))"

definition generateRandomCode :: "(nat \<Rightarrow> 8 word list option) \<Rightarrow> int \<Rightarrow> nat \<Rightarrow> string" where
  "generateRandomCode rand unix_nano n = (case rand n of None \<Rightarrow> show_int unix_nano | Some bytes \<Rightarrow> take n (base32 bytes))"

text \<open>\<open>rand i\<close> and \<open>nanos i\<close> are what the i-th round reads.\<close>

definition GenerateBackupCodes :: "(nat \<Rightarrow> nat \<Rightarrow> 8 word list option) \<Rightarrow> (nat \<Rightarrow> int) \<Rightarrow> nat \<Rightarrow> string list" where
  "GenerateBackupCodes rand nanos howmany = map (\<lambda>i. generateRandomCode (rand i) (nanos i) 12) [0..<howmany]"

lemma length_base32_bits: "length (base32_bits bs) = (length bs + 4) div 5"
  by (induction bs rule: base32_bits.induct) simp_all

lemma base32_bits_alphabet: "set (base32_bits bs) \<subseteq> set base32_alphabet"
proof -
  have "length base32_alphabet = 32"
    by code_simp
  then have "digit32 bs \<in> set base32_alphabet" for bs
    unfolding digit32_def by (intro nth_mem) simp
  then show ?thesis
    by (induction bs rule: base32_bits.induct) simp_all
qed

lemma length_bits: "length (concat (map bits_of bytes)) = 8 * length bytes"
  by (induction bytes) (simp_all add: bits_of_def)

text \<open>While random bytes can be read, the codes have twelve characters of the alphabet; sixty bits of the ninety-six drawn.\<close>

lemma GenerateBackupCodes_shape:
  assumes "\<And>i. \<exists>bytes. rand i 12 = Some bytes \<and> length bytes = 12"
  shows "length (GenerateBackupCodes rand nanos howmany) = howmany
    \<and> (\<forall>code \<in> set (GenerateBackupCodes rand nanos howmany). length code = 12 \<and> set code \<subseteq> set base32_alphabet)"
proof -
  have "length (generateRandomCode (rand i) t 12) = 12 \<and> set (generateRandomCode (rand i) t 12) \<subseteq> set base32_alphabet" for i t
  proof -
    obtain bytes where "rand i 12 = Some bytes" and "length bytes = 12"
      using assms by blast
    moreover from this have "length (base32 bytes) = 20"
      by (simp add: base32_def length_base32_bits length_bits)
    moreover have "set (take 12 (base32 bytes)) \<subseteq> set base32_alphabet"
      using base32_bits_alphabet set_take_subset unfolding base32_def by (metis subset_trans)
    ultimately show ?thesis
      by (simp add: generateRandomCode_def)
  qed
  then show ?thesis
    by (simp add: GenerateBackupCodes_def)
qed

section \<open>Mail\<close>

datatype smtp_command = Hello string | MailFrom string | RcptTo string | Data | Text string | CloseData | Quit

record smtp_server =
  smtp_dial :: "string \<Rightarrow> string option"
  smtp_reply :: "smtp_command list \<Rightarrow> smtp_command \<Rightarrow> string option"
  smtp_send :: "string \<Rightarrow> string \<times> string \<times> string \<Rightarrow> string \<Rightarrow> string list \<Rightarrow> string \<Rightarrow> string option"

text \<open>The commands in order until one fails; the result is the error, if any, and the commands that were accepted.\<close>

fun smtp_session :: "smtp_server \<Rightarrow> smtp_command list \<Rightarrow> smtp_command list \<Rightarrow> string option \<times> smtp_command list" where
  "smtp_session srv past [] = (None, past)"
| "smtp_session srv past (x # xs) = (case smtp_reply srv past x of
       Some e \<Rightarrow> (Some e, past) | None \<Rightarrow> smtp_session srv (past @ [x]) xs)"

definition crlf :: string where
  "crlf = [CHR 0x0D, CHR 0x0A]"

definition mail_text :: "string \<Rightarrow> string \<Rightarrow> string \<Rightarrow> string \<Rightarrow> string" where
  "mail_text sender recipient subject body = ''From: '' @ sender @ crlf @ ''To: '' @ recipient @ crlf @ ''Subject: '' @ subject @ crlf
     @ ''Content-Type: text/html; charset=UTF-8'' @ crlf @ crlf @ body"

text \<open>With credentials the library's SendMail, without them the commands one by one. Nobody to write to is a panic.\<close>

definition sendMail :: "smtp_server \<Rightarrow> Config \<Rightarrow> string list \<Rightarrow> string \<Rightarrow> string \<Rightarrow> (string option \<times> smtp_command list) res" where
  "sendMail srv cfg recipients subject body = (case recipients of [] \<Rightarrow> Panic ''runtime error: index out of range''
     | first # _ \<Rightarrow> let addr = cfg_SMTPHost cfg @ '':'' @ show_int (sint (cfg_SMTPPort cfg));
           msg = mail_text (cfg_SMTPFrom cfg) first subject body;
           username = trim_space (cfg_SMTPUsername cfg); password = trim_space (cfg_SMTPPassword cfg) in
         Ok (if username \<noteq> [] \<and> password \<noteq> []
           then (smtp_send srv addr (username, password, cfg_SMTPHost cfg) (cfg_SMTPFrom cfg) recipients msg, [])
           else case smtp_dial srv addr of Some e \<Rightarrow> (Some e, [])
             | None \<Rightarrow> smtp_session srv [] ([Hello ''localhost'', MailFrom (cfg_SMTPFrom cfg)] @ map RcptTo recipients
                 @ [Data, Text msg, CloseData, Quit])))"

lemma smtp_session_complete: "smtp_session srv past xs = (None, done) \<Longrightarrow> done = past @ xs"
proof (induction xs arbitrary: past)
  case (Cons x xs)
  then have "smtp_session srv (past @ [x]) xs = (None, done)"
    by (simp split: option.splits)
  from Cons.IH [OF this] show ?case
    by simp
qed simp

text \<open>A mail reported as sent without credentials was accepted by the server in full, for every recipient.\<close>

lemma sendMail_sent:
  assumes "sendMail srv cfg recipients subject body = Ok (None, done)"
    and "trim_space (cfg_SMTPUsername cfg) = [] \<or> trim_space (cfg_SMTPPassword cfg) = []"
  shows "\<exists>first rest. recipients = first # rest \<and> done = [Hello ''localhost'', MailFrom (cfg_SMTPFrom cfg)] @ map RcptTo recipients
    @ [Data, Text (mail_text (cfg_SMTPFrom cfg) first subject body), CloseData, Quit]"
proof (cases recipients)
  case (Cons first rest)
  have "smtp_session srv [] ([Hello ''localhost'', MailFrom (cfg_SMTPFrom cfg)] @ map RcptTo recipients
      @ [Data, Text (mail_text (cfg_SMTPFrom cfg) first subject body), CloseData, Quit]) = (None, done)"
    using assms Cons by (auto simp: sendMail_def Let_def split: option.splits)
  from smtp_session_complete [OF this] Cons show ?thesis
    by simp
qed (use assms in \<open>simp add: sendMail_def\<close>)

text \<open>
  The bodies: lines with their indentation in tabs. In the texts a tilde stands for a double quote and a grave
  accent for an apostrophe. The template is a text template: values are put in as they are.
\<close>

definition quoted :: "string \<Rightarrow> string" where
  "quoted s = map (\<lambda>c. if c = CHR ''~'' then CHR 0x22 else if c = CHR ''`'' then CHR 0x27 else c) s"

fun template_lines :: "(nat \<times> string) list \<Rightarrow> string" where
  "template_lines [] = []"
| "template_lines [(n, s)] = replicate n (CHR 0x09) @ s"
| "template_lines ((n, s) # ls) = replicate n (CHR 0x09) @ s @ CHR 0x0A # template_lines ls"

definition verification_body :: "string \<Rightarrow> string \<Rightarrow> string" where
  "verification_body username link = template_lines [
     (0, []),
     (2, ''<!DOCTYPE html>''),
     (2, ''<html>''),
     (2, ''<head>''),
     (3, ''<style>''),
     (4, ''body { font-family: Arial, sans-serif; line-height: 1.6; color: #333; }''),
     (4, ''.container { max-width: 600px; margin: 0 auto; padding: 20px; }''),
     (4, ''.btn { display: inline-block; padding: 10px 20px; background-color: #007bff; color: #fff !important; text-decoration: none; border-radius: 5px; }''),
     (3, ''</style>''),
     (2, ''</head>''),
     (2, ''<body>''),
     (3, quoted ''<div class=~container~>''),
     (4, ''<h2>Welcome to Monkeys Identity, '' @ username @ ''!</h2>''),
     (4, ''<p>Thank you for registering. Please click the button below to verify your email address:</p>''),
     (4, quoted ''<p><a href=~'' @ link @ quoted ''~ class=~btn~>Verify Email</a></p>''),
     (4, quoted ''<p>If the button doesn`t work, you can copy and paste this link into your browser:</p>''),
     (4, ''<p>'' @ link @ ''</p>''),
     (4, ''<p>This link will expire in 24 hours.</p>''),
     (3, ''</div>''),
     (2, ''</body>''),
     (2, ''</html>''),
     (1, [])]"

definition SendVerificationEmail ::
  "smtp_server \<Rightarrow> Config \<Rightarrow> string \<Rightarrow> string \<Rightarrow> string \<Rightarrow> (string option \<times> smtp_command list) res" where
  "SendVerificationEmail srv cfg toEmail username token = sendMail srv cfg [toEmail] ''Verify your email address - Monkeys Identity''
     (verification_body username (cfg_FrontendURL cfg @ ''/verify-email?token='' @ token))"

definition reset_body :: "string \<Rightarrow> string \<Rightarrow> string" where
  "reset_body username link = template_lines [
     (0, []),
     (2, ''<!DOCTYPE html>''),
     (2, ''<html>''),
     (2, ''<head>''),
     (3, ''<style>''),
     (4, ''body { font-family: Arial, sans-serif; line-height: 1.6; color: #333; }''),
     (4, ''.container { max-width: 600px; margin: 0 auto; padding: 20px; }''),
     (4, ''.btn { display: inline-block; padding: 10px 20px; background-color: #28a745; color: #fff !important; text-decoration: none; border-radius: 5px; }''),
     (3, ''</style>''),
     (2, ''</head>''),
     (2, ''<body>''),
     (3, quoted ''<div class=~container~>''),
     (4, ''<h2>Password Reset Request</h2>''),
     (4, ''<p>Hello '' @ username @ '',</p>''),
     (4, ''<p>We received a request to reset your password for your Monkeys Identity account. Click the button below to set a new password:</p>''),
     (4, quoted ''<p><a href=~'' @ link @ quoted ''~ class=~btn~>Reset Password</a></p>''),
     (4, quoted ''<p>If the button doesn`t work, you can copy and paste this link into your browser:</p>''),
     (4, ''<p>'' @ link @ ''</p>''),
     (4, ''<p>This link will expire in 1 hour.</p>''),
     (4, quoted ''<p>If you didn`t request a password reset, you can safely ignore this email.</p>''),
     (3, ''</div>''),
     (2, ''</body>''),
     (2, ''</html>''),
     (1, [])]"

definition SendPasswordResetEmail ::
  "smtp_server \<Rightarrow> Config \<Rightarrow> string \<Rightarrow> string \<Rightarrow> string \<Rightarrow> (string option \<times> smtp_command list) res" where
  "SendPasswordResetEmail srv cfg toEmail username token = sendMail srv cfg [toEmail] ''Password Reset - Monkeys Identity''
     (reset_body username (cfg_FrontendURL cfg @ ''/reset-password?token='' @ token))"

lemma template_lines_sublist: "(n, s) \<in> set ls \<Longrightarrow> sublist s (template_lines ls)"
proof (induction ls rule: template_lines.induct)
  case (3 m t l ls)
  show ?case
  proof (cases "(n, s) = (m, t)")
    case True
    then show ?thesis
      by (auto simp: sublist_def)
  next
    case False
    then have "sublist s (template_lines (l # ls))"
      using 3 by auto
    then show ?thesis
      by (auto simp: sublist_def) (metis append.assoc append_Cons)
  qed
next
  case (2 m t)
  then have "template_lines [(m, t)] = replicate m (CHR 0x09) @ s @ []"
    by simp
  then show ?case
    unfolding sublist_def by blast
qed simp

lemma sublist_within: "sublist (a @ s @ b) t \<Longrightarrow> sublist s t"
  unfolding sublist_def by (metis append.assoc)

text \<open>The link with the token is in the mail.\<close>

lemma verification_body_link: "sublist link (verification_body username link)"
proof -
  have "sublist (''<p>'' @ link @ ''</p>'') (verification_body username link)"
    unfolding verification_body_def by (rule template_lines_sublist [of 4]) simp
  then show ?thesis
    by (rule sublist_within)
qed

lemma reset_body_link: "sublist link (reset_body username link)"
proof -
  have "sublist (''<p>'' @ link @ ''</p>'') (reset_body username link)"
    unfolding reset_body_def by (rule template_lines_sublist [of 4]) simp
  then show ?thesis
    by (rule sublist_within)
qed

end
