(* ===== verification/Spec2Isabelle.thy ===== *)
theory Spec2Isabelle
  imports PolicyCheck ContentHandler AdminBootstrap OidcFlow TenantFlow OrgFlow Directory ReviewFlow Routes Services
begin

text \<open>
  Verification development for the Monkeys Identity service, a multi-tenant identity and access
  management server written in Go (fiber, PostgreSQL, Redis).

  The parts of the program and their theories. Every theory opens with the files it models; a
  definition carries the name of the Go function, with the prefix \<open>handle_\<close> for an HTTP handler, \<open>svc_\<close>,
  \<open>auth_\<close> or \<open>am_\<close> where two Go types have methods of the same name.

  \<^item> \<open>Prelude\<close>: outcomes of Go calls (value, error, panic), programs over a state, relations that programs
    keep, the Go string functions. \<open>Json\<close>: the JSON reader. \<open>NetIP\<close>: addresses and CIDR blocks of Go's net package.
  \<^item> \<open>Models\<close>: the structs of internal/models. \<open>Database\<close>: the tables, statements, transactions, Redis and the
    random identifiers. \<open>SoftDelete\<close>: the contract of stores that mark rows as deleted.
  \<^item> \<open>Wildcard\<close>, \<open>Evaluator\<close>: internal/authz, policy documents and conditions.
  \<^item> \<open>PolicyStore\<close>, \<open>PolicyCheck\<close>: internal/queries/policy_queries.go; \<open>DenyOverride\<close> is the contract of the
    passes in which a denial wins, shared by \<open>PolicyCheck\<close> and \<open>Authorizer\<close>.
  \<^item> \<open>ResourceStore\<close>: internal/queries/resource_queries.go. \<open>Authorizer\<close>: internal/services/authz_service.go.
  \<^item> \<open>Middleware\<close>: internal/middleware/auth.go and tenant.go. \<open>Http\<close>: internal/handlers/responses.go.
  \<^item> \<open>ContentStore\<close>, \<open>ContentHandler\<close>: the content service. \<open>SessionStore\<close>, \<open>SessionHandler\<close>: the sessions.
  \<^item> \<open>AuditQueue\<close>: internal/services/audit_service.go and the store of events.
  \<^item> \<open>AuthStore\<close>, \<open>AuthHandler\<close>: internal/queries/auth.go and internal/handlers/auth.go. \<open>AuthFlow\<close> proves what
    login, logout, refresh and reset establish together with the middleware; \<open>AdminBootstrap\<close> connects the
    bootstrap of an administrator with the authorization service.
  \<^item> \<open>OidcStore\<close>, \<open>OidcHandler\<close>, \<open>OidcFlow\<close>: the OpenID provider and the properties of its code flow.
  \<^item> \<open>GroupStore\<close>, \<open>RoleStore\<close>: internal/queries/group_queries.go and role.go; \<open>GrantFlow\<close> follows attachments and
    assignments to the policies a principal holds. \<open>GroupHandler\<close>, \<open>RoleHandler\<close>, \<open>ResourceHandler\<close>, \<open>PolicyHandler\<close>:
    their endpoints in internal/handlers/handlers.go; \<open>TenantFlow\<close> proves that they keep to the tenant.
  \<^item> \<open>UserStore\<close>, \<open>AccountStore\<close>: internal/queries/user.go; \<open>UserHandler\<close>, \<open>AccountHandler\<close>: internal/handlers/user.go;
    \<open>UserFlow\<close>: what a member can do to the accounts of others.
  \<^item> \<open>OrgStore\<close>, \<open>OrgHandler\<close>: internal/queries/organization_queries.go and global_settings_queries.go,
    internal/handlers/organization.go and auth_org.go; \<open>OrgFlow\<close>: registration, sign-up, updates and their effects.
  \<^item> \<open>Cors\<close>: internal/middleware/cors.go. \<open>Directory\<close>: what the endpoints on users, service accounts and keys leave
    alone in the other organizations.
  \<^item> \<open>ReviewStore\<close>, \<open>AuditReports\<close>: the access reviews and the reports of internal/queries/audit_queries.go;
    \<open>AuditHandler\<close>: their endpoints and those of the administration; \<open>ReviewFlow\<close>: what they deliver.
  \<^item> \<open>Routes\<close>: internal/routes/routes.go and rate_limit.go, the table of routes and the way of a request through it.
  \<^item> \<open>Startup\<close>: internal/config, the signing key, the error handler, text arrays. \<open>Services\<close>: backup codes and mails.

  How the state corresponds. One record \<open>db\<close> holds the tables as lists of rows, Redis as a map with expiry
  times, the clock, the audit channel and the supply of random UUIDs. A query is a function from \<open>db\<close> to
  an outcome and a new \<open>db\<close>; the constraints of the migrations decide whether a write succeeds. The field
  \<open>faults\<close> is a schedule of errors of the server: a theorem without a hypothesis on it holds under every
  sequence of failing statements, \<open>healthy\<close> is the empty schedule. Transactions roll the tables back. A
  middleware passes a request on or replies; a handler ends in a response. The CORS middleware adds its copy of the
  origins to the state. Calls that run between two requests are modelled as step relations (\<open>session_step\<close>,
  \<open>audit_step\<close>, \<open>oidc_step\<close>, \<open>grant_step\<close>, \<open>tenant_call\<close>, \<open>directory_call\<close>, \<open>cors_step\<close>, \<open>quiet_step\<close>) whose runs are
  arbitrary interleavings of whole calls; \<open>auth_code_race\<close> interleaves two calls at the statement where it matters,
  and a refresh of the CORS origins is split in its read and its write.

  Interfaces. The locales \<open>guard\<close> and \<open>exact_guard\<close> are the contract of a middleware, the locale of \<open>SoftDelete\<close> that of
  stores with deleted rows, that of \<open>DenyOverride\<close> that of a pass in which a denial wins; each is interpreted on the
  definitions of the components that provide it.

  Parameters. Code outside the repository is an argument: the JWT library (\<open>jwt_library\<close> with the contract
  \<open>signs_for\<close>), bcrypt, TOTP and the signer (\<open>auth_env\<close>), PostgreSQL's normal form of a JSON document (\<open>jsonb\<close>), its
  readers of text (\<open>pg_types\<close>) and its collation (\<open>collate\<close>), whether a table of settings exists (\<open>settings_table\<close>),
  Go's formatting of floats (\<open>num_v\<close>) and its percentages (\<open>percent\<close>), RFC 3339 times (\<open>rfc3339\<close>), the iteration order
  of Go maps (\<open>ord\<close>), the text of a cached session (\<open>show_session\<close>), orders of list queries (\<open>sorted_by\<close>), base64,
  random bytes, the web framework's matching of paths (\<open>server\<close>), RSA and PEM (\<open>rsa_library\<close>), the mail server
  (\<open>smtp_server\<close>).

  What the lemmas show. Exact results: the wildcard matcher is a glob matcher, Authorize and CheckPermission
  compute the deny-overrides decision over the policies, grants and shares of a principal. Histories: deleted
  policies never apply again, versions are immutable, a revoked session and a spent code stay so, an origin that
  CORS admits was configured since the start or was in the set that Redis kept from before, the endpoints of a tenant
  keep to its rows. Guards: what a request must
  carry to pass the middlewares, and that every route but the public ones lies behind them. Flows: a token of a login
  is accepted, a logged-out one is not, a bootstrap admin is allowed everything that no rule denies, a registered
  user can sign in. Several theorems state what the code does where it differs from what it means to do; these are
  listed as findings.

  Text is a list of bytes, as in Go; where Go reads runes (the pattern matcher) \<open>decode_runes\<close> decodes UTF-8, invalid bytes
  included.

  Bounds. Recursions are structural or have a measure (\<open>show_digits\<close>, \<open>drainEvents\<close>, the readers of runes and of patterns); the JSON reader
  runs over its input with an explicit stack. No definition needs fuel.

  Not modelled: cmd/server/main.go, the constructors and the logger, which are wiring and output; opening the
  connections; the TOTP library behind GenerateTOTPSecret and VerifyTOTP; docs/docs.go, which is generated; Unicode
  beyond ASCII in case mapping, the rounding of timestamps to microseconds and of floats; two requests that
  interleave inside a call, except where a theorem says so.
\<close>

end
